(* ===== verification/Prelude.thy ===== *)
theory Prelude
  imports Main "HOL-Library.Word"
begin

text \<open>
  Shared vocabulary of the development: the machine types of the Go sources
  (unsigned integers are words, slices of bytes are lists of 8-bit words, Go
  strings are HOL strings, whose characters are bytes), the big-endian
  accessors of \<^verbatim>\<open>encoding/binary\<close>, the subslice expression \<^verbatim>\<open>s[a:b]\<close>, the error
  monad over \<^typ>\<open>'e + 'a\<close>, and the interface \<open>framed_stream\<close> shared by every
  type-length-value list in the program (GTPv2-C information elements, PCO
  containers, Diameter AVPs).

  The collection \<open>be_simps\<close> gathers the facts on big-endian encodings and
  \<open>wire_simps\<close> the facts on slices and on lengths that fit a length field.
\<close>

unbundle bit_operations_syntax

named_theorems be_simps \<open>big-endian encodings\<close>
named_theorems wire_simps \<open>slices, length fields and framing\<close>

section \<open>Machine types\<close>

type_synonym byte = "8 word"
type_synonym u16 = "16 word"
type_synonym u32 = "32 word"
type_synonym u64 = "64 word"
type_synonym bytes = "byte list"

definition str_bytes :: "string \<Rightarrow> bytes" where
  "str_bytes s = map of_char s"

definition bytes_str :: "bytes \<Rightarrow> string" where
  "bytes_str b = map (\<lambda>w. char_of (unat w)) b"

lemma str_bytes_simps [simp]:
  "str_bytes [] = []"
  "str_bytes (c # s) = of_char c # str_bytes s"
  "str_bytes (s @ t) = str_bytes s @ str_bytes t"
  "length (str_bytes s) = length s"
  by (simp_all add: str_bytes_def)

lemma bytes_str_simps [simp]:
  "bytes_str [] = []"
  "bytes_str (w # b) = char_of (unat w) # bytes_str b"
  "bytes_str (b @ c) = bytes_str b @ bytes_str c"
  "length (bytes_str b) = length b"
  by (simp_all add: bytes_str_def)

lemma unat_of_nat_byte [simp, wire_simps]: "n < 256 \<Longrightarrow> unat (of_nat n :: byte) = n"
  by (simp add: unat_of_nat take_bit_nat_eq_self)

lemma unat_of_nat_u16 [simp, wire_simps]: "n < 65536 \<Longrightarrow> unat (of_nat n :: u16) = n"
  by (simp add: unat_of_nat take_bit_nat_eq_self)

lemma unat_of_nat_u32 [simp, wire_simps]: "n < 4294967296 \<Longrightarrow> unat (of_nat n :: u32) = n"
  by (simp add: unat_of_nat take_bit_nat_eq_self)

lemma unat_of_char [simp]: "unat (of_char c :: byte) = of_char c"
  using unat_of_nat_byte[OF nat_of_char_less_256] by (metis of_nat_of_char)

lemma of_char_char_of_byte [simp]: "of_char (char_of (unat (w :: byte))) = w"
proof -
  have "of_char (char_of (unat w)) = (of_nat (of_char (char_of (unat w))) :: byte)"
    by (simp only: of_nat_of_char)
  also have "\<dots> = of_nat (unat w mod 256)" by (simp only: of_char_of)
  also have "unat w mod 256 = unat w" using unsigned_less[of w, where ?'a = nat] by simp
  also have "of_nat (unat w) = w" by simp
  finally show ?thesis .
qed

lemma bytes_str_str_bytes [simp]: "bytes_str (str_bytes s) = s"
  by (induction s) simp_all

section \<open>Slices and big-endian integers\<close>

definition subslice :: "'a list \<Rightarrow> nat \<Rightarrow> nat \<Rightarrow> 'a list" where
  "subslice b i j = take (j - i) (drop i b)"

lemma length_subslice [simp, wire_simps]: "j \<le> length b \<Longrightarrow> length (subslice b i j) = j - i"
  by (simp add: subslice_def)

lemma subslice_append_left [wire_simps]: "subslice (xs @ ys) 0 (length xs) = xs"
  by (simp add: subslice_def)

lemma subslice_append_drop [wire_simps]:
  assumes "i \<le> j"
  shows "subslice b i j @ drop j b = drop i b"
proof -
  have "drop j b = drop (j - i) (drop i b)" using assms by simp
  then show ?thesis by (simp only: subslice_def append_take_drop_id)
qed

definition be16 :: "u16 \<Rightarrow> bytes" where
  "be16 v = [ucast (drop_bit 8 v), ucast v]"

definition be24 :: "u32 \<Rightarrow> bytes" where
  "be24 v = [ucast (drop_bit 16 v), ucast (drop_bit 8 v), ucast v]"

definition be32 :: "u32 \<Rightarrow> bytes" where
  "be32 v = [ucast (drop_bit 24 v), ucast (drop_bit 16 v), ucast (drop_bit 8 v), ucast v]"

definition be64 :: "u64 \<Rightarrow> bytes" where
  "be64 v = [ucast (drop_bit 56 v), ucast (drop_bit 48 v), ucast (drop_bit 40 v), ucast (drop_bit 32 v),
             ucast (drop_bit 24 v), ucast (drop_bit 16 v), ucast (drop_bit 8 v), ucast v]"

text \<open>
  The readers take the byte subslice the source passes; the Go functions index
  their argument and panic when it is too short, and every caller in the
  program tests the length first, so the last equation is never reached there.
\<close>

fun uint16 :: "bytes \<Rightarrow> u16" where
  "uint16 (a # b # _) = push_bit 8 (ucast a) OR ucast b"
| "uint16 _ = 0"

fun uint24 :: "bytes \<Rightarrow> u32" where
  "uint24 (a # b # c # _) = push_bit 16 (ucast a) OR push_bit 8 (ucast b) OR ucast c"
| "uint24 _ = 0"

fun uint32 :: "bytes \<Rightarrow> u32" where
  "uint32 (a # b # c # d # _) =
     push_bit 24 (ucast a) OR push_bit 16 (ucast b) OR push_bit 8 (ucast c) OR ucast d"
| "uint32 _ = 0"

fun uint64 :: "bytes \<Rightarrow> u64" where
  "uint64 (a # b # c # d # e # f # g # h # _) =
     push_bit 56 (ucast a) OR push_bit 48 (ucast b) OR push_bit 40 (ucast c) OR push_bit 32 (ucast d) OR
     push_bit 24 (ucast e) OR push_bit 16 (ucast f) OR push_bit 8 (ucast g) OR ucast h"
| "uint64 _ = 0"

lemma length_be [simp, be_simps]:
  "length (be16 v) = 2" "length (be24 w) = 3" "length (be32 w) = 4" "length (be64 x) = 8"
  by (simp_all add: be16_def be24_def be32_def be64_def)

lemma be_not_Nil [simp]: "be16 v \<noteq> []" "be24 w \<noteq> []" "be32 w \<noteq> []" "be64 x \<noteq> []"
  by (simp_all add: be16_def be24_def be32_def be64_def)

lemma bit_push_chunk:
  fixes v :: "'a::len word"
  shows "bit (push_bit k (ucast (ucast (drop_bit k v) :: byte)) :: 'a word) n \<longleftrightarrow>
         k \<le> n \<and> n < k + 8 \<and> bit v n"
  by (auto simp: bit_simps dest: bit_imp_le_length)

lemma bit_low_chunk:
  fixes v :: "'a::len word"
  shows "bit (ucast (ucast v :: byte) :: 'a word) n \<longleftrightarrow> n < 8 \<and> bit v n"
  by (auto simp: bit_simps dest: bit_imp_le_length)

lemmas bit_chunk = bit_push_chunk bit_low_chunk bit_or_iff bit_take_bit_iff

lemma uint16_be16 [simp, be_simps]: "uint16 (be16 v @ r) = v" "uint16 (be16 v) = v"
  by (auto simp: be16_def bit_chunk intro!: bit_word_eqI)

lemma uint32_be32 [simp, be_simps]: "uint32 (be32 v @ r) = v" "uint32 (be32 v) = v"
  by (auto simp: be32_def bit_chunk intro!: bit_word_eqI)

lemma uint64_be64 [simp, be_simps]: "uint64 (be64 v @ r) = v" "uint64 (be64 v) = v"
  by (auto simp: be64_def bit_chunk intro!: bit_word_eqI)

lemma uint24_be24_mask: "uint24 (be24 v @ r) = take_bit 24 v"
  by (auto simp: be24_def bit_chunk intro!: bit_word_eqI)

lemma take_bit_self_word: "unat v < 2 ^ n \<Longrightarrow> take_bit n v = v"
  by (rule word_unat_eq_iff[THEN iffD2]) (simp add: unsigned_take_bit_eq take_bit_nat_eq_self)

lemma unat_take_bit_less: "unat (take_bit n (v :: 'a::len word)) < 2 ^ n"
  by (simp only: unsigned_take_bit_eq take_bit_nat_less_exp)

lemma uint24_be24 [simp, be_simps]: "v \<le> 0xffffff \<Longrightarrow> uint24 (be24 v @ r) = v"
  "v \<le> 0xffffff \<Longrightarrow> uint24 (be24 v) = v"
  using uint24_be24_mask[of v r] uint24_be24_mask[of v "[]"] take_bit_self_word[of v 24]
  by (simp_all add: word_le_nat_alt)

text \<open>The readers invert the writers in the other direction on slices of the exact width.\<close>

lemma byte_bit_high [simp]: "8 \<le> n \<Longrightarrow> \<not> bit (w :: byte) n"
  using bit_imp_le_length[of w n] by auto

lemma bit_push_byte:
  fixes a :: byte
  assumes "k + 8 \<le> LENGTH('a::len)"
  shows "bit (push_bit k (ucast a) :: 'a word) n \<longleftrightarrow> k \<le> n \<and> n < k + 8 \<and> bit a (n - k)"
proof -
  have "bit a (n - k) \<Longrightarrow> k \<le> n \<Longrightarrow> n < k + 8"
    using bit_imp_le_length[of a "n - k"] by auto
  with assms show ?thesis by (auto simp: bit_simps)
qed

lemma bit_low_byte: "8 \<le> LENGTH('a::len) \<Longrightarrow> bit (ucast (a :: byte) :: 'a word) n \<longleftrightarrow> n < 8 \<and> bit a n"
  using bit_imp_le_length[of a n] by (auto simp: bit_simps)

lemma bit_ucast_byte: "bit (ucast (w :: 'a::len word) :: byte) n \<longleftrightarrow> n < 8 \<and> bit w n"
  by (auto simp: bit_simps dest: bit_imp_le_length)

lemmas bit_assembled = bit_ucast_byte bit_drop_bit_eq bit_or_iff bit_push_byte bit_low_byte

lemma be16_uint16: "be16 (uint16 [a, b]) = [a, b]"
  unfolding be16_def uint16.simps list.inject
  by (intro conjI bit_word_eqI) (simp_all add: bit_assembled)

lemma be24_uint24: "be24 (uint24 [a, b, c]) = [a, b, c]"
  unfolding be24_def uint24.simps list.inject
  by (intro conjI bit_word_eqI) (simp_all add: bit_assembled)

lemma be32_uint32: "be32 (uint32 [a, b, c, d]) = [a, b, c, d]"
  unfolding be32_def uint32.simps list.inject
  by (intro conjI bit_word_eqI) (simp_all add: bit_assembled)

lemma uint24_bound: "uint24 b \<le> 0xffffff"
proof (cases b rule: uint24.cases)
  case (1 a b c r)
  have "take_bit 24 (uint24 (a # b # c # r)) = uint24 (a # b # c # r)"
    by (rule bit_word_eqI) (auto simp: bit_push_byte bit_low_byte bit_or_iff bit_take_bit_iff)
  then have "unat (uint24 (a # b # c # r)) < 2 ^ 24"
    using unat_take_bit_less[of 24 "uint24 (a # b # c # r)"] by (simp only:)
  then show ?thesis by (simp add: 1 word_le_nat_alt del: uint24.simps)
qed auto

section \<open>Results\<close>

text \<open>
  A Go function returning \<^verbatim>\<open>(T, error)\<close> is a function into \<open>'e + 'a\<close>, with \<^term>\<open>Inl\<close> the error
  value; \<open>res_bind\<close> is the early return \<^verbatim>\<open>if err != nil { return ..., err }\<close>.
\<close>

definition res_bind :: "'e + 'a \<Rightarrow> ('a \<Rightarrow> 'e + 'b) \<Rightarrow> 'e + 'b" where
  "res_bind r f = (case r of Inl e \<Rightarrow> Inl e | Inr a \<Rightarrow> f a)"

lemma res_bind_simps [simp]: "res_bind (Inl e) f = Inl e" "res_bind (Inr a) f = f a"
  by (simp_all add: res_bind_def)

lemma res_bind_eq_Inr: "res_bind r f = Inr b \<longleftrightarrow> (\<exists>a. r = Inr a \<and> f a = Inr b)"
  by (cases r) simp_all

lemma res_bind_eq_Inl: "res_bind r f = Inl e \<longleftrightarrow> r = Inl e \<or> (\<exists>a. r = Inr a \<and> f a = Inl e)"
  by (cases r) simp_all

lemma res_bind_cong [fundef_cong]:
  "r = r' \<Longrightarrow> (\<And>a. r' = Inr a \<Longrightarrow> f a = g a) \<Longrightarrow> res_bind r f = res_bind r' g"
  by (cases r') auto

definition res_map :: "('a \<Rightarrow> 'b) \<Rightarrow> 'e + 'a \<Rightarrow> 'e + 'b" where
  "res_map f r = res_bind r (\<lambda>a. Inr (f a))"

lemma res_map_simps [simp]: "res_map f (Inl e) = Inl e" "res_map f (Inr a) = Inr (f a)"
  by (simp_all add: res_map_def)

text \<open>
  Checked indexing, for parsers whose absence of panics is a theorem: \<^verbatim>\<open>b[i]\<close> and \<^verbatim>\<open>b[i:j]\<close> yield
  the error value \<open>p\<close> that stands for the run-time panic when they are out of range.
\<close>

definition at :: "'e \<Rightarrow> 'a list \<Rightarrow> nat \<Rightarrow> 'e + 'a" where
  "at p b i = (if i < length b then Inr (b ! i) else Inl p)"

definition slice_at :: "'e \<Rightarrow> 'a list \<Rightarrow> nat \<Rightarrow> nat \<Rightarrow> 'e + 'a list" where
  "slice_at p b i j = (if i \<le> j \<and> j \<le> length b then Inr (subslice b i j) else Inl p)"

lemma at_in [simp, wire_simps]: "i < length b \<Longrightarrow> at p b i = Inr (b ! i)"
  by (simp add: at_def)

lemma slice_at_in [simp, wire_simps]: "i \<le> j \<Longrightarrow> j \<le> length b \<Longrightarrow> slice_at p b i j = Inr (subslice b i j)"
  by (simp add: slice_at_def)

section \<open>Type-length-value streams\<close>

text \<open>
  A stream of self-delimiting records.  \<open>enc\<close> writes one record, \<open>dec\<close> reads one
  record off the front of a non-empty buffer, \<open>decs\<close> is the component's reading
  loop and \<open>ok\<close> says which records the wire format can carry.  The laws are what
  the component's own functions satisfy; the round trip and the injectivity of
  the list encoding follow once for all components.
\<close>

locale framed_stream =
  fixes enc :: "'a \<Rightarrow> bytes"
    and dec :: "bytes \<Rightarrow> 'e + ('a \<times> bytes)"
    and decs :: "bytes \<Rightarrow> 'e + 'a list"
    and ok :: "'a \<Rightarrow> bool"
  assumes dec_enc: "ok a \<Longrightarrow> dec (enc a @ rest) = Inr (a, rest)"
    and enc_nonempty: "ok a \<Longrightarrow> enc a \<noteq> []"
    and decs_Nil: "decs [] = Inr []"
    and decs_step: "b \<noteq> [] \<Longrightarrow>
      decs b = res_bind (dec b) (\<lambda>(a, rest). res_bind (decs rest) (\<lambda>as. Inr (a # as)))"
begin

lemma decs_encs_append:
  assumes "list_all ok as"
  shows "decs (concat (map enc as) @ rest) = res_bind (decs rest) (\<lambda>bs. Inr (as @ bs))"
  using assms
proof (induction as)
  case Nil
  then show ?case by (cases "decs rest") simp_all
next
  case (Cons a as)
  then have "decs (enc a @ concat (map enc as) @ rest) =
      res_bind (decs (concat (map enc as) @ rest)) (\<lambda>as. Inr (a # as))"
    using dec_enc[of a] enc_nonempty[of a] by (subst decs_step) simp_all
  with Cons show ?case by (cases "decs rest") simp_all
qed

lemma decs_encs: "list_all ok as \<Longrightarrow> decs (concat (map enc as)) = Inr as"
  using decs_encs_append[of as "[]"] decs_Nil by simp

lemma encs_inj:
  "list_all ok as \<Longrightarrow> list_all ok bs \<Longrightarrow> concat (map enc as) = concat (map enc bs) \<Longrightarrow> as = bs"
  using decs_encs[of as] decs_encs[of bs] by (metis sum.inject(2))

end

end
