(* ===== verification/NetIP.thy ===== *)
theory NetIP
  imports Prelude
begin

text \<open>
  The parts of Go's \<^verbatim>\<open>net\<close> and \<^verbatim>\<open>strings\<close> packages the program relies on: \<^verbatim>\<open>net.IP\<close>
  values are byte lists (\<^verbatim>\<open>nil\<close> is the empty list) of 4 or 16 bytes, with
  \<^verbatim>\<open>net.IPv4\<close>, \<^verbatim>\<open>To4\<close>, \<^verbatim>\<open>To16\<close>, \<^verbatim>\<open>Equal\<close>, \<^verbatim>\<open>String\<close> and \<^verbatim>\<open>ParseIP\<close>; strings are split
  and joined as \<^verbatim>\<open>strings.Split\<close> and \<^verbatim>\<open>strings.Join\<close> do.  The program carries the
  UE address as a \<^verbatim>\<open>net.IP\<close> in the GTP-C client and as a string in the session
  context, so the round trip \<open>ParseIP_IP_String\<close> is what keeps the two in step.
\<close>

section \<open>Strings\<close>

fun split_on :: "char \<Rightarrow> string \<Rightarrow> string list" where
  "split_on d [] = [[]]"
| "split_on d (c # s) =
     (if c = d then [] # split_on d s
      else (case split_on d s of [] \<Rightarrow> [[c]] | w # ws \<Rightarrow> (c # w) # ws))"

fun join_with :: "string \<Rightarrow> string list \<Rightarrow> string" where
  "join_with sep [] = []"
| "join_with sep [s] = s"
| "join_with sep (s # t # ss) = s @ sep @ join_with sep (t # ss)"

lemma split_on_not_Nil [simp]: "split_on d s \<noteq> []"
  by (induction s) (auto split: list.splits)

lemma split_on_plain: "d \<notin> set s \<Longrightarrow> split_on d s = [s]"
  by (induction s) auto

lemma split_on_append: "d \<notin> set s \<Longrightarrow> split_on d (s @ d # t) = s # split_on d t"
  by (induction s) auto

lemma split_on_join:
  "ss \<noteq> [] \<Longrightarrow> \<forall>s \<in> set ss. d \<notin> set s \<Longrightarrow> split_on d (join_with [d] ss) = ss"
  by (induction "[d]" ss rule: join_with.induct) (auto simp: split_on_plain split_on_append)

lemma join_with_split_on: "join_with [d] (split_on d s) = s"
proof (induction s)
  case (Cons c s)
  then show ?case by (cases "split_on d s"; cases "tl (split_on d s)") auto
qed simp

text \<open>Decimal rendering of \<^verbatim>\<open>%d\<close> and the decimal reader used by the address parser.\<close>

definition is_digit :: "char \<Rightarrow> bool" where
  "is_digit c \<longleftrightarrow> 48 \<le> (of_char c :: nat) \<and> (of_char c :: nat) \<le> 57"

definition digit_char :: "nat \<Rightarrow> char" where
  "digit_char n = char_of (48 + n mod 10)"

definition char_digit :: "char \<Rightarrow> nat" where
  "char_digit c = of_char c - 48"

fun show_nat :: "nat \<Rightarrow> string" where
  "show_nat n = (if n < 10 then [digit_char n] else show_nat (n div 10) @ [digit_char n])"

declare show_nat.simps [simp del]

definition dec_value :: "string \<Rightarrow> nat" where
  "dec_value s = foldl (\<lambda>v c. 10 * v + char_digit c) 0 s"

lemma of_char_digit_char [simp]: "(of_char (digit_char n) :: nat) = 48 + n mod 10"
proof -
  have "48 + n mod 10 < 256" using mod_less_divisor[of 10 n] by linarith
  then show ?thesis by (simp add: digit_char_def)
qed

lemma is_digit_digit_char [simp]: "is_digit (digit_char n)"
  using mod_less_divisor[of 10 n] by (simp add: is_digit_def)

lemma char_digit_digit_char [simp]: "char_digit (digit_char n) = n mod 10"
  by (simp add: char_digit_def)

lemma show_nat_digits: "\<forall>c \<in> set (show_nat n). is_digit c"
proof (induction n rule: show_nat.induct)
  case (1 n)
  then show ?case by (subst show_nat.simps) auto
qed

lemma show_nat_not_Nil [simp]: "show_nat n \<noteq> []"
  by (subst show_nat.simps) auto

lemma dec_value_show_nat [simp]: "dec_value (show_nat n) = n"
proof (induction n rule: show_nat.induct)
  case (1 n)
  then show ?case by (subst show_nat.simps) (auto simp: dec_value_def)
qed

lemma show_nat_no_leading_zero: "0 < n \<Longrightarrow> hd (show_nat n) \<noteq> CHR ''0''"
proof (induction n rule: show_nat.induct)
  case (1 n)
  have "digit_char n \<noteq> CHR ''0''" if "n < 10"
    using that 1(2) of_char_digit_char[of n] by (auto simp del: of_char_digit_char)
  with 1 show ?case by (subst show_nat.simps) (auto simp: hd_append)
qed

lemma show_nat_inj: "show_nat m = show_nat n \<Longrightarrow> m = n"
  by (metis dec_value_show_nat)

section \<open>IP addresses\<close>

type_synonym net_ip = bytes

abbreviation v4InV6Prefix :: bytes where
  "v4InV6Prefix \<equiv> [0, 0, 0, 0, 0, 0, 0, 0, 0, 0, 0xff, 0xff]"

definition IPv4 :: "byte \<Rightarrow> byte \<Rightarrow> byte \<Rightarrow> byte \<Rightarrow> net_ip" where
  "IPv4 a b c d = v4InV6Prefix @ [a, b, c, d]"

definition To4 :: "net_ip \<Rightarrow> net_ip" where
  "To4 ip = (if length ip = 4 then ip
             else if length ip = 16 \<and> take 12 ip = v4InV6Prefix then drop 12 ip
             else [])"

definition To16 :: "net_ip \<Rightarrow> net_ip" where
  "To16 ip = (if length ip = 4 then v4InV6Prefix @ ip
              else if length ip = 16 then ip else [])"

definition IP_Equal :: "net_ip \<Rightarrow> net_ip \<Rightarrow> bool" where
  "IP_Equal ip x =
     (if length ip = length x then ip = x
      else if length ip = 4 \<and> length x = 16 then take 12 x = v4InV6Prefix \<and> ip = drop 12 x
      else if length ip = 16 \<and> length x = 4 then take 12 ip = v4InV6Prefix \<and> drop 12 ip = x
      else False)"

lemma length_IPv4 [simp]: "length (IPv4 a b c d) = 16"
  by (simp add: IPv4_def)

lemma IPv4_not_Nil [simp]: "IPv4 a b c d \<noteq> []"
  by (simp add: IPv4_def)

lemma To4_IPv4 [simp]: "To4 (IPv4 a b c d) = [a, b, c, d]"
  by (simp add: To4_def IPv4_def)

lemma IPv4_inject [simp]: "IPv4 a b c d = IPv4 a' b' c' d' \<longleftrightarrow> a = a' \<and> b = b' \<and> c = c' \<and> d = d'"
  by (simp add: IPv4_def)

lemma length_To4: "To4 ip \<noteq> [] \<Longrightarrow> length (To4 ip) = 4"
  by (auto simp: To4_def split: if_splits)

lemma To4_four [simp]: "length ip = 4 \<Longrightarrow> To4 ip = ip"
  by (simp add: To4_def)

lemma To4_Nil [simp]: "To4 [] = []"
  by (simp add: To4_def)

lemma To4_idem [simp]: "To4 (To4 ip) = To4 ip"
  by (auto simp: To4_def)

lemma To4_cases:
  obtains (none) "To4 ip = []" | (some) a b c d where "To4 ip = [a, b, c, d]"
proof (cases "To4 ip = []")
  case False
  then have "length (To4 ip) = 4" by (rule length_To4)
  then show ?thesis using that(2)
    by (auto simp: length_Suc_conv eval_nat_numeral)
qed (use that in blast)

text \<open>
  \<^verbatim>\<open>Equal\<close> identifies the 4-byte and the IPv4-mapped 16-byte form of an address; on
  well-formed addresses it is equality of the 16-byte forms, hence an equivalence.
\<close>

lemma mapped_split: "length y = 16 \<Longrightarrow> take 12 y = v4InV6Prefix \<Longrightarrow> v4InV6Prefix @ drop 12 y = y"
  by (metis append_take_drop_id)

lemma IP_Equal_iff_To16:
  assumes "length ip \<in> {4, 16}" "length x \<in> {4, 16}"
  shows "IP_Equal ip x \<longleftrightarrow> To16 ip = To16 x"
  using assms mapped_split[of ip] mapped_split[of x]
  by (auto simp: IP_Equal_def To16_def)

lemma IP_Equal_refl [simp]: "IP_Equal ip ip"
  by (simp add: IP_Equal_def)

lemma IP_Equal_sym: "IP_Equal ip x = IP_Equal x ip"
  by (auto simp: IP_Equal_def)

section \<open>Textual form\<close>

text \<open>Dotted decimal: \<^verbatim>\<open>netip\<close>'s \<^verbatim>\<open>parseIPv4\<close> wants four non-empty fields without
  superfluous zeros, each at most 255.\<close>

definition dotted :: "bytes \<Rightarrow> string" where
  "dotted b = join_with ''.'' (map (\<lambda>w. show_nat (unat w)) b)"

definition parse_octet :: "string \<Rightarrow> byte option" where
  "parse_octet s =
     (if s = [] \<or> \<not> list_all is_digit s then None
      else if length s > 1 \<and> hd s = CHR ''0'' then None
      else if dec_value s > 255 then None
      else Some (of_nat (dec_value s)))"

definition parseIPv4 :: "string \<Rightarrow> bytes option" where
  "parseIPv4 s = (case map parse_octet (split_on (CHR ''.'') s) of
     [Some a, Some b, Some c, Some d] \<Rightarrow> Some [a, b, c, d]
   | _ \<Rightarrow> None)"

lemma parse_octet_show [simp]: "parse_octet (show_nat (unat w)) = Some (w :: byte)"
proof -
  have "unat w < 256" using unsigned_less[of w, where ?'a = nat] by simp
  moreover have "\<not> (length (show_nat (unat w)) > 1 \<and> hd (show_nat (unat w)) = CHR ''0'')"
    using show_nat_no_leading_zero[of "unat w"]
    by (cases "unat w = 0") (auto simp: show_nat.simps[of 0])
  ultimately show ?thesis
    using show_nat_digits[of "unat w"] by (auto simp: parse_octet_def list_all_iff)
qed

lemma dot_notin_show_nat [simp]: "CHR ''.'' \<notin> set (show_nat n)"
  using show_nat_digits[of n] by (auto simp: is_digit_def)

lemma parseIPv4_dotted: "parseIPv4 (dotted [a, b, c, d]) = Some [a, b, c, d]"
proof -
  have "split_on (CHR ''.'') (dotted [a, b, c, d]) = map (\<lambda>w. show_nat (unat w)) [a, b, c, d]"
    unfolding dotted_def by (rule split_on_join) simp_all
  then show ?thesis by (simp add: parseIPv4_def)
qed

text \<open>IPv6 text, as \<^verbatim>\<open>netip\<close>'s \<^verbatim>\<open>parseIPv6\<close> and \<^verbatim>\<open>appendTo6\<close> read and write it.  The
  loop of \<^verbatim>\<open>parseIPv6\<close> fills at most eight 16-bit groups, which is the bound \<open>k\<close>.\<close>

definition is_hex :: "char \<Rightarrow> bool" where
  "is_hex c \<longleftrightarrow> is_digit c \<or> (97 \<le> (of_char c :: nat) \<and> (of_char c :: nat) \<le> 102)
     \<or> (65 \<le> (of_char c :: nat) \<and> (of_char c :: nat) \<le> 70)"

definition hex_digit :: "char \<Rightarrow> nat" where
  "hex_digit c = (let n = of_char c in if n \<le> 57 then n - 48 else if n \<ge> 97 then n - 87 else n - 55)"

definition hex_value :: "string \<Rightarrow> nat" where
  "hex_value s = foldl (\<lambda>v c. 16 * v + hex_digit c) 0 s"

fun parse6_loop :: "nat \<Rightarrow> string \<Rightarrow> bytes \<Rightarrow> nat option \<Rightarrow> (string \<times> bytes \<times> nat option) option" where
  "parse6_loop 0 s ip ell = Some (s, ip, ell)"
| "parse6_loop (Suc k) s ip ell =
    (let g = takeWhile is_hex s; r = dropWhile is_hex s in
     if g = [] \<or> length g > 4 then None
     else if r \<noteq> [] \<and> hd r = CHR ''.'' then
       (if ell = None \<and> length ip \<noteq> 12 then None
        else if length ip + 4 > 16 then None
        else (case parseIPv4 s of None \<Rightarrow> None | Some q \<Rightarrow> Some ([], ip @ q, ell)))
     else (let ip' = ip @ be16 (of_nat (hex_value g)) in
       case r of [] \<Rightarrow> Some ([], ip', ell)
       | c # r1 \<Rightarrow>
         if c \<noteq> CHR '':'' then None
         else (case r1 of [] \<Rightarrow> None
           | c2 # r2 \<Rightarrow>
             if c2 = CHR '':'' then
               (if ell \<noteq> None then None
                else if r2 = [] then Some ([], ip', Some (length ip'))
                else parse6_loop k r2 ip' (Some (length ip')))
             else parse6_loop k r1 ip' ell)))"

definition parseIPv6 :: "string \<Rightarrow> bytes option" where
  "parseIPv6 s =
    (let lead = (take 2 s = ''::''); s1 = (if lead then drop 2 s else s) in
     if lead \<and> s1 = [] then Some (replicate 16 0)
     else (case parse6_loop 8 s1 [] (if lead then Some 0 else None) of
       None \<Rightarrow> None
     | Some (rest, ip, ell) \<Rightarrow>
        if rest \<noteq> [] then None
        else if length ip < 16 then
          (case ell of None \<Rightarrow> None
           | Some e \<Rightarrow> Some (take e ip @ replicate (16 - length ip) 0 @ drop e ip))
        else if ell \<noteq> None then None
        else Some ip))"

text \<open>A zone (\<^verbatim>\<open>%eth0\<close>) makes \<^verbatim>\<open>net.ParseIP\<close> return \<^verbatim>\<open>nil\<close>.\<close>

definition ParseIP :: "string \<Rightarrow> net_ip" where
  "ParseIP s =
    (if CHR ''%'' \<in> set s then []
     else (case filter (\<lambda>c. c = CHR ''.'' \<or> c = CHR '':'') s of
       [] \<Rightarrow> []
     | c # _ \<Rightarrow>
        if c = CHR ''.'' then
          (case parseIPv4 s of None \<Rightarrow> [] | Some q \<Rightarrow> v4InV6Prefix @ q)
        else (case parseIPv6 s of None \<Rightarrow> [] | Some ip \<Rightarrow> ip)))"

definition hex_char :: "nat \<Rightarrow> char" where
  "hex_char n = char_of (if n < 10 then 48 + n else 87 + n)"

fun show_hex :: "nat \<Rightarrow> string" where
  "show_hex n = (if n < 16 then [hex_char n] else show_hex (n div 16) @ [hex_char (n mod 16)])"

declare show_hex.simps [simp del]

definition hex2 :: "byte \<Rightarrow> string" where
  "hex2 w = [hex_char (unat w div 16), hex_char (unat w mod 16)]"

fun groups16 :: "bytes \<Rightarrow> nat list" where
  "groups16 (a # b # r) = unat (uint16 [a, b]) # groups16 r"
| "groups16 _ = []"

definition longest_zero_run :: "nat list \<Rightarrow> nat \<times> nat" where
  "longest_zero_run gs = foldl (\<lambda>(zs, ze) i.
      let l = length (takeWhile (\<lambda>g. g = 0) (drop i gs)) in
      if 2 \<le> l \<and> ze - zs < l then (i, i + l) else (zs, ze)) (255, 255) [0..<length gs]"

definition appendTo6 :: "bytes \<Rightarrow> string" where
  "appendTo6 ip =
    (let gs = groups16 ip; (zs, ze) = longest_zero_run gs in
     if zs = 255 then join_with '':'' (map show_hex gs)
     else join_with '':'' (map show_hex (take zs gs)) @ ''::'' @ join_with '':'' (map show_hex (drop ze gs)))"

definition IP_String :: "net_ip \<Rightarrow> string" where
  "IP_String ip =
    (if ip = [] then ''<nil>''
     else if length ip \<noteq> 4 \<and> length ip \<noteq> 16 then CHR ''?'' # concat (map hex2 ip)
     else if To4 ip \<noteq> [] then dotted (To4 ip)
     else appendTo6 ip)"

lemma set_dotted4:
  "set (dotted [a, b, c, d]) \<subseteq> {CHR ''.''} \<union> {x. is_digit x}"
  using show_nat_digits by (auto simp: dotted_def)

lemma filter_dotted4: "\<exists>r. filter (\<lambda>x. x = CHR ''.'' \<or> x = CHR '':'') (dotted [a, b, c, d]) = CHR ''.'' # r"
proof -
  have "filter (\<lambda>x. x = CHR ''.'' \<or> x = CHR '':'') (show_nat n) = []" for n
    using show_nat_digits[of n] by (auto simp: filter_empty_conv is_digit_def)
  then show ?thesis by (simp add: dotted_def)
qed

lemma ParseIP_dotted: "ParseIP (dotted [a, b, c, d]) = IPv4 a b c d"
proof -
  have "CHR ''%'' \<notin> set (dotted [a, b, c, d])"
    using set_dotted4[of a b c d] by (auto simp: is_digit_def)
  then show ?thesis
    using filter_dotted4[of a b c d] by (auto simp: ParseIP_def parseIPv4_dotted IPv4_def)
qed

lemma ParseIP_IP_String: "To4 ip \<noteq> [] \<Longrightarrow> ParseIP (IP_String ip) = To16 ip"
proof (cases ip rule: To4_cases)
  case (some a b c d)
  then have "To16 ip = IPv4 a b c d" "length ip \<in> {4, 16}" "ip \<noteq> []"
    using mapped_split[of ip] by (auto simp: To4_def To16_def IPv4_def split: if_splits)
  with some show ?thesis by (auto simp: IP_String_def ParseIP_dotted)
qed simp

lemma IP_String_v4_inj:
  "To4 ip \<noteq> [] \<Longrightarrow> To4 x \<noteq> [] \<Longrightarrow> IP_String ip = IP_String x \<Longrightarrow> To16 ip = To16 x"
  by (metis ParseIP_IP_String)

section \<open>UDP addresses\<close>

text \<open>\<^verbatim>\<open>net.UDPAddr\<close> is the address with the port; its \<^verbatim>\<open>String\<close> puts an IPv6 address in brackets.\<close>

type_synonym udp_addr = "net_ip \<times> nat"
type_synonym datagram = "bytes \<times> udp_addr"

definition UDP_String :: "udp_addr \<Rightarrow> string" where
  "UDP_String a =
     (if fst a = [] then [] else if To4 (fst a) \<noteq> [] then IP_String (fst a) else ''['' @ IP_String (fst a) @ '']'')
     @ '':'' @ show_nat (snd a)"

text \<open>\<^verbatim>\<open>hex.EncodeToString\<close>.\<close>

definition hex_bytes :: "bytes \<Rightarrow> string" where
  "hex_bytes b = concat (map hex2 b)"

end
