(* ===== verification/GtpcCodec.thy ===== *)
theory GtpcCodec
  imports NetIP
begin

text \<open>
  The GTPv2-C wire format of \<^verbatim>\<open>internal/s2b/codec.go\<close>: message header, information
  elements (IEs), the IE constructors and parsers the S2b client uses, and the
  sequence-number allocator.  \<^verbatim>\<open>message\<close>, \<^verbatim>\<open>ie\<close> and \<^verbatim>\<open>decodedIE\<close> are records with the
  fields of the Go structs (\<^verbatim>\<open>decodedIE\<close> embeds \<^verbatim>\<open>ie\<close>, as the record extension does);
  error values keep the data the error text prints.  The theory proves the round
  trips of messages, IE lists and F-TEIDs, that decoding with raw slices refines
  plain decoding, and the bounds and period of the sequence allocator.
\<close>

section \<open>Constants\<close>

abbreviation (input) gtpv2VersionFlag :: byte where "gtpv2VersionFlag \<equiv> 0x40"
abbreviation (input) gtpv2TEIDFlag :: byte where "gtpv2TEIDFlag \<equiv> 0x08"
abbreviation (input) msgEchoRequest :: byte where "msgEchoRequest \<equiv> 1"
abbreviation (input) msgEchoResponse :: byte where "msgEchoResponse \<equiv> 2"
abbreviation (input) msgCreateSessionReq :: byte where "msgCreateSessionReq \<equiv> 32"
abbreviation (input) msgCreateSessionResp :: byte where "msgCreateSessionResp \<equiv> 33"
abbreviation (input) msgDeleteSessionReq :: byte where "msgDeleteSessionReq \<equiv> 36"
abbreviation (input) msgDeleteSessionResp :: byte where "msgDeleteSessionResp \<equiv> 37"
abbreviation (input) msgCreateBearerReq :: byte where "msgCreateBearerReq \<equiv> 95"
abbreviation (input) msgCreateBearerResp :: byte where "msgCreateBearerResp \<equiv> 96"
abbreviation (input) msgUpdateBearerReq :: byte where "msgUpdateBearerReq \<equiv> 97"
abbreviation (input) msgUpdateBearerResp :: byte where "msgUpdateBearerResp \<equiv> 98"
abbreviation (input) msgDeleteBearerReq :: byte where "msgDeleteBearerReq \<equiv> 99"
abbreviation (input) msgDeleteBearerResp :: byte where "msgDeleteBearerResp \<equiv> 100"
abbreviation (input) minSequence :: u32 where "minSequence \<equiv> 0x000001"
abbreviation (input) maxSequence :: u32 where "maxSequence \<equiv> 0xffffff"
abbreviation (input) defaultGTPControlPort :: nat where "defaultGTPControlPort \<equiv> 2123"
abbreviation (input) ieIMSI :: byte where "ieIMSI \<equiv> 1"
abbreviation (input) ieCause :: byte where "ieCause \<equiv> 2"
abbreviation (input) ieRecovery :: byte where "ieRecovery \<equiv> 3"
abbreviation (input) ieAPN :: byte where "ieAPN \<equiv> 71"
abbreviation (input) ieAMBR :: byte where "ieAMBR \<equiv> 72"
abbreviation (input) ieEBI :: byte where "ieEBI \<equiv> 73"
abbreviation (input) ieIndication :: byte where "ieIndication \<equiv> 77"
abbreviation (input) iePAA :: byte where "iePAA \<equiv> 79"
abbreviation (input) ieBearerQoS :: byte where "ieBearerQoS \<equiv> 80"
abbreviation (input) ieTFT :: byte where "ieTFT \<equiv> 84"
abbreviation (input) ieRATType :: byte where "ieRATType \<equiv> 82"
abbreviation (input) ieServingNetwork :: byte where "ieServingNetwork \<equiv> 83"
abbreviation (input) ieFTEID :: byte where "ieFTEID \<equiv> 87"
abbreviation (input) ieBearerContext :: byte where "ieBearerContext \<equiv> 93"
abbreviation (input) ieChargingID :: byte where "ieChargingID \<equiv> 94"
abbreviation (input) ieSelectionMode :: byte where "ieSelectionMode \<equiv> 128"
abbreviation (input) iePCO :: byte where "iePCO \<equiv> 78"
abbreviation (input) ieAPCO :: byte where "ieAPCO \<equiv> 163"
abbreviation (input) causeReactivationRequested :: byte where "causeReactivationRequested \<equiv> 8"
abbreviation (input) causeAccessChangedTo3GPP :: byte where "causeAccessChangedTo3GPP \<equiv> 10"
abbreviation (input) causeRequestAccepted :: byte where "causeRequestAccepted \<equiv> 16"
abbreviation (input) causeContextNotFound :: byte where "causeContextNotFound \<equiv> 64"
abbreviation (input) ratTypeWLAN :: byte where "ratTypeWLAN \<equiv> 3"
abbreviation (input) pdnTypeIPv4 :: byte where "pdnTypeIPv4 \<equiv> 1"
abbreviation (input) ifaceS5S8SGWGTPU :: byte where "ifaceS5S8SGWGTPU \<equiv> 4"
abbreviation (input) ifaceS5S8PGWGTPU :: byte where "ifaceS5S8PGWGTPU \<equiv> 5"
abbreviation (input) ifaceS2BePDGGTPC :: byte where "ifaceS2BePDGGTPC \<equiv> 30"
abbreviation (input) ifaceS2BePDGGTPU :: byte where "ifaceS2BePDGGTPU \<equiv> 31"
abbreviation (input) ifaceS2BPGWGTPC :: byte where "ifaceS2BPGWGTPC \<equiv> 32"
abbreviation (input) ifaceS2BPGWGTPU :: byte where "ifaceS2BPGWGTPU \<equiv> 33"
abbreviation (input) defaultEBI :: byte where "defaultEBI \<equiv> 5"
abbreviation (input) defaultBearerQCI :: byte where "defaultBearerQCI \<equiv> 8"
abbreviation (input) instanceCreateBearerResponseS2bEPDGDataFTEID :: byte where "instanceCreateBearerResponseS2bEPDGDataFTEID \<equiv> 8"

section \<open>Messages and information elements\<close>

datatype gtpc_error =
    SequenceOutsideRange u32
  | MessageTooLarge nat
  | MessageTooShort nat
  | UnsupportedVersionFlags byte
  | LengthMismatch nat nat
  | TEIDMessageTooShort nat
  | IEHeaderTruncated
  | IELengthExceedsRemaining byte nat nat
  | EBIPayloadTooShort
  | InvalidEBIZero byte

record message =
  m_Type :: byte
  m_TEID :: u32
  m_HasTEID :: bool
  m_Sequence :: u32
  m_Payload :: bytes

record ie =
  ie_Type :: byte
  ie_Instance :: byte
  ie_Payload :: bytes

record decodedIE = ie +
  d_Offset :: nat
  d_Length :: nat
  d_Raw :: bytes

definition put24 :: "u32 \<Rightarrow> bytes" where
  "put24 v = [ucast (drop_bit 16 v), ucast (drop_bit 8 v), ucast v]"

definition read24 :: "bytes \<Rightarrow> u32" where
  "read24 src = push_bit 16 (ucast (src ! 0)) OR push_bit 8 (ucast (src ! 1)) OR ucast (src ! 2)"

definition message_encode :: "message \<Rightarrow> gtpc_error + bytes" where
  "message_encode m =
    (if m_Sequence m < minSequence \<or> m_Sequence m > maxSequence
     then Inl (SequenceOutsideRange (m_Sequence m))
     else
       let headerLen = (if m_HasTEID m then 12 else 8);
           flags = (if m_HasTEID m then gtpv2VersionFlag OR gtpv2TEIDFlag else gtpv2VersionFlag);
           len = headerLen - 4 + length (m_Payload m)
       in if len > 0xffff then Inl (MessageTooLarge len)
          else Inr ([flags, m_Type m] @ be16 (of_nat len)
                    @ (if m_HasTEID m then be32 (m_TEID m) else [])
                    @ put24 (m_Sequence m) @ [0] @ m_Payload m))"

definition decodeMessage :: "bytes \<Rightarrow> gtpc_error + message" where
  "decodeMessage b =
    (if length b < 8 then Inl (MessageTooShort (length b))
     else if b ! 0 AND 0xe0 \<noteq> gtpv2VersionFlag then Inl (UnsupportedVersionFlags (b ! 0))
     else
       let len = unat (uint16 (subslice b 2 4)) in
       if len \<noteq> length b - 4 then Inl (LengthMismatch len (length b - 4))
       else
         let hasTEID = (b ! 0 AND gtpv2TEIDFlag \<noteq> 0) in
         if hasTEID \<and> length b < 12 then Inl (TEIDMessageTooShort (length b))
         else
           let teid = (if hasTEID then uint32 (subslice b 4 8) else 0);
               offset = (if hasTEID then 8 else 4);
               sequence = read24 (subslice b offset (offset + 3))
           in if sequence < minSequence \<or> sequence > maxSequence
              then Inl (SequenceOutsideRange sequence)
              else Inr \<lparr>m_Type = b ! 1, m_TEID = teid, m_HasTEID = hasTEID,
                         m_Sequence = sequence, m_Payload = drop (offset + 4) b\<rparr>)"

definition ie_encode :: "ie \<Rightarrow> bytes" where
  "ie_encode e = [ie_Type e] @ be16 (of_nat (length (ie_Payload e)))
                 @ [ie_Instance e AND 0x0f] @ ie_Payload e"

definition encodeIEs :: "ie list \<Rightarrow> bytes" where
  "encodeIEs ies = foldl (\<lambda>out e. out @ ie_encode e) [] ies"

text \<open>One turn of the loop of \<^verbatim>\<open>decodeIEs\<close>: the element and the remaining payload.\<close>

definition decodeIE :: "bytes \<Rightarrow> gtpc_error + (ie \<times> bytes)" where
  "decodeIE payload =
    (if length payload < 4 then Inl IEHeaderTruncated
     else
       let l = unat (uint16 (subslice payload 1 3)) in
       if length payload < 4 + l
       then Inl (IELengthExceedsRemaining (payload ! 0) l (length payload - 4))
       else Inr (\<lparr>ie_Type = payload ! 0, ie_Instance = payload ! 3 AND 0x0f,
                   ie_Payload = subslice payload 4 (4 + l)\<rparr>,
                 drop (4 + l) payload))"

lemma decodeIE_shrinks: "decodeIE payload = Inr (e, rest) \<Longrightarrow> length rest < length payload"
  by (auto simp: decodeIE_def Let_def split: if_splits)

function decodeIEs :: "bytes \<Rightarrow> gtpc_error + ie list" where
  "decodeIEs payload =
    (if payload = [] then Inr []
     else res_bind (decodeIE payload) (\<lambda>(e, rest).
            res_bind (decodeIEs rest) (\<lambda>out. Inr (e # out))))"
  by pat_completeness auto
termination
  by (relation "measure length") (auto dest: decodeIE_shrinks)

declare decodeIEs.simps [simp del]

text \<open>The loop of \<^verbatim>\<open>decodeIEsWithRaw\<close>, over the offset into the whole payload.\<close>

function decodeIEsWithRaw_from :: "bytes \<Rightarrow> nat \<Rightarrow> gtpc_error + decodedIE list" where
  "decodeIEsWithRaw_from payload offset =
    (if \<not> offset < length payload then Inr []
     else
       let remaining = drop offset payload in
       if length remaining < 4 then Inl IEHeaderTruncated
       else
         let l = unat (uint16 (subslice remaining 1 3)); endp = offset + 4 + l in
         if endp > length payload
         then Inl (IELengthExceedsRemaining (remaining ! 0) l (length remaining - 4))
         else res_bind (decodeIEsWithRaw_from payload endp) (\<lambda>out.
                Inr (\<lparr>ie_Type = remaining ! 0, ie_Instance = remaining ! 3 AND 0x0f,
                      ie_Payload = subslice remaining 4 (4 + l),
                      d_Offset = offset, d_Length = l, d_Raw = subslice payload offset endp\<rparr> # out)))"
  by pat_completeness auto
termination
  by (relation "measure (\<lambda>(payload, offset). length payload - offset)") auto

declare decodeIEsWithRaw_from.simps [simp del]

definition decodeIEsWithRaw :: "bytes \<Rightarrow> gtpc_error + decodedIE list" where
  "decodeIEsWithRaw payload = decodeIEsWithRaw_from payload 0"

section \<open>Looking up and building elements\<close>

fun findIE :: "ie list \<Rightarrow> byte \<Rightarrow> byte \<Rightarrow> ie option" where
  "findIE [] typ inst = None"
| "findIE (e # ies) typ inst =
     (if ie_Type e = typ \<and> ie_Instance e = inst then Some e else findIE ies typ inst)"

fun findIEAnyInstance :: "ie list \<Rightarrow> byte \<Rightarrow> ie option" where
  "findIEAnyInstance [] typ = None"
| "findIEAnyInstance (e # ies) typ = (if ie_Type e = typ then Some e else findIEAnyInstance ies typ)"

definition ieTypes :: "ie list \<Rightarrow> byte list" where
  "ieTypes ies = map ie_Type ies"

definition ieTypesFromDecoded :: "decodedIE list \<Rightarrow> byte list" where
  "ieTypesFromDecoded ies = map ie_Type ies"

text \<open>The loop ranges over runes; a digit is a one-byte rune and no other rune is a
  digit, so ranging over the bytes selects the same digits.\<close>

fun tbcd_pairs :: "bytes \<Rightarrow> bytes" where
  "tbcd_pairs [] = []"
| "tbcd_pairs [lo] = [lo OR push_bit 4 0x0f]"
| "tbcd_pairs (lo # hi # digits) = (lo OR push_bit 4 hi) # tbcd_pairs digits"

definition encodeTBCD :: "string \<Rightarrow> bytes" where
  "encodeTBCD v = tbcd_pairs (map (\<lambda>c. of_nat (char_digit c)) (filter is_digit v))"

definition digitNibble :: "byte \<Rightarrow> byte" where
  "digitNibble b = (if b \<ge> of_char (CHR ''0'') \<and> b \<le> of_char (CHR ''9'') then b - of_char (CHR ''0'') else 0x0f)"

text \<open>\<^term>\<open>None\<close> is the index-out-of-range panic of \<^verbatim>\<open>mcc[2]\<close> or \<^verbatim>\<open>mnc[1]\<close> on short strings.\<close>

definition encodePLMN :: "string \<Rightarrow> string \<Rightarrow> bytes option" where
  "encodePLMN mcc mnc =
    (if length mcc < 3 \<or> length mnc < 2 then None
     else
       let mc = str_bytes mcc; mn = str_bytes mnc;
           mnc3 = (if length mnc = 3 then digitNibble (mn ! 2) else 0x0f)
       in Some [digitNibble (mc ! 0) OR push_bit 4 (digitNibble (mc ! 1)),
                digitNibble (mc ! 2) OR push_bit 4 mnc3,
                digitNibble (mn ! 0) OR push_bit 4 (digitNibble (mn ! 1))])"

definition bcdIE :: "byte \<Rightarrow> string \<Rightarrow> ie" where
  "bcdIE typ v = \<lparr>ie_Type = typ, ie_Instance = 0, ie_Payload = encodeTBCD v\<rparr>"

definition apnIE :: "string \<Rightarrow> ie" where
  "apnIE apn =
    \<lparr>ie_Type = ieAPN, ie_Instance = 0,
     ie_Payload = concat (map (\<lambda>label. if label = [] then []
                                        else of_nat (length label) # str_bytes label)
                              (split_on (CHR ''.'') apn))\<rparr>"

definition uint8IE :: "byte \<Rightarrow> byte \<Rightarrow> ie" where
  "uint8IE typ v = \<lparr>ie_Type = typ, ie_Instance = 0, ie_Payload = [v]\<rparr>"

definition ebiValueIE :: "byte \<Rightarrow> ie" where
  "ebiValueIE v = \<lparr>ie_Type = ieEBI, ie_Instance = 0, ie_Payload = [v AND 0x0f]\<rparr>"

definition parseEBI :: "bytes \<Rightarrow> gtpc_error + byte" where
  "parseEBI payload =
    (if payload = [] then Inl EBIPayloadTooShort
     else let ebi = payload ! 0 AND 0x0f in
       if ebi = 0 then Inl (InvalidEBIZero (payload ! 0)) else Inr ebi)"

definition recoveryIE :: "byte \<Rightarrow> ie" where
  "recoveryIE restartCounter = uint8IE ieRecovery restartCounter"

definition ambrIE :: "u32 \<Rightarrow> u32 \<Rightarrow> ie" where
  "ambrIE uplinkKbps downlinkKbps =
    \<lparr>ie_Type = ieAMBR, ie_Instance = 0, ie_Payload = be32 uplinkKbps @ be32 downlinkKbps\<rparr>"

definition bearerQoSIE :: "byte \<Rightarrow> ie" where
  "bearerQoSIE qci =
    \<lparr>ie_Type = ieBearerQoS, ie_Instance = 0, ie_Payload = [0x68, qci] @ replicate 20 0\<rparr>"

definition fteidIE :: "byte \<Rightarrow> byte \<Rightarrow> u32 \<Rightarrow> net_ip \<Rightarrow> ie" where
  "fteidIE inst iface teid ip =
    \<lparr>ie_Type = ieFTEID, ie_Instance = inst,
     ie_Payload = [0x80 OR (iface AND 0x3f)] @ be32 teid @ To4 ip\<rparr>"

definition paaIPv4RequestIE :: ie where
  "paaIPv4RequestIE = \<lparr>ie_Type = iePAA, ie_Instance = 0, ie_Payload = [pdnTypeIPv4, 0, 0, 0, 0]\<rparr>"

definition servingNetworkIE :: "string \<Rightarrow> string \<Rightarrow> ie option" where
  "servingNetworkIE mcc mnc =
    map_option (\<lambda>p. \<lparr>ie_Type = ieServingNetwork, ie_Instance = 0, ie_Payload = p\<rparr>) (encodePLMN mcc mnc)"

definition parseCause :: "ie list \<Rightarrow> byte" where
  "parseCause ies = (case findIE ies ieCause 0 of None \<Rightarrow> 0
     | Some e \<Rightarrow> if ie_Payload e = [] then 0 else ie_Payload e ! 0)"

definition parseRecovery :: "ie list \<Rightarrow> byte" where
  "parseRecovery ies = (case findIE ies ieRecovery 0 of None \<Rightarrow> 0
     | Some e \<Rightarrow> if ie_Payload e = [] then 0 else ie_Payload e ! 0)"

definition parsePAA :: "ie list \<Rightarrow> net_ip" where
  "parsePAA ies = (case findIE ies iePAA 0 of None \<Rightarrow> []
     | Some paa \<Rightarrow> let p = ie_Payload paa in
        if length p < 5 \<or> p ! 0 AND 0x07 \<noteq> pdnTypeIPv4 then []
        else IPv4 (p ! 1) (p ! 2) (p ! 3) (p ! 4))"

definition parseFTEID :: "ie \<Rightarrow> (byte \<times> u32 \<times> net_ip) option" where
  "parseFTEID e = (let p = ie_Payload e in
    if length p < 5 then None
    else
      let iface = p ! 0 AND 0x3f; teid = uint32 (subslice p 1 5) in
      if p ! 0 AND 0x80 = 0 \<or> length p < 9 then Some (iface, teid, [])
      else Some (iface, teid, IPv4 (p ! 5) (p ! 6) (p ! 7) (p ! 8)))"

section \<open>Sequence numbers\<close>

record sequenceAllocator =
  sa_seq :: u32
  sa_cap :: u32

text \<open>The random bytes are an argument; \<^term>\<open>None\<close> is a failing \<^verbatim>\<open>rand.Read\<close>.\<close>

definition randomSequenceMax :: "bytes option \<Rightarrow> u32 \<Rightarrow> u32" where
  "randomSequenceMax rnd mx = (case rnd of None \<Rightarrow> minSequence
     | Some b \<Rightarrow> let n = uint32 b AND mx in if n = 0 then minSequence else n)"

definition randomSequence :: "bytes option \<Rightarrow> u32" where
  "randomSequence rnd = randomSequenceMax rnd maxSequence"

definition newSequenceAllocatorWithMax :: "bytes option \<Rightarrow> u32 \<Rightarrow> sequenceAllocator" where
  "newSequenceAllocatorWithMax rnd mx =
    (let mx' = (if mx = 0 \<or> mx > maxSequence then maxSequence else mx)
     in \<lparr>sa_seq = randomSequenceMax rnd mx', sa_cap = mx'\<rparr>)"

definition newSequenceAllocator :: "bytes option \<Rightarrow> sequenceAllocator" where
  "newSequenceAllocator rnd = newSequenceAllocatorWithMax rnd maxSequence"

text \<open>One successful compare-and-swap of \<^verbatim>\<open>next\<close>: the returned number and the new state.\<close>

definition sequence_next :: "sequenceAllocator \<Rightarrow> u32 \<times> sequenceAllocator" where
  "sequence_next a =
    (let cap = (if sa_cap a = 0 then maxSequence else sa_cap a);
         n = sa_seq a + 1;
         n' = (if n = 0 \<or> n > cap then minSequence else n)
     in (n', a\<lparr>sa_seq := n'\<rparr>))"

text \<open>\<^verbatim>\<open>randUint32\<close> draws until it sees a non-zero word; the draws are the argument, and the
  result is \<^term>\<open>None\<close> while the draws given so far are all zero.\<close>

fun randUint32 :: "bytes option list \<Rightarrow> u32 option" where
  "randUint32 [] = None"
| "randUint32 (None # _) = Some 1"
| "randUint32 (Some b # rs) = (if uint32 b \<noteq> 0 then Some (uint32 b) else randUint32 rs)"

section \<open>Message round trips\<close>

lemma put24_be24: "put24 v = be24 v"
  by (simp add: put24_def be24_def)

lemma read24_uint24: "3 \<le> length src \<Longrightarrow> read24 src = uint24 src"
  by (cases src rule: uint24.cases) (auto simp: read24_def)

lemma read24_put24 [simp]: "v \<le> maxSequence \<Longrightarrow> read24 (put24 v) = v"
  by (simp add: read24_uint24 put24_be24)

lemma length_put24 [simp]: "length (put24 v) = 3"
  by (simp add: put24_def)

lemma read24_bound: "3 \<le> length src \<Longrightarrow> read24 src \<le> maxSequence"
  by (simp add: read24_uint24 uint24_bound)

lemma four_plus: "4 + n = Suc (Suc (Suc (Suc n)))"
  by simp

lemmas wire_layout = subslice_def take_Cons_numeral drop_Cons_numeral

lemma decode_encoded_message:
  assumes enc: "message_encode m = Inr b"
    and teid: "m_HasTEID m \<or> m_TEID m = 0"
  shows "decodeMessage b = Inr m"
proof -
  from enc have sq: "m_Sequence m \<le> maxSequence" "\<not> m_Sequence m < minSequence"
    by (auto simp: message_encode_def Let_def split: if_splits)
  show ?thesis
  proof (cases "m_HasTEID m")
    case True
    with enc sq have "b = [0x48, m_Type m] @ be16 (of_nat (8 + length (m_Payload m))) @ be32 (m_TEID m)
        @ put24 (m_Sequence m) @ [0] @ m_Payload m" "8 + length (m_Payload m) < 65536"
      by (auto simp: message_encode_def Let_def split: if_splits)
    with True sq show ?thesis
      by (simp add: decodeMessage_def wire_layout nth_append Let_def del: of_nat_add)
  next
    case False
    with enc sq have "b = [0x40, m_Type m] @ be16 (of_nat (4 + length (m_Payload m)))
        @ put24 (m_Sequence m) @ [0] @ m_Payload m" "4 + length (m_Payload m) < 65536"
      by (auto simp: message_encode_def Let_def split: if_splits)
    with False sq teid show ?thesis
      by (simp add: decodeMessage_def wire_layout nth_append Let_def del: of_nat_add)
  qed
qed

text \<open>C15.  Decoding an encoded GTPv2-C message gives the message back, for every message that
  \<^verbatim>\<open>encode\<close> accepts; a message without the TEID flag carries no TEID, so there the TEID
  field must be its zero value.\<close>

theorem decodeMessage_encode:
  assumes "message_encode m = Inr b" "m_HasTEID m \<or> m_TEID m = 0"
  shows "decodeMessage b = Inr m"
  using assms by (rule decode_encoded_message)

theorem decodeMessage_encode_witness:
  "\<exists>b. message_encode \<lparr>m_Type = 32, m_TEID = 7, m_HasTEID = True, m_Sequence = 0x7fffff, m_Payload = [1, 2]\<rparr> = Inr b
     \<and> decodeMessage b = Inr \<lparr>m_Type = 32, m_TEID = 7, m_HasTEID = True, m_Sequence = 0x7fffff, m_Payload = [1, 2]\<rparr>"
  using decodeMessage_encode[of "\<lparr>m_Type = 32, m_TEID = 7, m_HasTEID = True, m_Sequence = 0x7fffff, m_Payload = [1, 2]\<rparr>"]
  by (simp add: message_encode_def)

text \<open>What a successful decode establishes about the buffer and the message.\<close>

lemma decodeMessage_InrD:
  assumes "decodeMessage b = Inr m"
  shows "m_Sequence m \<noteq> 0" "m_Sequence m \<le> maxSequence"
    and "\<not> m_HasTEID m \<Longrightarrow> m_TEID m = 0"
    and "length b = length (m_Payload m) + (if m_HasTEID m then 12 else 8)"
    and "length b - 4 < 65536"
    and "m_Type m = b ! 1"
proof -
  have "unat (uint16 (subslice b 2 4)) < 2 ^ 16"
    using unsigned_less[of "uint16 (subslice b 2 4)", where ?'a = nat] by simp
  with assms show "m_Sequence m \<noteq> 0" "m_Sequence m \<le> maxSequence"
    "\<not> m_HasTEID m \<Longrightarrow> m_TEID m = 0"
    "length b = length (m_Payload m) + (if m_HasTEID m then 12 else 8)"
    "length b - 4 < 65536" "m_Type m = b ! 1"
    by (auto simp: decodeMessage_def Let_def not_less split: if_splits)
qed

text \<open>A message the decoder accepts can always be sent on: \<^verbatim>\<open>encode\<close> accepts it, the result has
  the length of the received packet and decodes to the same message.\<close>

theorem decodeMessage_reencodable:
  assumes "decodeMessage b = Inr m"
  shows "\<exists>b'. message_encode m = Inr b' \<and> length b' = length b \<and> decodeMessage b' = Inr m"
proof -
  note d = decodeMessage_InrD[OF assms]
  have "\<exists>b'. message_encode m = Inr b' \<and> length b' = length b"
    using d by (auto simp: message_encode_def Let_def not_less not_le split: if_splits)
  then show ?thesis using decode_encoded_message d(3) by blast
qed

theorem decodeMessage_reencodable_witness:
  "\<exists>m b'. decodeMessage [0x58, 36, 0, 10, 0, 0, 0, 9, 0, 0, 5, 77, 1, 2] = Inr m
     \<and> message_encode m = Inr b' \<and> length b' = 14 \<and> decodeMessage b' = Inr m"
proof -
  let ?b = "[0x58, 36, 0, 10, 0, 0, 0, 9, 0, 0, 5, 77, 1, 2] :: bytes"
  have "\<exists>m. decodeMessage ?b = Inr m" by (simp add: decodeMessage_def wire_layout read24_def)
  then obtain m where m: "decodeMessage ?b = Inr m" by blast
  with decodeMessage_reencodable[OF m] show ?thesis by auto
qed

section \<open>Information element streams\<close>

definition ie_ok :: "ie \<Rightarrow> bool" where
  "ie_ok e \<longleftrightarrow> length (ie_Payload e) < 65536 \<and> ie_Instance e AND 0x0f = ie_Instance e"

lemma decodeIE_encode: "ie_ok e \<Longrightarrow> decodeIE (ie_encode e @ rest) = Inr (e, rest)"
  by (simp add: ie_ok_def decodeIE_def ie_encode_def wire_layout Let_def)
     (simp add: be16_def four_plus)

interpretation ie_stream: framed_stream ie_encode decodeIE decodeIEs ie_ok
proof unfold_locales
  show "ie_encode a \<noteq> []" for a by (simp add: ie_encode_def)
  show "decodeIEs [] = Inr []" by (simp add: decodeIEs.simps)
  show "decodeIEs b = res_bind (decodeIE b) (\<lambda>(a, rest). res_bind (decodeIEs rest) (\<lambda>as. Inr (a # as)))"
    if "b \<noteq> []" for b
    using that by (subst decodeIEs.simps) simp
qed (rule decodeIE_encode)

lemma encodeIEs_concat: "encodeIEs ies = concat (map ie_encode ies)"
proof -
  have "foldl (\<lambda>out e. out @ ie_encode e) acc ies = acc @ concat (map ie_encode ies)" for acc
    by (induction ies arbitrary: acc) simp_all
  then show ?thesis by (simp add: encodeIEs_def)
qed

text \<open>Decoding the concatenation of encoded IEs gives the IE list back, for elements whose
  payload fits the 16-bit length field and whose instance fits its four bits.\<close>

theorem decodeIEs_encodeIEs:
  assumes "list_all ie_ok ies"
  shows "decodeIEs (encodeIEs ies) = Inr ies"
  using ie_stream.decs_encs[OF assms] by (simp add: encodeIEs_concat)

theorem decodeIEs_encodeIEs_witness:
  "decodeIEs (encodeIEs [uint8IE ieRATType ratTypeWLAN, ambrIE 100000 50000, bearerQoSIE 9])
     = Inr [uint8IE ieRATType ratTypeWLAN, ambrIE 100000 50000, bearerQoSIE 9]"
  by (rule decodeIEs_encodeIEs)
     (simp add: ie_ok_def uint8IE_def ambrIE_def bearerQoSIE_def)

lemma decodeIEsWithRaw_from_refines:
  "offset \<le> length payload \<Longrightarrow>
   res_map (map ie.truncate) (decodeIEsWithRaw_from payload offset) = decodeIEs (drop offset payload)"
proof (induction payload offset rule: decodeIEsWithRaw_from.induct)
  case (1 payload offset)
  show ?case
  proof (cases "offset < length payload")
    case False
    with "1.prems" show ?thesis by (simp add: decodeIEsWithRaw_from.simps decodeIEs.simps)
  next
    case True
    let ?r = "drop offset payload"
    let ?l = "unat (uint16 (subslice ?r 1 3))"
    have step: "decodeIEs ?r = res_bind (decodeIE ?r)
        (\<lambda>(e, rest). res_bind (decodeIEs rest) (\<lambda>out. Inr (e # out)))"
      using True by (subst decodeIEs.simps) simp
    show ?thesis
    proof (cases "length ?r < 4 \<or> offset + 4 + ?l > length payload")
      case True
      then show ?thesis using \<open>offset < length payload\<close>
        by (subst decodeIEsWithRaw_from.simps) (auto simp: step decodeIE_def Let_def)
    next
      case False
      then have IH: "res_map (map ie.truncate) (decodeIEsWithRaw_from payload (offset + 4 + ?l))
          = decodeIEs (drop (4 + ?l + offset) payload)"
        using "1.IH"[OF _ refl _ refl refl] True by (simp add: ac_simps)
      from False True show ?thesis
        by (subst decodeIEsWithRaw_from.simps)
           (cases "decodeIEsWithRaw_from payload (offset + 4 + ?l)",
            auto simp: step decodeIE_def Let_def ie.defs IH[symmetric, unfolded One_nat_def])
    qed
  qed
qed

lemma decodeIEsWithRaw_from_raw:
  "decodeIEsWithRaw_from payload offset = Inr ds \<Longrightarrow> offset \<le> length payload \<Longrightarrow>
   concat (map d_Raw ds) = drop offset payload \<and>
   list_all (\<lambda>d. d_Raw d = subslice payload (d_Offset d) (d_Offset d + 4 + d_Length d)
                \<and> d_Offset d + 4 + d_Length d \<le> length payload
                \<and> length (ie_Payload d) = d_Length d) ds"
proof (induction payload offset arbitrary: ds rule: decodeIEsWithRaw_from.induct)
  case (1 payload offset)
  show ?case
  proof (cases "offset < length payload")
    case False
    with "1.prems" show ?thesis by (auto simp: decodeIEsWithRaw_from.simps)
  next
    case True
    let ?r = "drop offset payload"
    let ?l = "unat (uint16 (subslice ?r 1 3))"
    from "1.prems" True obtain out where
      ok: "\<not> length ?r < 4" "\<not> offset + 4 + ?l > length payload"
      and out: "decodeIEsWithRaw_from payload (offset + 4 + ?l) = Inr out"
      and ds: "ds = \<lparr>ie_Type = ?r ! 0, ie_Instance = ?r ! 3 AND 0x0f, ie_Payload = subslice ?r 4 (4 + ?l),
                      d_Offset = offset, d_Length = ?l, d_Raw = subslice payload offset (offset + 4 + ?l)\<rparr> # out"
      by (subst (asm) decodeIEsWithRaw_from.simps) (auto simp: Let_def res_bind_eq_Inr split: if_splits)
    from "1.IH"[OF _ refl _ refl refl _ out] True ok
    have "concat (map d_Raw out) = drop (offset + 4 + ?l) payload \<and>
      list_all (\<lambda>d. d_Raw d = subslice payload (d_Offset d) (d_Offset d + 4 + d_Length d)
        \<and> d_Offset d + 4 + d_Length d \<le> length payload \<and> length (ie_Payload d) = d_Length d) out"
      by simp
    moreover have "subslice payload offset (offset + 4 + ?l) @ drop (offset + 4 + ?l) payload = ?r"
      by (rule subslice_append_drop) simp
    ultimately show ?thesis using ok by (auto simp: ds)
  qed
qed

text \<open>\<^verbatim>\<open>decodeIEsWithRaw\<close> refines \<^verbatim>\<open>decodeIEs\<close>: it accepts the same payloads with the same errors
  and yields the same elements.\<close>

theorem decodeIEsWithRaw_refines:
  "res_map (map ie.truncate) (decodeIEsWithRaw payload) = decodeIEs payload"
  using decodeIEsWithRaw_from_refines[of 0 payload] by (simp add: decodeIEsWithRaw_def)

text \<open>On success the raw slices tile the payload: they concatenate to it, each is the slice at
  the recorded offset and length, and the recorded length is that of the element's payload.\<close>

theorem decodeIEsWithRaw_tiles:
  assumes "decodeIEsWithRaw payload = Inr ds"
  shows "concat (map d_Raw ds) = payload \<and>
    list_all (\<lambda>d. d_Raw d = subslice payload (d_Offset d) (d_Offset d + 4 + d_Length d)
                \<and> d_Offset d + 4 + d_Length d \<le> length payload
                \<and> length (ie_Payload d) = d_Length d) ds"
  using decodeIEsWithRaw_from_raw[of payload 0 ds] assms by (simp add: decodeIEsWithRaw_def)

theorem decodeIEsWithRaw_tiles_witness:
  "\<exists>ds. decodeIEsWithRaw [73, 0, 1, 0, 5, 2, 0, 2, 0, 16, 0] = Inr ds
     \<and> concat (map d_Raw ds) = [73, 0, 1, 0, 5, 2, 0, 2, 0, 16, 0]"
proof -
  let ?p = "[73, 0, 1, 0, 5, 2, 0, 2, 0, 16, 0] :: bytes"
  have "\<exists>ds. decodeIEsWithRaw ?p = Inr ds"
    by (simp add: decodeIEsWithRaw_def decodeIEsWithRaw_from.simps wire_layout)
  then obtain ds where "decodeIEsWithRaw ?p = Inr ds" by blast
  with decodeIEsWithRaw_tiles[OF this] show ?thesis by blast
qed

section \<open>Element constructors and parsers\<close>

lemma parseFTEID_fteidIE_v4:
  assumes "To4 ip = [a, b, c, d]"
  shows "parseFTEID (fteidIE inst iface teid ip) = Some (iface AND 0x3f, teid, IPv4 a b c d)"
proof -
  have "(0x80 OR (iface AND 0x3f)) AND 0x3f = iface AND (0x3f :: byte)"
       "(0x80 OR (iface AND 0x3f)) AND 0x80 = (0x80 :: byte)"
    by (simp_all add: bit.conj_disj_distrib2 and.assoc)
  with assms show ?thesis
    by (simp add: parseFTEID_def fteidIE_def wire_layout be32_def uint32_be32(2)[unfolded be32_def uint32.simps])
qed

text \<open>Reference readers for the two text encodings: a label sequence (TS 23.003) and telephony
  BCD, where a high nibble 15 is filler.\<close>

fun apn_labels :: "nat \<Rightarrow> bytes \<Rightarrow> string list" where
  "apn_labels 0 b = []"
| "apn_labels (Suc k) [] = []"
| "apn_labels (Suc k) (n # b) = bytes_str (take (unat n) b) # apn_labels k (drop (unat n) b)"

fun tbcd_digits :: "bytes \<Rightarrow> nat list" where
  "tbcd_digits [] = []"
| "tbcd_digits (w # b) =
     (if drop_bit 4 w = 15 then [unat (w AND 15)] else [unat (w AND 15), unat (drop_bit 4 w)]) @ tbcd_digits b"

lemma apn_labels_concat:
  "\<forall>l \<in> set ls. length l < 256 \<Longrightarrow> length (filter (\<lambda>l. l \<noteq> []) ls) \<le> k \<Longrightarrow>
   apn_labels k (concat (map (\<lambda>label. if label = [] then [] else of_nat (length label) # str_bytes label) ls))
     = filter (\<lambda>l. l \<noteq> []) ls"
proof (induction ls arbitrary: k)
  case Nil
  then show ?case by (cases k) simp_all
next
  case (Cons l ls)
  then show ?case by (cases k) auto
qed

text \<open>The APN information element carries exactly the non-empty labels of the configured name,
  in order, when no label is longer than the one-byte length field can say.\<close>

theorem apnIE_labels:
  assumes "\<forall>l \<in> set (split_on (CHR ''.'') apn). length l < 256"
  shows "apn_labels (length (ie_Payload (apnIE apn))) (ie_Payload (apnIE apn))
           = filter (\<lambda>l. l \<noteq> []) (split_on (CHR ''.'') apn)"
proof -
  have "length (filter (\<lambda>l. l \<noteq> []) ls)
      \<le> length (concat (map (\<lambda>label. if label = [] then [] else of_nat (length label) # str_bytes label) ls))" for ls
    by (induction ls) auto
  then show ?thesis using apn_labels_concat[OF assms] by (simp add: apnIE_def)
qed

theorem apnIE_labels_witness:
  "apn_labels (length (ie_Payload (apnIE ''ims.mnc1''))) (ie_Payload (apnIE ''ims.mnc1'')) = [''ims'', ''mnc1'']"
  using apnIE_labels[of "''ims.mnc1''"] by (simp add: apnIE_def)

lemma nibble_pair:
  assumes "a < 16" "b < 16"
  shows "unat ((of_nat a OR push_bit 4 (of_nat b)) AND (15 :: byte)) = a"
    and "unat (drop_bit 4 (of_nat a OR push_bit 4 (of_nat b) :: byte)) = b"
proof -
  have "\<forall>a \<in> {0..<16::nat}. \<forall>b \<in> {0..<16::nat}.
      unat ((of_nat a OR push_bit 4 (of_nat b)) AND (15 :: byte)) = a \<and>
      unat (drop_bit 4 (of_nat a OR push_bit 4 (of_nat b) :: byte)) = b"
    by code_simp
  with assms show "unat ((of_nat a OR push_bit 4 (of_nat b)) AND (15 :: byte)) = a"
    "unat (drop_bit 4 (of_nat a OR push_bit 4 (of_nat b) :: byte)) = b" by auto
qed

lemma tbcd_digits_pairs:
  "\<forall>d \<in> set ds. d < 10 \<Longrightarrow> tbcd_digits (tbcd_pairs (map of_nat ds)) = ds"
proof (induction ds rule: induct_list012)
  case (2 d)
  then show ?case using nibble_pair[of d 15] by (simp add: word_unat_eq_iff)
next
  case (3 d e ds)
  then have "drop_bit 4 (of_nat d OR push_bit 4 (of_nat e) :: byte) \<noteq> 15"
    using nibble_pair(2)[of d e] by (auto simp: word_unat_eq_iff)
  with 3 show ?case using nibble_pair[of d e] by simp
qed simp

text \<open>The IMSI sent to the PGW in TBCD reads back as the decimal digits of the configured
  string, in order, whatever other characters it contains.\<close>

theorem encodeTBCD_digits: "tbcd_digits (encodeTBCD s) = map char_digit (filter is_digit s)"
proof -
  have "\<forall>d \<in> set (map char_digit (filter is_digit s)). d < 10"
    by (auto simp: is_digit_def char_digit_def)
  from tbcd_digits_pairs[OF this] show ?thesis by (simp add: encodeTBCD_def comp_def)
qed

section \<open>The sequence allocator\<close>

definition seq_inv :: "sequenceAllocator \<Rightarrow> bool" where
  "seq_inv a \<longleftrightarrow> 1 \<le> unat (sa_seq a) \<and> unat (sa_seq a) \<le> unat (sa_cap a) \<and> unat (sa_cap a) \<le> 0xffffff"

primrec seq_draws :: "nat \<Rightarrow> sequenceAllocator \<Rightarrow> u32 list" where
  "seq_draws 0 a = []"
| "seq_draws (Suc n) a = fst (sequence_next a) # seq_draws n (snd (sequence_next a))"

lemma unat_and_le: "unat (x AND y) \<le> unat (y :: 'a::len word)"
  using word_and_le1[of x y] word_and_le2[of x y] by (simp add: word_le_nat_alt)

lemma randomSequenceMax_bounds:
  assumes "mx \<noteq> 0"
  shows "1 \<le> unat (randomSequenceMax rnd mx) \<and> unat (randomSequenceMax rnd mx) \<le> unat mx"
proof -
  have "1 \<le> unat mx" using assms by (simp add: Suc_leI unat_gt_0)
  moreover have "1 \<le> unat n" if "n \<noteq> 0" for n :: u32
    using that by (simp add: Suc_leI unat_gt_0)
  ultimately show ?thesis
    by (auto simp: randomSequenceMax_def Let_def unat_and_le split: option.splits)
qed

lemma newSequenceAllocatorWithMax_inv: "seq_inv (newSequenceAllocatorWithMax rnd mx)"
proof -
  have "unat mx \<le> 0xffffff" if "\<not> mx > maxSequence" using that by (simp add: word_less_nat_alt)
  then show ?thesis
    using randomSequenceMax_bounds[of mx rnd] randomSequenceMax_bounds[of maxSequence rnd]
    by (auto simp: newSequenceAllocatorWithMax_def seq_inv_def Let_def)
qed

lemma sequence_next_value:
  assumes "seq_inv a"
  shows "unat (fst (sequence_next a)) = unat (sa_seq a) mod unat (sa_cap a) + 1"
    and "snd (sequence_next a) = a\<lparr>sa_seq := fst (sequence_next a)\<rparr>"
    and "seq_inv (snd (sequence_next a))"
proof -
  have n: "unat (sa_seq a + 1) = unat (sa_seq a) + 1"
    using assms by (simp add: seq_inv_def unat_word_ariths(1))
  have c: "sa_cap a \<noteq> 0" using assms by (auto simp: seq_inv_def)
  have ge: "sa_seq a + 1 > sa_cap a \<longleftrightarrow> unat (sa_seq a) \<ge> unat (sa_cap a)"
    by (auto simp: word_less_nat_alt n)
  show v: "unat (fst (sequence_next a)) = unat (sa_seq a) mod unat (sa_cap a) + 1"
  proof (cases "unat (sa_seq a) = unat (sa_cap a)")
    case True
    then show ?thesis using c ge n by (auto simp: sequence_next_def Let_def)
  next
    case False
    then have "unat (sa_seq a) < unat (sa_cap a)" using assms by (simp add: seq_inv_def)
    moreover have "sa_seq a + 1 \<noteq> 0" using n by (metis add_is_0 unat_0 zero_neq_one)
    ultimately show ?thesis using c ge n by (auto simp: sequence_next_def Let_def)
  qed
  show s: "snd (sequence_next a) = a\<lparr>sa_seq := fst (sequence_next a)\<rparr>"
    by (simp add: sequence_next_def Let_def)
  show "seq_inv (snd (sequence_next a))"
    using v assms mod_less_divisor[of "unat (sa_cap a)" "unat (sa_seq a)"]
    by (auto simp: s seq_inv_def simp del: mod_less_divisor)
qed

lemma seq_draws_values:
  "seq_inv a \<Longrightarrow>
   map unat (seq_draws n a) = map (\<lambda>k. (unat (sa_seq a) + k) mod unat (sa_cap a) + 1) [0..<n]"
proof (induction n arbitrary: a)
  case (Suc n)
  note nx = sequence_next_value[OF Suc.prems]
  have "map unat (seq_draws n (snd (sequence_next a)))
      = map (\<lambda>k. (unat (sa_seq a) mod unat (sa_cap a) + 1 + k) mod unat (sa_cap a) + 1) [0..<n]"
    using Suc.IH[OF nx(3)] by (simp add: nx)
  also have "\<dots> = map (\<lambda>k. (unat (sa_seq a) + k) mod unat (sa_cap a) + 1) [Suc 0..<Suc n]"
    by (simp add: map_Suc_upt[symmetric] comp_def mod_simps del: upt_Suc)
       (metis (no_types, opaque_lifting) add.assoc mod_add_left_eq mod_Suc_eq plus_1_eq_Suc add.commute)
  finally show ?case by (simp add: nx(1) upt_conv_Cons del: upt_Suc)
qed simp

lemma mod_window_inj: "inj_on (\<lambda>k. (s + k) mod c + 1) {0..<n}" if "n \<le> c" for s c n :: nat
proof (rule linorder_inj_onI)
  fix i j assume ij: "i < j" "i \<in> {0..<n}" "j \<in> {0..<n}"
  show "(s + i) mod c + 1 \<noteq> (s + j) mod c + 1"
  proof
    assume "(s + i) mod c + 1 = (s + j) mod c + 1"
    then have "c dvd (s + j) - (s + i)" by (metis add_right_cancel mod_eq_dvd_iff_nat add_le_cancel_left less_imp_le ij(1))
    with ij that show False using dvd_imp_le[of c "j - i"] by auto
  qed
qed auto

text \<open>C17.  Whatever the random start, a fresh allocator hands out numbers in 1..cap only (never the
  reserved zero, never above the configured maximum) and repeats none of them within
  cap consecutive draws.\<close>

theorem sequence_numbers_unique:
  assumes a: "a = newSequenceAllocatorWithMax rnd mx"
    and n: "n \<le> unat (sa_cap a)"
  shows "distinct (seq_draws n a) \<and> (\<forall>v \<in> set (seq_draws n a). 1 \<le> unat v \<and> unat v \<le> unat (sa_cap a))"
proof -
  have inv: "seq_inv a" unfolding a by (rule newSequenceAllocatorWithMax_inv)
  have "distinct (map unat (seq_draws n a))"
    unfolding seq_draws_values[OF inv] using mod_window_inj[OF n] by (simp add: distinct_map)
  moreover have "unat v \<in> set (map unat (seq_draws n a))" if "v \<in> set (seq_draws n a)" for v
    using that by simp
  then have "1 \<le> unat v \<and> unat v \<le> unat (sa_cap a)" if "v \<in> set (seq_draws n a)" for v
    using that inv unfolding seq_draws_values[OF inv] by (fastforce simp: seq_inv_def Suc_le_eq)
  ultimately show ?thesis by (auto simp: distinct_map)
qed

theorem sequence_numbers_unique_witness:
  "distinct (seq_draws 3 (newSequenceAllocatorWithMax (Some [0, 0x7f, 0xff, 0xff]) 0x7fffff))"
  using sequence_numbers_unique[OF refl, of 3 "Some [0, 0x7f, 0xff, 0xff]" "0x7fffff"]
  by (simp add: newSequenceAllocatorWithMax_def)

end
