(* ===== verification/PcoCodec.thy ===== *)
theory PcoCodec
  imports NetIP
begin

text \<open>
  Protocol configuration options (\<^verbatim>\<open>internal/pco/pco.go\<close>): the container list that carries
  DNS and P-CSCF addresses between the PGW and the ePDG.  \<^verbatim>\<open>Decode\<close> keeps the source's
  two modes (strict: any truncated or unknown container is an error; lenient: it is
  recorded in \<^verbatim>\<open>Unsupported\<close> and a truncation ends the loop).  The theory proves that
  lenient decoding is total, that decoding inverts \<^verbatim>\<open>Encode\<close>, and what the address
  lists contain.
\<close>

section \<open>Definitions\<close>

abbreviation (input) ContainerPCSCFIPv6 :: u16 where "ContainerPCSCFIPv6 \<equiv> 0x0001"
abbreviation (input) ContainerDNSIPv6 :: u16 where "ContainerDNSIPv6 \<equiv> 0x0003"
abbreviation (input) ContainerPCSCFIPv4 :: u16 where "ContainerPCSCFIPv4 \<equiv> 0x000c"
abbreviation (input) ContainerDNSIPv4 :: u16 where "ContainerDNSIPv4 \<equiv> 0x000d"

record Container =
  c_ProtocolID :: u16
  c_Contents :: bytes

record PCO =
  p_Extension :: bool
  p_Containers :: "Container list"

record Decoded =
  dec_PCO :: PCO
  dec_DNSv4 :: "net_ip list"
  dec_DNSv6 :: "net_ip list"
  dec_PCSCFv4 :: "net_ip list"
  dec_PCSCFv6 :: "net_ip list"
  dec_Unsupported :: "Container list"

datatype pco_error =
    PCOHeaderTruncated
  | PCOLengthExceeds u16 nat nat
  | PCOUnsupportedContainers nat
  | PCOContainerTooLarge u16 nat

fun appendIPv4 :: "net_ip list \<Rightarrow> bytes \<Rightarrow> net_ip list" where
  "appendIPv4 dst (a # b # c # d # rest) = appendIPv4 (dst @ [IPv4 a b c d]) rest"
| "appendIPv4 dst _ = dst"

function appendIPv6 :: "net_ip list \<Rightarrow> bytes \<Rightarrow> net_ip list" where
  "appendIPv6 dst b =
     (if length b \<ge> 16 then appendIPv6 (dst @ [take 16 b]) (drop 16 b) else dst)"
  by pat_completeness auto
termination by (relation "measure (\<lambda>(dst, b). length b)") auto

declare appendIPv6.simps [simp del]

definition decodeKnown :: "Decoded \<Rightarrow> Container \<Rightarrow> Decoded" where
  "decodeKnown d c =
    (let n = length (c_Contents c);
         unsup = (\<lambda>bad x. if bad then x\<lparr>dec_Unsupported := dec_Unsupported x @ [c]\<rparr> else x) in
     if c_ProtocolID c = ContainerDNSIPv4 then
       (unsup (n mod 4 \<noteq> 0) d)\<lparr>dec_DNSv4 := appendIPv4 (dec_DNSv4 d) (c_Contents c)\<rparr>
     else if c_ProtocolID c = ContainerPCSCFIPv4 then
       (unsup (n mod 4 \<noteq> 0) d)\<lparr>dec_PCSCFv4 := appendIPv4 (dec_PCSCFv4 d) (c_Contents c)\<rparr>
     else if c_ProtocolID c = ContainerDNSIPv6 then
       (unsup (n mod 16 \<noteq> 0) d)\<lparr>dec_DNSv6 := appendIPv6 (dec_DNSv6 d) (c_Contents c)\<rparr>
     else if c_ProtocolID c = ContainerPCSCFIPv6 then
       (unsup (n mod 16 \<noteq> 0) d)\<lparr>dec_PCSCFv6 := appendIPv6 (dec_PCSCFv6 d) (c_Contents c)\<rparr>
     else d\<lparr>dec_Unsupported := dec_Unsupported d @ [c]\<rparr>)"

definition add_container :: "Decoded \<Rightarrow> Container \<Rightarrow> Decoded" where
  "add_container d c =
     d\<lparr>dec_PCO := (dec_PCO d)\<lparr>p_Containers := p_Containers (dec_PCO d) @ [c]\<rparr>\<rparr>"

function Decode_loop :: "bool \<Rightarrow> bytes \<Rightarrow> Decoded \<Rightarrow> pco_error + Decoded" where
  "Decode_loop strict rest out =
    (if rest = [] then Inr out
     else if length rest < 3 then
       (if strict then Inl PCOHeaderTruncated
        else Inr (out\<lparr>dec_Unsupported := dec_Unsupported out @ [\<lparr>c_ProtocolID = 0, c_Contents = rest\<rparr>]\<rparr>))
     else
       let i = uint16 (take 2 rest); l = unat (rest ! 2) in
       if length rest < 3 + l then
         (if strict then Inl (PCOLengthExceeds i l (length rest - 3))
          else Inr (out\<lparr>dec_Unsupported := dec_Unsupported out @ [\<lparr>c_ProtocolID = i, c_Contents = drop 3 rest\<rparr>]\<rparr>))
       else
         let c = \<lparr>c_ProtocolID = i, c_Contents = subslice rest 3 (3 + l)\<rparr> in
         Decode_loop strict (drop (3 + l) rest) (decodeKnown (add_container out c) c))"
  by pat_completeness auto
termination by (relation "measure (\<lambda>(strict, rest, out). length rest)") auto

declare Decode_loop.simps [simp del]

definition empty_Decoded :: "bool \<Rightarrow> Decoded" where
  "empty_Decoded ext = \<lparr>dec_PCO = \<lparr>p_Extension = ext, p_Containers = []\<rparr>, dec_DNSv4 = [], dec_DNSv6 = [],
                        dec_PCSCFv4 = [], dec_PCSCFv6 = [], dec_Unsupported = []\<rparr>"

text \<open>\<^term>\<open>Inr None\<close> is the \<^verbatim>\<open>nil, nil\<close> result for an empty payload.\<close>

definition Decode :: "bytes \<Rightarrow> bool \<Rightarrow> pco_error + Decoded option" where
  "Decode payload strict =
    (if payload = [] then Inr None
     else res_bind (Decode_loop strict (drop 1 payload) (empty_Decoded (payload ! 0 AND 0x80 \<noteq> 0))) (\<lambda>out.
       if strict \<and> dec_Unsupported out \<noteq> []
       then Inl (PCOUnsupportedContainers (length (dec_Unsupported out)))
       else Inr (Some out)))"

definition encodeContainer :: "Container \<Rightarrow> bytes" where
  "encodeContainer c = be16 (c_ProtocolID c) @ [of_nat (length (c_Contents c))] @ c_Contents c"

fun Encode_containers :: "bytes \<Rightarrow> Container list \<Rightarrow> pco_error + bytes" where
  "Encode_containers out [] = Inr out"
| "Encode_containers out (c # cs) =
    (if length (c_Contents c) > 255 then Inl (PCOContainerTooLarge (c_ProtocolID c) (length (c_Contents c)))
     else Encode_containers (out @ encodeContainer c) cs)"

definition Encode :: "PCO \<Rightarrow> pco_error + bytes" where
  "Encode p = Encode_containers [if p_Extension p then 0x80 else 0] (p_Containers p)"

definition Request :: "bool \<Rightarrow> bool \<Rightarrow> bool \<Rightarrow> bool \<Rightarrow> PCO" where
  "Request dnsV4 dnsV6 pcscfV4 pcscfV6 =
    \<lparr>p_Extension = True,
     p_Containers =
       (if pcscfV6 then [\<lparr>c_ProtocolID = ContainerPCSCFIPv6, c_Contents = []\<rparr>] else [])
     @ (if pcscfV4 then [\<lparr>c_ProtocolID = ContainerPCSCFIPv4, c_Contents = []\<rparr>] else [])
     @ (if dnsV6 then [\<lparr>c_ProtocolID = ContainerDNSIPv6, c_Contents = []\<rparr>] else [])
     @ (if dnsV4 then [\<lparr>c_ProtocolID = ContainerDNSIPv4, c_Contents = []\<rparr>] else [])\<rparr>"

definition hex4 :: "u16 \<Rightarrow> string" where
  "hex4 v = (let n = unat v in
     [hex_char (n div 4096), hex_char (n div 256 mod 16), hex_char (n div 16 mod 16), hex_char (n mod 16)])"

definition ProtocolIDs :: "Container list \<Rightarrow> string list" where
  "ProtocolIDs cs = map (\<lambda>c. ''0x'' @ hex4 (c_ProtocolID c)) cs"

definition IPStrings :: "net_ip list \<Rightarrow> string list" where
  "IPStrings ips = map IP_String ips"

definition JoinIPs :: "net_ip list \<Rightarrow> string" where
  "JoinIPs ips = join_with '','' (IPStrings ips)"

section \<open>The container stream\<close>

text \<open>Reference reader: the containers of a buffer, without classifying them.\<close>

definition readContainer :: "bytes \<Rightarrow> pco_error + (Container \<times> bytes)" where
  "readContainer rest =
    (if length rest < 3 then Inl PCOHeaderTruncated
     else let i = uint16 (take 2 rest); l = unat (rest ! 2) in
       if length rest < 3 + l then Inl (PCOLengthExceeds i l (length rest - 3))
       else Inr (\<lparr>c_ProtocolID = i, c_Contents = subslice rest 3 (3 + l)\<rparr>, drop (3 + l) rest))"

lemma readContainer_shrinks: "readContainer b = Inr (c, rest) \<Longrightarrow> length rest < length b"
  by (auto simp: readContainer_def Let_def split: if_splits)

function readContainers :: "bytes \<Rightarrow> pco_error + Container list" where
  "readContainers rest =
    (if rest = [] then Inr []
     else res_bind (readContainer rest) (\<lambda>(c, r). res_bind (readContainers r) (\<lambda>cs. Inr (c # cs))))"
  by pat_completeness auto
termination by (relation "measure length") (auto dest: readContainer_shrinks)

declare readContainers.simps [simp del]

definition container_ok :: "Container \<Rightarrow> bool" where
  "container_ok c \<longleftrightarrow> length (c_Contents c) \<le> 255"

lemma three_plus: "3 + n = Suc (Suc (Suc n))"
  by simp

interpretation pco_stream: framed_stream encodeContainer readContainer readContainers container_ok
proof unfold_locales
  show "readContainer (encodeContainer a @ rest) = Inr (a, rest)" if "container_ok a" for a rest
    using that uint16_be16(2)[of "c_ProtocolID a"]
    by (simp add: container_ok_def readContainer_def encodeContainer_def subslice_def Let_def be16_def three_plus
        del: uint16_be16)
  show "encodeContainer a \<noteq> []" for a by (simp add: encodeContainer_def)
  show "readContainers [] = Inr []" by (simp add: readContainers.simps)
  show "readContainers b = res_bind (readContainer b) (\<lambda>(a, rest). res_bind (readContainers rest) (\<lambda>as. Inr (a # as)))"
    if "b \<noteq> []" for b
    using that by (subst readContainers.simps) simp
qed

definition absorb :: "Decoded \<Rightarrow> Container \<Rightarrow> Decoded" where
  "absorb d c = decodeKnown (add_container d c) c"

lemma Decode_loop_Cons:
  assumes "rest \<noteq> []" "readContainer rest = Inr (c, r)"
  shows "Decode_loop strict rest out = Decode_loop strict r (absorb out c)"
  using assms by (subst Decode_loop.simps) (auto simp: readContainer_def absorb_def Let_def split: if_splits)

lemma Decode_loop_strict_error:
  assumes "rest \<noteq> []" "readContainer rest = Inl e"
  shows "Decode_loop True rest out = Inl e"
  using assms by (subst Decode_loop.simps) (auto simp: readContainer_def Let_def split: if_splits)

lemma Decode_loop_lenient_stop:
  assumes "rest \<noteq> []" "readContainer rest = Inl e"
  shows "\<exists>c. Decode_loop False rest out = Inr (out\<lparr>dec_Unsupported := dec_Unsupported out @ [c]\<rparr>)"
  using assms by (subst Decode_loop.simps) (auto simp: readContainer_def Let_def split: if_splits)

lemma Decode_loop_strict_reads:
  "Decode_loop True rest out = res_map (foldl absorb out) (readContainers rest)"
proof (induction rest arbitrary: out rule: readContainers.induct)
  case (1 rest)
  show ?case
  proof (cases "rest = [] \<or> (\<exists>e. readContainer rest = Inl e)")
    case True
    then show ?thesis
      by (auto simp: Decode_loop.simps[of True "[]"] readContainers.simps Decode_loop_strict_error)
  next
    case False
    then obtain c r where c: "readContainer rest = Inr (c, r)" "rest \<noteq> []"
      by (cases "readContainer rest") auto
    then show ?thesis using "1.IH"[of "(c, r)" c r "absorb out c"]
      by (cases "readContainers r") (auto simp: Decode_loop_Cons readContainers.simps[of rest])
  qed
qed

lemma Decode_loop_lenient_reads:
  "readContainers rest = Inr cs \<Longrightarrow> Decode_loop False rest out = Inr (foldl absorb out cs)"
proof (induction rest arbitrary: out cs rule: readContainers.induct)
  case (1 rest)
  show ?case
  proof (cases "rest = []")
    case True
    with "1.prems" show ?thesis by (simp add: Decode_loop.simps readContainers.simps)
  next
    case False
    with "1.prems" obtain c r cs' where "readContainer rest = Inr (c, r)" "readContainers r = Inr cs'" "cs = c # cs'"
      by (subst (asm) readContainers.simps) (auto simp: res_bind_eq_Inr)
    with "1.IH" False show ?thesis by (auto simp: Decode_loop_Cons)
  qed
qed

lemma Decode_loop_lenient_total: "\<exists>d. Decode_loop False rest out = Inr d"
proof (induction rest arbitrary: out rule: readContainers.induct)
  case (1 rest)
  show ?case
  proof (cases "rest = []")
    case True
    then show ?thesis by (simp add: Decode_loop.simps)
  next
    case False
    with 1 Decode_loop_lenient_stop[of rest] Decode_loop_Cons[of rest]
    show ?thesis by (cases "readContainer rest") fastforce+
  qed
qed

section \<open>What decoding yields\<close>

fun v4_chunks :: "bytes \<Rightarrow> net_ip list" where
  "v4_chunks (a # b # c # d # rest) = IPv4 a b c d # v4_chunks rest"
| "v4_chunks _ = []"

function v6_chunks :: "bytes \<Rightarrow> net_ip list" where
  "v6_chunks b = (if length b \<ge> 16 then take 16 b # v6_chunks (drop 16 b) else [])"
  by pat_completeness auto
termination by (relation "measure length") auto

declare v6_chunks.simps [simp del]

lemma appendIPv4_chunks: "appendIPv4 dst b = dst @ v4_chunks b"
  by (induction dst b rule: appendIPv4.induct) simp_all

lemma appendIPv6_chunks: "appendIPv6 dst b = dst @ v6_chunks b"
proof (induction dst b rule: appendIPv6.induct)
  case (1 dst b)
  then show ?case by (subst appendIPv6.simps, subst v6_chunks.simps) simp
qed

definition addrs_of :: "u16 \<Rightarrow> (bytes \<Rightarrow> net_ip list) \<Rightarrow> Container list \<Rightarrow> net_ip list" where
  "addrs_of i chunks cs = concat (map (\<lambda>c. if c_ProtocolID c = i then chunks (c_Contents c) else []) cs)"

definition unsupported :: "Container \<Rightarrow> bool" where
  "unsupported c \<longleftrightarrow>
    (if c_ProtocolID c \<in> {ContainerDNSIPv4, ContainerPCSCFIPv4} then length (c_Contents c) mod 4 \<noteq> 0
     else if c_ProtocolID c \<in> {ContainerDNSIPv6, ContainerPCSCFIPv6} then length (c_Contents c) mod 16 \<noteq> 0
     else True)"

lemma absorb_fields:
  "dec_PCO (absorb d c) = (dec_PCO d)\<lparr>p_Containers := p_Containers (dec_PCO d) @ [c]\<rparr>"
  "dec_DNSv4 (absorb d c) = dec_DNSv4 d @ addrs_of ContainerDNSIPv4 v4_chunks [c]"
  "dec_PCSCFv4 (absorb d c) = dec_PCSCFv4 d @ addrs_of ContainerPCSCFIPv4 v4_chunks [c]"
  "dec_DNSv6 (absorb d c) = dec_DNSv6 d @ addrs_of ContainerDNSIPv6 v6_chunks [c]"
  "dec_PCSCFv6 (absorb d c) = dec_PCSCFv6 d @ addrs_of ContainerPCSCFIPv6 v6_chunks [c]"
  "dec_Unsupported (absorb d c) = dec_Unsupported d @ filter unsupported [c]"
  by (auto simp: absorb_def decodeKnown_def add_container_def addrs_of_def unsupported_def Let_def
      appendIPv4_chunks appendIPv6_chunks)

lemma addrs_of_Cons: "addrs_of i ch (c # cs) = addrs_of i ch [c] @ addrs_of i ch cs"
  by (simp add: addrs_of_def)

lemma foldl_absorb:
  "foldl absorb d cs =
    \<lparr>dec_PCO = (dec_PCO d)\<lparr>p_Containers := p_Containers (dec_PCO d) @ cs\<rparr>,
     dec_DNSv4 = dec_DNSv4 d @ addrs_of ContainerDNSIPv4 v4_chunks cs,
     dec_DNSv6 = dec_DNSv6 d @ addrs_of ContainerDNSIPv6 v6_chunks cs,
     dec_PCSCFv4 = dec_PCSCFv4 d @ addrs_of ContainerPCSCFIPv4 v4_chunks cs,
     dec_PCSCFv6 = dec_PCSCFv6 d @ addrs_of ContainerPCSCFIPv6 v6_chunks cs,
     dec_Unsupported = dec_Unsupported d @ filter unsupported cs\<rparr>"
proof (induction cs arbitrary: d)
  case Nil
  then show ?case by (simp add: addrs_of_def)
next
  case (Cons c cs)
  then show ?case
    by (subst (1 2 3 4) addrs_of_Cons) (simp add: absorb_fields)
qed

lemma Encode_containers_concat:
  "Encode_containers out cs = Inr b \<Longrightarrow> b = out @ concat (map encodeContainer cs) \<and> list_all container_ok cs"
  by (induction out cs rule: Encode_containers.induct) (auto simp: container_ok_def split: if_splits)

definition decoded_of :: "PCO \<Rightarrow> Decoded" where
  "decoded_of p =
    \<lparr>dec_PCO = p,
     dec_DNSv4 = addrs_of ContainerDNSIPv4 v4_chunks (p_Containers p),
     dec_DNSv6 = addrs_of ContainerDNSIPv6 v6_chunks (p_Containers p),
     dec_PCSCFv4 = addrs_of ContainerPCSCFIPv4 v4_chunks (p_Containers p),
     dec_PCSCFv6 = addrs_of ContainerPCSCFIPv6 v6_chunks (p_Containers p),
     dec_Unsupported = filter unsupported (p_Containers p)\<rparr>"

text \<open>C19.  Decoding an encoded PCO returns it, with each address list holding exactly the addresses
  of the containers of its kind, in order; strict mode accepts it exactly when every
  container is of a known kind and holds a whole number of addresses.\<close>

theorem Decode_Encode:
  assumes "Encode p = Inr b"
  shows "Decode b False = Inr (Some (decoded_of p)) \<and>
    Decode b True = (if list_ex unsupported (p_Containers p)
                     then Inl (PCOUnsupportedContainers (length (filter unsupported (p_Containers p))))
                     else Inr (Some (decoded_of p)))"
proof -
  from assms have b: "b = (if p_Extension p then 0x80 else 0) # concat (map encodeContainer (p_Containers p))"
    and ok: "list_all container_ok (p_Containers p)"
    using Encode_containers_concat[OF assms[unfolded Encode_def]] by simp_all
  have ext: "((if p_Extension p then 0x80 else 0) AND (0x80 :: byte) \<noteq> 0) = p_Extension p" by simp
  have fold: "foldl absorb (empty_Decoded (p_Extension p)) (p_Containers p) = decoded_of p"
    by (simp add: foldl_absorb empty_Decoded_def decoded_of_def)
  note rd = pco_stream.decs_encs[OF ok]
  have "filter unsupported (p_Containers p) \<noteq> [] \<longleftrightarrow> list_ex unsupported (p_Containers p)"
    by (induction "p_Containers p") (auto simp: list_ex_iff filter_empty_conv)
  then show ?thesis
    using Decode_loop_lenient_reads[OF rd] Decode_loop_strict_reads[of "concat (map encodeContainer (p_Containers p))"]
    by (simp add: b Decode_def ext rd fold) (auto simp: decoded_of_def)
qed

theorem Decode_Encode_witness:
  "\<exists>b. Encode (Request True False True False) = Inr b \<and>
       Decode b True = Inr (Some (decoded_of (Request True False True False)))"
proof -
  have "\<exists>b. Encode (Request True False True False) = Inr b" by (simp add: Encode_def Request_def)
  then obtain b where "Encode (Request True False True False) = Inr b" by blast
  with Decode_Encode[OF this] show ?thesis by (simp add: Request_def unsupported_def)
qed

text \<open>Lenient decoding never fails: every non-empty payload, however malformed, yields a result.\<close>

theorem Decode_lenient_total:
  assumes "payload \<noteq> []"
  shows "\<exists>d. Decode payload False = Inr (Some d)"
  using assms Decode_loop_lenient_total[of "drop 1 payload" "empty_Decoded (payload ! 0 AND 0x80 \<noteq> 0)"]
  by (auto simp: Decode_def)

theorem Decode_lenient_total_witness: "\<exists>d. Decode [0x80, 0, 13, 9, 1] False = Inr (Some d)"
  by (rule Decode_lenient_total) simp

text \<open>A payload accepted in strict mode is decoded to the same result in lenient mode, and
  contains nothing unsupported.\<close>

theorem Decode_strict_lenient:
  assumes "Decode payload True = Inr (Some d)"
  shows "Decode payload False = Inr (Some d) \<and> dec_Unsupported d = []"
proof -
  from assms obtain cs where "payload \<noteq> []" "readContainers (drop 1 payload) = Inr cs"
    "d = foldl absorb (empty_Decoded (payload ! 0 AND 0x80 \<noteq> 0)) cs" "dec_Unsupported d = []"
    by (cases "readContainers (drop 1 payload)")
       (auto simp: Decode_def Decode_loop_strict_reads split: if_splits)
  then show ?thesis by (simp add: Decode_def Decode_loop_lenient_reads)
qed

theorem Decode_strict_lenient_witness:
  "\<exists>d. Decode [0x80, 0, 13, 4, 8, 8, 8, 8] True = Inr (Some d)
     \<and> Decode [0x80, 0, 13, 4, 8, 8, 8, 8] False = Inr (Some d)"
proof -
  let ?p = "[0x80, 0, 13, 4, 8, 8, 8, 8] :: bytes"
  have "\<exists>d. Decode ?p True = Inr (Some d)"
    by (simp add: Decode_def Decode_loop.simps empty_Decoded_def decodeKnown_def add_container_def subslice_def)
  then obtain d where "Decode ?p True = Inr (Some d)" by blast
  with Decode_strict_lenient[OF this] show ?thesis by blast
qed

end
