(* ===== verification/SessionFsm.thy ===== *)
theory SessionFsm
  imports PcoCodec
begin

text \<open>
  The subscriber session (\<^verbatim>\<open>internal/session\<close>): its record, the state machine of \<^verbatim>\<open>fsm.go\<close>
  and the session manager of \<^verbatim>\<open>manager.go\<close>.  Sessions are shared by pointer in the
  program; here the manager's map holds the session values and an update through a
  pointer is an update of the map entry.  Go visits a map in an unspecified order, so
  every search takes that order, a list of the keys, as an argument.  Locks are not
  modelled: an operation is one atomic step, as under the manager's mutex.
\<close>

section \<open>Sessions\<close>

datatype State =
    StateNew
  | StateEAPAuthenticating
  | StateEAPAuthenticated
  | StateS2BCreateSessionSent
  | StateS2BAccepted
  | StateGTPUInstalling
  | StateDatapathInstalling
  | StateActive
  | StateCleaningUp
  | StateFailed
  | StateDeleted

record APNProfile =
  ap_APN :: string
  ap_AMBRUplink :: u64
  ap_AMBRDownlink :: u64

record S2BContext =
  sc_PAA :: string
  sc_PGWControlTEID :: u32
  sc_PGWControlIP :: net_ip
  sc_PGWUserTEID :: u32
  sc_PGWUserIP :: net_ip
  sc_LocalControlTEID :: u32
  sc_LocalUserTEID :: u32
  sc_EBI :: byte
  sc_PGWRecovery :: byte

record PCOState =
  ps_RequestPCO :: "PCO option"
  ps_ResponsePCO :: "Decoded option"
  ps_RequestAPCO :: "PCO option"
  ps_ResponseAPCO :: "Decoded option"

record DatapathContext =
  dc_UEInnerIP :: string
  dc_RouteInstalled :: bool
  dc_UplinkRuleInstalled :: bool
  dc_UplinkDefaultInstalled :: bool
  dc_RouteTableID :: int
  dc_RulePriority :: int
  dc_BridgeVerified :: bool
  dc_IPsecPAAAligned :: bool

record Session =
  s_ID :: string
  s_IMSI :: string
  s_NAI :: string
  s_APN :: string
  s_IkeSPII :: u64
  s_IkeSPIR :: u64
  s_OuterIP :: string
  s_ESPInboundSPI :: u32
  s_ESPOutboundSPI :: u32
  s_SWMSessionID :: string
  s_HandoverComplete :: bool
  s_State :: State
  s_CreatedAt :: int
  s_UpdatedAt :: int
  s_EAPPayload :: bytes
  s_MSK :: bytes
  s_APNProfile :: "APNProfile option"
  s_S2B :: "S2BContext option"
  s_PCO :: "PCOState option"
  s_Datapath :: "DatapathContext option"
  s_FailureCode :: string
  s_FailureText :: string

definition New :: "string \<Rightarrow> int \<Rightarrow> Session" where
  "New i now =
    \<lparr>s_ID = i, s_IMSI = [], s_NAI = [], s_APN = [], s_IkeSPII = 0, s_IkeSPIR = 0, s_OuterIP = [],
     s_ESPInboundSPI = 0, s_ESPOutboundSPI = 0, s_SWMSessionID = [], s_HandoverComplete = False,
     s_State = StateNew, s_CreatedAt = now, s_UpdatedAt = now, s_EAPPayload = [], s_MSK = [],
     s_APNProfile = None, s_S2B = None, s_PCO = None, s_Datapath = None,
     s_FailureCode = [], s_FailureText = []\<rparr>"

section \<open>The state machine\<close>

definition allowedTransitions :: "State \<Rightarrow> State list" where
  "allowedTransitions s = (case s of
     StateNew \<Rightarrow> [StateEAPAuthenticating, StateFailed]
   | StateEAPAuthenticating \<Rightarrow> [StateEAPAuthenticated, StateFailed, StateCleaningUp]
   | StateEAPAuthenticated \<Rightarrow> [StateS2BCreateSessionSent, StateFailed, StateCleaningUp]
   | StateS2BCreateSessionSent \<Rightarrow> [StateS2BAccepted, StateFailed, StateCleaningUp]
   | StateS2BAccepted \<Rightarrow> [StateGTPUInstalling, StateCleaningUp, StateFailed]
   | StateGTPUInstalling \<Rightarrow> [StateDatapathInstalling, StateCleaningUp, StateFailed]
   | StateDatapathInstalling \<Rightarrow> [StateActive, StateCleaningUp, StateFailed]
   | StateActive \<Rightarrow> [StateCleaningUp, StateFailed]
   | StateCleaningUp \<Rightarrow> [StateDeleted, StateFailed]
   | StateFailed \<Rightarrow> [StateCleaningUp, StateDeleted]
   | StateDeleted \<Rightarrow> [])"

datatype session_error = InvalidSessionTransition State State

text \<open>The error, if any, and the session afterwards.\<close>

definition Transition :: "Session \<Rightarrow> State \<Rightarrow> session_error option \<times> Session" where
  "Transition s nxt =
    (if s_State s = nxt then (None, s)
     else if nxt \<notin> set (allowedTransitions (s_State s))
       then (Some (InvalidSessionTransition (s_State s) nxt), s)
     else (None, s\<lparr>s_State := nxt\<rparr>))"

definition CanActivate :: "Session \<Rightarrow> bool" where
  "CanActivate s \<longleftrightarrow>
    s_State s = StateDatapathInstalling \<and> length (s_MSK s) = 64 \<and> s_APNProfile s \<noteq> None \<and>
    (case s_S2B s of None \<Rightarrow> False
     | Some b \<Rightarrow> sc_PAA b \<noteq> [] \<and> sc_PGWControlTEID b \<noteq> 0 \<and> sc_PGWUserTEID b \<noteq> 0 \<and> sc_EBI b \<noteq> 0) \<and>
    (case s_Datapath s of None \<Rightarrow> False | Some d \<Rightarrow> dc_BridgeVerified d \<and> dc_IPsecPAAAligned d)"

definition MarkFailed :: "Session \<Rightarrow> string \<Rightarrow> string \<Rightarrow> Session" where
  "MarkFailed s code txt = snd (Transition (s\<lparr>s_FailureCode := code, s_FailureText := txt\<rparr>) StateFailed)"

text \<open>The lock-free copy handed to the admin API.\<close>

record View =
  v_ID :: string
  v_IMSI :: string
  v_NAI :: string
  v_APN :: string
  v_IkeSPII :: u64
  v_IkeSPIR :: u64
  v_OuterIP :: string
  v_ESPInboundSPI :: u32
  v_ESPOutboundSPI :: u32
  v_SWMSessionID :: string
  v_HandoverComplete :: bool
  v_State :: State
  v_CreatedAt :: int
  v_UpdatedAt :: int
  v_EAPPayload :: bytes
  v_MSK :: bytes
  v_APNProfile :: "APNProfile option"
  v_S2B :: "S2BContext option"
  v_PCO :: "PCOState option"
  v_Datapath :: "DatapathContext option"
  v_FailureCode :: string
  v_FailureText :: string

definition Session_Snapshot :: "Session \<Rightarrow> View" where
  "Session_Snapshot s =
    \<lparr>v_ID = s_ID s, v_IMSI = s_IMSI s, v_NAI = s_NAI s, v_APN = s_APN s, v_IkeSPII = s_IkeSPII s,
     v_IkeSPIR = s_IkeSPIR s, v_OuterIP = s_OuterIP s, v_ESPInboundSPI = s_ESPInboundSPI s,
     v_ESPOutboundSPI = s_ESPOutboundSPI s, v_SWMSessionID = s_SWMSessionID s, v_HandoverComplete =
     s_HandoverComplete s, v_State = s_State s, v_CreatedAt = s_CreatedAt s, v_UpdatedAt = s_UpdatedAt s,
     v_EAPPayload = s_EAPPayload s, v_MSK = s_MSK s, v_APNProfile = s_APNProfile s, v_S2B = s_S2B s,
     v_PCO = s_PCO s, v_Datapath = s_Datapath s, v_FailureCode = s_FailureCode s, v_FailureText =
     s_FailureText s\<rparr>"

section \<open>The session manager\<close>

record Manager =
  mgr_sessions :: "string \<rightharpoonup> Session"
  mgr_deleted :: "string \<Rightarrow> bool"

definition NewManager :: Manager where
  "NewManager = \<lparr>mgr_sessions = Map.empty, mgr_deleted = (\<lambda>_. False)\<rparr>"

definition GetOrCreate :: "Manager \<Rightarrow> string \<Rightarrow> int \<Rightarrow> Session \<times> Manager" where
  "GetOrCreate m i now = (case mgr_sessions m i of
     Some sess \<Rightarrow> (sess, m)
   | None \<Rightarrow> (New i now, m\<lparr>mgr_sessions := (mgr_sessions m)(i \<mapsto> New i now)\<rparr>))"

definition Get :: "Manager \<Rightarrow> string \<Rightarrow> Session option" where
  "Get m i = mgr_sessions m i"

text \<open>\<^verbatim>\<open>for _, sess := range m.sessions\<close> with an early return: the first session, in visiting
  order, satisfying the test.\<close>

fun range_find :: "(string \<rightharpoonup> Session) \<Rightarrow> string list \<Rightarrow> (Session \<Rightarrow> bool) \<Rightarrow> Session option" where
  "range_find ss [] P = None"
| "range_find ss (k # ks) P = (case ss k of
     None \<Rightarrow> range_find ss ks P
   | Some sess \<Rightarrow> if P sess then Some sess else range_find ss ks P)"

definition FindByIKE :: "Manager \<Rightarrow> string list \<Rightarrow> u64 \<Rightarrow> u64 \<Rightarrow> Session option" where
  "FindByIKE m ks spiI spiR =
    (if spiI = 0 \<or> spiR = 0 then None
     else range_find (mgr_sessions m) ks (\<lambda>sess. s_IkeSPII sess = spiI \<and> s_IkeSPIR sess = spiR))"

definition FindByPAA :: "Manager \<Rightarrow> string list \<Rightarrow> string \<Rightarrow> Session option" where
  "FindByPAA m ks paa =
    (if paa = [] then None
     else range_find (mgr_sessions m) ks (\<lambda>sess. case s_S2B sess of None \<Rightarrow> False | Some b \<Rightarrow> sc_PAA b = paa))"

definition FindByIMSIAPN :: "Manager \<Rightarrow> string list \<Rightarrow> string \<Rightarrow> string \<Rightarrow> Session option" where
  "FindByIMSIAPN m ks imsi apn =
    (if imsi = [] then None
     else range_find (mgr_sessions m) ks (\<lambda>sess. s_IMSI sess = imsi \<and> (apn = [] \<or> s_APN sess = apn)))"

fun range_single :: "(string \<rightharpoonup> Session) \<Rightarrow> string list \<Rightarrow> (Session \<Rightarrow> bool) \<Rightarrow> Session option \<Rightarrow> Session option" where
  "range_single ss [] P found = found"
| "range_single ss (k # ks) P found = (case ss k of
     None \<Rightarrow> range_single ss ks P found
   | Some sess \<Rightarrow>
       if \<not> P sess then range_single ss ks P found
       else if found \<noteq> None then None
       else range_single ss ks P (Some sess))"

text \<open>The second result of the Go function is true exactly when the first is non-nil.\<close>

definition FindSingleActiveByIMSIAPN :: "Manager \<Rightarrow> string list \<Rightarrow> string \<Rightarrow> string \<Rightarrow> Session option" where
  "FindSingleActiveByIMSIAPN m ks imsi apn =
    (if imsi = [] then None
     else range_single (mgr_sessions m) ks
            (\<lambda>sess. \<not> (s_IMSI sess \<noteq> imsi \<or> (apn \<noteq> [] \<and> s_APN sess \<noteq> apn) \<or> s_State sess \<noteq> StateActive)) None)"

definition FindByLocalControlTEID :: "Manager \<Rightarrow> string list \<Rightarrow> u32 \<Rightarrow> Session option" where
  "FindByLocalControlTEID m ks teid =
    (if teid = 0 then None
     else range_find (mgr_sessions m) ks
            (\<lambda>sess. case s_S2B sess of None \<Rightarrow> False | Some b \<Rightarrow> sc_LocalControlTEID b = teid))"

definition Delete :: "Manager \<Rightarrow> string \<Rightarrow> Manager" where
  "Delete m i =
    m\<lparr>mgr_sessions := (mgr_sessions m)(i := None),
      mgr_deleted := (if i \<noteq> [] then (mgr_deleted m)(i := True) else mgr_deleted m)\<rparr>"

definition WasDeleted :: "Manager \<Rightarrow> string \<Rightarrow> bool" where
  "WasDeleted m i = (i \<noteq> [] \<and> mgr_deleted m i)"

definition Manager_Snapshot :: "Manager \<Rightarrow> string list \<Rightarrow> Session list" where
  "Manager_Snapshot m ks = List.map_filter (mgr_sessions m) ks"

text \<open>A write through a session pointer that the manager still holds.\<close>

definition update_session :: "Manager \<Rightarrow> string \<Rightarrow> (Session \<Rightarrow> Session) \<Rightarrow> Manager" where
  "update_session m i f = m\<lparr>mgr_sessions := (mgr_sessions m)(i := map_option f (mgr_sessions m i))\<rparr>"

section \<open>Runs of a guarded state machine\<close>

text \<open>The states visited when a sequence of requested states is offered to a machine; a refused
  request leaves the state as it is.\<close>

primrec fsm_trace :: "('s \<Rightarrow> 's \<Rightarrow> 's) \<Rightarrow> 's \<Rightarrow> 's list \<Rightarrow> 's list" where
  "fsm_trace goto s [] = [s]"
| "fsm_trace goto s (t # ts) = s # fsm_trace goto (goto s t) ts"

lemma fsm_trace_not_Nil [simp]: "fsm_trace goto s ts \<noteq> []"
  by (cases ts) simp_all

lemma hd_fsm_trace [simp]: "hd (fsm_trace goto s ts) = s"
  by (cases ts) simp_all

locale guarded_fsm =
  fixes succs :: "'s \<Rightarrow> 's list" and goto :: "'s \<Rightarrow> 's \<Rightarrow> 's"
  assumes goto_refused: "s \<noteq> t \<Longrightarrow> t \<notin> set (succs s) \<Longrightarrow> goto s t = s"
    and goto_taken: "t \<in> set (succs s) \<Longrightarrow> goto s t = t"
    and goto_same: "goto s s = s"
begin

lemma goto_cases: "goto s t = s \<or> goto s t = t \<and> t \<in> set (succs s)"
  by (cases "s = t"; cases "t \<in> set (succs s)") (auto simp: goto_refused goto_taken goto_same)

lemma trace_closed:
  assumes "\<forall>s \<in> A. set (succs s) \<subseteq> A" "s \<in> A"
  shows "set (fsm_trace goto s ts) \<subseteq> A"
  using assms(2)
proof (induction ts arbitrary: s)
  case (Cons t ts)
  then have "goto s t \<in> A" using goto_cases[of s t] assms(1) by (metis subsetD)
  with Cons show ?case by auto
qed simp

lemma choke_point:
  assumes "\<forall>s. b \<in> set (succs s) \<longrightarrow> s = a" "s \<noteq> b" "b \<in> set (fsm_trace goto s ts)"
  shows "a \<in> set (takeWhile (\<lambda>x. x \<noteq> b) (fsm_trace goto s ts))"
  using assms(2,3)
proof (induction ts arbitrary: s)
  case (Cons t ts)
  then show ?case using goto_cases[of s t] assms(1) by (cases "goto s t = b") (auto simp: goto_same)
qed simp

end

text \<open>The state after a requested transition of a session.\<close>

definition state_after :: "State \<Rightarrow> State \<Rightarrow> State" where
  "state_after s t = s_State (snd (Transition ((New [] 0)\<lparr>s_State := s\<rparr>) t))"

lemma Transition_state: "s_State (snd (Transition s t)) = state_after (s_State s) t"
  by (simp add: state_after_def Transition_def)

interpretation sess_fsm: guarded_fsm allowedTransitions state_after
  by unfold_locales (simp_all add: state_after_def Transition_def)

text \<open>Only the state changes, and it changes exactly when no error is returned.\<close>

lemma Transition_frame: "(snd (Transition s t))\<lparr>s_State := s_State s\<rparr> = s"
  by (simp add: Transition_def)

lemma Transition_error_iff:
  "fst (Transition s t) = None \<longleftrightarrow> s_State s = t \<or> t \<in> set (allowedTransitions (s_State s))"
  by (auto simp: Transition_def)

text \<open>The only way up, and the states from which there is no way up.\<close>

definition activation_path :: "State list" where
  "activation_path = [StateNew, StateEAPAuthenticating, StateEAPAuthenticated, StateS2BCreateSessionSent,
     StateS2BAccepted, StateGTPUInstalling, StateDatapathInstalling, StateActive]"

definition teardown_states :: "State set" where
  "teardown_states = {StateCleaningUp, StateFailed, StateDeleted}"

lemma teardown_closed: "\<forall>s \<in> teardown_states. set (allowedTransitions s) \<subseteq> teardown_states"
  by (simp add: teardown_states_def allowedTransitions_def)

fun path_from :: "State \<Rightarrow> State list" where
  "path_from s = dropWhile (\<lambda>x. x \<noteq> s) activation_path"

lemma teardown_never_active:
  assumes "s \<in> teardown_states"
  shows "last (fsm_trace state_after s ts) \<noteq> StateActive"
proof -
  have "last (fsm_trace state_after s ts) \<in> teardown_states"
    by (rule subsetD[OF sess_fsm.trace_closed[OF teardown_closed assms] last_in_set[OF fsm_trace_not_Nil]])
  then show ?thesis by (auto simp: teardown_states_def)
qed

lemma path_from_step:
  assumes "t \<in> set (allowedTransitions s)" "t \<notin> teardown_states"
  shows "path_from s = s # path_from t" "s \<noteq> t"
proof -
  have "path_from s = s # path_from t \<and> s \<noteq> t"
    using assms by (cases s) (auto simp: allowedTransitions_def activation_path_def teardown_states_def)
  then show "path_from s = s # path_from t" "s \<noteq> t" by simp_all
qed

lemma active_trace_from:
  "last (fsm_trace state_after s ts) = StateActive \<Longrightarrow>
   remdups_adj (fsm_trace state_after s ts) = path_from s"
proof (induction ts arbitrary: s)
  case Nil
  then show ?case by (simp add: activation_path_def)
next
  case (Cons t ts)
  let ?s' = "state_after s t"
  have IH: "remdups_adj (fsm_trace state_after ?s' ts) = path_from ?s'"
    using Cons by (simp del: path_from.simps)
  obtain rest where r: "fsm_trace state_after ?s' ts = ?s' # rest"
    by (metis fsm_trace_not_Nil hd_fsm_trace list.collapse)
  show ?case
  proof (cases "?s' = s")
    case True
    with IH r show ?thesis by (simp del: path_from.simps)
  next
    case False
    then have st: "?s' = t" "t \<in> set (allowedTransitions s)" using sess_fsm.goto_cases[of s t] by auto
    moreover have "t \<notin> teardown_states" using Cons.prems st teardown_never_active by auto
    ultimately show ?thesis using IH r path_from_step[of t s]
      by (simp del: path_from.simps)
  qed
qed

text \<open>C18.  Whatever states are requested of a new session, in whatever order, if it ends up Active then
  it went through EAP authentication, S2b session creation and datapath installation, each
  state once and in this order; a skipped or repeated stage never leads to Active.\<close>

theorem session_active_only_via_path:
  assumes "last (fsm_trace state_after StateNew reqs) = StateActive"
  shows "remdups_adj (fsm_trace state_after StateNew reqs) = activation_path"
  using active_trace_from[OF assms] by (simp add: activation_path_def)

theorem session_active_only_via_path_witness:
  "remdups_adj (fsm_trace state_after StateNew
     [StateEAPAuthenticating, StateActive, StateEAPAuthenticated, StateS2BCreateSessionSent, StateS2BAccepted,
      StateGTPUInstalling, StateNew, StateDatapathInstalling, StateActive]) = activation_path"
  by (rule session_active_only_via_path) (simp add: state_after_def Transition_def allowedTransitions_def New_def)

text \<open>Teardown is one-way: once a session is cleaning up, failed or deleted, every later state is
  one of these three, and a deleted session stays deleted.\<close>

theorem session_teardown_one_way:
  assumes "s \<in> teardown_states"
  shows "set (fsm_trace state_after s reqs) \<subseteq> teardown_states \<and>
         set (fsm_trace state_after StateDeleted reqs) = {StateDeleted}"
proof -
  have "set (fsm_trace state_after StateDeleted reqs) \<subseteq> {StateDeleted}"
    by (rule sess_fsm.trace_closed) (simp_all add: allowedTransitions_def)
  then have "set (fsm_trace state_after StateDeleted reqs) = {StateDeleted}"
    by (cases reqs) auto
  with sess_fsm.trace_closed[OF teardown_closed assms] show ?thesis by blast
qed

theorem session_teardown_one_way_witness:
  "set (fsm_trace state_after StateFailed [StateActive, StateCleaningUp]) \<subseteq> teardown_states"
proof -
  have "StateFailed \<in> teardown_states" by (simp add: teardown_states_def)
  with session_teardown_one_way show ?thesis by blast
qed

section \<open>The manager as a store\<close>

text \<open>What the other components rely on: the laws of the session table.  \<open>vis\<close> is the order in
  which a range over the table visits its keys.\<close>

definition visits :: "Manager \<Rightarrow> string list \<Rightarrow> bool" where
  "visits m ks \<longleftrightarrow> distinct ks \<and> set ks = dom (mgr_sessions m)"

definition mgr_inv :: "Manager \<Rightarrow> bool" where
  "mgr_inv m \<longleftrightarrow> (\<forall>i sess. mgr_sessions m i = Some sess \<longrightarrow> s_ID sess = i)"

lemma mgr_inv_NewManager: "mgr_inv NewManager"
  by (simp add: mgr_inv_def NewManager_def)

lemma mgr_inv_GetOrCreate: "mgr_inv m \<Longrightarrow> mgr_inv (snd (GetOrCreate m i now))"
  by (auto simp: mgr_inv_def GetOrCreate_def New_def split: option.splits)

lemma mgr_inv_Delete: "mgr_inv m \<Longrightarrow> mgr_inv (Delete m i)"
  by (auto simp: mgr_inv_def Delete_def)

lemma mgr_inv_update: "mgr_inv m \<Longrightarrow> (\<And>x. s_ID (f x) = s_ID x) \<Longrightarrow> mgr_inv (update_session m i f)"
  by (auto simp: mgr_inv_def update_session_def)

lemma range_find_SomeD: "range_find ss ks P = Some x \<Longrightarrow> P x \<and> (\<exists>k \<in> set ks. ss k = Some x)"
  by (induction ss ks P rule: range_find.induct) (auto split: option.splits if_splits)

lemma range_find_None_iff: "range_find ss ks P = None \<longleftrightarrow> (\<forall>k \<in> set ks. \<forall>x. ss k = Some x \<longrightarrow> \<not> P x)"
  by (induction ss ks P rule: range_find.induct) (auto split: option.splits)

lemma range_single_found:
  "range_single ss ks P (Some y) =
     (if \<exists>k \<in> set ks. \<exists>x. ss k = Some x \<and> P x then None else Some y)"
  by (induction ks) (auto split: option.splits)

lemma range_single_iff:
  "distinct ks \<Longrightarrow> range_single ss ks P None = Some y \<longleftrightarrow>
   (\<exists>k \<in> set ks. ss k = Some y \<and> P y \<and> (\<forall>k' \<in> set ks. \<forall>x. ss k' = Some x \<and> P x \<longrightarrow> k' = k))"
proof (induction ks)
  case (Cons k ks)
  show ?case
  proof (cases "\<exists>x. ss k = Some x \<and> P x")
    case True
    then obtain x where "ss k = Some x" "P x" by blast
    then show ?thesis using Cons.prems by (auto simp: range_single_found)
  next
    case False
    then have eq: "range_single ss (k # ks) P None = range_single ss ks P None"
      by (auto split: option.splits)
    have "distinct ks" using Cons.prems by simp
    from Cons.IH[OF this] False show ?thesis unfolding eq list.set by blast
  qed
qed simp

text \<open>\<^verbatim>\<open>FindSingleActiveByIMSIAPN\<close> answers with a session exactly when there is one and only one
  active session of the subscriber on the access point (any access point when none is
  given), and its answer does not depend on the order in which the map is visited.\<close>

theorem FindSingleActive_unique:
  assumes "visits m ks" "imsi \<noteq> []"
  shows "FindSingleActiveByIMSIAPN m ks imsi apn = Some sess \<longleftrightarrow>
    (\<exists>k. mgr_sessions m k = Some sess \<and> s_IMSI sess = imsi \<and> (apn = [] \<or> s_APN sess = apn)
         \<and> s_State sess = StateActive \<and>
       (\<forall>k' x. mgr_sessions m k' = Some x \<and> s_IMSI x = imsi \<and> (apn = [] \<or> s_APN x = apn)
         \<and> s_State x = StateActive \<longrightarrow> k' = k))"
proof -
  from assms have d: "distinct ks" and s: "set ks = dom (mgr_sessions m)" by (auto simp: visits_def)
  show ?thesis
    unfolding FindSingleActiveByIMSIAPN_def using assms(2)
    by (simp add: range_single_iff[OF d] s) (auto simp: dom_def)
qed

theorem FindSingleActive_unique_witness:
  "FindSingleActiveByIMSIAPN
     \<lparr>mgr_sessions = [''a'' \<mapsto> (New ''a'' 0)\<lparr>s_IMSI := ''001'', s_State := StateActive\<rparr>, ''b'' \<mapsto> New ''b'' 0],
      mgr_deleted = (\<lambda>_. False)\<rparr> [''b'', ''a''] ''001'' []
   = Some ((New ''a'' 0)\<lparr>s_IMSI := ''001'', s_State := StateActive\<rparr>)" (is "FindSingleActiveByIMSIAPN ?m _ _ _ = _")
proof -
  have "visits ?m [''b'', ''a'']" by (auto simp: visits_def)
  from FindSingleActive_unique[OF this, of "''001''"] show ?thesis
    by (simp add: New_def)
qed

text \<open>The answers of the searches are members of the table that pass the test; a session found by
  its control TEID has a non-zero one.\<close>

lemma FindByLocalControlTEID_SomeD:
  "FindByLocalControlTEID m ks teid = Some sess \<Longrightarrow>
   teid \<noteq> 0 \<and> (\<exists>k \<in> set ks. mgr_sessions m k = Some sess) \<and>
   (\<exists>b. s_S2B sess = Some b \<and> sc_LocalControlTEID b = teid)"
  by (auto simp: FindByLocalControlTEID_def dest!: range_find_SomeD split: if_splits option.splits)

lemma FindByIKE_SomeD:
  "FindByIKE m ks i r = Some sess \<Longrightarrow>
   i \<noteq> 0 \<and> r \<noteq> 0 \<and> s_IkeSPII sess = i \<and> s_IkeSPIR sess = r \<and> (\<exists>k \<in> set ks. mgr_sessions m k = Some sess)"
  by (auto simp: FindByIKE_def dest!: range_find_SomeD split: if_splits)

lemma Get_simps:
  "Get (Delete m i) i = None"
  "j \<noteq> i \<Longrightarrow> Get (Delete m i) j = Get m j"
  "Get (snd (GetOrCreate m i now)) i = Some (fst (GetOrCreate m i now))"
  "j \<noteq> i \<Longrightarrow> Get (snd (GetOrCreate m i now)) j = Get m j"
  "Get (update_session m i f) i = map_option f (Get m i)"
  "j \<noteq> i \<Longrightarrow> Get (update_session m i f) j = Get m j"
  by (auto simp: Get_def Delete_def GetOrCreate_def update_session_def split: option.splits)

lemma WasDeleted_simps:
  "i \<noteq> [] \<Longrightarrow> WasDeleted (Delete m i) i"
  "j \<noteq> i \<Longrightarrow> WasDeleted (Delete m i) j = WasDeleted m j"
  "WasDeleted (snd (GetOrCreate m i now)) j = WasDeleted m j"
  "WasDeleted (update_session m i f) j = WasDeleted m j"
  by (auto simp: WasDeleted_def Delete_def GetOrCreate_def update_session_def split: option.splits)

end
