(* ===== verification/GtpuCodec.thy ===== *)
theory GtpuCodec
  imports NetIP
begin

text \<open>
  The GTP-U wire formats of \<^verbatim>\<open>internal/gtpu/dataplane.go\<close>: the user-plane header with its
  extension chain (\<^verbatim>\<open>parseGTPU\<close>, \<^verbatim>\<open>encodePathMessage\<close>), the traffic flow templates of TS 24.008
  (\<^verbatim>\<open>ParseTFT\<close>, \<^verbatim>\<open>parsePacketFilterContents\<close>), and the fixed-window limiter of Error
  Indications.  Indexing is checked: the constructor \<open>GtpuPanic\<close> stands for the index panic
  of the Go run time, and the parsers are proved never to reach it on any input.
\<close>

section \<open>Constants and types\<close>

abbreviation (input) gtpuVersionPT :: byte where "gtpuVersionPT \<equiv> 0x30"
abbreviation (input) gtpuFlagE :: byte where "gtpuFlagE \<equiv> 0x04"
abbreviation (input) gtpuFlagS :: byte where "gtpuFlagS \<equiv> 0x02"
abbreviation (input) gtpuFlagPN :: byte where "gtpuFlagPN \<equiv> 0x01"
abbreviation (input) gtpuMsgEchoRequest :: byte where "gtpuMsgEchoRequest \<equiv> 1"
abbreviation (input) gtpuMsgEchoResp :: byte where "gtpuMsgEchoResp \<equiv> 2"
abbreviation (input) gtpuMsgErrorIndication :: byte where "gtpuMsgErrorIndication \<equiv> 26"
abbreviation (input) gtpuMsgTPDU :: byte where "gtpuMsgTPDU \<equiv> 255"
abbreviation (input) ieTypeTEIDDataI :: byte where "ieTypeTEIDDataI \<equiv> 16"
abbreviation (input) ieTypeGTPUPeerAddr :: byte where "ieTypeGTPUPeerAddr \<equiv> 133"
abbreviation (input) errorIndicationMaxPerSecond :: nat where "errorIndicationMaxPerSecond \<equiv> 50"
abbreviation (input) tcTFTFlagRemoteIP :: byte where "tcTFTFlagRemoteIP \<equiv> 0x01"
abbreviation (input) tcTFTFlagProtocol :: byte where "tcTFTFlagProtocol \<equiv> 0x02"
abbreviation (input) tcTFTFlagLocalPort :: byte where "tcTFTFlagLocalPort \<equiv> 0x04"
abbreviation (input) tcTFTFlagRemotePort :: byte where "tcTFTFlagRemotePort \<equiv> 0x08"

datatype gtpu_error =
    GtpuTooShort nat
  | GtpuUnsupportedFlags byte
  | GtpuLengthExceeds nat nat
  | GtpuOptionalHeaderTruncated
  | GtpuExtensionTruncated
  | GtpuExtensionLengthInvalid
  | GtpuPayloadOffsetInvalid
  | GtpuPathMessageTooLarge nat
  | TFTTooShort
  | TFTHeaderTruncated nat
  | TFTContentLengthTruncated nat
  | TFTContentTruncated nat
  | TFTFilterError nat gtpu_error
  | TFTComponentTruncated byte
  | TFTUnsupportedComponent byte
  | GtpuPanic

record gtpuPacket =
  gp_MessageType :: byte
  gp_TEID :: u32
  gp_Sequence :: u16
  gp_Payload :: bytes

section \<open>Header\<close>

definition encodePathMessage :: "byte \<Rightarrow> u16 \<Rightarrow> bytes \<Rightarrow> gtpu_error + bytes" where
  "encodePathMessage msgType sq payload =
    (if length payload + 4 > 0xffff then Inl (GtpuPathMessageTooLarge (length payload))
     else Inr ([gtpuVersionPT OR gtpuFlagS, msgType] @ be16 (of_nat (4 + length payload))
               @ be32 0 @ be16 sq @ [0, 0] @ payload))"

text \<open>The loop over the extension headers: the offset behind the last one.\<close>

function gtpu_ext_loop :: "bytes \<Rightarrow> nat \<Rightarrow> byte \<Rightarrow> nat \<Rightarrow> gtpu_error + nat" where
  "gtpu_ext_loop b endp nextExt offset =
    (if nextExt = 0 then Inr offset
     else if endp < offset + 1 then Inl GtpuExtensionTruncated
     else res_bind (at GtpuPanic b offset) (\<lambda>w.
       let extLen = unat w * 4 in
       if extLen = 0 \<or> endp < offset + extLen then Inl GtpuExtensionLengthInvalid
       else res_bind (at GtpuPanic b (offset + extLen - 1)) (\<lambda>nxt.
         gtpu_ext_loop b endp nxt (offset + extLen))))"
  by pat_completeness auto
termination by (relation "measure (\<lambda>(b, endp, nextExt, offset). endp - offset)") auto

declare gtpu_ext_loop.simps [simp del]

definition parseGTPU :: "bytes \<Rightarrow> gtpu_error + gtpuPacket" where
  "parseGTPU b =
    (if length b < 8 then Inl (GtpuTooShort (length b))
     else if b ! 0 AND 0xe0 \<noteq> 0x20 \<or> b ! 0 AND 0x10 = 0 then Inl (GtpuUnsupportedFlags (b ! 0))
     else
       let len = unat (uint16 (subslice b 2 4)) in
       if len > length b - 8 then Inl (GtpuLengthExceeds len (length b - 8))
       else
         let endp = 8 + len; teid = uint32 (subslice b 4 8) in
         if b ! 0 AND (gtpuFlagE OR gtpuFlagS OR gtpuFlagPN) \<noteq> 0 then
           (if endp < 12 then Inl GtpuOptionalHeaderTruncated
            else res_bind (slice_at GtpuPanic b 8 10) (\<lambda>sq.
                 res_bind (at GtpuPanic b 11) (\<lambda>nextExt.
                 res_bind (gtpu_ext_loop b endp nextExt 12) (\<lambda>offset.
                 if offset > endp then Inl GtpuPayloadOffsetInvalid
                 else res_bind (slice_at GtpuPanic b offset endp) (\<lambda>payload.
                   Inr \<lparr>gp_MessageType = b ! 1, gp_TEID = teid, gp_Sequence = uint16 sq, gp_Payload = payload\<rparr>)))))
         else res_bind (slice_at GtpuPanic b 8 endp) (\<lambda>payload.
                Inr \<lparr>gp_MessageType = b ! 1, gp_TEID = teid, gp_Sequence = 0, gp_Payload = payload\<rparr>))"

section \<open>Traffic flow templates\<close>

record PacketFilter =
  pf_ID :: byte
  pf_Precedence :: byte
  pf_Direction :: byte
  pf_RemoteIPv4 :: net_ip
  pf_RemoteIPv4Mask :: bytes
  pf_LocalIPv4 :: net_ip
  pf_LocalIPv4Mask :: bytes
  pf_Protocol :: byte
  pf_HasProtocol :: bool
  pf_LocalPortLo :: u16
  pf_LocalPortHi :: u16
  pf_HasLocalPort :: bool
  pf_RemotePortLo :: u16
  pf_RemotePortHi :: u16
  pf_HasRemotePort :: bool

record TFT =
  tft_Filters :: "PacketFilter list"

definition newPacketFilter :: "byte \<Rightarrow> byte \<Rightarrow> byte \<Rightarrow> PacketFilter" where
  "newPacketFilter i prec dir =
    \<lparr>pf_ID = i, pf_Precedence = prec, pf_Direction = dir, pf_RemoteIPv4 = [], pf_RemoteIPv4Mask = [],
     pf_LocalIPv4 = [], pf_LocalIPv4Mask = [], pf_Protocol = 0, pf_HasProtocol = False,
     pf_LocalPortLo = 0, pf_LocalPortHi = 0, pf_HasLocalPort = False,
     pf_RemotePortLo = 0, pf_RemotePortHi = 0, pf_HasRemotePort = False\<rparr>"

text \<open>The body of one \<^verbatim>\<open>switch\<close> case at index \<open>i\<close> behind the component type: the filter and the new index.\<close>

definition parseComponent :: "PacketFilter \<Rightarrow> bytes \<Rightarrow> byte \<Rightarrow> nat \<Rightarrow> gtpu_error + (PacketFilter \<times> nat)" where
  "parseComponent pf dat cmp i =
    (if cmp = 0x10 then
       (if i + 8 > length dat then Inl (TFTComponentTruncated cmp)
        else res_bind (slice_at GtpuPanic dat i (i + 4)) (\<lambda>ip. res_bind (slice_at GtpuPanic dat (i + 4) (i + 8)) (\<lambda>mask.
          Inr (pf\<lparr>pf_RemoteIPv4 := ip, pf_RemoteIPv4Mask := mask\<rparr>, i + 8))))
     else if cmp = 0x18 then
       (if i + 8 > length dat then Inl (TFTComponentTruncated cmp)
        else res_bind (slice_at GtpuPanic dat i (i + 4)) (\<lambda>ip. res_bind (slice_at GtpuPanic dat (i + 4) (i + 8)) (\<lambda>mask.
          Inr (pf\<lparr>pf_LocalIPv4 := ip, pf_LocalIPv4Mask := mask\<rparr>, i + 8))))
     else if cmp = 0x30 then
       (if i \<ge> length dat then Inl (TFTComponentTruncated cmp)
        else res_bind (at GtpuPanic dat i) (\<lambda>p. Inr (pf\<lparr>pf_Protocol := p, pf_HasProtocol := True\<rparr>, i + 1)))
     else if cmp = 0x40 then
       (if i + 2 > length dat then Inl (TFTComponentTruncated cmp)
        else res_bind (slice_at GtpuPanic dat i (i + 2)) (\<lambda>p.
          Inr (pf\<lparr>pf_LocalPortLo := uint16 p, pf_LocalPortHi := uint16 p, pf_HasLocalPort := True\<rparr>, i + 2)))
     else if cmp = 0x41 then
       (if i + 4 > length dat then Inl (TFTComponentTruncated cmp)
        else res_bind (slice_at GtpuPanic dat i (i + 2)) (\<lambda>lo. res_bind (slice_at GtpuPanic dat (i + 2) (i + 4)) (\<lambda>hi.
          Inr (pf\<lparr>pf_LocalPortLo := uint16 lo, pf_LocalPortHi := uint16 hi, pf_HasLocalPort := True\<rparr>, i + 4))))
     else if cmp = 0x50 then
       (if i + 2 > length dat then Inl (TFTComponentTruncated cmp)
        else res_bind (slice_at GtpuPanic dat i (i + 2)) (\<lambda>p.
          Inr (pf\<lparr>pf_RemotePortLo := uint16 p, pf_RemotePortHi := uint16 p, pf_HasRemotePort := True\<rparr>, i + 2)))
     else if cmp = 0x51 then
       (if i + 4 > length dat then Inl (TFTComponentTruncated cmp)
        else res_bind (slice_at GtpuPanic dat i (i + 2)) (\<lambda>lo. res_bind (slice_at GtpuPanic dat (i + 2) (i + 4)) (\<lambda>hi.
          Inr (pf\<lparr>pf_RemotePortLo := uint16 lo, pf_RemotePortHi := uint16 hi, pf_HasRemotePort := True\<rparr>, i + 4))))
     else if cmp = 0x60 then Inr (pf, i + 4)
     else if cmp = 0x70 then Inr (pf, i + 2)
     else if cmp = 0x80 then Inr (pf, i + 3)
     else Inl (TFTUnsupportedComponent cmp))"

lemma parseComponent_advances: "parseComponent pf dat cmp i = Inr (pf', j) \<Longrightarrow> i < j"
  by (auto simp: parseComponent_def split: if_splits)

function parsePacketFilterContents :: "PacketFilter \<Rightarrow> bytes \<Rightarrow> nat \<Rightarrow> gtpu_error + PacketFilter" where
  "parsePacketFilterContents pf dat i =
    (if \<not> i < length dat then Inr pf
     else res_bind (at GtpuPanic dat i) (\<lambda>cmp.
          res_bind (parseComponent pf dat cmp (i + 1)) (\<lambda>(pf', j).
            parsePacketFilterContents pf' dat j)))"
  by pat_completeness auto
termination
  by (relation "measure (\<lambda>(pf, dat, i). length dat - i)")
     (auto dest!: parseComponent_advances)

declare parsePacketFilterContents.simps [simp del]

text \<open>The loop over the announced filters; on an error the Go function also returns the filters
  read so far, which no caller uses.\<close>

fun parseFilters :: "bytes \<Rightarrow> nat \<Rightarrow> nat \<Rightarrow> nat \<Rightarrow> PacketFilter list \<Rightarrow> gtpu_error + PacketFilter list" where
  "parseFilters raw 0 i offset acc = Inr acc"
| "parseFilters raw (Suc n) i offset acc =
    (if offset + 2 > length raw then Inl (TFTHeaderTruncated i)
     else res_bind (at GtpuPanic raw offset) (\<lambda>header.
          res_bind (at GtpuPanic raw (offset + 1)) (\<lambda>precedence.
     if offset + 2 \<ge> length raw then Inl (TFTContentLengthTruncated i)
     else res_bind (at GtpuPanic raw (offset + 2)) (\<lambda>cl.
       let contentLen = unat cl; off = offset + 3 in
       if off + contentLen > length raw then Inl (TFTContentTruncated i)
       else res_bind (slice_at GtpuPanic raw off (off + contentLen)) (\<lambda>content.
         let pf = newPacketFilter (header AND 0x0f) precedence (drop_bit 4 header AND 0x03) in
         case parsePacketFilterContents pf content 0 of
           Inl e \<Rightarrow> Inl (TFTFilterError i e)
         | Inr pf' \<Rightarrow> parseFilters raw n (i + 1) (off + contentLen) (acc @ [pf']))))))"

text \<open>\<^term>\<open>Inr None\<close> is the \<^verbatim>\<open>nil, nil\<close> result for an unknown operation code.\<close>

definition ParseTFT :: "bytes \<Rightarrow> gtpu_error + TFT option" where
  "ParseTFT raw =
    (if length raw < 1 then Inl TFTTooShort
     else
       let opCode = drop_bit 5 (raw ! 0); numFilters = unat (raw ! 0 AND 0x0f) in
       if opCode = 1 \<or> opCode = 3 \<or> opCode = 4 then
         res_bind (parseFilters raw numFilters 0 1 []) (\<lambda>fs. Inr (Some \<lparr>tft_Filters = fs\<rparr>))
       else if opCode = 2 \<or> opCode = 5 \<or> opCode = 6 then Inr (Some \<lparr>tft_Filters = []\<rparr>)
       else Inr None)"

section \<open>Error Indication limiter\<close>

text \<open>Times are nanoseconds; \<^term>\<open>None\<close> is the zero \<^verbatim>\<open>time.Time\<close>.\<close>

record errorIndicationLimiter =
  lim_windowStart :: "int option"
  lim_count :: nat

definition limiter_zero :: errorIndicationLimiter where
  "limiter_zero = \<lparr>lim_windowStart = None, lim_count = 0\<rparr>"

definition limiter_allow :: "errorIndicationLimiter \<Rightarrow> int \<Rightarrow> bool \<times> errorIndicationLimiter" where
  "limiter_allow l now =
    (let l1 = (if (case lim_windowStart l of None \<Rightarrow> True | Some w \<Rightarrow> now - w \<ge> 1000000000)
               then \<lparr>lim_windowStart = Some now, lim_count = 0\<rparr> else l)
     in if lim_count l1 \<ge> errorIndicationMaxPerSecond then (False, l1)
        else (True, l1\<lparr>lim_count := lim_count l1 + 1\<rparr>))"

section \<open>The header parser\<close>

lemma gtpu_ext_loop_safe:
  "endp \<le> length b \<Longrightarrow> gtpu_ext_loop b endp nextExt offset \<noteq> Inl GtpuPanic"
proof (induction b endp nextExt offset rule: gtpu_ext_loop.induct)
  case (1 b endp nextExt offset)
  show ?case
  proof (cases "nextExt = 0 \<or> endp < offset + 1")
    case True
    then show ?thesis by (subst gtpu_ext_loop.simps) auto
  next
    case False
    let ?n = "unat (b ! offset) * 4"
    have off: "offset < length b" using False "1.prems" by simp
    have "gtpu_ext_loop b endp (b ! (offset + ?n - 1)) (offset + ?n) \<noteq> Inl GtpuPanic"
      if "\<not> (?n = 0 \<or> endp < offset + ?n)"
    proof -
      have "at GtpuPanic b offset = Inr (b ! offset)"
        "at GtpuPanic b (offset + ?n - 1) = Inr (b ! (offset + ?n - 1))"
        using off that "1.prems" by (auto simp: at_def)
      then show ?thesis using "1.IH"[OF _ _ _ refl that] False "1.prems" by blast
    qed
    with False off "1.prems" show ?thesis
      by (subst gtpu_ext_loop.simps) (auto simp: Let_def at_def)
  qed
qed

lemma gtpu_ext_loop_bounds:
  "gtpu_ext_loop b endp nextExt offset = Inr off \<Longrightarrow> offset \<le> endp \<Longrightarrow> offset \<le> off \<and> off \<le> endp"
proof (induction b endp nextExt offset rule: gtpu_ext_loop.induct)
  case (1 b endp nextExt offset)
  show ?case
  proof (cases "nextExt = 0")
    case True
    with "1.prems" show ?thesis by (simp add: gtpu_ext_loop.simps)
  next
    case False
    with "1.prems" obtain w nxt where w: "\<not> endp < offset + 1" "at GtpuPanic b offset = Inr w"
      "\<not> (unat w * 4 = 0 \<or> endp < offset + unat w * 4)"
      "at GtpuPanic b (offset + unat w * 4 - 1) = Inr nxt"
      "gtpu_ext_loop b endp nxt (offset + unat w * 4) = Inr off"
      by (subst (asm) gtpu_ext_loop.simps) (auto simp: res_bind_eq_Inr Let_def split: if_splits)
    from "1.IH"[OF False w(1,2) refl w(3,4,5)] w(3) show ?thesis by simp
  qed
qed

lemma parseGTPU_safe: "parseGTPU b \<noteq> Inl GtpuPanic"
  using gtpu_ext_loop_safe[of "8 + unat (uint16 (subslice b 2 4))" b "b ! 11" 12]
  by (auto simp: parseGTPU_def Let_def res_bind_eq_Inl slice_at_def at_def not_less split: if_splits)

lemma parse_path_message:
  assumes "encodePathMessage t sq p = Inr b"
  shows "parseGTPU b = Inr \<lparr>gp_MessageType = t, gp_TEID = 0, gp_Sequence = sq, gp_Payload = p\<rparr>"
proof -
  from assms have len: "length p + 4 < 65536"
    and b: "b = [0x32, t] @ be16 (of_nat (4 + length p)) @ be32 0 @ be16 sq @ [0, 0] @ p"
    by (auto simp: encodePathMessage_def split: if_splits)
  have "uint16 (subslice b 2 4) = of_nat (4 + length p)" "uint32 (subslice b 4 8) = 0"
    "subslice b 8 10 = be16 sq" "subslice b 12 (12 + length p) = p" "b ! 11 = 0" "b ! 0 = 0x32" "b ! 1 = t"
    "length b = 12 + length p"
    by (simp_all add: b subslice_def be16_def be32_def uint16_be16(2)[unfolded be16_def uint16.simps] del: of_nat_add)
  moreover have "unat (of_nat (4 + length p) :: u16) = 4 + length p"
    using len by (intro unat_of_nat_u16) simp
  ultimately show ?thesis
    by (simp add: parseGTPU_def Let_def gtpu_ext_loop.simps del: of_nat_add)
qed

text \<open>A GTP-U path message reads back: the parser returns the type, the zero TEID, the sequence
  number and the payload that were encoded.\<close>

theorem parseGTPU_encodePathMessage:
  assumes "encodePathMessage t sq p = Inr b"
  shows "parseGTPU b = Inr \<lparr>gp_MessageType = t, gp_TEID = 0, gp_Sequence = sq, gp_Payload = p\<rparr>"
  using assms by (rule parse_path_message)

theorem parseGTPU_encodePathMessage_witness:
  "\<exists>b. encodePathMessage gtpuMsgEchoResp 7 [14, 0, 1, 0] = Inr b \<and>
       parseGTPU b = Inr \<lparr>gp_MessageType = gtpuMsgEchoResp, gp_TEID = 0, gp_Sequence = 7, gp_Payload = [14, 0, 1, 0]\<rparr>"
  using parseGTPU_encodePathMessage[of gtpuMsgEchoResp 7 "[14, 0, 1, 0]"] by (simp add: encodePathMessage_def)

lemma parseGTPU_payload:
  fixes b :: bytes
  defines "endp \<equiv> 8 + unat (uint16 (subslice b 2 4))"
  assumes "parseGTPU b = Inr p"
  shows "\<exists>off. gp_Payload p = subslice b off endp \<and> 8 \<le> off \<and> off \<le> endp \<and> endp \<le> length b"
proof -
  from assms have "(\<exists>off. gtpu_ext_loop b endp (b ! 11) 12 = Inr off \<and> 12 \<le> endp \<and> gp_Payload p = subslice b off endp)
      \<or> gp_Payload p = subslice b 8 endp" and "endp \<le> length b"
    by (auto simp: parseGTPU_def Let_def res_bind_eq_Inr slice_at_def at_def not_less split: if_splits)
  then show ?thesis
    by (metis assms(1) gtpu_ext_loop_bounds le_add1 le_refl le_trans numeral_le_iff semiring_norm(69) semiring_norm(71)
        semiring_norm(72) semiring_norm(76))
qed

section \<open>The TFT parser\<close>

fun panics :: "gtpu_error \<Rightarrow> bool" where
  "panics GtpuPanic = True"
| "panics (TFTFilterError _ e) = panics e"
| "panics _ = False"

lemma parseComponent_safe: "parseComponent pf dat c i = Inl e \<Longrightarrow> \<not> panics e"
  by (auto simp: parseComponent_def split: if_splits)

lemma parsePacketFilterContents_safe: "parsePacketFilterContents pf dat i = Inl e \<Longrightarrow> \<not> panics e"
proof (induction pf dat i rule: parsePacketFilterContents.induct)
  case (1 pf dat i)
  then have "i < length dat" by (subst (asm) (2) parsePacketFilterContents.simps) (auto split: if_splits)
  with 1 show ?case
    by (subst (asm) (2) parsePacketFilterContents.simps)
       (auto simp: res_bind_eq_Inl split: prod.splits dest: parseComponent_safe, blast)
qed

lemma parseFilters_safe: "parseFilters raw n i offset acc = Inl e \<Longrightarrow> \<not> panics e"
proof (induction raw n i offset acc rule: parseFilters.induct)
  case (2 raw n i offset acc)
  then show ?case
    by (auto simp: Let_def split: if_splits sum.splits dest: parsePacketFilterContents_safe)
qed simp

text \<open>The two parsers fed by untrusted peers never index out of range: on every input the
  GTP-U header parser and the TFT parser return a value or an ordinary error.\<close>

theorem gtpu_parsers_never_panic:
  "parseGTPU b \<noteq> Inl GtpuPanic \<and> (case ParseTFT b of Inl e \<Rightarrow> \<not> panics e | Inr _ \<Rightarrow> True)"
  using parseGTPU_safe[of b] parseFilters_safe[of b "unat (b ! 0 AND 0x0f)" 0 1 "[]"]
  by (auto simp: ParseTFT_def Let_def res_bind_eq_Inl split: sum.splits if_splits)

text \<open>Each announced filter is delivered, and carries the four-bit identifier and two-bit direction.\<close>

lemma parseFilters_length: "parseFilters raw n i offset acc = Inr fs \<Longrightarrow> length fs = length acc + n"
proof (induction raw n i offset acc rule: parseFilters.induct)
  case (2 raw n i offset acc)
  then show ?case by (auto simp: Let_def res_bind_eq_Inr split: if_splits sum.splits)
qed simp

section \<open>The limiter\<close>

primrec limiter_run :: "errorIndicationLimiter \<Rightarrow> int list \<Rightarrow> nat" where
  "limiter_run l [] = 0"
| "limiter_run l (t # ts) =
     (if fst (limiter_allow l t) then 1 else 0) + limiter_run (snd (limiter_allow l t)) ts"

lemma limiter_run_same_window:
  "lim_windowStart l = Some w \<Longrightarrow> T \<le> w \<Longrightarrow> \<forall>t \<in> set ts. t < T + 1000000000 \<Longrightarrow>
   limiter_run l ts \<le> errorIndicationMaxPerSecond - lim_count l"
proof (induction ts arbitrary: l)
  case (Cons t ts)
  then have "\<not> t - w \<ge> 1000000000" by auto
  with Cons.prems(1) have
    "limiter_allow l t = (if lim_count l \<ge> errorIndicationMaxPerSecond then (False, l)
                          else (True, l\<lparr>lim_count := lim_count l + 1\<rparr>))"
    by (simp add: limiter_allow_def)
  with Cons.prems Cons.IH[of l] Cons.IH[of "l\<lparr>lim_count := lim_count l + 1\<rparr>"] show ?case
    by (cases "lim_count l \<ge> 50") auto
qed simp

lemma limiter_run_two_windows:
  "\<forall>t \<in> set ts. T \<le> t \<and> t < T + 1000000000 \<Longrightarrow>
   limiter_run l ts \<le> (errorIndicationMaxPerSecond - lim_count l) + errorIndicationMaxPerSecond"
proof (induction ts arbitrary: l)
  case (Cons t ts)
  show ?case
  proof (cases "case lim_windowStart l of None \<Rightarrow> True | Some w \<Rightarrow> t - w \<ge> 1000000000")
    case True
    then have "limiter_allow l t = (True, \<lparr>lim_windowStart = Some t, lim_count = 1\<rparr>)"
      by (simp add: limiter_allow_def)
    moreover have "limiter_run \<lparr>lim_windowStart = Some t, lim_count = 1\<rparr> ts \<le> 50 - 1"
      using limiter_run_same_window[of "\<lparr>lim_windowStart = Some t, lim_count = 1\<rparr>" t T ts] Cons.prems by auto
    ultimately show ?thesis by simp
  next
    case False
    then have "limiter_allow l t = (if lim_count l \<ge> 50 then (False, l)
                          else (True, l\<lparr>lim_count := lim_count l + 1\<rparr>))"
      by (simp add: limiter_allow_def)
    then show ?thesis using Cons.IH[of l] Cons.IH[of "l\<lparr>lim_count := lim_count l + 1\<rparr>"] Cons.prems
      by (cases "lim_count l \<ge> 50") auto
  qed
qed simp

text \<open>Whatever the state of the limiter, calls that all fall within one second grant at most
  twice the per-window budget of Error Indications.\<close>

theorem limiter_rate_bound:
  assumes "\<forall>t \<in> set ts. T \<le> t \<and> t < T + 1000000000"
  shows "limiter_run l ts \<le> 2 * errorIndicationMaxPerSecond"
  using limiter_run_two_windows[OF assms, of l] by simp

theorem limiter_rate_bound_witness: "limiter_run limiter_zero [5, 6, 999999999] \<le> 100"
  using limiter_rate_bound[of "[5, 6, 999999999]" 0 limiter_zero] by simp

text \<open>The factor two is reached but for one: a window opened by a single call and filled in its last
  nanosecond is followed at once by a full new window, 99 grants within two nanoseconds.\<close>

lemma limiter_boundary_burst:
  "limiter_run (snd (limiter_allow limiter_zero 0)) (replicate 49 999999999 @ replicate 50 1000000000) = 99"
  by code_simp

end
