(* ===== verification/GtpuKernel.thy ===== *)
theory GtpuKernel
  imports GtpuCodec
begin

text \<open>
  The kernel tables behind the dataplane and the code that writes them
  (\<^verbatim>\<open>internal/gtpu/bpf_loader.go\<close>, \<^verbatim>\<open>internal/gtpu/tc_loader.go\<close> and the route helpers of
  \<^verbatim>\<open>dataplane.go\<close>).  The eBPF maps, the routing table and the links belong to the kernel:
  they are a state record \<open>kern\<close> with the documented meaning of \<^verbatim>\<open>Put\<close>, \<^verbatim>\<open>Lookup\<close>, \<^verbatim>\<open>Delete\<close>,
  \<^verbatim>\<open>RouteAdd\<close> and \<^verbatim>\<open>RouteDel\<close>, and every call may fail: the argument \<open>F\<close> decides, per call
  (counted by \<open>k_tick\<close>) and kind of call, whether the kernel refuses it (a full map, a
  missing permission).  Nothing is assumed of \<open>F\<close> unless a lemma says so.
\<close>

section \<open>Kernel tables\<close>

record TCBPFTFTRule =
  tr_TEID :: u32
  tr_Precedence :: byte
  tr_Flags :: byte
  tr_Protocol :: byte
  tr_RemoteIP :: bytes
  tr_RemoteMask :: bytes
  tr_LocalPortLo :: u16
  tr_LocalPortHi :: u16
  tr_RemotePortLo :: u16
  tr_RemotePortHi :: u16

record ue_entry =
  ue_UlTeid :: u32
  ue_S2bIfindex :: u32
  ue_PgwIp :: bytes
  ue_LocalIp :: bytes
  ue_RuleCount :: u32

record kern =
  k_teid :: "u32 \<rightharpoonup> bytes \<times> bytes"
  k_dlcnt :: "u32 \<rightharpoonup> u64 \<times> u64"
  k_ulcnt :: "u32 \<rightharpoonup> u64 \<times> u64"
  k_ue :: "bytes \<rightharpoonup> ue_entry"
  k_rules :: "bytes \<times> nat \<rightharpoonup> TCBPFTFTRule"
  k_routes :: "bytes \<times> int \<Rightarrow> bool"
  k_tick :: nat

datatype kcall = KPut | KLookup | KDelete | KRouteAdd | KRouteDel | KLinkByName

type_synonym faults = "nat \<Rightarrow> kcall \<Rightarrow> bool"

datatype kerr = ErrFault | ErrKeyNotExist | ErrExist | ErrNotFound

definition ktick :: "kern \<Rightarrow> kern" where
  "ktick k = k\<lparr>k_tick := Suc (k_tick k)\<rparr>"

definition kput :: "faults \<Rightarrow> kern \<Rightarrow> (kern \<Rightarrow> kern) \<Rightarrow> kerr option \<times> kern" where
  "kput F k upd = (if F (k_tick k) KPut then (Some ErrFault, ktick k) else (None, upd (ktick k)))"

definition klookup :: "faults \<Rightarrow> kern \<Rightarrow> 'v option \<Rightarrow> 'v option \<times> kern" where
  "klookup F k v = (if F (k_tick k) KLookup then None else v, ktick k)"

definition kdelete :: "faults \<Rightarrow> kern \<Rightarrow> bool \<Rightarrow> (kern \<Rightarrow> kern) \<Rightarrow> kerr option \<times> kern" where
  "kdelete F k present upd =
    (if F (k_tick k) KDelete then (Some ErrFault, ktick k)
     else if \<not> present then (Some ErrKeyNotExist, ktick k)
     else (None, upd (ktick k)))"

definition kRouteAdd :: "faults \<Rightarrow> kern \<Rightarrow> bytes \<times> int \<Rightarrow> kerr option \<times> kern" where
  "kRouteAdd F k r =
    (if F (k_tick k) KRouteAdd then (Some ErrFault, ktick k)
     else if k_routes k r then (Some ErrExist, ktick k)
     else (None, (ktick k)\<lparr>k_routes := (k_routes k)(r := True)\<rparr>))"

definition kRouteDel :: "faults \<Rightarrow> kern \<Rightarrow> bytes \<times> int \<Rightarrow> kerr option \<times> kern" where
  "kRouteDel F k r =
    (if F (k_tick k) KRouteDel then (Some ErrFault, ktick k)
     else if \<not> k_routes k r then (Some ErrNotFound, ktick k)
     else (None, (ktick k)\<lparr>k_routes := (k_routes k)(r := False)\<rparr>))"

text \<open>The test \<^verbatim>\<open>err != nil && !errors.Is(err, ebpf.ErrKeyNotExist)\<close>.\<close>

definition real_err :: "kerr option \<Rightarrow> bool" where
  "real_err e \<longleftrightarrow> e \<noteq> None \<and> e \<noteq> Some ErrKeyNotExist"

datatype dp_error =
    PAAMustBeIPv4
  | PGWMustBeIPv4
  | TeidMapPut u32 kerr
  | TeidMapDelete u32 kerr
  | DlCountersDelete u32 kerr
  | UlCountersDelete u32 kerr
  | AllIPsMustBeIPv4
  | UeSessionMapPut kerr
  | UeSessionMapLookup
  | UeSessionMapDelete kerr
  | TooManyRules nat
  | RuleMapPut nat kerr
  | RuleMapDelete nat kerr
  | RouteAddFailed kerr
  | RouteDelFailed kerr
  | InterfaceNotSet
  | LinkNotFound string
  | RequiresS2bContext
  | RequiresIPv4PAA string
  | MissingPGWGTPUIP
  | InvalidLocalGTPUIP string
  | TEIDCollision u32
  | BearerRequiresEBIAndTEIDs
  | SessionNotFound string
  | BearerNotFound byte string
  | UnknownXDPMode string

abbreviation (input) maxTCBPFTFTRules :: nat where "maxTCBPFTFTRules \<equiv> 32"

section \<open>Downlink: teid map\<close>

definition AddTEID :: "faults \<Rightarrow> kern \<Rightarrow> u32 \<Rightarrow> net_ip \<Rightarrow> net_ip \<Rightarrow> dp_error option \<times> kern" where
  "AddTEID F k teid paa pgwAddr =
    (if To4 paa = [] then (Some PAAMustBeIPv4, k)
     else if To4 pgwAddr = [] then (Some PGWMustBeIPv4, k)
     else case kput F k (\<lambda>k'. k'\<lparr>k_teid := (k_teid k')(teid \<mapsto> (To4 paa, To4 pgwAddr))\<rparr>) of
       (Some e, k') \<Rightarrow> (Some (TeidMapPut teid e), k')
     | (None, k') \<Rightarrow> (None, k'))"

definition RemoveTEID :: "faults \<Rightarrow> kern \<Rightarrow> u32 \<Rightarrow> dp_error option \<times> kern" where
  "RemoveTEID F k teid =
    (case kdelete F k (k_teid k teid \<noteq> None) (\<lambda>k'. k'\<lparr>k_teid := (k_teid k')(teid := None)\<rparr>) of
       (e, k') \<Rightarrow> (if real_err e then Some (TeidMapDelete teid (the e)) else None, k'))"

definition dl_BearerCounter :: "faults \<Rightarrow> kern \<Rightarrow> u32 \<Rightarrow> (u64 \<times> u64) option \<times> kern" where
  "dl_BearerCounter F k teid = klookup F k (k_dlcnt k teid)"

definition dl_RemoveBearerCounter :: "faults \<Rightarrow> kern \<Rightarrow> u32 \<Rightarrow> dp_error option \<times> kern" where
  "dl_RemoveBearerCounter F k teid =
    (case kdelete F k (k_dlcnt k teid \<noteq> None) (\<lambda>k'. k'\<lparr>k_dlcnt := (k_dlcnt k')(teid := None)\<rparr>) of
       (e, k') \<Rightarrow> (if real_err e then Some (DlCountersDelete teid (the e)) else None, k'))"

datatype XDPAttachFlags = XDPGenericMode | XDPDriverMode | XDPOffloadMode

definition parseXDPMode :: "string \<Rightarrow> dp_error + XDPAttachFlags" where
  "parseXDPMode mode =
    (if mode = ''generic'' then Inr XDPGenericMode
     else if mode = ''native'' then Inr XDPDriverMode
     else if mode = ''offload'' then Inr XDPOffloadMode
     else Inl (UnknownXDPMode mode))"

section \<open>Uplink: UE sessions and TFT rules\<close>

definition AddUESession ::
  "faults \<Rightarrow> kern \<Rightarrow> net_ip \<Rightarrow> u32 \<Rightarrow> net_ip \<Rightarrow> net_ip \<Rightarrow> int \<Rightarrow> dp_error option \<times> kern" where
  "AddUESession F k paa ulTEID pgwIP localIP s2bIfindex =
    (if To4 paa = [] \<or> To4 pgwIP = [] \<or> To4 localIP = [] then (Some AllIPsMustBeIPv4, k)
     else
       let entry = \<lparr>ue_UlTeid = ulTEID, ue_S2bIfindex = of_int s2bIfindex, ue_PgwIp = To4 pgwIP,
                    ue_LocalIp = To4 localIP, ue_RuleCount = 0\<rparr>
       in case kput F k (\<lambda>k'. k'\<lparr>k_ue := (k_ue k')(To4 paa \<mapsto> entry)\<rparr>) of
            (Some e, k') \<Rightarrow> (Some (UeSessionMapPut e), k')
          | (None, k') \<Rightarrow> (None, k'))"

fun clearTFTRules_from :: "faults \<Rightarrow> kern \<Rightarrow> bytes \<Rightarrow> nat \<Rightarrow> nat \<Rightarrow> dp_error option \<times> kern" where
  "clearTFTRules_from F k paa4 i 0 = (None, k)"
| "clearTFTRules_from F k paa4 i (Suc n) =
    (case kdelete F k (k_rules k (paa4, i) \<noteq> None) (\<lambda>k'. k'\<lparr>k_rules := (k_rules k')((paa4, i) := None)\<rparr>) of
       (e, k') \<Rightarrow> if real_err e then (Some (RuleMapDelete i (the e)), k')
                  else clearTFTRules_from F k' paa4 (i + 1) n)"

definition clearTFTRules :: "faults \<Rightarrow> kern \<Rightarrow> bytes \<Rightarrow> dp_error option \<times> kern" where
  "clearTFTRules F k paa4 = clearTFTRules_from F k paa4 0 maxTCBPFTFTRules"

definition ClearTFTRules :: "faults \<Rightarrow> kern \<Rightarrow> net_ip \<Rightarrow> dp_error option \<times> kern" where
  "ClearTFTRules F k paa = (if To4 paa = [] then (None, k) else clearTFTRules F k (To4 paa))"

fun putTFTRules :: "faults \<Rightarrow> kern \<Rightarrow> bytes \<Rightarrow> nat \<Rightarrow> TCBPFTFTRule list \<Rightarrow> dp_error option \<times> kern" where
  "putTFTRules F k paa4 i [] = (None, k)"
| "putTFTRules F k paa4 i (rule # rules) =
    (case kput F k (\<lambda>k'. k'\<lparr>k_rules := (k_rules k')((paa4, i) \<mapsto> rule)\<rparr>) of
       (Some e, k') \<Rightarrow> (Some (RuleMapPut i e), k')
     | (None, k') \<Rightarrow> putTFTRules F k' paa4 (i + 1) rules)"

definition put_ue :: "faults \<Rightarrow> kern \<Rightarrow> bytes \<Rightarrow> ue_entry \<Rightarrow> kerr option \<times> kern" where
  "put_ue F k paa4 entry = kput F k (\<lambda>k'. k'\<lparr>k_ue := (k_ue k')(paa4 \<mapsto> entry)\<rparr>)"

definition SetTFTRules :: "faults \<Rightarrow> kern \<Rightarrow> net_ip \<Rightarrow> TCBPFTFTRule list \<Rightarrow> dp_error option \<times> kern" where
  "SetTFTRules F k paa rules =
    (let paa4 = To4 paa in
     if paa4 = [] then (Some PAAMustBeIPv4, k)
     else if length rules > maxTCBPFTFTRules then (Some (TooManyRules (length rules)), k)
     else case klookup F k (k_ue k paa4) of
       (None, k1) \<Rightarrow> (Some UeSessionMapLookup, k1)
     | (Some entry, k1) \<Rightarrow>
        (case put_ue F k1 paa4 (entry\<lparr>ue_RuleCount := 0\<rparr>) of
           (Some e, k2) \<Rightarrow> (Some (UeSessionMapPut e), k2)
         | (None, k2) \<Rightarrow>
            (case clearTFTRules F k2 paa4 of
               (Some e, k3) \<Rightarrow> (Some e, k3)
             | (None, k3) \<Rightarrow>
                (case putTFTRules F k3 paa4 0 rules of
                   (Some e, k4) \<Rightarrow> (Some e, k4)
                 | (None, k4) \<Rightarrow>
                    (case put_ue F k4 paa4 (entry\<lparr>ue_RuleCount := of_nat (length rules)\<rparr>) of
                       (Some e, k5) \<Rightarrow> (Some (UeSessionMapPut e), k5)
                     | (None, k5) \<Rightarrow> (None, k5))))))"

definition ul_BearerCounter :: "faults \<Rightarrow> kern \<Rightarrow> u32 \<Rightarrow> (u64 \<times> u64) option \<times> kern" where
  "ul_BearerCounter F k teid = klookup F k (k_ulcnt k teid)"

definition ul_RemoveBearerCounter :: "faults \<Rightarrow> kern \<Rightarrow> u32 \<Rightarrow> dp_error option \<times> kern" where
  "ul_RemoveBearerCounter F k teid =
    (case kdelete F k (k_ulcnt k teid \<noteq> None) (\<lambda>k'. k'\<lparr>k_ulcnt := (k_ulcnt k')(teid := None)\<rparr>) of
       (e, k') \<Rightarrow> (if real_err e then Some (UlCountersDelete teid (the e)) else None, k'))"

definition RemoveUESession :: "faults \<Rightarrow> kern \<Rightarrow> net_ip \<Rightarrow> dp_error option \<times> kern" where
  "RemoveUESession F k paa =
    (let paa4 = To4 paa in
     if paa4 = [] then (None, k)
     else case clearTFTRules F k paa4 of
       (Some e, k') \<Rightarrow> (Some e, k')
     | (None, k') \<Rightarrow>
        (case kdelete F k' (k_ue k' paa4 \<noteq> None) (\<lambda>k''. k''\<lparr>k_ue := (k_ue k'')(paa4 := None)\<rparr>) of
           (e, k'') \<Rightarrow> (if real_err e then Some (UeSessionMapDelete (the e)) else None, k'')))"

section \<open>What the operations change\<close>

named_theorems kern_simps \<open>one kernel call\<close>

lemmas kcall_defs [kern_simps] = kput_def klookup_def kdelete_def kRouteAdd_def kRouteDel_def ktick_def real_err_def

text \<open>Only the rules of one subscriber address (and the call counter) changed.\<close>

definition rules_frame :: "bytes \<Rightarrow> kern \<Rightarrow> kern \<Rightarrow> bool" where
  "rules_frame p k k' \<longleftrightarrow>
    k_teid k' = k_teid k \<and> k_dlcnt k' = k_dlcnt k \<and> k_ulcnt k' = k_ulcnt k \<and> k_ue k' = k_ue k \<and>
    k_routes k' = k_routes k \<and> (\<forall>q j. q \<noteq> p \<longrightarrow> k_rules k' (q, j) = k_rules k (q, j))"

lemma rules_frame_refl [simp]: "rules_frame p k k"
  by (simp add: rules_frame_def)

lemma rules_frame_trans: "rules_frame p k k' \<Longrightarrow> rules_frame p k' k'' \<Longrightarrow> rules_frame p k k''"
  by (simp add: rules_frame_def)

lemma clearTFTRules_from_frame:
  "clearTFTRules_from F k p i n = (e, k') \<Longrightarrow>
   rules_frame p k k' \<and> (\<forall>j. j < i \<longrightarrow> k_rules k' (p, j) = k_rules k (p, j)) \<and>
   (e = None \<longrightarrow> (\<forall>j. i \<le> j \<and> j < i + n \<longrightarrow> k_rules k' (p, j) = None))"
proof (induction F k p i n rule: clearTFTRules_from.induct)
  case (2 F k p i n)
  obtain e1 k1 where d: "kdelete F k (k_rules k (p, i) \<noteq> None) (\<lambda>k'. k'\<lparr>k_rules := (k_rules k')((p, i) := None)\<rparr>) = (e1, k1)"
    by fastforce
  then have fr: "rules_frame p k k1" "\<forall>j. j \<noteq> i \<longrightarrow> k_rules k1 (p, j) = k_rules k (p, j)"
    and del: "\<not> real_err e1 \<Longrightarrow> k_rules k1 (p, i) = None"
    by (auto simp: kern_simps rules_frame_def split: if_splits)
  show ?case
  proof (cases "real_err e1")
    case True
    with "2.prems" d fr show ?thesis by auto
  next
    case False
    with "2.prems" d have "clearTFTRules_from F k1 p (i + 1) n = (e, k')" by simp
    from "2.IH"[OF d[symmetric] False this] fr del[OF False] show ?thesis
      by (auto intro: rules_frame_trans simp: Suc_le_eq) (metis le_neq_implies_less less_Suc_eq)+
  qed
qed auto

lemma putTFTRules_frame:
  "putTFTRules F k p i rules = (e, k') \<Longrightarrow>
   rules_frame p k k' \<and> (\<forall>j. j < i \<or> i + length rules \<le> j \<longrightarrow> k_rules k' (p, j) = k_rules k (p, j)) \<and>
   (e = None \<longrightarrow> (\<forall>j < length rules. k_rules k' (p, i + j) = Some (rules ! j)))"
proof (induction F k p i rules rule: putTFTRules.induct)
  case (2 F k p i rule rules)
  obtain e1 k1 where d: "kput F k (\<lambda>k'. k'\<lparr>k_rules := (k_rules k')((p, i) \<mapsto> rule)\<rparr>) = (e1, k1)"
    by fastforce
  then have fr: "rules_frame p k k1" "\<forall>j. j \<noteq> i \<longrightarrow> k_rules k1 (p, j) = k_rules k (p, j)"
    and new: "e1 = None \<Longrightarrow> k_rules k1 (p, i) = Some rule"
    by (auto simp: kern_simps rules_frame_def split: if_splits)
  show ?case
  proof (cases e1)
    case (Some x)
    with "2.prems" d fr show ?thesis by auto
  next
    case None
    with "2.prems" d have "putTFTRules F k1 p (i + 1) rules = (e, k')" by simp
    from "2.IH"[OF d[symmetric] None this] fr new[OF None] show ?thesis
      by (auto intro: rules_frame_trans simp: nth_Cons split: nat.splits)
  qed
qed auto

lemma put_ue_result:
  "put_ue F k p entry = (e, k') \<Longrightarrow>
   k_rules k' = k_rules k \<and> k_teid k' = k_teid k \<and> k_dlcnt k' = k_dlcnt k \<and> k_ulcnt k' = k_ulcnt k \<and>
   k_routes k' = k_routes k \<and> k_ue k' = (if e = None then (k_ue k)(p \<mapsto> entry) else k_ue k)"
  by (auto simp: put_ue_def kern_simps split: if_splits)

lemma SetTFTRules_success:
  assumes "SetTFTRules F k paa rules = (None, k')"
  obtains entry where "k_ue k (To4 paa) = Some entry"
    "k_ue k' = (k_ue k)(To4 paa \<mapsto> entry\<lparr>ue_RuleCount := of_nat (length rules)\<rparr>)"
    "\<forall>j < 32. k_rules k' (To4 paa, j) = (if j < length rules then Some (rules ! j) else None)"
    "\<forall>q j. q \<noteq> To4 paa \<longrightarrow> k_rules k' (q, j) = k_rules k (q, j)"
    "length rules \<le> 32" "k_teid k' = k_teid k" "k_routes k' = k_routes k"
proof -
  let ?p = "To4 paa"
  from assms obtain entry k1 k2 k3 k4 where
    s: "length rules \<le> 32" "klookup F k (k_ue k ?p) = (Some entry, k1)"
    "put_ue F k1 ?p (entry\<lparr>ue_RuleCount := 0\<rparr>) = (None, k2)"
    "clearTFTRules F k2 ?p = (None, k3)" "putTFTRules F k3 ?p 0 rules = (None, k4)"
    "put_ue F k4 ?p (entry\<lparr>ue_RuleCount := of_nat (length rules)\<rparr>) = (None, k')"
    by (auto simp: SetTFTRules_def Let_def split: if_splits prod.splits option.splits)
  have l: "k_ue k ?p = Some entry" "k_ue k1 = k_ue k" "k_rules k1 = k_rules k" "k_teid k1 = k_teid k" "k_routes k1 = k_routes k"
    using s(2) by (auto simp: kern_simps split: if_splits)
  note r = put_ue_result[OF s(3)] clearTFTRules_from_frame[OF s(4)[unfolded clearTFTRules_def]]
    putTFTRules_frame[OF s(5)] put_ue_result[OF s(6)]
  show ?thesis
  proof (rule that[OF l(1)])
    show "\<forall>j < 32. k_rules k' (?p, j) = (if j < length rules then Some (rules ! j) else None)"
      using r by auto
  qed (use s(1) l r in \<open>auto simp: rules_frame_def\<close>)
qed

text \<open>With a kernel that refuses nothing, installing at most 32 rules for a known subscriber succeeds.\<close>

lemma no_fault_steps:
  assumes "\<forall>t c. \<not> F t c"
  shows "\<exists>k'. put_ue F k p entry = (None, k')"
    and "\<exists>k'. clearTFTRules_from F k p i n = (None, k')"
    and "\<exists>k'. putTFTRules F k p i rules = (None, k')"
proof -
  show "\<exists>k'. put_ue F k p entry = (None, k')" using assms by (simp add: put_ue_def kern_simps)
  show "\<exists>k'. clearTFTRules_from F k p i n = (None, k')"
    using assms by (induction n arbitrary: k i) (auto simp: kern_simps)
  show "\<exists>k'. putTFTRules F k p i rules = (None, k')"
    using assms by (induction rules arbitrary: k i) (auto simp: kern_simps)
qed

lemma SetTFTRules_no_fault:
  assumes F: "\<forall>t c. \<not> F t c" and "To4 paa \<noteq> []" "length rules \<le> 32" "k_ue k (To4 paa) = Some entry"
  shows "\<exists>k'. SetTFTRules F k paa rules = (None, k')"
proof -
  let ?p = "To4 paa"
  obtain k2 where "put_ue F (ktick k) ?p (entry\<lparr>ue_RuleCount := 0\<rparr>) = (None, k2)"
    using no_fault_steps(1)[OF F] by blast
  moreover obtain k3 where "clearTFTRules_from F k2 ?p 0 32 = (None, k3)" using no_fault_steps(2)[OF F] by blast
  moreover obtain k4 where "putTFTRules F k3 ?p 0 rules = (None, k4)" using no_fault_steps(3)[OF F] by blast
  moreover obtain k5 where "put_ue F k4 ?p (entry\<lparr>ue_RuleCount := of_nat (length rules)\<rparr>) = (None, k5)"
    using no_fault_steps(1)[OF F] by blast
  ultimately show ?thesis using assms by (simp add: SetTFTRules_def clearTFTRules_def klookup_def Let_def)
qed

text \<open>Installing the packet filters of a subscriber replaces the previous ones: on success the
  rule table holds exactly the given rules in order, the rule count says so, and other
  subscribers' rules are untouched.\<close>

theorem SetTFTRules_installs:
  assumes "SetTFTRules F k paa rules = (None, k')"
  shows "(\<forall>j < 32. k_rules k' (To4 paa, j) = (if j < length rules then Some (rules ! j) else None)) \<and>
    map_option ue_RuleCount (k_ue k' (To4 paa)) = Some (of_nat (length rules)) \<and>
    map_option ue_UlTeid (k_ue k' (To4 paa)) = map_option ue_UlTeid (k_ue k (To4 paa)) \<and>
    (\<forall>q j. q \<noteq> To4 paa \<longrightarrow> k_rules k' (q, j) = k_rules k (q, j) \<and> k_ue k' q = k_ue k q)"
  by (rule SetTFTRules_success[OF assms]) simp

theorem SetTFTRules_installs_witness:
  "\<exists>k'. SetTFTRules (\<lambda>_ _. False)
      \<lparr>k_teid = Map.empty, k_dlcnt = Map.empty, k_ulcnt = Map.empty,
       k_ue = [[10, 0, 0, 1] \<mapsto> \<lparr>ue_UlTeid = 7, ue_S2bIfindex = 2, ue_PgwIp = [1, 1, 1, 1], ue_LocalIp = [2, 2, 2, 2], ue_RuleCount = 0\<rparr>],
       k_rules = Map.empty, k_routes = (\<lambda>_. False), k_tick = 0\<rparr> [10, 0, 0, 1] [] = (None, k')
     \<and> map_option ue_RuleCount (k_ue k' [10, 0, 0, 1]) = Some 0" (is "\<exists>k'. SetTFTRules ?F ?k ?p [] = (None, k') \<and> _")
proof -
  obtain k' where k': "SetTFTRules ?F ?k ?p [] = (None, k')"
    using SetTFTRules_no_fault[of ?F ?p "[]" ?k] by auto
  from SetTFTRules_installs[OF k'] k' show ?thesis by auto
qed

text \<open>C16.  A failed installation never exposes a partly written rule set to the packet path: either the
  subscriber's entry and rules are as before, or its rule count is zero.\<close>

theorem SetTFTRules_failure_safe:
  assumes "SetTFTRules F k paa rules = (Some e, k')"
  shows "(k_ue k' = k_ue k \<and> k_rules k' = k_rules k) \<or>
         map_option ue_RuleCount (k_ue k' (To4 paa)) = Some 0"
proof -
  let ?p = "To4 paa"
  obtain v k1 where l: "klookup F k (k_ue k ?p) = (v, k1)" by fastforce
  then have same: "k_ue k1 = k_ue k" "k_rules k1 = k_rules k" by (auto simp: kern_simps)
  show ?thesis
  proof (cases "?p = [] \<or> length rules > 32 \<or> v = None")
    case True
    with assms l same show ?thesis by (auto simp: SetTFTRules_def Let_def split: if_splits option.splits)
  next
    case False
    then obtain entry where v: "v = Some entry" by blast
    obtain e2 k2 where p2: "put_ue F k1 ?p (entry\<lparr>ue_RuleCount := 0\<rparr>) = (e2, k2)" by fastforce
    obtain e3 k3 where p3: "clearTFTRules F k2 ?p = (e3, k3)" by fastforce
    obtain e4 k4 where p4: "putTFTRules F k3 ?p 0 rules = (e4, k4)" by fastforce
    obtain e5 k5 where p5: "put_ue F k4 ?p (entry\<lparr>ue_RuleCount := of_nat (length rules)\<rparr>) = (e5, k5)" by fastforce
    note fr = put_ue_result[OF p2] clearTFTRules_from_frame[OF p3[unfolded clearTFTRules_def]]
      putTFTRules_frame[OF p4] put_ue_result[OF p5]
    from assms False l v p2 p3 p4 p5 have "(e2 \<noteq> None \<and> k' = k2) \<or>
        (e2 = None \<and> (k' = k3 \<or> e3 = None \<and> (k' = k4 \<or> e4 = None \<and> e5 \<noteq> None \<and> k' = k5)))"
      by (auto simp: SetTFTRules_def Let_def split: option.splits)
    with fr same show ?thesis by (auto simp: rules_frame_def)
  qed
qed

theorem SetTFTRules_failure_safe_witness:
  "\<exists>e k'. SetTFTRules (\<lambda>t c. c = KPut)
      \<lparr>k_teid = Map.empty, k_dlcnt = Map.empty, k_ulcnt = Map.empty,
       k_ue = [[10, 0, 0, 1] \<mapsto> \<lparr>ue_UlTeid = 7, ue_S2bIfindex = 2, ue_PgwIp = [1, 1, 1, 1], ue_LocalIp = [2, 2, 2, 2], ue_RuleCount = 3\<rparr>],
       k_rules = Map.empty, k_routes = (\<lambda>_. False), k_tick = 0\<rparr> [10, 0, 0, 1] [] = (Some e, k')
     \<and> (k_ue k' [10, 0, 0, 1] \<noteq> None)" (is "\<exists>e k'. SetTFTRules ?F ?k ?p [] = (Some e, k') \<and> _")
proof -
  have "\<exists>e k'. SetTFTRules ?F ?k ?p [] = (Some e, k')"
    by (simp add: SetTFTRules_def put_ue_def kern_simps)
  then obtain e k' where "SetTFTRules ?F ?k ?p [] = (Some e, k')" by blast
  with SetTFTRules_failure_safe[OF this] show ?thesis by auto
qed

section \<open>Doing and undoing, up to the call counter\<close>

text \<open>The tables without the call counter; \<open>del_ok\<close> is a kernel that does not refuse deletions.\<close>

definition tables :: "kern \<Rightarrow> kern" where
  "tables k = k\<lparr>k_tick := 0\<rparr>"

definition del_ok :: "faults \<Rightarrow> bool" where
  "del_ok F \<longleftrightarrow> (\<forall>t. \<not> F t KDelete \<and> \<not> F t KRouteDel)"

lemma tables_simps [simp]:
  "k_teid (tables k) = k_teid k" "k_ue (tables k) = k_ue k" "k_rules (tables k) = k_rules k" "k_routes (tables k) = k_routes k"
  by (simp_all add: tables_def)

lemma tables_eqI:
  "k_teid k = k_teid k' \<Longrightarrow> k_dlcnt k = k_dlcnt k' \<Longrightarrow> k_ulcnt k = k_ulcnt k' \<Longrightarrow> k_ue k = k_ue k' \<Longrightarrow>
   k_rules k = k_rules k' \<Longrightarrow> k_routes k = k_routes k' \<Longrightarrow> tables k = tables k'"
  by (simp add: tables_def)

text \<open>The effect of the undo operations on the tables.\<close>

definition undo_teid :: "u32 \<Rightarrow> kern \<Rightarrow> kern" where
  "undo_teid teid k = k\<lparr>k_teid := (k_teid k)(teid := None)\<rparr>"

definition undo_route :: "bytes \<times> int \<Rightarrow> kern \<Rightarrow> kern" where
  "undo_route r k = k\<lparr>k_routes := (k_routes k)(r := False)\<rparr>"

definition undo_ue :: "bytes \<Rightarrow> kern \<Rightarrow> kern" where
  "undo_ue p k = k\<lparr>k_ue := (k_ue k)(p := None),
     k_rules := (\<lambda>(q, j). if q = p \<and> j < maxTCBPFTFTRules then None else k_rules k (q, j))\<rparr>"

lemma RemoveTEID_tables: "del_ok F \<Longrightarrow> tables (snd (RemoveTEID F k teid)) = undo_teid teid (tables k)"
  by (cases "k_teid k teid"; rule kern.equality)
     (auto simp: RemoveTEID_def kern_simps del_ok_def tables_def undo_teid_def fun_eq_iff)

lemma kRouteDel_tables: "del_ok F \<Longrightarrow> tables (snd (kRouteDel F k r)) = undo_route r (tables k)"
  by (rule kern.equality) (auto simp: kern_simps del_ok_def tables_def undo_route_def fun_eq_iff)

lemma clearTFTRules_del_ok: "del_ok F \<Longrightarrow> fst (clearTFTRules_from F k p i n) = None"
  by (induction n arbitrary: k i) (auto simp: kern_simps del_ok_def)

lemma clearTFTRules_from_above:
  "clearTFTRules_from F k p i n = (e, k') \<Longrightarrow> i + n \<le> j \<Longrightarrow> k_rules k' (p, j) = k_rules k (p, j)"
proof (induction F k p i n rule: clearTFTRules_from.induct)
  case (2 F k p i n)
  then show ?case by (auto simp: kern_simps split: if_splits)
qed auto

lemma clearTFTRules_tables:
  assumes "clearTFTRules F k p = (None, k')"
  shows "tables k' = (tables k)\<lparr>k_rules := (\<lambda>(q, j). if q = p \<and> j < maxTCBPFTFTRules then None else k_rules k (q, j))\<rparr>"
proof -
  from clearTFTRules_from_frame[OF assms[unfolded clearTFTRules_def]]
    clearTFTRules_from_above[OF assms[unfolded clearTFTRules_def]]
  have fr: "rules_frame p k k'" and r: "\<And>j. k_rules k' (p, j) = (if j < 32 then None else k_rules k (p, j))"
    by auto
  then have "k_rules k' (q, j) = (if q = p \<and> j < 32 then None else k_rules k (q, j))" for q j
    by (cases "q = p") (auto simp: rules_frame_def)
  then have "k_rules k' = (\<lambda>(q, j). if q = p \<and> j < 32 then None else k_rules k (q, j))" by (simp add: fun_eq_iff)
  with fr show ?thesis by (auto simp: tables_def rules_frame_def)
qed

lemma RemoveUESession_tables:
  assumes "del_ok F" "To4 paa \<noteq> []"
  shows "tables (snd (RemoveUESession F k paa)) = undo_ue (To4 paa) (tables k)"
proof -
  obtain k' where c: "clearTFTRules F k (To4 paa) = (None, k')"
    using clearTFTRules_del_ok[OF assms(1), of k "To4 paa" 0 32] by (metis clearTFTRules_def prod.collapse)
  have "\<not> F (k_tick k') KDelete" using assms(1) by (simp add: del_ok_def)
  then have "tables (snd (RemoveUESession F k paa)) = (tables k')\<lparr>k_ue := (k_ue k')(To4 paa := None)\<rparr>"
    using assms(2) c by (auto simp: RemoveUESession_def Let_def kern_simps tables_def fun_upd_idem intro!: kern.equality)
  moreover have "k_ue k' = k_ue k" using arg_cong[OF clearTFTRules_tables[OF c], of k_ue] by simp
  ultimately show ?thesis
    by (auto simp: clearTFTRules_tables[OF c] undo_ue_def fun_eq_iff intro!: kern.equality)
qed

text \<open>The effect of the installing operations: on failure none, on success an entry that the matching
  undo removes again.\<close>

lemma AddTEID_undone:
  assumes "AddTEID F k teid paa pgw = (e, k')" "k_teid k teid = None"
  shows "e \<noteq> None \<Longrightarrow> tables k' = tables k" "e = None \<Longrightarrow> undo_teid teid (tables k') = tables k"
  using assms
  by (auto simp: AddTEID_def kern_simps tables_def undo_teid_def fun_upd_idem split: if_splits intro!: kern.equality)

lemma kRouteAdd_undone:
  assumes "kRouteAdd F k r = (e, k')"
  shows "e \<noteq> None \<Longrightarrow> tables k' = tables k" "e = None \<Longrightarrow> undo_route r (tables k') = tables k"
  using assms
  by (auto simp: kern_simps tables_def undo_route_def fun_eq_iff split: if_splits intro!: kern.equality)

lemma AddUESession_undone:
  assumes "AddUESession F k paa ul pgw loc idx = (e, k')" "k_ue k (To4 paa) = None" "\<forall>j. k_rules k (To4 paa, j) = None"
  shows "e \<noteq> None \<Longrightarrow> tables k' = tables k"
    "e = None \<Longrightarrow> undo_ue (To4 paa) (tables k') = tables k"
  using assms
  by (auto simp: AddUESession_def kern_simps tables_def undo_ue_def fun_eq_iff Let_def split: if_splits intro!: kern.equality)

text \<open>Between adding a subscriber and its undo, installing no rules does not matter.\<close>

lemma clearTFTRules_from_none:
  "clearTFTRules_from F k p i n = (e, k') \<Longrightarrow> \<forall>j. k_rules k (p, j) = None \<Longrightarrow> \<forall>j. k_rules k' (p, j) = None"
proof (induction F k p i n rule: clearTFTRules_from.induct)
  case (2 F k p i n)
  then show ?case by (auto simp: kern_simps split: if_splits)
qed auto

lemma SetTFTRules_nil_undone:
  assumes "SetTFTRules F k paa [] = (e, k')" "\<forall>j. k_rules k (To4 paa, j) = None"
  shows "undo_ue (To4 paa) (tables k') = undo_ue (To4 paa) (tables k)"
proof -
  let ?p = "To4 paa"
  have same: "undo_ue ?p (tables k1) = undo_ue ?p (tables k2)"
    if "\<forall>q. q \<noteq> ?p \<longrightarrow> k_ue k1 q = k_ue k2 q" "k_rules k1 = k_rules k2" "k_teid k1 = k_teid k2"
      "k_dlcnt k1 = k_dlcnt k2" "k_ulcnt k1 = k_ulcnt k2" "k_routes k1 = k_routes k2" for k1 k2
    using that by (auto simp: undo_ue_def tables_def fun_eq_iff)
  have put: "undo_ue ?p (tables k2) = undo_ue ?p (tables k1) \<and> k_rules k2 = k_rules k1"
    if "put_ue F k1 ?p en = (e1, k2)" for k1 en e1 k2
    using put_ue_result[OF that] by (auto intro!: same split: if_splits)
  have clr: "undo_ue ?p (tables k2) = undo_ue ?p (tables k1)"
    if "clearTFTRules F k1 ?p = (e1, k2)" "\<forall>j. k_rules k1 (?p, j) = None" for k1 e1 k2
  proof (rule same)
    note fr = clearTFTRules_from_frame[OF that(1)[unfolded clearTFTRules_def]]
    show "k_rules k2 = k_rules k1"
      using fr that(2) clearTFTRules_from_none[OF that(1)[unfolded clearTFTRules_def] that(2)]
      by (auto simp: fun_eq_iff rules_frame_def) metis
  qed (use clearTFTRules_from_frame[OF that(1)[unfolded clearTFTRules_def]] in \<open>auto simp: rules_frame_def\<close>)
  have look: "undo_ue ?p (tables k1) = undo_ue ?p (tables k) \<and> k_rules k1 = k_rules k" if "klookup F k v = (r, k1)" for v :: "ue_entry option" and r k1
    using that by (auto simp: kern_simps intro!: same)
  show ?thesis
    using assms by (auto simp: SetTFTRules_def Let_def split: if_splits prod.splits option.splits dest!: look put clr)
qed

end
