(* ===== verification/GtpuDataplane.thy ===== *)
theory GtpuDataplane
  imports GtpuKernel SessionFsm
begin

text \<open>
  The dataplane manager of \<^verbatim>\<open>internal/gtpu/dataplane.go\<close>: the session and TEID indexes, bearer
  management with its rollback log, the traffic-flow rules handed to the uplink program,
  the GTP-U control socket and path supervision.  The manager's four maps are HOL maps;
  \<^verbatim>\<open>sessionsByPAA\<close>, whose values are pointers into \<^verbatim>\<open>sessionsByID\<close>, holds the session identifier.
  The environment record \<open>genv\<close> collects what the methods read from outside: the
  configuration, link lookup, the kernel's refusals and the order in which Go visits a
  bearer map.  Log output is left out; datagrams to send are results.
\<close>

section \<open>State\<close>

datatype BearerState = BearerActive | BearerUnset

record BearerCounters =
  bc_UplinkPackets :: u64
  bc_UplinkBytes :: u64
  bc_DownlinkPackets :: u64
  bc_DownlinkBytes :: u64
  bc_LastUplinkPacket :: "int option"
  bc_LastDownlinkPacket :: "int option"
  bc_TFTMatchCount :: u64

record Bearer =
  b_EBI :: byte
  b_LocalRXTEID :: u32
  b_RemoteTXTEID :: u32
  b_PGWGTPUIP :: net_ip
  b_LocalGTPUIP :: net_ip
  b_QCI :: byte
  b_TFT :: "TFT option"
  b_Counters :: BearerCounters
  b_State :: BearerState

record GSession =
  g_ID :: string
  g_IMSI :: string
  g_APN :: string
  g_PAA :: net_ip
  g_LocalGTPUIP :: net_ip
  g_PGWGTPUIP :: net_ip
  g_DefaultEBI :: byte
  g_Bearers :: "byte \<rightharpoonup> Bearer"
  g_PGWControlTEID :: u32
  g_LocalControlTEID :: u32

record BearerRef =
  br_SessionID :: string
  br_BearerEBI :: byte

record DataplaneStats =
  st_DownlinkGTPUIn :: u64
  st_DownlinkPacketsOut :: u64
  st_DroppedBadTEID :: u64
  st_DroppedBadPeer :: u64
  st_DroppedUnsupported :: u64
  st_DroppedMalformed :: u64
  st_ErrorIndicationsSent :: u64
  st_ErrorIndicationsRateLimited :: u64

record pathState =
  ps_lastSentAt :: "int option"
  ps_lastResponseAt :: "int option"
  ps_missedEchoes :: nat
  ps_alive :: bool

record dplane =
  dp_sessionsByID :: "string \<rightharpoonup> GSession"
  dp_sessionsByPAA :: "string \<rightharpoonup> string"
  dp_byLocal :: "u32 \<rightharpoonup> BearerRef"
  dp_byRemote :: "u32 \<rightharpoonup> BearerRef"
  dp_stats :: DataplaneStats
  dp_paths :: "string \<rightharpoonup> pathState"
  dp_echoSeq :: u16
  dp_limiter :: errorIndicationLimiter
  dp_bpf :: "int option"
  dp_tc :: "int option"
  dp_kern :: kern

text \<open>\<open>dp_bpf\<close> and \<open>dp_tc\<close> are the attached programs: \<^term>\<open>None\<close> for a nil pointer, otherwise the
  index of the interface.\<close>

record genv =
  ge_LocalGTPU :: string
  ge_XDPInterface :: string
  ge_link :: "string \<rightharpoonup> int"
  ge_faults :: faults
  ge_range :: "(byte \<rightharpoonup> Bearer) \<Rightarrow> byte list"

definition zeroCounters :: BearerCounters where
  "zeroCounters = \<lparr>bc_UplinkPackets = 0, bc_UplinkBytes = 0, bc_DownlinkPackets = 0, bc_DownlinkBytes = 0,
     bc_LastUplinkPacket = None, bc_LastDownlinkPacket = None, bc_TFTMatchCount = 0\<rparr>"

definition gtpu_NewManager :: "kern \<Rightarrow> dplane" where
  "gtpu_NewManager k =
    \<lparr>dp_sessionsByID = Map.empty, dp_sessionsByPAA = Map.empty, dp_byLocal = Map.empty, dp_byRemote = Map.empty,
     dp_stats = \<lparr>st_DownlinkGTPUIn = 0, st_DownlinkPacketsOut = 0, st_DroppedBadTEID = 0, st_DroppedBadPeer = 0,
       st_DroppedUnsupported = 0, st_DroppedMalformed = 0, st_ErrorIndicationsSent = 0, st_ErrorIndicationsRateLimited = 0\<rparr>,
     dp_paths = Map.empty, dp_echoSeq = 0, dp_limiter = limiter_zero, dp_bpf = None, dp_tc = None, dp_kern = k\<rparr>"

section \<open>Kernel access\<close>

text \<open>Run a kernel operation on the manager's kernel state.\<close>

definition on_kern :: "dplane \<Rightarrow> (kern \<Rightarrow> 'r \<times> kern) \<Rightarrow> 'r \<times> dplane" where
  "on_kern m f = (case f (dp_kern m) of (r, k') \<Rightarrow> (r, m\<lparr>dp_kern := k'\<rparr>))"

definition route_ifindex :: "dplane \<Rightarrow> int" where
  "route_ifindex m = (case dp_tc m of Some i \<Rightarrow> i | None \<Rightarrow> (case dp_bpf m of Some i \<Rightarrow> i | None \<Rightarrow> 0))"

definition addBPFRoute :: "genv \<Rightarrow> dplane \<Rightarrow> net_ip \<Rightarrow> dp_error option \<times> dplane" where
  "addBPFRoute env m paa =
    (if To4 paa = [] then (Some PAAMustBeIPv4, m)
     else case on_kern m (\<lambda>k. kRouteAdd (ge_faults env) k (To4 paa, route_ifindex m)) of
       (Some e, m') \<Rightarrow> (Some (RouteAddFailed e), m')
     | (None, m') \<Rightarrow> (None, m'))"

definition removeBPFRoute :: "genv \<Rightarrow> dplane \<Rightarrow> net_ip \<Rightarrow> dp_error option \<times> dplane" where
  "removeBPFRoute env m paa =
    (if paa = [] \<or> To4 paa = [] then (None, m)
     else case on_kern m (\<lambda>k. kRouteDel (ge_faults env) k (To4 paa, route_ifindex m)) of
       (Some e, m') \<Rightarrow> (Some (RouteDelFailed e), m')
     | (None, m') \<Rightarrow> (None, m'))"

section \<open>Uplink packet filters\<close>

definition filter_rule :: "Bearer \<Rightarrow> PacketFilter \<Rightarrow> TCBPFTFTRule" where
  "filter_rule b f =
    (let hasIP = (To4 (pf_RemoteIPv4 f) \<noteq> [] \<and> length (pf_RemoteIPv4Mask f) = 4) in
     \<lparr>tr_TEID = b_RemoteTXTEID b, tr_Precedence = pf_Precedence f,
      tr_Flags = (if hasIP then tcTFTFlagRemoteIP else 0)
              OR (if pf_HasProtocol f then tcTFTFlagProtocol else 0)
              OR (if pf_HasLocalPort f then tcTFTFlagLocalPort else 0)
              OR (if pf_HasRemotePort f then tcTFTFlagRemotePort else 0),
      tr_Protocol = pf_Protocol f,
      tr_RemoteIP = (if hasIP then To4 (pf_RemoteIPv4 f) else [0, 0, 0, 0]),
      tr_RemoteMask = (if hasIP then pf_RemoteIPv4Mask f else [0, 0, 0, 0]),
      tr_LocalPortLo = pf_LocalPortLo f, tr_LocalPortHi = pf_LocalPortHi f,
      tr_RemotePortLo = pf_RemotePortLo f, tr_RemotePortHi = pf_RemotePortHi f\<rparr>)"

definition bearer_rules :: "GSession \<Rightarrow> Bearer \<Rightarrow> TCBPFTFTRule list" where
  "bearer_rules ds b =
    (if b_EBI b = g_DefaultEBI ds then []
     else case b_TFT b of None \<Rightarrow> []
       | Some t \<Rightarrow> map (filter_rule b)
           (filter (\<lambda>f. pf_Direction f = 0x01 \<or> pf_Direction f = 0x03) (tft_Filters t)))"

definition buildTCBPFTFTRules :: "genv \<Rightarrow> GSession \<Rightarrow> TCBPFTFTRule list" where
  "buildTCBPFTFTRules env ds =
    concat (map (\<lambda>e. case g_Bearers ds e of None \<Rightarrow> [] | Some b \<Rightarrow> bearer_rules ds b) (ge_range env (g_Bearers ds)))"

definition syncTCBPFTFTRulesLocked :: "genv \<Rightarrow> dplane \<Rightarrow> GSession \<Rightarrow> dp_error option \<times> dplane" where
  "syncTCBPFTFTRulesLocked env m ds =
    (if dp_tc m = None then (None, m)
     else on_kern m (\<lambda>k. SetTFTRules (ge_faults env) k (g_PAA ds) (take maxTCBPFTFTRules (buildTCBPFTFTRules env ds))))"

section \<open>The rollback log\<close>

datatype undo =
    UndoSessionState string string
  | UndoTEID u32
  | UndoRoute net_ip
  | UndoUESession net_ip

record rollbackState =
  rb_bearerStateRemoved :: bool
  rb_sessionStateRemoved :: bool
  rb_ran :: bool
  rb_actions :: "undo list"

definition newRollbackState :: rollbackState where
  "newRollbackState = \<lparr>rb_bearerStateRemoved = False, rb_sessionStateRemoved = False, rb_ran = False, rb_actions = []\<rparr>"

definition rb_add :: "rollbackState \<Rightarrow> undo \<Rightarrow> rollbackState" where
  "rb_add r u = r\<lparr>rb_actions := rb_actions r @ [u]\<rparr>"

definition drop_bearer_refs :: "dplane \<Rightarrow> Bearer \<Rightarrow> dplane" where
  "drop_bearer_refs m b =
    m\<lparr>dp_byLocal := (dp_byLocal m)(b_LocalRXTEID b := None),
      dp_byRemote := (dp_byRemote m)(b_RemoteTXTEID b := None)\<rparr>"

text \<open>The bearers of a session in visiting order.\<close>

definition range_bearers :: "genv \<Rightarrow> GSession \<Rightarrow> Bearer list" where
  "range_bearers env ds = List.map_filter (g_Bearers ds) (ge_range env (g_Bearers ds))"

definition removeSessionState :: "genv \<Rightarrow> rollbackState \<Rightarrow> dplane \<Rightarrow> string \<Rightarrow> string \<Rightarrow> rollbackState \<times> dplane" where
  "removeSessionState env r m sessionID paa =
    (let (r1, m1) = (case dp_sessionsByID m sessionID of
            None \<Rightarrow> (r, m)
          | Some ds \<Rightarrow>
              (r\<lparr>rb_bearerStateRemoved := rb_bearerStateRemoved r \<or> range_bearers env ds \<noteq> [],
                 rb_sessionStateRemoved := True\<rparr>,
               let m' = foldl drop_bearer_refs m (range_bearers env ds)
               in m'\<lparr>dp_sessionsByID := (dp_sessionsByID m')(sessionID := None)\<rparr>))
     in if paa \<noteq> [] \<and> dp_sessionsByPAA m1 paa \<noteq> None
        then (r1\<lparr>rb_sessionStateRemoved := True\<rparr>,
              m1\<lparr>dp_sessionsByPAA := (dp_sessionsByPAA m1)(paa := None)\<rparr>)
        else (r1, m1))"

definition run_undo :: "genv \<Rightarrow> rollbackState \<times> dplane \<Rightarrow> undo \<Rightarrow> rollbackState \<times> dplane" where
  "run_undo env rm u = (case rm of (r, m) \<Rightarrow> (case u of
     UndoSessionState i paa \<Rightarrow> removeSessionState env r m i paa
   | UndoTEID teid \<Rightarrow> (r, snd (on_kern m (\<lambda>k. RemoveTEID (ge_faults env) k teid)))
   | UndoRoute paa \<Rightarrow> (r, snd (removeBPFRoute env m paa))
   | UndoUESession paa \<Rightarrow> (r, snd (on_kern m (\<lambda>k. RemoveUESession (ge_faults env) k paa)))))"

definition rb_run :: "genv \<Rightarrow> rollbackState \<Rightarrow> dplane \<Rightarrow> rollbackState \<times> dplane" where
  "rb_run env r m =
    (if rb_ran r then (r, m)
     else case foldl (run_undo env) (r\<lparr>rb_ran := True\<rparr>, m) (rev (rb_actions r)) of
       (r', m') \<Rightarrow> (r'\<lparr>rb_actions := []\<rparr>, m'))"

section \<open>Sessions and bearers\<close>

definition HasBearer :: "dplane \<Rightarrow> string \<Rightarrow> byte \<Rightarrow> bool" where
  "HasBearer m sessionID ebi = (case dp_sessionsByID m sessionID of
     None \<Rightarrow> False | Some ds \<Rightarrow> g_Bearers ds ebi \<noteq> None)"

definition default_bearer :: "S2BContext \<Rightarrow> net_ip \<Rightarrow> net_ip \<Rightarrow> Bearer" where
  "default_bearer c pgw loc =
    \<lparr>b_EBI = sc_EBI c, b_LocalRXTEID = sc_LocalUserTEID c, b_RemoteTXTEID = sc_PGWUserTEID c,
     b_PGWGTPUIP = pgw, b_LocalGTPUIP = loc, b_QCI = 0, b_TFT = None, b_Counters = zeroCounters, b_State = BearerActive\<rparr>"

definition new_gsession :: "Session \<Rightarrow> S2BContext \<Rightarrow> net_ip \<Rightarrow> net_ip \<Rightarrow> net_ip \<Rightarrow> GSession" where
  "new_gsession sess c paa pgw loc =
    \<lparr>g_ID = s_ID sess, g_IMSI = s_IMSI sess, g_APN = s_APN sess, g_PAA = paa, g_LocalGTPUIP = loc,
     g_PGWGTPUIP = pgw, g_DefaultEBI = sc_EBI c, g_Bearers = [sc_EBI c \<mapsto> default_bearer c pgw loc],
     g_PGWControlTEID = sc_PGWControlTEID c, g_LocalControlTEID = sc_LocalControlTEID c\<rparr>"

text \<open>\<^verbatim>\<open>fail\<close> runs the rollback and returns; the deferred function then finds the log already run.\<close>

definition add_fail :: "genv \<Rightarrow> rollbackState \<Rightarrow> dplane \<Rightarrow> dp_error \<Rightarrow> dp_error option \<times> dplane" where
  "add_fail env rb m e = (case rb_run env rb m of (rb1, m1) \<Rightarrow> (Some e, snd (rb_run env rb1 m1)))"

definition add_downlink ::
  "genv \<Rightarrow> rollbackState \<Rightarrow> dplane \<Rightarrow> Bearer \<Rightarrow> net_ip \<Rightarrow> net_ip \<Rightarrow> (dp_error \<times> rollbackState \<times> dplane) + (rollbackState \<times> dplane)" where
  "add_downlink env rb m b paa pgw =
    (if dp_bpf m = None then Inr (rb, m)
     else case on_kern m (\<lambda>k. AddTEID (ge_faults env) k (b_LocalRXTEID b) paa pgw) of
       (Some e, m1) \<Rightarrow> Inl (e, rb, m1)
     | (None, m1) \<Rightarrow>
        let rb1 = rb_add rb (UndoTEID (b_LocalRXTEID b)) in
        if dp_tc m1 = None then
          (case addBPFRoute env m1 paa of
             (Some e, m2) \<Rightarrow> Inl (e, rb1, m2)
           | (None, m2) \<Rightarrow> Inr (rb_add rb1 (UndoRoute paa), m2))
        else Inr (rb1, m1))"

definition LinkByName :: "genv \<Rightarrow> dplane \<Rightarrow> string \<Rightarrow> int option \<times> dplane" where
  "LinkByName env m name = on_kern m (\<lambda>k. (if ge_faults env (k_tick k) KLinkByName then None else ge_link env name, ktick k))"

definition add_uplink ::
  "genv \<Rightarrow> rollbackState \<Rightarrow> dplane \<Rightarrow> Bearer \<Rightarrow> GSession \<Rightarrow> net_ip \<Rightarrow> net_ip \<Rightarrow> net_ip \<Rightarrow>
   (dp_error \<times> rollbackState \<times> dplane) + (rollbackState \<times> dplane)" where
  "add_uplink env rb m b ds paa pgw loc =
    (if dp_tc m = None then Inr (rb, m)
     else if ge_XDPInterface env = [] then Inl (InterfaceNotSet, rb, m)
     else case LinkByName env m (ge_XDPInterface env) of
       (None, m1) \<Rightarrow> Inl (LinkNotFound (ge_XDPInterface env), rb, m1)
     | (Some idx, m1) \<Rightarrow>
        (case on_kern m1 (\<lambda>k. AddUESession (ge_faults env) k paa (b_RemoteTXTEID b) pgw loc idx) of
           (Some e, m2) \<Rightarrow> Inl (e, rb, m2)
         | (None, m2) \<Rightarrow>
            let rb1 = rb_add rb (UndoUESession paa) in
            (case syncTCBPFTFTRulesLocked env m2 ds of
               (Some e, m3) \<Rightarrow> Inl (e, rb1, m3)
             | (None, m3) \<Rightarrow>
                (case addBPFRoute env m3 paa of
                   (Some e, m4) \<Rightarrow> Inl (e, rb1, m4)
                 | (None, m4) \<Rightarrow> Inr (rb_add rb1 (UndoRoute paa), m4)))))"

definition installed_datapath :: "net_ip \<Rightarrow> DatapathContext" where
  "installed_datapath paa =
    \<lparr>dc_UEInnerIP = IP_String paa, dc_RouteInstalled = False, dc_UplinkRuleInstalled = True,
     dc_UplinkDefaultInstalled = False, dc_RouteTableID = 0, dc_RulePriority = 0,
     dc_BridgeVerified = True, dc_IPsecPAAAligned = True\<rparr>"

text \<open>The maps after the default bearer is entered, and the installation of the bearer into the
  kernel; the result is the error or the final rollback log, with the manager.\<close>

definition index_session :: "dplane \<Rightarrow> GSession \<Rightarrow> Bearer \<Rightarrow> net_ip \<Rightarrow> dplane" where
  "index_session m ds b paa =
    m\<lparr>dp_sessionsByID := (dp_sessionsByID m)(g_ID ds \<mapsto> ds),
      dp_sessionsByPAA := (dp_sessionsByPAA m)(IP_String paa \<mapsto> g_ID ds),
      dp_byLocal := (dp_byLocal m)(b_LocalRXTEID b \<mapsto> \<lparr>br_SessionID = g_ID ds, br_BearerEBI = b_EBI b\<rparr>),
      dp_byRemote := (dp_byRemote m)(b_RemoteTXTEID b \<mapsto> \<lparr>br_SessionID = g_ID ds, br_BearerEBI = b_EBI b\<rparr>)\<rparr>"

definition install_default :: "genv \<Rightarrow> dplane \<Rightarrow> GSession \<Rightarrow> Bearer \<Rightarrow> net_ip \<Rightarrow> net_ip \<Rightarrow> net_ip \<Rightarrow> dp_error option \<times> dplane" where
  "install_default env m ds b paa pgw loc =
    (if dp_byLocal m (b_LocalRXTEID b) \<noteq> None then add_fail env newRollbackState m (TEIDCollision (b_LocalRXTEID b))
     else
       let m1 = index_session m ds b paa;
           rb = rb_add newRollbackState (UndoSessionState (g_ID ds) (IP_String paa))
       in case add_downlink env rb m1 b paa pgw of
            Inl (e, rb1, m2) \<Rightarrow> add_fail env rb1 m2 e
          | Inr (rb1, m2) \<Rightarrow>
             (case add_uplink env rb1 m2 b ds paa pgw loc of
                Inl (e, rb2, m3) \<Rightarrow> add_fail env rb2 m3 e
              | Inr (rb2, m3) \<Rightarrow> (None, m3)))"

text \<open>The error, the manager and the subscriber session with its datapath context.\<close>

definition AddSession :: "genv \<Rightarrow> dplane \<Rightarrow> Session option \<Rightarrow> dp_error option \<times> dplane \<times> Session option" where
  "AddSession env m osess = (case osess of
     None \<Rightarrow> (Some RequiresS2bContext, m, osess)
   | Some sess \<Rightarrow> (case s_S2B sess of
       None \<Rightarrow> (Some RequiresS2bContext, m, osess)
     | Some c \<Rightarrow>
        let paa = ParseIP (sc_PAA c); pgw = To4 (sc_PGWUserIP c); loc = ParseIP (ge_LocalGTPU env) in
        if paa = [] \<or> To4 paa = [] then (Some (RequiresIPv4PAA (sc_PAA c)), m, osess)
        else if pgw = [] then (Some MissingPGWGTPUIP, m, osess)
        else if loc = [] \<or> To4 loc = [] then (Some (InvalidLocalGTPUIP (ge_LocalGTPU env)), m, osess)
        else case install_default env m (new_gsession sess c paa pgw loc) (default_bearer c pgw loc) paa pgw loc of
          (Some e, m') \<Rightarrow> (Some e, m', osess)
        | (None, m') \<Rightarrow> (None, m', Some (sess\<lparr>s_Datapath := Some (installed_datapath paa)\<rparr>))))"

text \<open>The loop body of \<^verbatim>\<open>RemoveSession\<close> and of \<^verbatim>\<open>RemoveBearer\<close>: index entries, downlink TEID and counters.\<close>

definition release_bearer :: "genv \<Rightarrow> dplane \<Rightarrow> Bearer \<Rightarrow> dplane" where
  "release_bearer env m b =
    (let m1 = drop_bearer_refs m b;
         m2 = (if dp_bpf m1 = None then m1
               else let m' = snd (on_kern m1 (\<lambda>k. RemoveTEID (ge_faults env) k (b_LocalRXTEID b)))
                    in snd (on_kern m' (\<lambda>k. dl_RemoveBearerCounter (ge_faults env) k (b_LocalRXTEID b))))
     in if dp_tc m2 = None then m2
        else snd (on_kern m2 (\<lambda>k. ul_RemoveBearerCounter (ge_faults env) k (b_RemoteTXTEID b))))"

definition release_paa :: "genv \<Rightarrow> dplane \<Rightarrow> net_ip \<Rightarrow> dplane" where
  "release_paa env m paa =
    (if paa = [] then m
     else if dp_tc m \<noteq> None then
       (let m' = snd (on_kern m (\<lambda>k. RemoveUESession (ge_faults env) k paa))
        in snd (removeBPFRoute env m' paa))
     else if dp_bpf m \<noteq> None then snd (removeBPFRoute env m paa)
     else m)"

definition RemoveSession :: "genv \<Rightarrow> dplane \<Rightarrow> Session option \<Rightarrow> dplane" where
  "RemoveSession env m osess = (case osess of
     None \<Rightarrow> m
   | Some sess \<Rightarrow> (case dp_sessionsByID m (s_ID sess) of
       None \<Rightarrow> m
     | Some ds \<Rightarrow>
        let m1 = foldl (release_bearer env) m (range_bearers env ds);
            m2 = release_paa env m1 (g_PAA ds)
        in m2\<lparr>dp_sessionsByPAA := (dp_sessionsByPAA m2)(IP_String (g_PAA ds) := None),
               dp_sessionsByID := (dp_sessionsByID m2)(s_ID sess := None)\<rparr>))"

definition put_session :: "dplane \<Rightarrow> string \<Rightarrow> GSession \<Rightarrow> dplane" where
  "put_session m i ds = m\<lparr>dp_sessionsByID := (dp_sessionsByID m)(i \<mapsto> ds)\<rparr>"

definition AddBearer :: "genv \<Rightarrow> dplane \<Rightarrow> string \<Rightarrow> Bearer \<Rightarrow> dp_error option \<times> dplane" where
  "AddBearer env m sessionID b0 =
    (if b_LocalRXTEID b0 = 0 \<or> b_RemoteTXTEID b0 = 0 \<or> b_EBI b0 = 0 then (Some BearerRequiresEBIAndTEIDs, m)
     else case dp_sessionsByID m sessionID of
       None \<Rightarrow> (Some (SessionNotFound sessionID), m)
     | Some ds \<Rightarrow>
        if dp_byLocal m (b_LocalRXTEID b0) \<noteq> None then (Some (TEIDCollision (b_LocalRXTEID b0)), m)
        else
          let b = b0\<lparr>b_State := BearerActive,
                     b_PGWGTPUIP := (if b_PGWGTPUIP b0 = [] then g_PGWGTPUIP ds else b_PGWGTPUIP b0),
                     b_LocalGTPUIP := (if b_LocalGTPUIP b0 = [] then g_LocalGTPUIP ds else b_LocalGTPUIP b0)\<rparr>;
              ref = \<lparr>br_SessionID = sessionID, br_BearerEBI = b_EBI b\<rparr>;
              ds' = ds\<lparr>g_Bearers := (g_Bearers ds)(b_EBI b \<mapsto> b)\<rparr>;
              m1 = (put_session m sessionID ds')
                     \<lparr>dp_byLocal := (dp_byLocal m)(b_LocalRXTEID b \<mapsto> ref),
                      dp_byRemote := (dp_byRemote m)(b_RemoteTXTEID b \<mapsto> ref)\<rparr>;
              m2 = (if dp_bpf m1 = None then m1
                    else snd (on_kern m1 (\<lambda>k. AddTEID (ge_faults env) k (b_LocalRXTEID b) (g_PAA ds) (b_PGWGTPUIP b))))
          in syncTCBPFTFTRulesLocked env m2 ds')"

definition RemoveBearer :: "genv \<Rightarrow> dplane \<Rightarrow> string \<Rightarrow> byte \<Rightarrow> dp_error option \<times> dplane" where
  "RemoveBearer env m sessionID ebi = (case dp_sessionsByID m sessionID of
     None \<Rightarrow> (None, m)
   | Some ds \<Rightarrow> (case g_Bearers ds ebi of
       None \<Rightarrow> (None, m)
     | Some b \<Rightarrow>
        let m1 = release_bearer env m b;
            ds' = ds\<lparr>g_Bearers := (g_Bearers ds)(ebi := None)\<rparr>
        in syncTCBPFTFTRulesLocked env (put_session m1 sessionID ds') ds'))"

definition updated_bearer :: "Bearer \<Rightarrow> byte \<Rightarrow> bytes \<Rightarrow> Bearer" where
  "updated_bearer b qci tftRaw =
    (let b1 = (if qci \<noteq> 0 then b\<lparr>b_QCI := qci\<rparr> else b)
     in if tftRaw = [] then b1
        else case ParseTFT tftRaw of
          Inl e \<Rightarrow> b1
        | Inr None \<Rightarrow> b1
        | Inr (Some t) \<Rightarrow> b1\<lparr>b_TFT := Some t\<rparr>)"

definition UpdateBearer :: "genv \<Rightarrow> dplane \<Rightarrow> string \<Rightarrow> byte \<Rightarrow> byte \<Rightarrow> bytes \<Rightarrow> dp_error option \<times> dplane" where
  "UpdateBearer env m sessionID ebi qci tftRaw = (case dp_sessionsByID m sessionID of
     None \<Rightarrow> (Some (SessionNotFound sessionID), m)
   | Some ds \<Rightarrow> (case g_Bearers ds ebi of
       None \<Rightarrow> (Some (BearerNotFound ebi sessionID), m)
     | Some b \<Rightarrow>
        let ds' = ds\<lparr>g_Bearers := (g_Bearers ds)(ebi \<mapsto> updated_bearer b qci tftRaw)\<rparr>
        in syncTCBPFTFTRulesLocked env (put_session m sessionID ds') ds'))"

definition SessionSnapshot :: "dplane \<Rightarrow> string \<Rightarrow> GSession option" where
  "SessionSnapshot m sessionID = dp_sessionsByID m sessionID"

definition Stats :: "dplane \<Rightarrow> DataplaneStats" where
  "Stats m = dp_stats m"

text \<open>\<^verbatim>\<open>len(m.sessionsByID)\<close>, with the keys in visiting order.\<close>

definition activeSessionCount :: "dplane \<Rightarrow> string list \<Rightarrow> nat" where
  "activeSessionCount m ks = length (filter (\<lambda>i. dp_sessionsByID m i \<noteq> None) ks)"

definition AllocateTEID :: "bytes option list \<Rightarrow> (unit + u32) option" where
  "AllocateTEID draws =
    (case dropWhile (\<lambda>d. case d of None \<Rightarrow> False | Some b \<Rightarrow> uint32 b = 0) draws of
       [] \<Rightarrow> None
     | None # _ \<Rightarrow> Some (Inl ())
     | Some b # _ \<Rightarrow> Some (Inr (uint32 b)))"

section \<open>The control socket and path supervision\<close>


definition respondEcho :: "u16 \<Rightarrow> udp_addr \<Rightarrow> datagram list" where
  "respondEcho sq peer = (case encodePathMessage gtpuMsgEchoResp sq [14, 0, 1, 0] of
     Inl _ \<Rightarrow> [] | Inr resp \<Rightarrow> [(resp, peer)])"

definition handleEchoResponse :: "dplane \<Rightarrow> udp_addr \<Rightarrow> int \<Rightarrow> dplane" where
  "handleEchoResponse m peer now =
    (let key = IP_String (fst peer);
         ps = (case dp_paths m key of Some p \<Rightarrow> p
               | None \<Rightarrow> \<lparr>ps_lastSentAt = None, ps_lastResponseAt = None, ps_missedEchoes = 0, ps_alive = False\<rparr>)
     in m\<lparr>dp_paths := (dp_paths m)(key \<mapsto> ps\<lparr>ps_lastResponseAt := Some now, ps_missedEchoes := 0, ps_alive := True\<rparr>)\<rparr>)"

definition error_indication :: "u32 \<Rightarrow> net_ip \<Rightarrow> bytes" where
  "error_indication teid localIP = [ieTypeTEIDDataI] @ be32 teid @ [ieTypeGTPUPeerAddr, 0, 4] @ localIP"

text \<open>\<open>wr\<close> says whether the socket accepts the datagram.\<close>

definition sendErrorIndication :: "genv \<Rightarrow> dplane \<Rightarrow> u32 \<Rightarrow> udp_addr \<Rightarrow> int \<Rightarrow> bool \<Rightarrow> dplane \<times> datagram list" where
  "sendErrorIndication env m teid peer now wr =
    (if teid = 0 then (m, [])
     else
       let (ok, l) = limiter_allow (dp_limiter m) now; m1 = m\<lparr>dp_limiter := l\<rparr> in
       if \<not> ok then
         (m1\<lparr>dp_stats := (dp_stats m1)\<lparr>st_ErrorIndicationsRateLimited := st_ErrorIndicationsRateLimited (dp_stats m1) + 1\<rparr>\<rparr>, [])
       else
         let localIP = To4 (ParseIP (ge_LocalGTPU env)) in
         if localIP = [] then (m1, [])
         else case encodePathMessage gtpuMsgErrorIndication 0 (error_indication teid localIP) of
           Inl _ \<Rightarrow> (m1, [])
         | Inr msg \<Rightarrow>
             if \<not> wr then (m1, [])
             else (m1\<lparr>dp_stats := (dp_stats m1)\<lparr>st_ErrorIndicationsSent := st_ErrorIndicationsSent (dp_stats m1) + 1\<rparr>\<rparr>,
                   [(msg, peer)]))"

definition handleDownlink :: "genv \<Rightarrow> dplane \<Rightarrow> bytes \<Rightarrow> udp_addr \<Rightarrow> int \<Rightarrow> bool \<Rightarrow> dplane \<times> datagram list" where
  "handleDownlink env m pkt peer now wr =
    (let m1 = m\<lparr>dp_stats := (dp_stats m)\<lparr>st_DownlinkGTPUIn := st_DownlinkGTPUIn (dp_stats m) + 1\<rparr>\<rparr> in
     case parseGTPU pkt of
       Inl _ \<Rightarrow> (m1\<lparr>dp_stats := (dp_stats m1)\<lparr>st_DroppedMalformed := st_DroppedMalformed (dp_stats m1) + 1\<rparr>\<rparr>, [])
     | Inr p \<Rightarrow>
        if gp_MessageType p = gtpuMsgEchoRequest then (m1, if wr then respondEcho (gp_Sequence p) peer else [])
        else if gp_MessageType p = gtpuMsgEchoResp then (handleEchoResponse m1 peer now, [])
        else
          let m2 = m1\<lparr>dp_stats := (dp_stats m1)\<lparr>st_DroppedUnsupported := st_DroppedUnsupported (dp_stats m1) + 1\<rparr>\<rparr> in
          if gp_MessageType p = gtpuMsgTPDU then sendErrorIndication env m2 (gp_TEID p) peer now wr
          else (m2, []))"

text \<open>\<open>ks\<close> is the order in which the session map is visited.\<close>

fun collect_peers :: "dplane \<Rightarrow> string list \<Rightarrow> string list \<Rightarrow> net_ip list" where
  "collect_peers m [] seen = []"
| "collect_peers m (k # ks) seen = (case dp_sessionsByID m k of
     None \<Rightarrow> collect_peers m ks seen
   | Some ds \<Rightarrow>
       if g_PGWGTPUIP ds = [] then collect_peers m ks seen
       else let key = IP_String (g_PGWGTPUIP ds) in
         if key \<in> set seen then collect_peers m ks seen
         else g_PGWGTPUIP ds # collect_peers m ks (key # seen))"

definition activePGWPeers :: "dplane \<Rightarrow> string list \<Rightarrow> net_ip list" where
  "activePGWPeers m ks = collect_peers m ks []"

text \<open>\<^verbatim>\<open>t1.Before(t2)\<close>, where the zero time precedes every other.\<close>

definition time_before :: "int option \<Rightarrow> int option \<Rightarrow> bool" where
  "time_before a b = (case (a, b) of (_, None) \<Rightarrow> False | (None, Some _) \<Rightarrow> True | (Some x, Some y) \<Rightarrow> x < y)"

definition echo_missed :: "pathState \<Rightarrow> pathState" where
  "echo_missed ps =
    (if ps_lastSentAt ps \<noteq> None \<and> time_before (ps_lastResponseAt ps) (ps_lastSentAt ps)
     then let ps' = ps\<lparr>ps_missedEchoes := ps_missedEchoes ps + 1\<rparr>
          in if ps_alive ps' \<and> ps_missedEchoes ps' \<ge> 3 then ps'\<lparr>ps_alive := False\<rparr> else ps'
     else ps)"

definition sendEchoRequest :: "dplane \<Rightarrow> net_ip \<Rightarrow> int \<Rightarrow> bool \<Rightarrow> dplane \<times> datagram list" where
  "sendEchoRequest m peer now wr =
    (let sq = dp_echoSeq m; key = IP_String peer;
         ps = (case dp_paths m key of Some p \<Rightarrow> p
               | None \<Rightarrow> \<lparr>ps_lastSentAt = None, ps_lastResponseAt = None, ps_missedEchoes = 0, ps_alive = True\<rparr>);
         m1 = m\<lparr>dp_echoSeq := sq + 1, dp_paths := (dp_paths m)(key \<mapsto> (echo_missed ps)\<lparr>ps_lastSentAt := Some now\<rparr>)\<rparr>
     in (m1, case encodePathMessage gtpuMsgEchoRequest sq [14, 0, 1, 0] of
          Inl _ \<Rightarrow> [] | Inr pkt \<Rightarrow> if wr then [(pkt, (peer, 2152))] else []))"

text \<open>One tick of \<^verbatim>\<open>pathEchoLoop\<close>.\<close>

definition pathEchoTick :: "dplane \<Rightarrow> string list \<Rightarrow> int \<Rightarrow> bool \<Rightarrow> dplane \<times> datagram list" where
  "pathEchoTick m ks now wr =
    foldl (\<lambda>(m', out) peer. case sendEchoRequest m' peer now wr of (m'', o') \<Rightarrow> (m'', out @ o')) (m, [])
          (activePGWPeers m ks)"

text \<open>\<^verbatim>\<open>syncBearerCounters\<close>: the readers return packets and bytes of a TEID (the interface
  \<^verbatim>\<open>bearerCounterReader\<close>), and the two lists are the orders in which the index maps are visited.\<close>

definition sync_dl :: "int \<Rightarrow> (u32 \<rightharpoonup> u64 \<times> u64) \<Rightarrow> dplane \<Rightarrow> u32 \<Rightarrow> dplane" where
  "sync_dl now rd m teid = (case dp_byLocal m teid of None \<Rightarrow> m
   | Some ref \<Rightarrow> (case dp_sessionsByID m (br_SessionID ref) of None \<Rightarrow> m
     | Some ds \<Rightarrow> (case g_Bearers ds (br_BearerEBI ref) of None \<Rightarrow> m
       | Some b \<Rightarrow> (case rd teid of None \<Rightarrow> m
         | Some (packets, byts) \<Rightarrow>
            let c = b_Counters b;
                c1 = (if packets > bc_DownlinkPackets c then c\<lparr>bc_LastDownlinkPacket := Some now\<rparr> else c);
                c2 = c1\<lparr>bc_DownlinkPackets := packets, bc_DownlinkBytes := byts\<rparr>
            in put_session m (br_SessionID ref)
                 (ds\<lparr>g_Bearers := (g_Bearers ds)(br_BearerEBI ref \<mapsto> b\<lparr>b_Counters := c2\<rparr>)\<rparr>)))))"

definition sync_ul :: "int \<Rightarrow> (u32 \<rightharpoonup> u64 \<times> u64) \<Rightarrow> dplane \<Rightarrow> u32 \<Rightarrow> dplane" where
  "sync_ul now rd m teid = (case dp_byRemote m teid of None \<Rightarrow> m
   | Some ref \<Rightarrow> (case dp_sessionsByID m (br_SessionID ref) of None \<Rightarrow> m
     | Some ds \<Rightarrow> (case g_Bearers ds (br_BearerEBI ref) of None \<Rightarrow> m
       | Some b \<Rightarrow> (case rd teid of None \<Rightarrow> m
         | Some (packets, byts) \<Rightarrow>
            let c = b_Counters b;
                c1 = (if packets > bc_UplinkPackets c then c\<lparr>bc_LastUplinkPacket := Some now\<rparr> else c);
                c2 = c1\<lparr>bc_UplinkPackets := packets, bc_UplinkBytes := byts\<rparr>
            in put_session m (br_SessionID ref)
                 (ds\<lparr>g_Bearers := (g_Bearers ds)(br_BearerEBI ref \<mapsto> b\<lparr>b_Counters := c2\<rparr>)\<rparr>)))))"

definition syncBearerCounters ::
  "dplane \<Rightarrow> u32 list \<Rightarrow> u32 list \<Rightarrow> int \<Rightarrow> (u32 \<rightharpoonup> u64 \<times> u64) option \<Rightarrow> (u32 \<rightharpoonup> u64 \<times> u64) option \<Rightarrow> dplane" where
  "syncBearerCounters m locals remotes now dl ul =
    (let m1 = (case dl of None \<Rightarrow> m | Some rd \<Rightarrow> foldl (sync_dl now rd) m locals)
     in case ul of None \<Rightarrow> m1 | Some rd \<Rightarrow> foldl (sync_ul now rd) m1 remotes)"

section \<open>The bearer index invariant\<close>

text \<open>Visiting a bearer map meets each bearer once.\<close>

definition range_ok :: "genv \<Rightarrow> bool" where
  "range_ok env \<longleftrightarrow> (\<forall>bs. distinct (ge_range env bs) \<and> set (ge_range env bs) = dom bs)"

text \<open>No dangling entry in the local TEID index, and every bearer is indexed under its own TEID: so
  local TEIDs identify bearers uniquely.\<close>

definition dp_inv :: "dplane \<Rightarrow> bool" where
  "dp_inv m \<longleftrightarrow>
    (\<forall>t ref. dp_byLocal m t = Some ref \<longrightarrow>
       (\<exists>ds b. dp_sessionsByID m (br_SessionID ref) = Some ds \<and>
               g_Bearers ds (br_BearerEBI ref) = Some b \<and> b_LocalRXTEID b = t)) \<and>
    (\<forall>i ds e b. dp_sessionsByID m i = Some ds \<and> g_Bearers ds e = Some b \<longrightarrow>
       b_EBI b = e \<and> dp_byLocal m (b_LocalRXTEID b) = Some \<lparr>br_SessionID = i, br_BearerEBI = e\<rparr>)"

definition dp_index :: "dplane \<Rightarrow> (string \<rightharpoonup> GSession) \<times> (string \<rightharpoonup> string) \<times> (u32 \<rightharpoonup> BearerRef) \<times> (u32 \<rightharpoonup> BearerRef)" where
  "dp_index m = (dp_sessionsByID m, dp_sessionsByPAA m, dp_byLocal m, dp_byRemote m)"

lemma dp_inv_index: "dp_index m = dp_index m' \<Longrightarrow> dp_inv m = dp_inv m'"
  by (simp add: dp_inv_def dp_index_def)

named_theorems dp_frame \<open>kernel calls leave the indexes alone\<close>

lemma on_kern_index [dp_frame]: "dp_index (snd (on_kern m f)) = dp_index m"
  by (simp add: on_kern_def dp_index_def split: prod.splits)

lemma on_kern_indexD: "on_kern m f = (r, m') \<Longrightarrow> dp_index m' = dp_index m"
  using on_kern_index[of m f] by simp

lemma on_kern_progs [dp_frame]:
  "dp_bpf (snd (on_kern m f)) = dp_bpf m" "dp_tc (snd (on_kern m f)) = dp_tc m"
  by (simp_all add: on_kern_def split: prod.splits)

lemma addBPFRoute_index [dp_frame]: "dp_index (snd (addBPFRoute env m paa)) = dp_index m"
  by (auto simp: addBPFRoute_def split: prod.splits option.splits dest: on_kern_indexD)

lemma removeBPFRoute_index [dp_frame]: "dp_index (snd (removeBPFRoute env m paa)) = dp_index m"
  by (auto simp: removeBPFRoute_def split: prod.splits option.splits dest: on_kern_indexD)

lemma sync_index [dp_frame]: "dp_index (snd (syncTCBPFTFTRulesLocked env m ds)) = dp_index m"
  by (simp add: syncTCBPFTFTRulesLocked_def dp_frame)

lemma LinkByName_index [dp_frame]: "dp_index (snd (LinkByName env m name)) = dp_index m"
  by (simp add: LinkByName_def dp_frame)

lemma release_bearer_index [dp_frame]: "dp_index (release_bearer env m b) = dp_index (drop_bearer_refs m b)"
  by (simp add: release_bearer_def Let_def dp_frame)

lemma drop_bearer_refs_cong: "dp_index m = dp_index m' \<Longrightarrow> dp_index (drop_bearer_refs m b) = dp_index (drop_bearer_refs m' b)"
  by (simp add: dp_index_def drop_bearer_refs_def)

lemma foldl_release_index:
  "dp_index m = dp_index m' \<Longrightarrow> dp_index (foldl (release_bearer env) m bs) = dp_index (foldl drop_bearer_refs m' bs)"
proof (induction bs arbitrary: m m')
  case (Cons b bs)
  have "dp_index (release_bearer env m b) = dp_index (drop_bearer_refs m' b)"
    by (simp only: release_bearer_index drop_bearer_refs_cong[OF Cons.prems])
  from Cons.IH[OF this] show ?case by simp
qed simp

lemma foldl_drop_refs:
  "dp_sessionsByID (foldl drop_bearer_refs m bs) = dp_sessionsByID m"
  "dp_sessionsByPAA (foldl drop_bearer_refs m bs) = dp_sessionsByPAA m"
  "dp_byLocal (foldl drop_bearer_refs m bs) t = (if t \<in> b_LocalRXTEID ` set bs then None else dp_byLocal m t)"
  "dp_byRemote (foldl drop_bearer_refs m bs) t = (if t \<in> b_RemoteTXTEID ` set bs then None else dp_byRemote m t)"
  by (induction bs arbitrary: m) (auto simp: drop_bearer_refs_def)

lemma set_map_filter_Some: "set (List.map_filter f xs) = {y. \<exists>x \<in> set xs. f x = Some y}"
  by (induction xs) (auto simp: map_filter_simps split: option.splits)

lemma set_range_bearers: "range_ok env \<Longrightarrow> set (range_bearers env ds) = ran (g_Bearers ds)"
  by (auto simp: range_bearers_def range_ok_def set_map_filter_Some ran_def dom_def)

lemma dp_index_inject:
  "dp_index m = dp_index m' \<longleftrightarrow> dp_sessionsByID m = dp_sessionsByID m' \<and> dp_sessionsByPAA m = dp_sessionsByPAA m' \<and>
     dp_byLocal m = dp_byLocal m' \<and> dp_byRemote m = dp_byRemote m'"
  by (simp add: dp_index_def)

lemma put_session_simps [simp]:
  "dp_sessionsByID (put_session m i ds) = (dp_sessionsByID m)(i \<mapsto> ds)"
  "dp_sessionsByPAA (put_session m i ds) = dp_sessionsByPAA m"
  "dp_byLocal (put_session m i ds) = dp_byLocal m" "dp_byRemote (put_session m i ds) = dp_byRemote m"
  "dp_kern (put_session m i ds) = dp_kern m" "dp_tc (put_session m i ds) = dp_tc m" "dp_bpf (put_session m i ds) = dp_bpf m"
  by (simp_all add: put_session_def)

lemma dp_invI:
  assumes "\<And>t ref. dp_byLocal m t = Some ref \<Longrightarrow>
      \<exists>ds b. dp_sessionsByID m (br_SessionID ref) = Some ds \<and> g_Bearers ds (br_BearerEBI ref) = Some b \<and> b_LocalRXTEID b = t"
    and "\<And>i ds e b. dp_sessionsByID m i = Some ds \<Longrightarrow> g_Bearers ds e = Some b \<Longrightarrow>
      b_EBI b = e \<and> dp_byLocal m (b_LocalRXTEID b) = Some \<lparr>br_SessionID = i, br_BearerEBI = e\<rparr>"
  shows "dp_inv m"
  using assms unfolding dp_inv_def by blast

lemma dp_inv_bearerD:
  "dp_inv m \<Longrightarrow> dp_sessionsByID m i = Some ds \<Longrightarrow> g_Bearers ds e = Some b \<Longrightarrow>
   b_EBI b = e \<and> dp_byLocal m (b_LocalRXTEID b) = Some \<lparr>br_SessionID = i, br_BearerEBI = e\<rparr>"
  by (simp add: dp_inv_def)

lemma dp_inv_refD:
  "dp_inv m \<Longrightarrow> dp_byLocal m t = Some ref \<Longrightarrow>
   \<exists>ds b. dp_sessionsByID m (br_SessionID ref) = Some ds \<and> g_Bearers ds (br_BearerEBI ref) = Some b \<and> b_LocalRXTEID b = t"
  by (simp add: dp_inv_def)

lemma dp_inv_local_unique:
  assumes "dp_inv m" "dp_sessionsByID m i = Some ds" "g_Bearers ds e = Some b"
    "dp_sessionsByID m j = Some ds'" "g_Bearers ds' e' = Some b'" "b_LocalRXTEID b = b_LocalRXTEID b'"
  shows "i = j \<and> e = e'"
  using dp_inv_bearerD[OF assms(1-3)] dp_inv_bearerD[OF assms(1,4,5)] assms(6) by simp

lemma AddBearer_inv:
  assumes "dp_inv m" "\<And>ds. dp_sessionsByID m i = Some ds \<Longrightarrow> g_Bearers ds (b_EBI b0) = None"
  shows "dp_inv (snd (AddBearer env m i b0))"
proof (cases "b_LocalRXTEID b0 = 0 \<or> b_RemoteTXTEID b0 = 0 \<or> b_EBI b0 = 0 \<or>
              dp_sessionsByID m i = None \<or> dp_byLocal m (b_LocalRXTEID b0) \<noteq> None")
  case True
  with assms show ?thesis by (auto simp: AddBearer_def split: option.splits)
next
  case ok: False
  then obtain ds where ds: "dp_sessionsByID m i = Some ds" by auto
  define b where "b = b0\<lparr>b_State := BearerActive,
      b_PGWGTPUIP := (if b_PGWGTPUIP b0 = [] then g_PGWGTPUIP ds else b_PGWGTPUIP b0),
      b_LocalGTPUIP := (if b_LocalGTPUIP b0 = [] then g_LocalGTPUIP ds else b_LocalGTPUIP b0)\<rparr>"
  define m1 where "m1 = (put_session m i (ds\<lparr>g_Bearers := (g_Bearers ds)(b_EBI b \<mapsto> b)\<rparr>))
      \<lparr>dp_byLocal := (dp_byLocal m)(b_LocalRXTEID b \<mapsto> \<lparr>br_SessionID = i, br_BearerEBI = b_EBI b\<rparr>),
       dp_byRemote := (dp_byRemote m)(b_RemoteTXTEID b \<mapsto> \<lparr>br_SessionID = i, br_BearerEBI = b_EBI b\<rparr>)\<rparr>"
  have "dp_index (snd (AddBearer env m i b0)) = dp_index m1"
    using ok ds by (simp add: AddBearer_def Let_def dp_frame b_def m1_def)
  moreover have "dp_inv m1"
  proof (rule dp_invI, goal_cases)
    case (1 t ref)
    show ?case
    proof (cases "t = b_LocalRXTEID b")
      case True
      with 1 show ?thesis by (auto simp: m1_def)
    next
      case False
      with 1 have "dp_byLocal m t = Some ref" by (simp add: m1_def)
      from dp_inv_refD[OF assms(1) this] assms(2)[OF ds] ds show ?thesis
        by (auto simp: m1_def b_def)
    qed
  next
    case (2 j ds' e b')
    show ?case
    proof (cases "j = i \<and> e = b_EBI b")
      case True
      with 2 show ?thesis by (auto simp: m1_def)
    next
      case False
      with 2 ds have "\<exists>ds0. dp_sessionsByID m j = Some ds0 \<and> g_Bearers ds0 e = Some b'"
        by (auto simp: m1_def split: if_splits)
      then obtain ds0 where "dp_sessionsByID m j = Some ds0" "g_Bearers ds0 e = Some b'" by blast
      from dp_inv_bearerD[OF assms(1) this] ok
      show ?thesis by (auto simp: m1_def b_def)
    qed
  qed
  ultimately show ?thesis using dp_inv_index by blast
qed

lemma RemoveBearer_inv:
  assumes "dp_inv m"
  shows "dp_inv (snd (RemoveBearer env m i e))"
proof (cases "\<exists>ds b. dp_sessionsByID m i = Some ds \<and> g_Bearers ds e = Some b")
  case False
  with assms show ?thesis by (auto simp: RemoveBearer_def split: option.splits)
next
  case True
  then obtain ds b where ds: "dp_sessionsByID m i = Some ds" "g_Bearers ds e = Some b" by blast
  define m1 where "m1 = put_session (drop_bearer_refs m b) i (ds\<lparr>g_Bearers := (g_Bearers ds)(e := None)\<rparr>)"
  have "dp_index (snd (RemoveBearer env m i e)) = dp_index m1"
    using ds release_bearer_index[of env m b, unfolded dp_index_inject]
    by (simp add: RemoveBearer_def Let_def sync_index m1_def) (simp add: dp_index_inject)
  moreover have "dp_inv m1"
  proof (rule dp_invI, goal_cases)
    case (1 t ref)
    then have t: "t \<noteq> b_LocalRXTEID b" "dp_byLocal m t = Some ref"
      by (auto simp: m1_def drop_bearer_refs_def split: if_splits)
    from dp_inv_refD[OF assms t(2)] ds t(1) show ?case
      by (auto simp: m1_def drop_bearer_refs_def)
  next
    case (2 j ds' e' b')
    then obtain ds0 where old: "dp_sessionsByID m j = Some ds0" "g_Bearers ds0 e' = Some b'" and ne: "\<not> (j = i \<and> e' = e)"
      using ds by (auto simp: m1_def drop_bearer_refs_def split: if_splits)
    have "b_LocalRXTEID b' \<noteq> b_LocalRXTEID b"
      using dp_inv_local_unique[OF assms ds old] ne by auto
    with dp_inv_bearerD[OF assms old] show ?case by (simp add: m1_def drop_bearer_refs_def)
  qed
  ultimately show ?thesis using dp_inv_index by blast
qed

lemma replace_bearer_inv:
  assumes "dp_inv m" and ds: "dp_sessionsByID m i = Some ds" "g_Bearers ds e = Some b"
    and b': "b_EBI b' = b_EBI b" "b_LocalRXTEID b' = b_LocalRXTEID b"
  shows "dp_inv (put_session m i (ds\<lparr>g_Bearers := (g_Bearers ds)(e \<mapsto> b')\<rparr>))"
proof (rule dp_invI, goal_cases)
  case (1 t ref)
  then have "dp_byLocal m t = Some ref" by simp
  from dp_inv_refD[OF assms(1) this] ds b' show ?case by auto
next
  case (2 j ds' e' b2)
  then obtain ds0 b3 where "dp_sessionsByID m j = Some ds0" "g_Bearers ds0 e' = Some b3"
    "b_EBI b2 = b_EBI b3" "b_LocalRXTEID b2 = b_LocalRXTEID b3"
    using ds b' by (auto split: if_splits)
  with dp_inv_bearerD[OF assms(1), of j ds0 e' b3] show ?case by simp
qed

lemma UpdateBearer_inv:
  assumes "dp_inv m"
  shows "dp_inv (snd (UpdateBearer env m i e qci raw))"
proof (cases "\<exists>ds b. dp_sessionsByID m i = Some ds \<and> g_Bearers ds e = Some b")
  case False
  with assms show ?thesis by (auto simp: UpdateBearer_def split: option.splits)
next
  case True
  then obtain ds b where ds: "dp_sessionsByID m i = Some ds" "g_Bearers ds e = Some b" by blast
  have "b_EBI (updated_bearer b qci raw) = b_EBI b" "b_LocalRXTEID (updated_bearer b qci raw) = b_LocalRXTEID b"
    by (auto simp: updated_bearer_def Let_def split: sum.splits option.splits)
  note r = replace_bearer_inv[OF assms ds this]
  have "dp_index (snd (UpdateBearer env m i e qci raw)) =
      dp_index (put_session m i (ds\<lparr>g_Bearers := (g_Bearers ds)(e \<mapsto> updated_bearer b qci raw)\<rparr>))"
    using ds by (simp add: UpdateBearer_def Let_def dp_frame)
  with r show ?thesis using dp_inv_index by blast
qed

text \<open>A session is removed from the index together with the local TEIDs of all its bearers.\<close>

definition unindex :: "dplane \<Rightarrow> string \<Rightarrow> GSession \<Rightarrow> (string \<rightharpoonup> GSession) \<times> (u32 \<rightharpoonup> BearerRef)" where
  "unindex m i ds = ((dp_sessionsByID m)(i := None),
     (\<lambda>t. if t \<in> b_LocalRXTEID ` ran (g_Bearers ds) then None else dp_byLocal m t))"

lemma dp_inv_unindex:
  assumes "dp_inv m" "dp_sessionsByID m i = Some ds" "(dp_sessionsByID m', dp_byLocal m') = unindex m i ds"
  shows "dp_inv m'"
proof (rule dp_invI, goal_cases)
  case (1 t ref)
  then have t: "t \<notin> b_LocalRXTEID ` ran (g_Bearers ds)" "dp_byLocal m t = Some ref"
    using assms(3) by (auto simp: unindex_def split: if_splits)
  from dp_inv_refD[OF assms(1) t(2)] obtain ds0 b where
    r: "dp_sessionsByID m (br_SessionID ref) = Some ds0" "g_Bearers ds0 (br_BearerEBI ref) = Some b" "b_LocalRXTEID b = t"
    by blast
  have "b_LocalRXTEID b \<in> b_LocalRXTEID ` ran (g_Bearers ds0)" using r(2) by (auto simp: ran_def)
  then have "br_SessionID ref \<noteq> i" using r t(1) assms(2) by auto
  with r show ?case using assms(3) by (auto simp: unindex_def)
next
  case (2 j ds' e b)
  then have j: "j \<noteq> i" "dp_sessionsByID m j = Some ds'" using assms(3) by (auto simp: unindex_def split: if_splits)
  have "b_LocalRXTEID b \<notin> b_LocalRXTEID ` ran (g_Bearers ds)"
    using dp_inv_local_unique[OF assms(1) j(2) 2(2) assms(2)] j(1) by (auto simp: ran_def)
  with dp_inv_bearerD[OF assms(1) j(2) 2(2)] show ?case using assms(3) by (simp add: unindex_def)
qed

lemma RemoveSession_index:
  assumes "range_ok env" "dp_sessionsByID m (s_ID sess) = Some ds"
  shows "dp_index (RemoveSession env m (Some sess)) =
    ((dp_sessionsByID m)(s_ID sess := None), (dp_sessionsByPAA m)(IP_String (g_PAA ds) := None),
     (\<lambda>t. if t \<in> b_LocalRXTEID ` ran (g_Bearers ds) then None else dp_byLocal m t),
     (\<lambda>t. if t \<in> b_RemoteTXTEID ` ran (g_Bearers ds) then None else dp_byRemote m t))"
proof -
  let ?m1 = "foldl (release_bearer env) m (range_bearers env ds)"
  have "dp_index (release_paa env ?m1 (g_PAA ds)) = dp_index ?m1"
    by (simp add: release_paa_def Let_def dp_frame)
  also have "\<dots> = dp_index (foldl drop_bearer_refs m (range_bearers env ds))"
    by (rule foldl_release_index) simp
  finally show ?thesis
    using assms by (simp add: RemoveSession_def Let_def dp_index_def foldl_drop_refs set_range_bearers fun_eq_iff)
qed

lemma RemoveSession_inv:
  assumes "range_ok env" "dp_inv m"
  shows "dp_inv (RemoveSession env m osess)"
proof (cases "\<exists>sess ds. osess = Some sess \<and> dp_sessionsByID m (s_ID sess) = Some ds")
  case False
  with assms show ?thesis by (auto simp: RemoveSession_def split: option.splits)
next
  case True
  then obtain sess ds where s: "osess = Some sess" "dp_sessionsByID m (s_ID sess) = Some ds" by blast
  with RemoveSession_index[OF assms(1) s(2)] show ?thesis
    by (intro dp_inv_unindex[OF assms(2) s(2)]) (simp add: dp_index_def unindex_def)
qed

text \<open>Undoing.  Every action but the first of a log touches the kernel only.\<close>

fun kernel_undo :: "undo \<Rightarrow> bool" where
  "kernel_undo (UndoSessionState _ _) = False"
| "kernel_undo _ = True"

lemma run_undo_kernel:
  "kernel_undo u \<Longrightarrow> dp_index (snd (run_undo env rm u)) = dp_index (snd rm) \<and> fst (run_undo env rm u) = fst rm"
  by (cases u) (auto simp: run_undo_def dp_frame split: prod.splits)

lemma foldl_run_undo_kernel:
  "list_all kernel_undo us \<Longrightarrow>
   dp_index (snd (foldl (run_undo env) rm us)) = dp_index (snd rm) \<and> fst (foldl (run_undo env) rm us) = fst rm"
  by (induction us arbitrary: rm) (auto simp: run_undo_kernel)

definition log_for :: "string \<Rightarrow> string \<Rightarrow> rollbackState \<Rightarrow> bool" where
  "log_for i p rb \<longleftrightarrow> (\<exists>us. rb_actions rb = UndoSessionState i p # us \<and> list_all kernel_undo us) \<and> \<not> rb_ran rb"

lemma log_for_add: "log_for i p rb \<Longrightarrow> kernel_undo u \<Longrightarrow> log_for i p (rb_add rb u)"
  by (auto simp: log_for_def rb_add_def)

lemma removeSessionState_ran: "rb_ran (fst (removeSessionState env r m i p)) = rb_ran r"
  by (auto simp: removeSessionState_def Let_def split: option.splits)

lemma removeSessionState_index:
  assumes "range_ok env" "dp_sessionsByID m i = Some ds" "p \<noteq> []"
  shows "dp_index (snd (removeSessionState env r m i p)) =
    ((dp_sessionsByID m)(i := None), (dp_sessionsByPAA m)(p := None),
     (\<lambda>t. if t \<in> b_LocalRXTEID ` ran (g_Bearers ds) then None else dp_byLocal m t),
     (\<lambda>t. if t \<in> b_RemoteTXTEID ` ran (g_Bearers ds) then None else dp_byRemote m t))"
  using assms by (auto simp: removeSessionState_def dp_index_def Let_def foldl_drop_refs set_range_bearers fun_eq_iff)

lemma add_fail_index:
  assumes "range_ok env" "log_for i p rb" "dp_sessionsByID m i = Some ds" "p \<noteq> []"
  shows "dp_index (snd (add_fail env rb m e)) =
    ((dp_sessionsByID m)(i := None), (dp_sessionsByPAA m)(p := None),
     (\<lambda>t. if t \<in> b_LocalRXTEID ` ran (g_Bearers ds) then None else dp_byLocal m t),
     (\<lambda>t. if t \<in> b_RemoteTXTEID ` ran (g_Bearers ds) then None else dp_byRemote m t))"
proof -
  from assms(2) obtain us where us: "rb_actions rb = UndoSessionState i p # us" "list_all kernel_undo us" "\<not> rb_ran rb"
    by (auto simp: log_for_def)
  let ?start = "(rb\<lparr>rb_ran := True\<rparr>, m)"
  obtain r1 m1 where k: "foldl (run_undo env) ?start (rev us) = (r1, m1)" by fastforce
  from foldl_run_undo_kernel[of "rev us" env ?start] us(2) k
  have m1: "dp_index m1 = dp_index m" and r1: "r1 = rb\<lparr>rb_ran := True\<rparr>" by auto
  obtain r2 m2 where s: "removeSessionState env r1 m1 i p = (r2, m2)" by fastforce
  then have ran: "rb_ran r2" using removeSessionState_ran[of env r1 m1 i p] r1 by simp
  have "rb_run env rb m = (r2\<lparr>rb_actions := []\<rparr>, m2)"
    using us k s by (simp add: rb_run_def run_undo_def)
  then have "snd (add_fail env rb m e) = m2"
    using ran by (simp add: add_fail_def rb_run_def[of env "r2\<lparr>rb_actions := []\<rparr>"])
  moreover have "dp_sessionsByID m1 i = Some ds" using m1 assms(3) by (simp add: dp_index_inject)
  ultimately show ?thesis
    using removeSessionState_index[OF assms(1) _ assms(4), of m1 i ds r1] s m1[unfolded dp_index_inject]
    by (simp cong: if_cong)
qed

lemma dotted_not_Nil: "dotted [a, b, c, d] \<noteq> []"
  by (simp add: dotted_def)

lemma IP_String_v4_not_Nil: "To4 ip \<noteq> [] \<Longrightarrow> IP_String ip \<noteq> []"
  by (cases ip rule: To4_cases) (auto simp: IP_String_def dotted_not_Nil)

text \<open>Steps that change nothing but the kernel state.\<close>

definition kern_only :: "dplane \<Rightarrow> dplane \<Rightarrow> bool" where
  "kern_only m m' \<longleftrightarrow> m' = m\<lparr>dp_kern := dp_kern m'\<rparr>"

lemma kern_only_refl [simp]: "kern_only m m"
  by (simp add: kern_only_def)

lemma kern_only_trans [trans]: "kern_only m m' \<Longrightarrow> kern_only m' m'' \<Longrightarrow> kern_only m m''"
  unfolding kern_only_def by (metis dplane.fold_congs(11) dplane.update_convs(11) dplane.surjective)

lemma kern_only_simps:
  assumes "kern_only m m'"
  shows "dp_index m' = dp_index m" "dp_tc m' = dp_tc m" "dp_bpf m' = dp_bpf m" "route_ifindex m' = route_ifindex m"
  by (subst assms[unfolded kern_only_def], simp add: dp_index_def route_ifindex_def cong: option.case_cong)+

lemma on_kern_only: "on_kern m f = (r, m') \<Longrightarrow> kern_only m m'"
  by (auto simp: on_kern_def kern_only_def split: prod.splits)

lemma addBPFRoute_only: "addBPFRoute env m paa = (e, m') \<Longrightarrow> kern_only m m'"
  by (auto simp: addBPFRoute_def split: if_splits prod.splits option.splits dest: on_kern_only)

lemma sync_only: "syncTCBPFTFTRulesLocked env m ds = (e, m') \<Longrightarrow> kern_only m m'"
  by (auto simp: syncTCBPFTFTRulesLocked_def split: if_splits dest: on_kern_only)

lemma LinkByName_only: "LinkByName env m name = (r, m') \<Longrightarrow> kern_only m m'"
  unfolding LinkByName_def by (rule on_kern_only)

lemmas kern_only_steps = on_kern_only addBPFRoute_only sync_only LinkByName_only

text \<open>The two halves of the installation extend the log by kernel actions and leave the indexes alone.\<close>

lemma add_downlink_log:
  assumes "log_for i p rb"
  shows "case add_downlink env rb m b paa pgw of
      Inl (e, rb', m') \<Rightarrow> log_for i p rb' \<and> kern_only m m'
    | Inr (rb', m') \<Rightarrow> log_for i p rb' \<and> kern_only m m'"
  using assms
  by (auto simp: add_downlink_def Let_def log_for_add split: prod.splits option.splits
      dest!: kern_only_steps intro: kern_only_trans)

lemma add_uplink_log:
  assumes "log_for i p rb"
  shows "case add_uplink env rb m b ds paa pgw loc of
      Inl (e, rb', m') \<Rightarrow> log_for i p rb' \<and> kern_only m m'
    | Inr (rb', m') \<Rightarrow> log_for i p rb' \<and> kern_only m m'"
  using assms
  by (auto simp: add_uplink_def Let_def log_for_add split: prod.splits option.splits
      dest!: kern_only_steps intro: kern_only_trans)

lemma index_session_simps [simp]:
  "dp_sessionsByID (index_session m ds b paa) = (dp_sessionsByID m)(g_ID ds \<mapsto> ds)"
  "dp_sessionsByPAA (index_session m ds b paa) = (dp_sessionsByPAA m)(IP_String paa \<mapsto> g_ID ds)"
  "dp_byLocal (index_session m ds b paa) = (dp_byLocal m)(b_LocalRXTEID b \<mapsto> \<lparr>br_SessionID = g_ID ds, br_BearerEBI = b_EBI b\<rparr>)"
  "dp_byRemote (index_session m ds b paa) = (dp_byRemote m)(b_RemoteTXTEID b \<mapsto> \<lparr>br_SessionID = g_ID ds, br_BearerEBI = b_EBI b\<rparr>)"
  "dp_kern (index_session m ds b paa) = dp_kern m" "dp_tc (index_session m ds b paa) = dp_tc m"
  "dp_bpf (index_session m ds b paa) = dp_bpf m"
  by (simp_all add: index_session_def)

text \<open>Either the installation succeeds and the manager is the one with the session entered, or it fails
  with a log that starts with the removal of the session state.\<close>

lemma install_default_cases:
  assumes "dp_byLocal m (b_LocalRXTEID b) = None"
  obtains (ok) m' where "install_default env m ds b paa pgw loc = (None, m')" "kern_only (index_session m ds b paa) m'"
  | (failed) e rb m' where "install_default env m ds b paa pgw loc = add_fail env rb m' e"
      "log_for (g_ID ds) (IP_String paa) rb" "kern_only (index_session m ds b paa) m'"
proof -
  let ?rb = "rb_add newRollbackState (UndoSessionState (g_ID ds) (IP_String paa))"
  have rb: "log_for (g_ID ds) (IP_String paa) ?rb"
    by (simp add: log_for_def rb_add_def newRollbackState_def)
  let ?d = "add_downlink env ?rb (index_session m ds b paa) b paa pgw"
  show ?thesis
  proof (cases ?d)
    case (Inl x)
    then show ?thesis using add_downlink_log[OF rb, where env = env and m = "index_session m ds b paa" and b = b and paa = paa and pgw = pgw] assms
      by (intro failed[of "fst (snd x)" "snd (snd x)" "fst x"])
         (auto simp: install_default_def Let_def split: prod.splits)
  next
    case (Inr y)
    obtain rb1 m2 where y: "y = (rb1, m2)" by fastforce
    with Inr add_downlink_log[OF rb, where env = env and m = "index_session m ds b paa" and b = b and paa = paa and pgw = pgw]
    have rb1: "log_for (g_ID ds) (IP_String paa) rb1" and m2: "kern_only (index_session m ds b paa) m2" by auto
    note up = add_uplink_log[OF rb1, where env = env and m = m2 and b = b and ds = ds and paa = paa and pgw = pgw and loc = loc]
    show ?thesis
    proof (cases "add_uplink env rb1 m2 b ds paa pgw loc")
      case (Inl x)
      then show ?thesis using up m2 assms Inr y
        by (intro failed[of "fst (snd x)" "snd (snd x)" "fst x"])
           (auto simp: install_default_def Let_def split: prod.splits intro: kern_only_trans)
    next
      case (Inr z)
      then show ?thesis using up m2 assms \<open>?d = Inr y\<close> y
        by (intro ok[of "snd z"]) (auto simp: install_default_def Let_def split: prod.splits intro: kern_only_trans)
    qed
  qed
qed

definition one_bearer :: "GSession \<Rightarrow> Bearer \<Rightarrow> bool" where
  "one_bearer ds b \<longleftrightarrow> g_Bearers ds = [b_EBI b \<mapsto> b]"

lemma install_default_index:
  assumes "range_ok env" "one_bearer ds b" "dp_byLocal m (b_LocalRXTEID b) = None"
    "dp_sessionsByID m (g_ID ds) = None" "To4 paa \<noteq> []"
    "install_default env m ds b paa pgw loc = (Some e, m')"
  shows "dp_index m' = (dp_sessionsByID m, (dp_sessionsByPAA m)(IP_String paa := None), dp_byLocal m,
                        (dp_byRemote m)(b_RemoteTXTEID b := None))"
  using assms(3)
proof (cases rule: install_default_cases[where env = env and ds = ds and paa = paa and pgw = pgw and loc = loc])
  case (failed e' rb m1)
  have "dp_sessionsByID m1 (g_ID ds) = Some ds"
    using kern_only_simps(1)[OF failed(3)] by (simp add: dp_index_inject)
  note af = add_fail_index[OF assms(1) failed(2) this IP_String_v4_not_Nil[OF assms(5)], of e']
  have ran: "ran (g_Bearers ds) = {b}" using assms(2) by (auto simp: one_bearer_def)
  have m1: "dp_sessionsByID m1 = (dp_sessionsByID m)(g_ID ds \<mapsto> ds)"
    "dp_sessionsByPAA m1 = (dp_sessionsByPAA m)(IP_String paa \<mapsto> g_ID ds)"
    "dp_byLocal m1 = (dp_byLocal m)(b_LocalRXTEID b \<mapsto> \<lparr>br_SessionID = g_ID ds, br_BearerEBI = b_EBI b\<rparr>)"
    "dp_byRemote m1 = (dp_byRemote m)(b_RemoteTXTEID b \<mapsto> \<lparr>br_SessionID = g_ID ds, br_BearerEBI = b_EBI b\<rparr>)"
    using kern_only_simps(1)[OF failed(3)] by (simp_all add: dp_index_inject)
  have "m' = snd (add_fail env rb m1 e')" using assms(6) failed(1) by simp
  then show ?thesis using af assms(3,4) unfolding ran m1 by (auto simp: fun_eq_iff)
qed (use assms(6) in simp)

lemma install_default_ok:
  assumes "dp_byLocal m (b_LocalRXTEID b) = None" "install_default env m ds b paa pgw loc = (None, m')"
  shows "kern_only (index_session m ds b paa) m'"
  using assms(1)
proof (cases rule: install_default_cases[where env = env and ds = ds and paa = paa and pgw = pgw and loc = loc])
  case (ok m1)
  with assms(2) show ?thesis by simp
next
  case (failed rb m1 e)
  with assms(2) show ?thesis by (simp add: add_fail_def split: prod.splits)
qed

lemma index_session_inv:
  assumes "dp_inv m" "one_bearer ds b" "dp_sessionsByID m (g_ID ds) = None" "dp_byLocal m (b_LocalRXTEID b) = None"
  shows "dp_inv (index_session m ds b paa)"
proof (rule dp_invI, goal_cases)
  case (1 t ref)
  show ?case
  proof (cases "t = b_LocalRXTEID b")
    case True
    with 1 assms(2) show ?thesis by (auto simp: one_bearer_def)
  next
    case False
    with 1 have "dp_byLocal m t = Some ref" by simp
    from dp_inv_refD[OF assms(1) this] assms(3) show ?thesis by auto
  qed
next
  case (2 j ds' e' b')
  show ?case
  proof (cases "j = g_ID ds")
    case True
    with 2 assms(2) show ?thesis by (auto simp: one_bearer_def split: if_splits)
  next
    case False
    with 2 have "dp_sessionsByID m j = Some ds'" by simp
    from dp_inv_bearerD[OF assms(1) this 2(2)] assms(4) show ?thesis by auto
  qed
qed

lemma install_default_collision:
  "dp_byLocal m (b_LocalRXTEID b) \<noteq> None \<Longrightarrow>
   install_default env m ds b paa pgw loc = (Some (TEIDCollision (b_LocalRXTEID b)), m)"
  by (simp add: install_default_def add_fail_def rb_run_def newRollbackState_def)

lemma install_default_inv:
  assumes "range_ok env" "dp_inv m" "one_bearer ds b" "dp_sessionsByID m (g_ID ds) = None" "To4 paa \<noteq> []"
    "install_default env m ds b paa pgw loc = (e, m')"
  shows "dp_inv m'"
proof (cases "dp_byLocal m (b_LocalRXTEID b)")
  case (Some r)
  with assms(6) have "m' = m" by (simp add: install_default_collision)
  with assms(2) show ?thesis by simp
next
  case None
  show ?thesis
  proof (cases e)
    case (Some err)
    with install_default_index[OF assms(1,3) None assms(4,5)] assms(6)
    have "dp_sessionsByID m' = dp_sessionsByID m" "dp_byLocal m' = dp_byLocal m" by (auto simp: dp_index_def)
    with assms(2) show ?thesis by (simp add: dp_inv_def)
  next
    case ok: None
    with install_default_ok[OF None] assms(6) have "kern_only (index_session m ds b paa) m'" by simp
    then show ?thesis
      using index_session_inv[OF assms(2-4) None] kern_only_simps(1) dp_inv_index by blast
  qed
qed

lemma new_gsession_one: "one_bearer (new_gsession sess c paa pgw loc) (default_bearer c pgw loc)"
  "g_ID (new_gsession sess c paa pgw loc) = s_ID sess"
  by (simp_all add: one_bearer_def new_gsession_def default_bearer_def)

lemma AddSession_inv:
  assumes "range_ok env" "dp_inv m" "\<And>sess. osess = Some sess \<Longrightarrow> dp_sessionsByID m (s_ID sess) = None"
  shows "dp_inv (fst (snd (AddSession env m osess)))"
  using assms(2,3) install_default_inv[OF assms(1,2) new_gsession_one(1)]
  by (auto simp: AddSession_def Let_def new_gsession_one split: option.splits prod.splits)

section \<open>Reachable managers\<close>

text \<open>The operations other components invoke, in any order.  A session is added under a fresh
  identifier and a dedicated bearer under an EBI the session does not use yet: the callers
  \<^verbatim>\<open>auth.go\<close> and \<^verbatim>\<open>cmd/epdg\<close> choose them so, and \<^verbatim>\<open>AddSession\<close> and \<^verbatim>\<open>AddBearer\<close> do not check it.  The one
  exception, a repeated addition after a failed rule update, is treated with \<open>dp_live\<close> below.\<close>

inductive dp_step :: "genv \<Rightarrow> dplane \<Rightarrow> dplane \<Rightarrow> bool" for env where
  step_AddSession: "dp_sessionsByID m (s_ID sess) = None \<Longrightarrow>
     dp_step env m (fst (snd (AddSession env m (Some sess))))"
| step_RemoveSession: "dp_step env m (RemoveSession env m osess)"
| step_AddBearer: "(\<And>ds. dp_sessionsByID m i = Some ds \<Longrightarrow> g_Bearers ds (b_EBI b) = None) \<Longrightarrow>
     dp_step env m (snd (AddBearer env m i b))"
| step_RemoveBearer: "dp_step env m (snd (RemoveBearer env m i e))"
| step_UpdateBearer: "dp_step env m (snd (UpdateBearer env m i e qci raw))"
| step_Downlink: "dp_step env m (fst (handleDownlink env m pkt peer now wr))"
| step_EchoTick: "dp_step env m (fst (pathEchoTick m ks now wr))"
| step_Counters: "dp_step env m (syncBearerCounters m ls rs now dl ul)"

inductive dp_reachable :: "genv \<Rightarrow> dplane \<Rightarrow> bool" for env where
  reach_start: "dp_reachable env ((gtpu_NewManager k)\<lparr>dp_bpf := b, dp_tc := t\<rparr>)"
| reach_step: "dp_reachable env m \<Longrightarrow> dp_step env m m' \<Longrightarrow> dp_reachable env m'"

lemma handleDownlink_index: "dp_index (fst (handleDownlink env m pkt peer now wr)) = dp_index m"
  by (auto simp: handleDownlink_def handleEchoResponse_def sendErrorIndication_def dp_index_def Let_def
      split: sum.splits prod.splits if_splits)

lemma pathEchoTick_index: "dp_index (fst (pathEchoTick m ks now wr)) = dp_index m"
proof -
  have "dp_index (fst (foldl (\<lambda>(m', out) peer. case sendEchoRequest m' peer now wr of (m'', o') \<Rightarrow> (m'', out @ o')) (m0, out) ps))
      = dp_index m0" for m0 out ps
    by (induction ps arbitrary: m0 out) (auto simp: sendEchoRequest_def Let_def dp_index_def split: prod.splits)
  then show ?thesis by (simp add: pathEchoTick_def)
qed

lemma sync_counters_inv:
  "dp_inv m \<Longrightarrow> dp_inv (sync_dl now rd m teid)" "dp_inv m \<Longrightarrow> dp_inv (sync_ul now rd m teid)"
  by (auto simp: sync_dl_def sync_ul_def Let_def split: option.splits prod.splits intro!: replace_bearer_inv)

lemma syncBearerCounters_inv:
  assumes "dp_inv m"
  shows "dp_inv (syncBearerCounters m ls rs now dl ul)"
proof -
  have "dp_inv m0 \<Longrightarrow> dp_inv (foldl (sync_dl now rd) m0 ts)" "dp_inv m0 \<Longrightarrow> dp_inv (foldl (sync_ul now rd) m0 ts)" for m0 rd ts
    by (induction ts arbitrary: m0) (auto intro: sync_counters_inv)
  with assms show ?thesis by (auto simp: syncBearerCounters_def Let_def split: option.splits)
qed

lemma dp_step_inv: "dp_step env m m' \<Longrightarrow> range_ok env \<Longrightarrow> dp_inv m \<Longrightarrow> dp_inv m'"
proof (induction rule: dp_step.induct)
  case (step_Downlink m pkt peer now wr)
  then show ?case using dp_inv_index handleDownlink_index by blast
next
  case (step_EchoTick m ks now wr)
  then show ?case using dp_inv_index pathEchoTick_index by blast
qed (auto intro: AddSession_inv RemoveSession_inv AddBearer_inv RemoveBearer_inv UpdateBearer_inv syncBearerCounters_inv)

lemma dp_reachable_inv: "dp_reachable env m \<Longrightarrow> range_ok env \<Longrightarrow> dp_inv m"
proof (induction rule: dp_reachable.induct)
  case (reach_start k b t)
  then show ?case by (simp add: dp_inv_def gtpu_NewManager_def)
qed (auto intro: dp_step_inv)


definition all_ebis :: "(byte \<rightharpoonup> Bearer) \<Rightarrow> byte list" where
  "all_ebis bs = filter (\<lambda>e. bs e \<noteq> None) (map of_nat [0..<256])"

lemma all_ebis_range: "distinct (all_ebis bs) \<and> set (all_ebis bs) = dom bs"
proof -
  have "w \<in> of_nat ` {0..<256}" for w :: byte
    using unsigned_less[of w, where ?'a = nat] by (intro image_eqI[of _ _ "unat w"]) simp_all
  moreover have "inj_on (of_nat :: nat \<Rightarrow> byte) {0..<256}"
    by (rule inj_onI) (metis atLeastLessThan_iff unat_of_nat_byte)
  ultimately show ?thesis by (auto simp: all_ebis_def distinct_map)
qed

text \<open>A concrete environment, kernel and subscriber for the witnesses.\<close>

definition empty_kern :: kern where
  "empty_kern = \<lparr>k_teid = Map.empty, k_dlcnt = Map.empty, k_ulcnt = Map.empty, k_ue = Map.empty,
     k_rules = Map.empty, k_routes = (\<lambda>_. False), k_tick = 0\<rparr>"

definition demo_genv :: "faults \<Rightarrow> genv" where
  "demo_genv F = \<lparr>ge_LocalGTPU = ''10.0.0.1'', ge_XDPInterface = ''eth0'', ge_link = [''eth0'' \<mapsto> 2],
     ge_faults = F, ge_range = all_ebis\<rparr>"

definition demo_session :: Session where
  "demo_session = (New ''s'' 0)\<lparr>s_S2B := Some \<lparr>sc_PAA = ''10.9.0.7'', sc_PGWControlTEID = 3, sc_PGWControlIP = [192, 0, 2, 1],
     sc_PGWUserTEID = 9, sc_PGWUserIP = [192, 0, 2, 2], sc_LocalControlTEID = 4, sc_LocalUserTEID = 7, sc_EBI = 5, sc_PGWRecovery = 0\<rparr>\<rparr>"

definition demo_start :: dplane where
  "demo_start = (gtpu_NewManager empty_kern)\<lparr>dp_bpf := Some 2, dp_tc := Some 9\<rparr>"

lemma demo_range_ok: "range_ok (demo_genv F)"
  by (simp add: range_ok_def demo_genv_def all_ebis_range)


section \<open>Failed additions leave no trace\<close>

text \<open>What an undo action does to the kernel tables when deletions are not refused.\<close>

fun kundo :: "int \<Rightarrow> undo \<Rightarrow> kern \<Rightarrow> kern" where
  "kundo idx (UndoSessionState _ _) k = k"
| "kundo idx (UndoTEID teid) k = undo_teid teid k"
| "kundo idx (UndoRoute paa) k = (if To4 paa = [] then k else undo_route (To4 paa, idx) k)"
| "kundo idx (UndoUESession paa) k = (if To4 paa = [] then k else undo_ue (To4 paa) k)"

lemma on_kern_kern: "dp_kern (snd (on_kern m f)) = snd (f (dp_kern m))"
  by (simp add: on_kern_def split: prod.splits)

lemma removeBPFRoute_tables:
  "del_ok (ge_faults env) \<Longrightarrow>
   tables (dp_kern (snd (removeBPFRoute env m paa))) = kundo (route_ifindex m) (UndoRoute paa) (tables (dp_kern m))"
  by (auto simp: removeBPFRoute_def on_kern_def kRouteDel_tables[symmetric] split: prod.splits option.splits)

lemma removeSessionState_kern:
  "dp_kern (snd (removeSessionState env r m i p)) = dp_kern m" "dp_tc (snd (removeSessionState env r m i p)) = dp_tc m"
  "dp_bpf (snd (removeSessionState env r m i p)) = dp_bpf m"
proof -
  have "dp_kern (foldl drop_bearer_refs m0 bs) = dp_kern m0 \<and> dp_tc (foldl drop_bearer_refs m0 bs) = dp_tc m0 \<and>
        dp_bpf (foldl drop_bearer_refs m0 bs) = dp_bpf m0" for m0 bs
    by (induction bs arbitrary: m0) (auto simp: drop_bearer_refs_def)
  then show "dp_kern (snd (removeSessionState env r m i p)) = dp_kern m" "dp_tc (snd (removeSessionState env r m i p)) = dp_tc m"
    "dp_bpf (snd (removeSessionState env r m i p)) = dp_bpf m"
    by (auto simp: removeSessionState_def Let_def split: option.splits)
qed

lemma route_ifindex_cong: "dp_tc m' = dp_tc m \<Longrightarrow> dp_bpf m' = dp_bpf m \<Longrightarrow> route_ifindex m' = route_ifindex m"
  by (simp add: route_ifindex_def cong: option.case_cong)

lemma run_undo_tables:
  assumes "del_ok (ge_faults env)"
  shows "tables (dp_kern (snd (run_undo env (r, m) u))) = kundo (route_ifindex m) u (tables (dp_kern m)) \<and>
         route_ifindex (snd (run_undo env (r, m) u)) = route_ifindex m"
proof (cases u)
  case (UndoSessionState i p)
  then show ?thesis
    using route_ifindex_cong[OF removeSessionState_kern(2,3)] by (simp add: run_undo_def removeSessionState_kern)
next
  case (UndoTEID teid)
  then show ?thesis
    using route_ifindex_cong[OF on_kern_progs(2,1)] by (simp add: run_undo_def on_kern_kern RemoveTEID_tables[OF assms])
next
  case (UndoRoute paa)
  moreover have "route_ifindex (snd (removeBPFRoute env m paa)) = route_ifindex m"
    by (auto simp: removeBPFRoute_def split: prod.splits option.splits dest!: on_kern_only kern_only_simps(4))
  ultimately show ?thesis by (simp add: run_undo_def removeBPFRoute_tables[OF assms])
next
  case (UndoUESession paa)
  moreover have "To4 paa = [] \<Longrightarrow> RemoveUESession (ge_faults env) k paa = (None, k)" for k
    by (simp add: RemoveUESession_def)
  ultimately show ?thesis
    using route_ifindex_cong[OF on_kern_progs(2,1)]
    by (cases "To4 paa = []") (simp_all add: run_undo_def on_kern_kern RemoveUESession_tables[OF assms])
qed

lemma foldl_run_undo_tables:
  assumes "del_ok (ge_faults env)"
  shows "tables (dp_kern (snd (foldl (run_undo env) (r, m) us)))
       = foldl (\<lambda>k u. kundo (route_ifindex m) u k) (tables (dp_kern m)) us"
proof (induction us arbitrary: r m)
  case (Cons u us)
  obtain r1 m1 where ru: "run_undo env (r, m) u = (r1, m1)" by fastforce
  with run_undo_tables[OF assms, of r m u] Cons.IH[of r1 m1] show ?case by simp
qed simp

text \<open>The kernel tables reached by replaying the log backwards.\<close>

definition replays :: "rollbackState \<Rightarrow> dplane \<Rightarrow> kern \<Rightarrow> bool" where
  "replays rb m k0 \<longleftrightarrow>
    foldl (\<lambda>k u. kundo (route_ifindex m) u k) (tables (dp_kern m)) (rev (rb_actions rb)) = k0"

lemma replays_same:
  "replays rb m k0 \<Longrightarrow> tables (dp_kern m') = tables (dp_kern m) \<Longrightarrow> route_ifindex m' = route_ifindex m \<Longrightarrow> replays rb m' k0"
  by (simp add: replays_def)

lemma replays_add:
  "replays rb m k0 \<Longrightarrow> kundo (route_ifindex m') u (tables (dp_kern m')) = tables (dp_kern m) \<Longrightarrow>
   route_ifindex m' = route_ifindex m \<Longrightarrow> replays (rb_add rb u) m' k0"
  by (simp add: replays_def rb_add_def)

lemma add_fail_tables:
  assumes "del_ok (ge_faults env)" "replays rb m k0" "log_for i p rb"
  shows "tables (dp_kern (snd (add_fail env rb m e))) = k0"
proof -
  obtain r1 m1 where f: "foldl (run_undo env) (rb\<lparr>rb_ran := True\<rparr>, m) (rev (rb_actions rb)) = (r1, m1)" by fastforce
  have "rb_ran (fst (run_undo env rm u)) = rb_ran (fst rm)" for rm u
    by (cases u) (auto simp: run_undo_def removeSessionState_ran split: prod.splits)
  then have "rb_ran (fst (foldl (run_undo env) rm us)) = rb_ran (fst rm)" for rm us
    by (induction us arbitrary: rm) auto
  from this[of "(rb\<lparr>rb_ran := True\<rparr>, m)" "rev (rb_actions rb)"] f have "rb_ran r1" by simp
  then have "snd (add_fail env rb m e) = m1"
    using assms(3) f by (simp add: add_fail_def rb_run_def log_for_def)
  then show ?thesis
    using foldl_run_undo_tables[OF assms(1), of "rb\<lparr>rb_ran := True\<rparr>" m "rev (rb_actions rb)"] f assms(2)
    by (simp add: replays_def)
qed

lemma route_ifindex_kern [simp]: "route_ifindex (m\<lparr>dp_kern := k\<rparr>) = route_ifindex m"
  by (rule route_ifindex_cong) simp_all

lemma addBPFRoute_replays:
  assumes "addBPFRoute env m paa = (e, m')" "To4 paa \<noteq> []" "replays rb m k0"
  shows "e \<noteq> None \<Longrightarrow> replays rb m' k0" "e = None \<Longrightarrow> replays (rb_add rb (UndoRoute paa)) m' k0"
proof -
  obtain e1 k1 where r: "kRouteAdd (ge_faults env) (dp_kern m) (To4 paa, route_ifindex m) = (e1, k1)" by fastforce
  with assms(1,2) have m': "m' = m\<lparr>dp_kern := k1\<rparr>" "e = None \<longleftrightarrow> e1 = None"
    by (auto simp: addBPFRoute_def on_kern_def split: option.splits)
  show "e \<noteq> None \<Longrightarrow> replays rb m' k0"
    using kRouteAdd_undone(1)[OF r] m' by (auto intro: replays_same[OF assms(3)])
  show "e = None \<Longrightarrow> replays (rb_add rb (UndoRoute paa)) m' k0"
    using kRouteAdd_undone(2)[OF r] m' assms(2) by (auto intro!: replays_add[OF assms(3)])
qed

definition clean :: "kern \<Rightarrow> u32 \<Rightarrow> bytes \<Rightarrow> bool" where
  "clean k teid p \<longleftrightarrow> k_teid k teid = None \<and> k_ue k p = None \<and> (\<forall>j. k_rules k (p, j) = None)"

lemma add_downlink_replays:
  assumes "replays rb m k0" "clean (dp_kern m) (b_LocalRXTEID b) (To4 paa)" "To4 paa \<noteq> []"
  shows "case add_downlink env rb m b paa pgw of
      Inl (e, rb', m') \<Rightarrow> replays rb' m' k0
    | Inr (rb', m') \<Rightarrow> replays rb' m' k0 \<and> k_ue (dp_kern m') (To4 paa) = None \<and> (\<forall>j. k_rules (dp_kern m') (To4 paa, j) = None)"
proof (cases "dp_bpf m")
  case None
  with assms show ?thesis by (simp add: add_downlink_def clean_def)
next
  case (Some bi)
  obtain e1 k1 where a: "AddTEID (ge_faults env) (dp_kern m) (b_LocalRXTEID b) paa pgw = (e1, k1)" by fastforce
  note u = AddTEID_undone[OF a]
  have t: "k_teid (dp_kern m) (b_LocalRXTEID b) = None" using assms(2) by (simp add: clean_def)
  let ?m1 = "m\<lparr>dp_kern := k1\<rparr>" and ?rb1 = "rb_add rb (UndoTEID (b_LocalRXTEID b))"
  have keep: "k_ue k1 = k_ue (dp_kern m)" "k_rules k1 = k_rules (dp_kern m)"
    using a by (auto simp: AddTEID_def kern_simps split: if_splits)
  show ?thesis
  proof (cases e1)
    case (Some e)
    with u(1)[OF t] have "replays rb ?m1 k0" by (auto intro: replays_same[OF assms(1)])
    with Some \<open>dp_bpf m = Some bi\<close> a show ?thesis by (simp add: add_downlink_def on_kern_def)
  next
    case None
    with u(2)[OF t] have r1: "replays ?rb1 ?m1 k0" by (auto intro!: replays_add[OF assms(1)])
    obtain e2 m2 where b: "addBPFRoute env ?m1 paa = (e2, m2)" by fastforce
    then have "k_ue (dp_kern m2) = k_ue k1 \<and> k_rules (dp_kern m2) = k_rules k1"
      by (auto simp: addBPFRoute_def on_kern_def kern_simps split: if_splits prod.splits option.splits)
    with addBPFRoute_replays[OF b assms(3) r1] assms(2) keep None \<open>dp_bpf m = Some bi\<close> a b r1 show ?thesis
      by (cases e2) (auto simp: add_downlink_def on_kern_def Let_def clean_def)
  qed
qed

lemma build_rules_one:
  assumes "one_bearer ds b" "b_EBI b = g_DefaultEBI ds"
  shows "buildTCBPFTFTRules env ds = []"
  using assms by (auto simp: buildTCBPFTFTRules_def one_bearer_def bearer_rules_def split: option.splits if_splits)

lemma add_uplink_replays:
  assumes "replays rb m k0" "k_ue (dp_kern m) (To4 paa) = None" "\<forall>j. k_rules (dp_kern m) (To4 paa, j) = None"
    "To4 paa \<noteq> []" "one_bearer ds b" "b_EBI b = g_DefaultEBI ds" "g_PAA ds = paa"
  shows "case add_uplink env rb m b ds paa pgw loc of Inl (e, rb', m') \<Rightarrow> replays rb' m' k0 | Inr _ \<Rightarrow> True"
proof (cases "dp_tc m = None \<or> ge_XDPInterface env = []")
  case True
  with assms(1) show ?thesis by (auto simp: add_uplink_def)
next
  case False
  obtain v m1 where l: "LinkByName env m (ge_XDPInterface env) = (v, m1)" by fastforce
  then have m1: "m1 = m\<lparr>dp_kern := ktick (dp_kern m)\<rparr>" by (auto simp: LinkByName_def on_kern_def)
  have r1: "replays rb m1 k0" by (rule replays_same[OF assms(1)]) (simp_all add: m1 ktick_def tables_def)
  show ?thesis
  proof (cases v)
    case None
    with False l r1 show ?thesis by (auto simp: add_uplink_def)
  next
    case (Some idx)
    obtain e2 k2 where a: "AddUESession (ge_faults env) (dp_kern m1) paa (b_RemoteTXTEID b) pgw loc idx = (e2, k2)" by fastforce
    let ?m2 = "m1\<lparr>dp_kern := k2\<rparr>" and ?rb1 = "rb_add rb (UndoUESession paa)"
    have c1: "k_ue (dp_kern m1) (To4 paa) = None" "\<forall>j. k_rules (dp_kern m1) (To4 paa, j) = None"
      using assms(2,3) by (simp_all add: m1 ktick_def)
    note u = AddUESession_undone[OF a c1]
    have k2: "\<forall>j. k_rules k2 (To4 paa, j) = None" using a c1 by (auto simp: AddUESession_def kern_simps Let_def split: if_splits)
    obtain e3 k3 where s: "SetTFTRules (ge_faults env) k2 paa [] = (e3, k3)" by fastforce
    let ?m3 = "m1\<lparr>dp_kern := k3\<rparr>"
    have sync: "syncTCBPFTFTRulesLocked env ?m2 ds = (e3, ?m3)"
      using False s m1 assms(7) build_rules_one[OF assms(5,6)] by (auto simp: syncTCBPFTFTRulesLocked_def on_kern_def)
    have r3: "replays ?rb1 ?m3 k0" if "e2 = None"
      using u(2)[OF that] SetTFTRules_nil_undone[OF s k2] assms(4) by (auto intro!: replays_add[OF r1])
    obtain e4 m4 where rt: "addBPFRoute env ?m3 paa = (e4, m4)" by fastforce
    have r2: "replays rb ?m2 k0" if "e2 \<noteq> None" using u(1)[OF that] by (auto intro!: replays_same[OF r1])
    show ?thesis
      using False l Some a sync rt r2 r3 addBPFRoute_replays(1)[OF rt assms(4) r3]
      by (cases e2; cases e3; cases e4) (auto simp: add_uplink_def on_kern_def Let_def)
  qed
qed

lemma install_default_tables:
  assumes "del_ok (ge_faults env)" "one_bearer ds b" "b_EBI b = g_DefaultEBI ds" "g_PAA ds = paa" "To4 paa \<noteq> []"
    "clean (dp_kern m) (b_LocalRXTEID b) (To4 paa)" "install_default env m ds b paa pgw loc = (Some e, m')"
  shows "tables (dp_kern m') = tables (dp_kern m)"
proof (cases "dp_byLocal m (b_LocalRXTEID b)")
  case (Some r)
  with assms(7) show ?thesis by (simp add: install_default_collision)
next
  case None
  let ?m1 = "index_session m ds b paa"
  let ?rb = "rb_add newRollbackState (UndoSessionState (g_ID ds) (IP_String paa))"
  have rb: "log_for (g_ID ds) (IP_String paa) ?rb" by (simp add: log_for_def rb_add_def newRollbackState_def)
  have rp: "replays ?rb ?m1 (tables (dp_kern m))" by (simp add: replays_def rb_add_def newRollbackState_def)
  note dl = add_downlink_log[OF rb, where env = env and m = ?m1 and b = b and paa = paa and pgw = pgw]
    add_downlink_replays[OF rp _ assms(5), where env = env and b = b and pgw = pgw]
  have fin: "add_fail env rb' m1 e' = (Some e, m') \<Longrightarrow> replays rb' m1 k0 \<Longrightarrow> log_for i p rb' \<Longrightarrow> tables (dp_kern m') = k0"
    for rb' m1 e' k0 i p
    using add_fail_tables[OF assms(1), of rb' m1 k0 i p e'] by simp
  show ?thesis
  proof (cases "add_downlink env ?rb ?m1 b paa pgw")
    case (Inl x)
    with dl None assms(6,7) show ?thesis
      by (auto simp: install_default_def Let_def split: prod.splits dest: fin)
  next
    case (Inr y)
    obtain rb1 m2 where y: "y = (rb1, m2)" by fastforce
    with Inr dl assms(6) have rb1: "log_for (g_ID ds) (IP_String paa) rb1" and rp1: "replays rb1 m2 (tables (dp_kern m))"
      and c: "k_ue (dp_kern m2) (To4 paa) = None" "\<forall>j. k_rules (dp_kern m2) (To4 paa, j) = None" by auto
    note ul = add_uplink_log[OF rb1, where env = env and m = m2 and b = b and ds = ds and paa = paa and pgw = pgw and loc = loc]
      add_uplink_replays[OF rp1 c assms(5,2,3,4), where env = env and pgw = pgw and loc = loc]
    show ?thesis
    proof (cases "add_uplink env rb1 m2 b ds paa pgw loc")
      case (Inl x)
      with ul Inr y None assms(7) show ?thesis
        by (auto simp: install_default_def Let_def split: prod.splits dest: fin)
    next
      case (Inr z)
      with \<open>add_downlink _ _ _ _ _ _ = Inr y\<close> y None assms(7) show ?thesis
        by (auto simp: install_default_def Let_def split: prod.splits)
    qed
  qed
qed



section \<open>Replies and path supervision\<close>

lemma respondEcho_reply:
  "(d, a) \<in> set (respondEcho sq peer) \<Longrightarrow>
   a = peer \<and> parseGTPU d = Inr \<lparr>gp_MessageType = gtpuMsgEchoResp, gp_TEID = 0, gp_Sequence = sq, gp_Payload = [14, 0, 1, 0]\<rparr>"
  by (auto simp: respondEcho_def split: sum.splits dest: parse_path_message parse_path_message[OF sym])

lemma sendErrorIndication_reply:
  "(d, a) \<in> set (snd (sendErrorIndication env m teid peer now wr)) \<Longrightarrow>
   a = peer \<and> teid \<noteq> 0 \<and> parseGTPU d = Inr \<lparr>gp_MessageType = gtpuMsgErrorIndication, gp_TEID = 0, gp_Sequence = 0,
      gp_Payload = error_indication teid (To4 (ParseIP (ge_LocalGTPU env)))\<rparr>"
  by (auto simp: sendErrorIndication_def Let_def split: if_splits prod.splits sum.splits dest: parse_path_message parse_path_message[OF sym])

text \<open>The control socket answers nobody but the sender: each datagram sent for a received packet goes
  back to its source and is either the response to an Echo Request, with the same sequence
  number, or the Error Indication for a user packet with a non-zero TEID, naming that TEID.\<close>

theorem handleDownlink_replies:
  assumes "(d, a) \<in> set (snd (handleDownlink env m pkt peer now wr))"
  shows "a = peer \<and> (\<exists>p. parseGTPU pkt = Inr p \<and>
     (gp_MessageType p = gtpuMsgEchoRequest \<and>
      parseGTPU d = Inr \<lparr>gp_MessageType = gtpuMsgEchoResp, gp_TEID = 0, gp_Sequence = gp_Sequence p, gp_Payload = [14, 0, 1, 0]\<rparr>
    \<or> gp_MessageType p = gtpuMsgTPDU \<and> gp_TEID p \<noteq> 0 \<and>
      parseGTPU d = Inr \<lparr>gp_MessageType = gtpuMsgErrorIndication, gp_TEID = 0, gp_Sequence = 0,
        gp_Payload = error_indication (gp_TEID p) (To4 (ParseIP (ge_LocalGTPU env)))\<rparr>))"
  using assms
  by (auto simp: handleDownlink_def Let_def split: sum.splits if_splits
      dest: respondEcho_reply sendErrorIndication_reply)

lemma demo_echo_answer:
  "([0x32, 2, 0, 8, 0, 0, 0, 0, 0, 7, 0, 0, 14, 0, 1, 0], [192, 0, 2, 2], 2152) \<in>
   set (snd (handleDownlink (demo_genv (\<lambda>_ _. False)) demo_start [0x32, 1, 0, 4, 0, 0, 0, 0, 0, 7, 0, 0] ([192, 0, 2, 2], 2152) 5 True))"
  by code_simp

theorem handleDownlink_replies_witness:
  "\<exists>p. parseGTPU [0x32, 1, 0, 4, 0, 0, 0, 0, 0, 7, 0, 0] = Inr p \<and>
     (gp_MessageType p = gtpuMsgEchoRequest \<or> gp_MessageType p = gtpuMsgTPDU)"
  using handleDownlink_replies[OF demo_echo_answer] by blast

text \<open>Unanswered echo requests after the last response of a peer.\<close>

lemma echo_run_path:
  "dp_paths m key = Some ps \<Longrightarrow> ps_lastResponseAt ps = Some r \<Longrightarrow>
   (case ps_lastSentAt ps of None \<Rightarrow> False | Some s \<Rightarrow> r < s) \<Longrightarrow> ps_alive ps = (ps_missedEchoes ps < 3) \<Longrightarrow>
   \<forall>t \<in> set ts. r < t \<Longrightarrow> key = IP_String peer \<Longrightarrow>
   \<exists>ps'. dp_paths (foldl (\<lambda>m t. fst (sendEchoRequest m peer t wr)) m ts) key = Some ps' \<and>
         ps_missedEchoes ps' = ps_missedEchoes ps + length ts \<and> ps_alive ps' = (ps_missedEchoes ps + length ts < 3)"
proof (induction ts arbitrary: m ps)
  case (Cons t ts)
  let ?ps = "(echo_missed ps)\<lparr>ps_lastSentAt := Some t\<rparr>"
  have miss: "echo_missed ps = ps\<lparr>ps_missedEchoes := Suc (ps_missedEchoes ps), ps_alive := ps_missedEchoes ps + 1 < 3\<rparr>"
    using Cons.prems(2,3,4) by (auto simp: echo_missed_def time_before_def Let_def split: option.splits)
  have "dp_paths (fst (sendEchoRequest m peer t wr)) key = Some ?ps"
    using Cons.prems(1,6) by (simp add: sendEchoRequest_def Let_def)
  from Cons.IH[OF this] Cons.prems show ?case by (simp add: miss)
qed auto

text \<open>A path is declared failed exactly at the fourth echo request in a row left unanswered (three
  detected misses): after a response at time \<open>r\<close>, with \<open>n > 0\<close> later requests and no response, the
  supervisor has counted \<open>n - 1\<close> misses and reports the path alive iff that is below three.\<close>

theorem path_failure_detection:
  assumes "\<forall>ps s. dp_paths m (IP_String peer) = Some ps \<and> ps_lastSentAt ps = Some s \<longrightarrow> s \<le> r"
    and "\<forall>t \<in> set ts. r < t" "ts \<noteq> []"
  shows "\<exists>ps. dp_paths (foldl (\<lambda>m t. fst (sendEchoRequest m peer t wr)) (handleEchoResponse m (peer, port) r) ts) (IP_String peer) = Some ps
     \<and> ps_missedEchoes ps = length ts - 1 \<and> (ps_alive ps \<longleftrightarrow> length ts - 1 < 3)"
proof -
  obtain t rest where ts: "ts = t # rest" using assms(3) by (cases ts) auto
  let ?m0 = "handleEchoResponse m (peer, port) r" and ?m1 = "fst (sendEchoRequest (handleEchoResponse m (peer, port) r) peer t wr)"
  obtain ps0 where p0: "dp_paths ?m0 (IP_String peer) = Some ps0" "ps_lastResponseAt ps0 = Some r" "ps_missedEchoes ps0 = 0" "ps_alive ps0"
    "\<forall>s. ps_lastSentAt ps0 = Some s \<longrightarrow> s \<le> r"
    using assms(1) by (auto simp: handleEchoResponse_def Let_def split: option.splits)
  have "echo_missed ps0 = ps0" using p0(2,5) by (auto simp: echo_missed_def time_before_def split: option.splits)
  then have "dp_paths ?m1 (IP_String peer) = Some (ps0\<lparr>ps_lastSentAt := Some t\<rparr>)"
    using p0(1) by (simp add: sendEchoRequest_def Let_def)
  from echo_run_path[OF this _ _ _ _ refl, where r = r and ts = rest and wr = wr] p0 assms(2) ts
  show ?thesis by auto
qed

theorem path_failure_detection_witness:
  "\<exists>ps. dp_paths (foldl (\<lambda>m t. fst (sendEchoRequest m [192, 0, 2, 2] t True)) (handleEchoResponse demo_start ([192, 0, 2, 2], 2152) 10) [60, 120, 180, 240])
      (IP_String [192, 0, 2, 2]) = Some ps \<and> \<not> ps_alive ps"
  using path_failure_detection[of demo_start "[192, 0, 2, 2]" 10 "[60, 120, 180, 240]" True 2152]
  by (auto simp: demo_start_def gtpu_NewManager_def)

section \<open>A reused EBI\<close>

text \<open>\<^verbatim>\<open>AddBearer\<close> does not check that the EBI is free: installing a second bearer under the EBI of an
  existing one replaces the bearer but leaves the old local TEID in the index, so the index is
  no longer exact.\<close>

definition demo_installed :: dplane where
  "demo_installed = fst (snd (AddSession (demo_genv (\<lambda>_ _. False)) demo_start (Some demo_session)))"

definition demo_bearer :: Bearer where
  "demo_bearer = (default_bearer (the (s_S2B demo_session)) [] [])\<lparr>b_LocalRXTEID := 8, b_RemoteTXTEID := 10\<rparr>"

lemma AddBearer_reused_EBI_dangling:
  "case AddBearer (demo_genv (\<lambda>_ _. False)) demo_installed ''s'' demo_bearer of
     (err, m) \<Rightarrow> err = None \<and> dp_byLocal m 7 \<noteq> None \<and>
       map_option (\<lambda>ds. map_option b_LocalRXTEID (g_Bearers ds 5)) (dp_sessionsByID m ''s'') = Some (Some 8)"
  by code_simp

section \<open>Live bearers\<close>

text \<open>
  The half of the invariant that does not depend on the caller: every installed bearer is found under its local TEID.
  It survives a bearer added under an EBI in use, which only leaves an entry behind, and so it also holds for the
  retries of \<^verbatim>\<open>allocateBearerTEID\<close>, which repeat an addition after the rules of the first could not be written.
\<close>

definition bearer_at :: "dplane \<Rightarrow> string \<Rightarrow> byte \<Rightarrow> Bearer option" where
  "bearer_at m i e = (case dp_sessionsByID m i of None \<Rightarrow> None | Some ds \<Rightarrow> g_Bearers ds e)"

definition dp_live :: "dplane \<Rightarrow> bool" where
  "dp_live m \<longleftrightarrow> (\<forall>i e b. bearer_at m i e = Some b \<longrightarrow>
     b_EBI b = e \<and> dp_byLocal m (b_LocalRXTEID b) = Some \<lparr>br_SessionID = i, br_BearerEBI = e\<rparr>)"

lemma HasBearer_at: "HasBearer m i e \<longleftrightarrow> bearer_at m i e \<noteq> None"
  by (simp add: HasBearer_def bearer_at_def split: option.splits)

lemma bearer_at_cong: "dp_sessionsByID m = dp_sessionsByID m' \<Longrightarrow> bearer_at m = bearer_at m'"
  by (simp add: bearer_at_def fun_eq_iff)

lemma dp_liveD:
  "dp_live m \<Longrightarrow> bearer_at m i e = Some b \<Longrightarrow>
   b_EBI b = e \<and> dp_byLocal m (b_LocalRXTEID b) = Some \<lparr>br_SessionID = i, br_BearerEBI = e\<rparr>"
  by (simp add: dp_live_def)

lemma dp_live_index: "dp_index m = dp_index m' \<Longrightarrow> dp_live m = dp_live m'"
  by (simp add: dp_live_def dp_index_def bearer_at_def)

lemma dp_live_unique:
  assumes "dp_live m" "bearer_at m i e = Some b" "bearer_at m j e' = Some b'" "b_LocalRXTEID b = b_LocalRXTEID b'"
  shows "i = j \<and> e = e'"
  using dp_liveD[OF assms(1,2)] dp_liveD[OF assms(1,3)] assms(4) by simp

lemma AddBearer_effect:
  obtains (refused) err where "AddBearer env m i b0 = (Some err, m)"
  | (installed) err m' b where "AddBearer env m i b0 = (err, m')"
      "b_LocalRXTEID b0 \<noteq> 0" "b_EBI b0 \<noteq> 0" "dp_byLocal m (b_LocalRXTEID b0) = None" "dp_sessionsByID m i \<noteq> None"
      "bearer_at m' i (b_EBI b0) = Some b" "b_EBI b = b_EBI b0" "b_LocalRXTEID b = b_LocalRXTEID b0"
      "b_RemoteTXTEID b = b_RemoteTXTEID b0" "b_QCI b = b_QCI b0" "b_TFT b = b_TFT b0"
      "\<And>j e. (j, e) \<noteq> (i, b_EBI b0) \<Longrightarrow> bearer_at m' j e = bearer_at m j e"
      "dp_byLocal m' = (dp_byLocal m)(b_LocalRXTEID b0 \<mapsto> \<lparr>br_SessionID = i, br_BearerEBI = b_EBI b0\<rparr>)"
proof (cases "b_LocalRXTEID b0 = 0 \<or> b_RemoteTXTEID b0 = 0 \<or> b_EBI b0 = 0 \<or>
              dp_sessionsByID m i = None \<or> dp_byLocal m (b_LocalRXTEID b0) \<noteq> None")
  case True
  then have "\<exists>err. AddBearer env m i b0 = (Some err, m)" by (auto simp: AddBearer_def split: option.splits)
  then show ?thesis using refused by blast
next
  case ok: False
  then obtain ds where ds: "dp_sessionsByID m i = Some ds" by auto
  define b where "b = b0\<lparr>b_State := BearerActive,
      b_PGWGTPUIP := (if b_PGWGTPUIP b0 = [] then g_PGWGTPUIP ds else b_PGWGTPUIP b0),
      b_LocalGTPUIP := (if b_LocalGTPUIP b0 = [] then g_LocalGTPUIP ds else b_LocalGTPUIP b0)\<rparr>"
  obtain err m' where r: "AddBearer env m i b0 = (err, m')" by fastforce
  have "dp_index (snd (AddBearer env m i b0)) = dp_index ((put_session m i (ds\<lparr>g_Bearers := (g_Bearers ds)(b_EBI b \<mapsto> b)\<rparr>))
      \<lparr>dp_byLocal := (dp_byLocal m)(b_LocalRXTEID b \<mapsto> \<lparr>br_SessionID = i, br_BearerEBI = b_EBI b\<rparr>),
       dp_byRemote := (dp_byRemote m)(b_RemoteTXTEID b \<mapsto> \<lparr>br_SessionID = i, br_BearerEBI = b_EBI b\<rparr>)\<rparr>)"
    using ok ds by (simp add: AddBearer_def Let_def dp_frame b_def)
  with r have ids: "dp_sessionsByID m' = (dp_sessionsByID m)(i \<mapsto> ds\<lparr>g_Bearers := (g_Bearers ds)(b_EBI b0 \<mapsto> b)\<rparr>)"
    and "dp_byLocal m' = (dp_byLocal m)(b_LocalRXTEID b0 \<mapsto> \<lparr>br_SessionID = i, br_BearerEBI = b_EBI b0\<rparr>)"
    by (simp_all add: dp_index_inject b_def)
  then show ?thesis using ok ds by (intro installed[OF r, of b]) (auto simp: bearer_at_def b_def)
qed

lemma AddBearer_live: "dp_live m \<Longrightarrow> dp_live (snd (AddBearer env m i b0))"
proof (cases rule: AddBearer_effect[of env m i b0])
  case (installed err m' b)
  assume live: "dp_live m"
  show ?thesis unfolding dp_live_def
  proof (intro allI impI)
    fix j e c
    assume c: "bearer_at (snd (AddBearer env m i b0)) j e = Some c"
    show "b_EBI c = e \<and> dp_byLocal (snd (AddBearer env m i b0)) (b_LocalRXTEID c) = Some \<lparr>br_SessionID = j, br_BearerEBI = e\<rparr>"
    proof (cases "(j, e) = (i, b_EBI b0)")
      case True
      with c installed show ?thesis by simp
    next
      case False
      with c installed(1,12) have old: "bearer_at m j e = Some c" by simp
      from dp_liveD[OF live old] installed(1,4,13) show ?thesis by auto
    qed
  qed
qed simp

lemma RemoveBearer_live:
  assumes "dp_live m"
  shows "dp_live (snd (RemoveBearer env m i e))"
proof (cases "bearer_at m i e")
  case None
  then have "snd (RemoveBearer env m i e) = m" by (auto simp: RemoveBearer_def bearer_at_def split: option.splits)
  with assms show ?thesis by simp
next
  case (Some b)
  then obtain ds where ds: "dp_sessionsByID m i = Some ds" "g_Bearers ds e = Some b" by (auto simp: bearer_at_def split: option.splits)
  define m1 where "m1 = put_session (drop_bearer_refs m b) i (ds\<lparr>g_Bearers := (g_Bearers ds)(e := None)\<rparr>)"
  have "dp_index (snd (RemoveBearer env m i e)) = dp_index m1"
    using ds release_bearer_index[of env m b, unfolded dp_index_inject]
    by (simp add: RemoveBearer_def Let_def sync_index m1_def) (simp add: dp_index_inject)
  moreover have "dp_live m1" unfolding dp_live_def
  proof (intro allI impI)
    fix j e' b'
    assume "bearer_at m1 j e' = Some b'"
    then have old: "bearer_at m j e' = Some b'" and ne: "\<not> (j = i \<and> e' = e)"
      using ds by (auto simp: m1_def bearer_at_def drop_bearer_refs_def split: option.splits if_splits)
    with dp_live_unique[OF assms Some old] have "b_LocalRXTEID b' \<noteq> b_LocalRXTEID b" by auto
    with dp_liveD[OF assms old] show "b_EBI b' = e' \<and> dp_byLocal m1 (b_LocalRXTEID b') = Some \<lparr>br_SessionID = j, br_BearerEBI = e'\<rparr>"
      by (simp add: m1_def drop_bearer_refs_def)
  qed
  ultimately show ?thesis using dp_live_index by blast
qed

lemma RemoveBearer_sessions: "dp_sessionsByID (snd (RemoveBearer env m i e)) j = None \<longleftrightarrow> dp_sessionsByID m j = None"
proof -
  have "dp_sessionsByID (snd (syncTCBPFTFTRulesLocked env m1 ds)) = dp_sessionsByID m1" for m1 ds
    using sync_index[of env m1 ds] by (simp add: dp_index_def)
  moreover have "dp_sessionsByID (release_bearer env m b) = dp_sessionsByID m" for b
    using release_bearer_index[of env m b] by (simp add: dp_index_def drop_bearer_refs_def)
  ultimately show ?thesis by (auto simp: RemoveBearer_def Let_def split: option.splits)
qed

lemma replace_bearer_live:
  assumes "dp_live m" and ds: "dp_sessionsByID m i = Some ds" "g_Bearers ds e = Some b"
    and b': "b_EBI b' = b_EBI b" "b_LocalRXTEID b' = b_LocalRXTEID b"
  shows "dp_live (put_session m i (ds\<lparr>g_Bearers := (g_Bearers ds)(e \<mapsto> b')\<rparr>))"
  unfolding dp_live_def
proof (intro allI impI)
  fix j e' c
  assume "bearer_at (put_session m i (ds\<lparr>g_Bearers := (g_Bearers ds)(e \<mapsto> b')\<rparr>)) j e' = Some c"
  then obtain b3 where "bearer_at m j e' = Some b3" "b_EBI c = b_EBI b3" "b_LocalRXTEID c = b_LocalRXTEID b3"
    using ds b' by (auto simp: bearer_at_def split: if_splits option.splits)
  with dp_liveD[OF assms(1), of j e' b3]
  show "b_EBI c = e' \<and> dp_byLocal (put_session m i (ds\<lparr>g_Bearers := (g_Bearers ds)(e \<mapsto> b')\<rparr>)) (b_LocalRXTEID c) =
      Some \<lparr>br_SessionID = j, br_BearerEBI = e'\<rparr>" by simp
qed

lemma UpdateBearer_live: "dp_live m \<Longrightarrow> dp_live (snd (UpdateBearer env m i e qci raw))"
proof (cases "\<exists>ds b. dp_sessionsByID m i = Some ds \<and> g_Bearers ds e = Some b")
  case True
  assume live: "dp_live m"
  from True obtain ds b where ds: "dp_sessionsByID m i = Some ds" "g_Bearers ds e = Some b" by blast
  have "b_EBI (updated_bearer b qci raw) = b_EBI b" "b_LocalRXTEID (updated_bearer b qci raw) = b_LocalRXTEID b"
    by (auto simp: updated_bearer_def Let_def split: sum.splits option.splits)
  note r = replace_bearer_live[OF live ds this]
  have "dp_index (snd (UpdateBearer env m i e qci raw)) =
      dp_index (put_session m i (ds\<lparr>g_Bearers := (g_Bearers ds)(e \<mapsto> updated_bearer b qci raw)\<rparr>))"
    using ds by (simp add: UpdateBearer_def Let_def dp_frame)
  with r show ?thesis using dp_live_index by blast
qed (auto simp: UpdateBearer_def split: option.splits)

lemma RemoveSession_sessions:
  assumes "range_ok env"
  shows "dp_sessionsByID (RemoveSession env m (Some sess)) = (dp_sessionsByID m)(s_ID sess := None)"
proof (cases "dp_sessionsByID m (s_ID sess)")
  case None
  then show ?thesis by (simp add: RemoveSession_def fun_upd_idem)
next
  case (Some ds)
  from RemoveSession_index[OF assms Some] show ?thesis by (simp add: dp_index_def)
qed

lemma RemoveSession_live:
  assumes "range_ok env" "dp_live m"
  shows "dp_live (RemoveSession env m osess)"
proof (cases "\<exists>sess ds. osess = Some sess \<and> dp_sessionsByID m (s_ID sess) = Some ds")
  case False
  with assms show ?thesis by (auto simp: RemoveSession_def split: option.splits)
next
  case True
  then obtain sess ds where s: "osess = Some sess" "dp_sessionsByID m (s_ID sess) = Some ds" by blast
  note idx = RemoveSession_index[OF assms(1) s(2)]
  show ?thesis unfolding dp_live_def
  proof (intro allI impI)
    fix j e b
    assume b: "bearer_at (RemoveSession env m osess) j e = Some b"
    then have j: "j \<noteq> s_ID sess" "bearer_at m j e = Some b"
      using idx s(1) by (auto simp: bearer_at_def dp_index_def split: option.splits if_splits)
    have "b_LocalRXTEID b \<notin> b_LocalRXTEID ` ran (g_Bearers ds)"
      using dp_live_unique[OF assms(2) j(2), of "s_ID sess"] s(2) j(1) by (auto simp: ran_def bearer_at_def)
    with dp_liveD[OF assms(2) j(2)] idx s(1)
    show "b_EBI b = e \<and> dp_byLocal (RemoveSession env m osess) (b_LocalRXTEID b) = Some \<lparr>br_SessionID = j, br_BearerEBI = e\<rparr>"
      by (simp add: dp_index_def)
  qed
qed

lemma index_session_live:
  assumes "dp_live m" "one_bearer ds b" "dp_byLocal m (b_LocalRXTEID b) = None"
  shows "dp_live (index_session m ds b paa)"
  unfolding dp_live_def
proof (intro allI impI)
  fix j e c
  assume c: "bearer_at (index_session m ds b paa) j e = Some c"
  show "b_EBI c = e \<and> dp_byLocal (index_session m ds b paa) (b_LocalRXTEID c) = Some \<lparr>br_SessionID = j, br_BearerEBI = e\<rparr>"
  proof (cases "j = g_ID ds")
    case True
    with c assms(2) show ?thesis by (auto simp: bearer_at_def one_bearer_def split: if_splits)
  next
    case False
    with c have "bearer_at m j e = Some c" by (simp add: bearer_at_def)
    from dp_liveD[OF assms(1) this] assms(3) show ?thesis by auto
  qed
qed

lemma install_default_live:
  assumes "range_ok env" "dp_live m" "one_bearer ds b" "dp_sessionsByID m (g_ID ds) = None" "To4 paa \<noteq> []"
    "install_default env m ds b paa pgw loc = (e, m')"
  shows "dp_live m'"
proof (cases "dp_byLocal m (b_LocalRXTEID b)")
  case (Some r)
  with assms(6) have "m' = m" by (simp add: install_default_collision)
  with assms(2) show ?thesis by simp
next
  case None
  show ?thesis
  proof (cases e)
    case (Some err)
    with install_default_index[OF assms(1,3) None assms(4,5)] assms(6)
    have "dp_sessionsByID m' = dp_sessionsByID m" "dp_byLocal m' = dp_byLocal m" by (auto simp: dp_index_def)
    with assms(2) show ?thesis by (simp add: dp_live_def bearer_at_def)
  next
    case ok: None
    with install_default_ok[OF None] assms(6) have "kern_only (index_session m ds b paa) m'" by simp
    then show ?thesis
      using index_session_live[OF assms(2,3) None] kern_only_simps(1) dp_live_index by blast
  qed
qed

lemma AddSession_live:
  assumes "range_ok env" "dp_live m" "\<And>sess. osess = Some sess \<Longrightarrow> dp_sessionsByID m (s_ID sess) = None"
  shows "dp_live (fst (snd (AddSession env m osess)))"
  using assms(2,3) install_default_live[OF assms(1,2) new_gsession_one(1)]
  by (auto simp: AddSession_def Let_def new_gsession_one split: option.splits prod.splits)

lemma dp_live_NewManager: "dp_live ((gtpu_NewManager k)\<lparr>dp_bpf := b, dp_tc := t\<rparr>)"
  by (simp add: dp_live_def bearer_at_def gtpu_NewManager_def)

lemma handleDownlink_live: "dp_live m \<Longrightarrow> dp_live (fst (handleDownlink env m pkt peer now wr))"
  using dp_live_index handleDownlink_index by blast

end
