(* ===== verification/DiameterCodec.thy ===== *)
theory DiameterCodec
  imports Prelude
begin

text \<open>
  The Diameter codec (\<^verbatim>\<open>internal/diameter/message.go\<close>): AVPs, messages, the AVP constructors and the
  accessors.  An \<^verbatim>\<open>io.Reader\<close> is the list of bytes the peer still has to deliver before it closes
  the connection; \<^verbatim>\<open>DecodeMessage\<close> returns what it leaves unread.  The read deadline (a timeout on
  the wall clock) is not modelled.

  Shown: AVP lists and messages survive encoding and decoding, what the decoder accepts is encoded
  again to an equal number of bytes that decode to the same list, and the decoder consumes exactly
  the declared length, at most 1 MiB.
\<close>

section \<open>Constants\<close>

abbreviation (input) FlagRequest :: byte where "FlagRequest \<equiv> 0x80"
abbreviation (input) FlagProxiable :: byte where "FlagProxiable \<equiv> 0x40"
abbreviation (input) FlagVendorAVP :: byte where "FlagVendorAVP \<equiv> 0x80"
abbreviation (input) FlagMandatory :: byte where "FlagMandatory \<equiv> 0x40"
abbreviation (input) Version :: byte where "Version \<equiv> 1"
abbreviation (input) HeaderLen :: nat where "HeaderLen \<equiv> 20"
abbreviation (input) MaxMessageLen :: nat where "MaxMessageLen \<equiv> 2 ^ 20"
abbreviation (input) CommandCER :: u32 where "CommandCER \<equiv> 257"
abbreviation (input) CommandDER :: u32 where "CommandDER \<equiv> 268"
abbreviation (input) CommandDWR :: u32 where "CommandDWR \<equiv> 280"
abbreviation (input) CommandDPR :: u32 where "CommandDPR \<equiv> 282"
abbreviation (input) CommandSTR :: u32 where "CommandSTR \<equiv> 275"
abbreviation (input) AVPUserName :: u32 where "AVPUserName \<equiv> 1"
abbreviation (input) AVPHostIPAddress :: u32 where "AVPHostIPAddress \<equiv> 257"
abbreviation (input) AVPAuthApplicationID :: u32 where "AVPAuthApplicationID \<equiv> 258"
abbreviation (input) AVPVendorSpecificApplicationID :: u32 where "AVPVendorSpecificApplicationID \<equiv> 260"
abbreviation (input) AVPSessionID :: u32 where "AVPSessionID \<equiv> 263"
abbreviation (input) AVPOriginHost :: u32 where "AVPOriginHost \<equiv> 264"
abbreviation (input) AVPSupportedVendorID :: u32 where "AVPSupportedVendorID \<equiv> 265"
abbreviation (input) AVPVendorID :: u32 where "AVPVendorID \<equiv> 266"
abbreviation (input) AVPFirmwareRevision :: u32 where "AVPFirmwareRevision \<equiv> 267"
abbreviation (input) AVPResultCode :: u32 where "AVPResultCode \<equiv> 268"
abbreviation (input) AVPProductName :: u32 where "AVPProductName \<equiv> 269"
abbreviation (input) AVPAuthRequestType :: u32 where "AVPAuthRequestType \<equiv> 274"
abbreviation (input) AVPTerminationCause :: u32 where "AVPTerminationCause \<equiv> 295"
abbreviation (input) AVPOriginStateID :: u32 where "AVPOriginStateID \<equiv> 278"
abbreviation (input) AVPDestinationRealm :: u32 where "AVPDestinationRealm \<equiv> 283"
abbreviation (input) AVPDestinationHost :: u32 where "AVPDestinationHost \<equiv> 293"
abbreviation (input) AVPOriginRealm :: u32 where "AVPOriginRealm \<equiv> 296"
abbreviation (input) AVPExperimentalResult :: u32 where "AVPExperimentalResult \<equiv> 297"
abbreviation (input) AVPExperimentalResultCode :: u32 where "AVPExperimentalResultCode \<equiv> 298"
abbreviation (input) AVPInbandSecurityID :: u32 where "AVPInbandSecurityID \<equiv> 299"
abbreviation (input) AVPEAPPayload :: u32 where "AVPEAPPayload \<equiv> 462"
abbreviation (input) AVPEAPMasterSessionKey :: u32 where "AVPEAPMasterSessionKey \<equiv> 464"
abbreviation (input) AVPServiceSelection :: u32 where "AVPServiceSelection \<equiv> 493"
abbreviation (input) AVPAPNConfiguration :: u32 where "AVPAPNConfiguration \<equiv> 1430"
abbreviation (input) AVPAMBR :: u32 where "AVPAMBR \<equiv> 1435"
abbreviation (input) AVPNon3GPPUserData :: u32 where "AVPNon3GPPUserData \<equiv> 1500"
abbreviation (input) AVPMaxRequestedBandwidthUL :: u32 where "AVPMaxRequestedBandwidthUL \<equiv> 516"
abbreviation (input) AVPMaxRequestedBandwidthDL :: u32 where "AVPMaxRequestedBandwidthDL \<equiv> 515"
abbreviation (input) Vendor3GPP :: u32 where "Vendor3GPP \<equiv> 10415"
abbreviation (input) VendorETSI :: u32 where "VendorETSI \<equiv> 13019"
abbreviation (input) InbandNoSec :: u32 where "InbandNoSec \<equiv> 0"
abbreviation (input) FirmwareRevOne :: u32 where "FirmwareRevOne \<equiv> 1"

section \<open>Messages and AVPs\<close>

datatype diameter_error =
    ReadEOF | UnexpectedEOF
  | UnsupportedVersion byte | MessageTooShort nat | MessageTooLong nat
  | AVPHeaderTruncated | VendorHeaderTruncated | VendorIDZero u32 | AVPLengthInvalid | AVPPaddingTruncated

record AVP =
  a_Code :: u32
  a_VendorID :: u32
  a_Flags :: byte
  a_Data :: bytes

record DMessage =
  d_Flags :: byte
  d_CommandCode :: u32
  d_AppID :: u32
  d_HopByHop :: u32
  d_EndToEnd :: u32
  d_AVPs :: "AVP list"

definition IsRequest :: "DMessage \<Rightarrow> bool" where
  "IsRequest m = (d_Flags m AND FlagRequest \<noteq> 0)"

definition Pad4 :: "nat \<Rightarrow> nat" where
  "Pad4 n = (let rem = n mod 4 in if rem \<noteq> 0 then n + 4 - rem else n)"

definition AVP_Encode :: "AVP \<Rightarrow> bytes" where
  "AVP_Encode a =
     (let vendor = a_VendorID a \<noteq> 0;
          flags = (if vendor then a_Flags a OR FlagVendorAVP else a_Flags a);
          headerSize = (if vendor then 12 else 8);
          len = headerSize + length (a_Data a);
          padded = Pad4 len
      in be32 (a_Code a) @ [flags] @ be24 (of_nat len) @
         (if vendor then be32 (a_VendorID a) else []) @ a_Data a @ replicate (padded - len) 0)"

text \<open>One turn of the loop of \<^verbatim>\<open>DecodeAVPs\<close>: the first AVP and the rest of the data.\<close>

definition DecodeAVP :: "bytes \<Rightarrow> diameter_error + AVP \<times> bytes" where
  "DecodeAVP data =
     (if length data < 8 then Inl AVPHeaderTruncated
      else let code = uint32 (subslice data 0 4);
               flags = data ! 4;
               len = unat (uint24 (subslice data 5 8));
               vendor = flags AND FlagVendorAVP \<noteq> 0;
               headerSize = (if vendor then 12 else 8);
               vendorID = (if vendor then uint32 (subslice data 8 12) else 0)
           in if vendor \<and> length data < headerSize then Inl VendorHeaderTruncated
              else if vendor \<and> vendorID = 0 then Inl (VendorIDZero code)
              else if len < headerSize \<or> length data < len then Inl AVPLengthInvalid
              else if length data < Pad4 len then Inl AVPPaddingTruncated
              else Inr (\<lparr>a_Code = code, a_VendorID = vendorID, a_Flags = flags, a_Data = subslice data headerSize len\<rparr>,
                        drop (Pad4 len) data))"

lemma Pad4_ge: "n \<le> Pad4 n"
  using mod_less_divisor[of 4 n] by (auto simp: Pad4_def Let_def simp del: mod_less_divisor)

lemma Pad4_less: "Pad4 n < n + 4"
  by (simp add: Pad4_def Let_def)

lemma DecodeAVP_shrinks: "DecodeAVP data = Inr (a, rest) \<Longrightarrow> length rest < length data"
  using Pad4_ge[of "unat (uint24 (subslice data 5 8))"]
  by (auto simp: DecodeAVP_def Let_def split: if_splits)

function DecodeAVPs :: "bytes \<Rightarrow> diameter_error + AVP list" where
  "DecodeAVPs data =
     (if data = [] then Inr []
      else res_bind (DecodeAVP data) (\<lambda>(a, rest). res_bind (DecodeAVPs rest) (\<lambda>as. Inr (a # as))))"
  by pat_completeness auto
termination
  by (relation "measure length") (auto dest: DecodeAVP_shrinks)

declare DecodeAVPs.simps [simp del]

definition Encode_message :: "DMessage \<Rightarrow> bytes" where
  "Encode_message m =
     (let payload = concat (map AVP_Encode (d_AVPs m));
          totalLen = HeaderLen + length payload
      in [Version] @ be24 (of_nat totalLen) @ [d_Flags m] @ be24 (d_CommandCode m) @
         be32 (d_AppID m) @ be32 (d_HopByHop m) @ be32 (d_EndToEnd m) @ payload)"

definition ReadFull :: "nat \<Rightarrow> bytes \<Rightarrow> diameter_error + bytes \<times> bytes" where
  "ReadFull n r =
     (if n \<le> length r then Inr (take n r, drop n r) else if r = [] then Inl ReadEOF else Inl UnexpectedEOF)"

definition DecodeMessage :: "bytes \<Rightarrow> diameter_error + DMessage \<times> bytes" where
  "DecodeMessage r =
     res_bind (ReadFull 4 r) (\<lambda>(prefix, r).
       if prefix ! 0 \<noteq> Version then Inl (UnsupportedVersion (prefix ! 0))
       else let len = unat (uint24 (subslice prefix 1 4))
            in if len < HeaderLen then Inl (MessageTooShort len)
               else if len > MaxMessageLen then Inl (MessageTooLong len)
               else res_bind (ReadFull (len - 4) r) (\<lambda>(rest, r).
                 let full = prefix @ rest
                 in res_bind (DecodeAVPs (drop HeaderLen full)) (\<lambda>avps.
                      Inr (\<lparr>d_Flags = full ! 4, d_CommandCode = uint24 (subslice full 5 8),
                            d_AppID = uint32 (subslice full 8 12), d_HopByHop = uint32 (subslice full 12 16),
                            d_EndToEnd = uint32 (subslice full 16 20), d_AVPs = avps\<rparr>, r))))"

section \<open>Constructors and accessors\<close>

definition UTF8AVPFlags :: "u32 \<Rightarrow> u32 \<Rightarrow> byte \<Rightarrow> string \<Rightarrow> AVP" where
  "UTF8AVPFlags code vendor flags val = \<lparr>a_Code = code, a_VendorID = vendor, a_Flags = flags, a_Data = str_bytes val\<rparr>"

definition UTF8AVP :: "u32 \<Rightarrow> u32 \<Rightarrow> string \<Rightarrow> AVP" where
  "UTF8AVP code vendor val = UTF8AVPFlags code vendor FlagMandatory val"

definition OctetAVP :: "u32 \<Rightarrow> u32 \<Rightarrow> byte \<Rightarrow> bytes \<Rightarrow> AVP" where
  "OctetAVP code vendor flags val = \<lparr>a_Code = code, a_VendorID = vendor, a_Flags = flags, a_Data = val\<rparr>"

definition Uint32AVPFlags :: "u32 \<Rightarrow> u32 \<Rightarrow> byte \<Rightarrow> u32 \<Rightarrow> AVP" where
  "Uint32AVPFlags code vendor flags val = \<lparr>a_Code = code, a_VendorID = vendor, a_Flags = flags, a_Data = be32 val\<rparr>"

definition Uint32AVP :: "u32 \<Rightarrow> u32 \<Rightarrow> u32 \<Rightarrow> AVP" where
  "Uint32AVP code vendor val = Uint32AVPFlags code vendor FlagMandatory val"

definition GroupedAVP :: "u32 \<Rightarrow> u32 \<Rightarrow> AVP list \<Rightarrow> AVP" where
  "GroupedAVP code vendor children =
     \<lparr>a_Code = code, a_VendorID = vendor, a_Flags = FlagMandatory, a_Data = concat (map AVP_Encode children)\<rparr>"

text \<open>The argument of \<^verbatim>\<open>AddressAVP\<close> is a \<^verbatim>\<open>[4]byte\<close>.\<close>

definition AddressAVP :: "u32 \<Rightarrow> bytes \<Rightarrow> AVP" where
  "AddressAVP code ip4 = \<lparr>a_Code = code, a_VendorID = 0, a_Flags = FlagMandatory, a_Data = [0x00, 0x01, ip4 ! 0, ip4 ! 1, ip4 ! 2, ip4 ! 3]\<rparr>"

fun FindAVP :: "AVP list \<Rightarrow> u32 \<Rightarrow> u32 \<Rightarrow> AVP option" where
  "FindAVP [] code vendor = None"
| "FindAVP (a # as) code vendor =
     (if a_Code a = code \<and> a_VendorID a = vendor then Some a else FindAVP as code vendor)"

definition AVPString :: "AVP list \<Rightarrow> u32 \<Rightarrow> u32 \<Rightarrow> string" where
  "AVPString avps code vendor = (case FindAVP avps code vendor of Some a \<Rightarrow> bytes_str (a_Data a) | None \<Rightarrow> '''')"

definition AVPUint32 :: "AVP list \<Rightarrow> u32 \<Rightarrow> u32 \<Rightarrow> u32 option" where
  "AVPUint32 avps code vendor =
     (case FindAVP avps code vendor of
        None \<Rightarrow> None
      | Some a \<Rightarrow> if length (a_Data a) < 4 then None else Some (uint32 (subslice (a_Data a) 0 4)))"

definition ExperimentalResultCode :: "AVP list \<Rightarrow> u32 option" where
  "ExperimentalResultCode avps =
     (case FindAVP avps AVPExperimentalResult 0 of
        None \<Rightarrow> None
      | Some a \<Rightarrow>
          (case DecodeAVPs (a_Data a) of
             Inl _ \<Rightarrow> None
           | Inr children \<Rightarrow> AVPUint32 children AVPExperimentalResultCode 0))"

section \<open>AVP lists as a framed stream\<close>

text \<open>
  An AVP fits the wire when its length fits 24 bits and its Vendor bit says whether it has a vendor.
\<close>

definition avp_ok :: "AVP \<Rightarrow> bool" where
  "avp_ok a = (((a_Flags a AND FlagVendorAVP \<noteq> 0) \<longleftrightarrow> a_VendorID a \<noteq> 0) \<and>
     (if a_VendorID a \<noteq> 0 then 12 else 8) + length (a_Data a) < 2 ^ 24)"

lemma subslice_app1: "length xs = j \<Longrightarrow> subslice (xs @ ys) 0 j = xs"
  by (simp add: subslice_def)

lemma subslice_app2: "length xs \<le> i \<Longrightarrow> subslice (xs @ ys) i j = subslice ys (i - length xs) (j - length xs)"
  by (simp add: subslice_def)

lemma subslice_cons: "0 < i \<Longrightarrow> subslice (x # xs) i j = subslice xs (i - 1) (j - 1)"
  by (cases i; cases j) (simp_all add: subslice_def)

lemmas subslice_layout = subslice_app1 subslice_app2 subslice_cons nth_append

lemma bit_flag7: "bit (0x80 :: byte) n \<longleftrightarrow> n = 7"
proof -
  have m: "(0x80 :: byte) = push_bit 7 1" by simp
  show ?thesis unfolding m bit_push_bit_iff by (auto simp: bit_1_iff)
qed

lemma vendor_bit: "f AND FlagVendorAVP \<noteq> 0 \<longleftrightarrow> bit f 7"
proof
  show "bit f 7" if "f AND FlagVendorAVP \<noteq> 0"
    using that by (rule contrapos_np) (auto intro!: bit_word_eqI simp: bit_and_iff bit_flag7 simp del: bit_numeral_word_iff)
  show "f AND FlagVendorAVP \<noteq> 0" if "bit f 7"
  proof
    assume "f AND FlagVendorAVP = 0"
    then have "\<not> bit (f AND FlagVendorAVP) 7" by simp
    with that show False by (simp add: bit_and_iff bit_flag7 del: bit_numeral_word_iff)
  qed
qed

lemma vendor_flag_set: "bit f 7 \<Longrightarrow> f OR FlagVendorAVP = (f :: byte)"
  by (rule bit_word_eqI) (auto simp: bit_or_iff bit_flag7 simp del: bit_numeral_word_iff)

lemma be24_of_nat [simp]: "n < 2 ^ 24 \<Longrightarrow> unat (uint24 (be24 (of_nat n) @ r)) = n"
  "n < 2 ^ 24 \<Longrightarrow> unat (uint24 (be24 (of_nat n))) = n"
  by (simp_all add: word_le_nat_alt)

lemma DecodeAVP_Encode:
  assumes "avp_ok a"
  shows "DecodeAVP (AVP_Encode a @ rest) = Inr (a, rest)"
proof (cases "a_VendorID a = 0")
  case True
  define n where "n = 8 + length (a_Data a)"
  have n: "n < 2 ^ 24" "8 \<le> n" "length (a_Data a) = n - 8" and f: "a_Flags a AND FlagVendorAVP = 0"
    using assms True by (auto simp: avp_ok_def n_def)
  have e: "AVP_Encode a @ rest = be32 (a_Code a) @ [a_Flags a] @ be24 (of_nat n) @ a_Data a @ replicate (Pad4 n - n) 0 @ rest"
    using True by (simp add: AVP_Encode_def Let_def n_def)
  show ?thesis
    using n f True Pad4_ge[of n]
    unfolding e DecodeAVP_def by (simp add: Let_def subslice_layout drop_Cons')
next
  case False
  define n where "n = 12 + length (a_Data a)"
  have n: "n < 2 ^ 24" "12 \<le> n" "length (a_Data a) = n - 12" and f: "a_Flags a AND FlagVendorAVP \<noteq> 0"
    using assms False by (auto simp: avp_ok_def n_def)
  have e: "AVP_Encode a @ rest = be32 (a_Code a) @ [a_Flags a] @ be24 (of_nat n) @ be32 (a_VendorID a) @ a_Data a @ replicate (Pad4 n - n) 0 @ rest"
    using False vendor_flag_set[of "a_Flags a"] f vendor_bit by (simp add: AVP_Encode_def Let_def n_def)
  show ?thesis
    using n f False Pad4_ge[of n]
    unfolding e DecodeAVP_def by (simp add: Let_def subslice_layout drop_Cons')
qed

interpretation avp_stream: framed_stream AVP_Encode DecodeAVP DecodeAVPs avp_ok
proof unfold_locales
  fix a :: AVP and rest and b :: bytes
  show "avp_ok a \<Longrightarrow> DecodeAVP (AVP_Encode a @ rest) = Inr (a, rest)" by (rule DecodeAVP_Encode)
  show "avp_ok a \<Longrightarrow> AVP_Encode a \<noteq> []" by (simp add: AVP_Encode_def Let_def)
  show "DecodeAVPs [] = Inr []" by (simp add: DecodeAVPs.simps)
  show "b \<noteq> [] \<Longrightarrow> DecodeAVPs b = res_bind (DecodeAVP b) (\<lambda>(a, rest). res_bind (DecodeAVPs rest) (\<lambda>as. Inr (a # as)))"
    by (subst DecodeAVPs.simps) simp
qed

text \<open>The encoder sets the Vendor bit itself: \<open>wire_form\<close> is the AVP the peer sees.\<close>

definition wire_form :: "AVP \<Rightarrow> AVP" where
  "wire_form a = (if a_VendorID a \<noteq> 0 then a\<lparr>a_Flags := a_Flags a OR FlagVendorAVP\<rparr> else a)"

definition avp_fits :: "AVP \<Rightarrow> bool" where
  "avp_fits a = ((a_Flags a AND FlagVendorAVP \<noteq> 0 \<longrightarrow> a_VendorID a \<noteq> 0) \<and>
     (if a_VendorID a \<noteq> 0 then 12 else 8) + length (a_Data a) < 2 ^ 24)"

lemma AVP_Encode_wire_form [simp]: "AVP_Encode (wire_form a) = AVP_Encode a"
  by (simp add: AVP_Encode_def wire_form_def Let_def or.assoc)

lemma wire_form_ok: "avp_fits a \<Longrightarrow> avp_ok (wire_form a)"
  by (auto simp: avp_fits_def avp_ok_def wire_form_def vendor_bit bit_or_iff bit_flag7 simp del: bit_numeral_word_iff)

lemma wire_form_id: "avp_ok a \<Longrightarrow> wire_form a = a"
  by (auto simp: avp_ok_def wire_form_def vendor_bit vendor_flag_set)

lemma avp_ok_fits: "avp_ok a \<Longrightarrow> avp_fits a"
  by (simp add: avp_ok_def avp_fits_def)

lemma DecodeAVPs_Encode:
  assumes "list_all avp_fits as"
  shows "DecodeAVPs (concat (map AVP_Encode as)) = Inr (map wire_form as)"
proof -
  have "list_all avp_ok (map wire_form as)" using assms by (simp add: list_all_iff wire_form_ok)
  from avp_stream.decs_encs[OF this] show ?thesis by (simp add: comp_def)
qed

lemma length_AVP_Encode: "length (AVP_Encode a) = Pad4 ((if a_VendorID a \<noteq> 0 then 12 else 8) + length (a_Data a))"
  using Pad4_ge[of "8 + length (a_Data a)"] Pad4_ge[of "12 + length (a_Data a)"] by (simp add: AVP_Encode_def Let_def)

lemma DecodeAVP_sound:
  assumes "DecodeAVP data = Inr (a, rest)"
  shows "avp_ok a \<and> length data = length (AVP_Encode a) + length rest"
proof -
  let ?len = "unat (uint24 (subslice data 5 8))"
  have b: "?len < 2 ^ 24" using uint24_bound[of "subslice data 5 8"] by (simp add: word_le_nat_alt)
  show ?thesis
    using assms b
    by (auto simp: DecodeAVP_def Let_def avp_ok_def length_AVP_Encode split: if_splits)
qed

lemma DecodeAVPs_sound:
  "DecodeAVPs data = Inr as \<Longrightarrow> list_all avp_ok as \<and> length (concat (map AVP_Encode as)) = length data"
proof (induction data arbitrary: as rule: DecodeAVPs.induct)
  case (1 data)
  show ?case
  proof (cases "data = []")
    case False
    with "1.prems" obtain a rest bs where
      d: "DecodeAVP data = Inr (a, rest)" "DecodeAVPs rest = Inr bs" "as = a # bs"
      by (subst (asm) DecodeAVPs.simps) (auto simp: res_bind_eq_Inr)
    with "1.IH"[OF False d(1) refl d(2)] DecodeAVP_sound[OF d(1)] show ?thesis by simp
  qed (use "1.prems" in \<open>simp add: DecodeAVPs.simps\<close>)
qed

section \<open>Messages\<close>

definition message_fits :: "DMessage \<Rightarrow> bool" where
  "message_fits m = (d_CommandCode m \<le> 0xffffff \<and> list_all avp_fits (d_AVPs m) \<and> length (Encode_message m) \<le> MaxMessageLen)"

lemma length_Encode_message: "length (Encode_message m) = 20 + length (concat (map AVP_Encode (d_AVPs m)))"
  by (simp add: Encode_message_def Let_def)

lemma ReadFull_append: "length xs = k \<Longrightarrow> ReadFull k (xs @ ys) = Inr (xs, ys)"
  by (auto simp: ReadFull_def)

lemma decode_encoded_dmessage:
  assumes "message_fits m"
  shows "DecodeMessage (Encode_message m @ rest) = Inr (m\<lparr>d_AVPs := map wire_form (d_AVPs m)\<rparr>, rest)"
proof -
  define p where "p = concat (map AVP_Encode (d_AVPs m))"
  define n where "n = 20 + length p"
  have n: "n < 2 ^ 24" "n \<le> 2 ^ 20" "20 \<le> n" "length p = n - 20" and c: "d_CommandCode m \<le> 0xffffff"
    using assms by (auto simp: message_fits_def length_Encode_message p_def n_def)
  have d: "DecodeAVPs p = Inr (map wire_form (d_AVPs m))"
    using assms unfolding p_def by (intro DecodeAVPs_Encode) (simp add: message_fits_def)
  have e: "Encode_message m = (Version # be24 (of_nat n)) @
      ([d_Flags m] @ be24 (d_CommandCode m) @ be32 (d_AppID m) @ be32 (d_HopByHop m) @ be32 (d_EndToEnd m) @ p)"
    (is "_ = ?pre @ ?body")
    by (simp add: Encode_message_def Let_def p_def n_def)
  have r1: "ReadFull 4 (?pre @ ?body @ rest) = Inr (?pre, ?body @ rest)" by (rule ReadFull_append) simp
  have r2: "ReadFull (n - 4) (?body @ rest) = Inr (?body, rest)" using n by (intro ReadFull_append) simp
  have l: "unat (uint24 (subslice ?pre 1 4)) = n" using n by (simp add: subslice_layout subslice_def)
  have h: "\<not> n < 20" "\<not> 2 ^ 20 < n" using n by auto
  show ?thesis
    unfolding e append_assoc[of ?pre] DecodeMessage_def r1 res_bind_simps prod.case Let_def l r2
    using h c d by (simp add: subslice_layout)
qed

text \<open>C20.  Diameter messages survive the wire: reading an encoded message off a stream returns the message, with
  the Vendor bit the encoder has set, and leaves the following bytes unread.\<close>

theorem DecodeMessage_Encode:
  assumes "message_fits m"
  shows "DecodeMessage (Encode_message m @ rest) = Inr (m\<lparr>d_AVPs := map wire_form (d_AVPs m)\<rparr>, rest)"
  using assms by (rule decode_encoded_dmessage)

definition demo_request :: DMessage where
  "demo_request = \<lparr>d_Flags = 0xc0, d_CommandCode = CommandDER, d_AppID = 16777264, d_HopByHop = 1, d_EndToEnd = 2,
     d_AVPs = [UTF8AVP AVPSessionID 0 ''a;1'', Uint32AVP AVPAMBR Vendor3GPP 5]\<rparr>"

lemma demo_request_fits: "message_fits demo_request"
  by (simp add: message_fits_def demo_request_def length_Encode_message length_AVP_Encode avp_fits_def Pad4_def
      UTF8AVP_def UTF8AVPFlags_def Uint32AVP_def Uint32AVPFlags_def Let_def)

theorem DecodeMessage_Encode_witness:
  "DecodeMessage (Encode_message demo_request @ [1, 2]) = Inr (demo_request\<lparr>d_AVPs := map wire_form (d_AVPs demo_request)\<rparr>, [1, 2])"
  by (rule DecodeMessage_Encode[OF demo_request_fits])

text \<open>What the Diameter decoder accepts it has read as one frame of at most 1 MiB, and the message can be
  sent on: it is encoded to a frame of the same length that decodes to the same message.\<close>

theorem DecodeMessage_reencodable:
  assumes "DecodeMessage r = Inr (m, rest)"
  shows "\<exists>raw. r = raw @ rest \<and> length raw \<le> MaxMessageLen \<and> length (Encode_message m) = length raw \<and>
           DecodeMessage (Encode_message m @ rest') = Inr (m, rest')"
proof -
  let ?len = "unat (uint24 (subslice (take 4 r) 1 4))"
  have len: "4 \<le> length r" "20 \<le> ?len" "?len \<le> 2 ^ 20" "?len - 4 \<le> length (drop 4 r)"
    and rest: "rest = drop (?len - 4) (drop 4 r)"
    and avps: "DecodeAVPs (drop 20 (take 4 r @ take (?len - 4) (drop 4 r))) = Inr (d_AVPs m)"
    and cmd: "d_CommandCode m \<le> 0xffffff"
    using assms
    by (auto simp: DecodeMessage_def ReadFull_def Let_def res_bind_eq_Inr uint24_bound split: if_splits)
  define raw where "raw = take 4 r @ take (?len - 4) (drop 4 r)"
  have raw: "r = raw @ rest" "length raw = ?len"
    using len unfolding raw_def rest by (simp_all only: append_assoc append_take_drop_id) simp
  from DecodeAVPs_sound[OF avps] have
    ok: "list_all avp_ok (d_AVPs m)" and l: "length (concat (map AVP_Encode (d_AVPs m))) = ?len - 20"
    using raw(2) unfolding raw_def by simp_all
  have el: "length (Encode_message m) = ?len" using l len by (simp add: length_Encode_message)
  have fits: "message_fits m"
    using ok el len cmd avp_ok_fits by (auto simp: message_fits_def list_all_iff)
  have id: "map wire_form (d_AVPs m) = d_AVPs m"
    using ok by (intro map_idI) (auto simp: list_all_iff wire_form_id)
  have "DecodeMessage (Encode_message m @ rest') = Inr (m, rest')"
    using decode_encoded_dmessage[OF fits, of rest'] unfolding id by simp
  moreover have "length raw \<le> MaxMessageLen" "length (Encode_message m) = length raw"
    using raw(2) len(3) el by (simp_all only:)
  ultimately show ?thesis using raw(1) by (intro exI[of _ raw] conjI)
qed

theorem DecodeMessage_reencodable_witness:
  "\<exists>m. DecodeMessage (Encode_message m @ [7]) = Inr (m, [7]) \<and> length (Encode_message m) = length (Encode_message demo_request)"
proof -
  let ?m = "demo_request\<lparr>d_AVPs := map wire_form (d_AVPs demo_request)\<rparr>"
  have "DecodeMessage (Encode_message demo_request @ []) = Inr (?m, [])"
    by (rule decode_encoded_dmessage[OF demo_request_fits])
  from DecodeMessage_reencodable[OF this, where rest' = "[7]"] show ?thesis by auto
qed

section \<open>Accessors on constructed AVPs\<close>

lemma FindAVP_None: "FindAVP avps code vendor = None \<longleftrightarrow> (\<forall>a \<in> set avps. \<not> (a_Code a = code \<and> a_VendorID a = vendor))"
  by (induction avps) auto

lemma FindAVP_append: "FindAVP (as @ bs) code vendor = (case FindAVP as code vendor of Some a \<Rightarrow> Some a | None \<Rightarrow> FindAVP bs code vendor)"
  by (induction as) auto

lemma AVPUint32_head [simp]: "AVPUint32 (Uint32AVPFlags code vendor f v # as) code vendor = Some v"
  by (simp add: AVPUint32_def Uint32AVPFlags_def subslice_def)

lemma AVPString_head [simp]: "AVPString (UTF8AVPFlags code vendor f v # as) code vendor = v"
  by (simp add: AVPString_def UTF8AVPFlags_def)

lemma DecodeAVPs_GroupedAVP:
  "list_all avp_fits children \<Longrightarrow> DecodeAVPs (a_Data (GroupedAVP code vendor children)) = Inr (map wire_form children)"
  by (simp add: GroupedAVP_def DecodeAVPs_Encode)

end
