(* ===== verification/ConfigLoad.thy ===== *)
theory ConfigLoad
  imports NetIP
begin

text \<open>
  The configuration (\<^verbatim>\<open>internal/config\<close>): the \<^verbatim>\<open>Config\<close> structure with its defaults, the line-oriented
  reader \<^verbatim>\<open>Load\<close> with \<^verbatim>\<open>stripComment\<close>, \<^verbatim>\<open>parseKeyValue\<close> and \<^verbatim>\<open>setValue\<close>, and \<^verbatim>\<open>Validate\<close>.  The file is the
  list of lines the scanner delivers, with the scanner's error, if any, after them; Go's \<^verbatim>\<open>int\<close> is an
  \<^typ>\<open>int\<close> that \<^verbatim>\<open>Atoi\<close> keeps within 64 bits.  \<^verbatim>\<open>strings.TrimSpace\<close> and \<^verbatim>\<open>strings.ToLower\<close> are modelled on
  ASCII text.

  Shown: a printed configuration loads back to itself, and a file is accepted only when the values
  the components depend on (addresses, ports, timers, sizes) are usable.
\<close>

section \<open>Strings and numbers\<close>

definition is_space :: "char \<Rightarrow> bool" where
  "is_space c \<longleftrightarrow> c = CHR '' '' \<or> 9 \<le> (of_char c :: nat) \<and> (of_char c :: nat) \<le> 13"

definition TrimFunc :: "(char \<Rightarrow> bool) \<Rightarrow> string \<Rightarrow> string" where
  "TrimFunc p s = rev (dropWhile p (rev (dropWhile p s)))"

definition TrimSpace :: "string \<Rightarrow> string" where
  "TrimSpace s = TrimFunc is_space s"

definition is_quote :: "char \<Rightarrow> bool" where
  "is_quote c \<longleftrightarrow> (of_char c :: nat) = 34 \<or> (of_char c :: nat) = 39"

definition to_lower :: "char \<Rightarrow> char" where
  "to_lower c = (if 65 \<le> (of_char c :: nat) \<and> (of_char c :: nat) \<le> 90 then char_of ((of_char c :: nat) + 32) else c)"

definition ToLower :: "string \<Rightarrow> string" where
  "ToLower s = map to_lower s"

definition Atoi :: "string \<Rightarrow> int option" where
  "Atoi s =
     (let neg = (s \<noteq> [] \<and> hd s = CHR ''-'');
          digits = (if s \<noteq> [] \<and> (hd s = CHR ''-'' \<or> hd s = CHR ''+'') then tl s else s);
          n = (if neg then - int (dec_value digits) else int (dec_value digits))
      in if digits = [] \<or> \<not> list_all is_digit digits \<or> n < - (2 ^ 63) \<or> 2 ^ 63 \<le> n then None else Some n)"

definition ParseUint32 :: "string \<Rightarrow> u32 option" where
  "ParseUint32 s =
     (if s = [] \<or> \<not> list_all is_digit s \<or> 2 ^ 32 \<le> dec_value s then None else Some (of_nat (dec_value s)))"

definition ParseBool :: "string \<Rightarrow> bool option" where
  "ParseBool s =
     (if s \<in> {''1'', ''t'', ''T'', ''true'', ''TRUE'', ''True''} then Some True
      else if s \<in> {''0'', ''f'', ''F'', ''false'', ''FALSE'', ''False''} then Some False
      else None)"

section \<open>The configuration\<close>

abbreviation (input) SWMVendorID :: u32 where "SWMVendorID \<equiv> 10415"
abbreviation (input) SWMApplicationID :: u32 where "SWMApplicationID \<equiv> 16777264"
abbreviation (input) GTPUPort :: int where "GTPUPort \<equiv> 2152"

record APIConfig =
  ac_Enabled :: bool
  ac_ListenAddress :: string
  ac_ListenPort :: int

record PGWDiscoveryConfig =
  pd_DNSEnabled :: bool
  pd_AllowS5S8Fallback :: bool

record IKEv2Config =
  ik_ListenAddr :: string
  ik_ListenAddrV6 :: string
  ik_ListenIfname :: string
  ik_CertFile :: string
  ik_KeyFile :: string
  ik_CAFile :: string
  ik_DPDEnabled :: bool
  ik_DPDDelay :: int
  ik_DPDTimeout :: int
  ik_MaxConcurrentPackets :: int
  ik_HalfOpenSATimeout :: int
  ik_MaxHalfOpenSAs :: int
  ik_CookieThreshold :: int

record EPDGConfig =
  ep_Name :: string
  ep_Realm :: string
  ep_MCC :: string
  ep_MNC :: string
  ep_MNCLength :: int

record LoggingConfig =
  lg_Level :: string
  lg_File :: string

record SWMConfig =
  sw_LocalAddr :: string
  sw_PeerAddr :: string
  sw_PeerPort :: int
  sw_Proto :: string
  sw_OriginHost :: string
  sw_OriginRealm :: string
  sw_DestinationHost :: string
  sw_DestinationRealm :: string
  sw_WatchdogIntervalSeconds :: int
  sw_WatchdogTimeoutSeconds :: int

record BPFConfig =
  bf_XDPAttachMode :: string
  bf_XDPInterface :: string
  bf_MapMaxEntries :: int

record GTPConfig =
  gt_LocalGTPC :: string
  gt_LocalGTPU :: string
  gt_LocalPort :: int
  gt_PGWGTPC :: string
  gt_TunAddr :: string
  gt_MTU :: int
  gt_ValidateOuterPeer :: bool
  gt_StrictPeerCheck :: bool
  gt_BPF :: BPFConfig
  gt_MaxSequence :: u32

record APNConfig =
  ap_Default :: string

record PCOConfig =
  pc_Enabled :: bool
  pc_RequestDNSv4 :: bool
  pc_RequestDNSv6 :: bool
  pc_RequestPCSCFv4 :: bool
  pc_RequestPCSCFv6 :: bool
  pc_IncludeAPCO :: bool
  pc_StrictDecode :: bool

record ShutdownConfig =
  sh_TimeoutSeconds :: int

record Config =
  c_EPDG :: EPDGConfig
  c_Logging :: LoggingConfig
  c_IKEv2 :: IKEv2Config
  c_SWM :: SWMConfig
  c_GTP :: GTPConfig
  c_APN :: APNConfig
  c_PCO :: PCOConfig
  c_Shutdown :: ShutdownConfig
  c_PGWDiscovery :: PGWDiscoveryConfig
  c_API :: APIConfig

definition Default :: Config where
  "Default =
     \<lparr>c_EPDG = \<lparr>ep_Name = '''', ep_Realm = '''', ep_MCC = '''', ep_MNC = '''', ep_MNCLength = 0\<rparr>,
      c_Logging = \<lparr>lg_Level = ''info'', lg_File = ''/var/log/vectorcore/epdg/epdg.log''\<rparr>,
      c_IKEv2 = \<lparr>ik_ListenAddr = ''0.0.0.0'', ik_ListenAddrV6 = '''', ik_ListenIfname = '''', ik_CertFile = '''',
                ik_KeyFile = '''', ik_CAFile = '''', ik_DPDEnabled = True, ik_DPDDelay = 30, ik_DPDTimeout = 120,
                ik_MaxConcurrentPackets = 2048, ik_HalfOpenSATimeout = 30, ik_MaxHalfOpenSAs = 4096,
                ik_CookieThreshold = 2048\<rparr>,
      c_SWM = \<lparr>sw_LocalAddr = '''', sw_PeerAddr = '''', sw_PeerPort = 0, sw_Proto = ''sctp'', sw_OriginHost = '''',
              sw_OriginRealm = '''', sw_DestinationHost = '''', sw_DestinationRealm = '''',
              sw_WatchdogIntervalSeconds = 30, sw_WatchdogTimeoutSeconds = 10\<rparr>,
      c_GTP = \<lparr>gt_LocalGTPC = '''', gt_LocalGTPU = '''', gt_LocalPort = GTPUPort, gt_PGWGTPC = '''', gt_TunAddr = '''',
              gt_MTU = 1400, gt_ValidateOuterPeer = True, gt_StrictPeerCheck = True,
              gt_BPF = \<lparr>bf_XDPAttachMode = ''generic'', bf_XDPInterface = '''', bf_MapMaxEntries = 4096\<rparr>,
              gt_MaxSequence = 0\<rparr>,
      c_APN = \<lparr>ap_Default = ''''\<rparr>,
      c_PCO = \<lparr>pc_Enabled = True, pc_RequestDNSv4 = False, pc_RequestDNSv6 = False, pc_RequestPCSCFv4 = False,
              pc_RequestPCSCFv6 = False, pc_IncludeAPCO = False, pc_StrictDecode = False\<rparr>,
      c_Shutdown = \<lparr>sh_TimeoutSeconds = 5\<rparr>,
      c_PGWDiscovery = \<lparr>pd_DNSEnabled = False, pd_AllowS5S8Fallback = False\<rparr>,
      c_API = \<lparr>ac_Enabled = False, ac_ListenAddress = ''0.0.0.0'', ac_ListenPort = 8080\<rparr>\<rparr>"

section \<open>Reading\<close>

datatype config_error =
    OpenError
  | ScanError
  | InvalidLine string
  | UnknownSection string
  | NotInteger string string
  | NotNonNegative string string
  | NotBoolean string string
  | ValidationErrors "string list"

definition setInt :: "string \<Rightarrow> (int \<Rightarrow> Config) \<Rightarrow> string \<Rightarrow> string \<Rightarrow> config_error + Config" where
  "setInt val dst section key = (case Atoi val of None \<Rightarrow> Inl (NotInteger section key) | Some n \<Rightarrow> Inr (dst n))"

definition setUint32 :: "string \<Rightarrow> (u32 \<Rightarrow> Config) \<Rightarrow> string \<Rightarrow> string \<Rightarrow> config_error + Config" where
  "setUint32 val dst section key =
     (case ParseUint32 val of None \<Rightarrow> Inl (NotNonNegative section key) | Some n \<Rightarrow> Inr (dst n))"

definition setBool :: "string \<Rightarrow> (bool \<Rightarrow> Config) \<Rightarrow> string \<Rightarrow> string \<Rightarrow> config_error + Config" where
  "setBool val dst section key = (case ParseBool val of None \<Rightarrow> Inl (NotBoolean section key) | Some b \<Rightarrow> Inr (dst b))"

definition set_epdg :: "Config \<Rightarrow> string \<Rightarrow> string \<Rightarrow> config_error + Config" where
  "set_epdg cfg key val =
     (if key = ''name'' then Inr (cfg\<lparr>c_EPDG := (c_EPDG cfg)\<lparr>ep_Name := val\<rparr>\<rparr>)
      else if key = ''realm'' then Inr (cfg\<lparr>c_EPDG := (c_EPDG cfg)\<lparr>ep_Realm := val\<rparr>\<rparr>)
      else if key = ''mcc'' then Inr (cfg\<lparr>c_EPDG := (c_EPDG cfg)\<lparr>ep_MCC := val\<rparr>\<rparr>)
      else if key = ''mnc'' then Inr (cfg\<lparr>c_EPDG := (c_EPDG cfg)\<lparr>ep_MNC := val\<rparr>\<rparr>)
      else if key = ''mnc_length'' then setInt val (\<lambda>n. cfg\<lparr>c_EPDG := (c_EPDG cfg)\<lparr>ep_MNCLength := n\<rparr>\<rparr>) ''epdg'' key
      else Inr cfg)"

definition set_ikev2 :: "Config \<Rightarrow> string \<Rightarrow> string \<Rightarrow> config_error + Config" where
  "set_ikev2 cfg key val =
     (if key = ''listen_addr'' then Inr (cfg\<lparr>c_IKEv2 := (c_IKEv2 cfg)\<lparr>ik_ListenAddr := val\<rparr>\<rparr>)
      else if key = ''listen_addr_v6'' then Inr (cfg\<lparr>c_IKEv2 := (c_IKEv2 cfg)\<lparr>ik_ListenAddrV6 := val\<rparr>\<rparr>)
      else if key = ''listen_ifname'' then Inr (cfg\<lparr>c_IKEv2 := (c_IKEv2 cfg)\<lparr>ik_ListenIfname := val\<rparr>\<rparr>)
      else if key = ''cert_file'' then Inr (cfg\<lparr>c_IKEv2 := (c_IKEv2 cfg)\<lparr>ik_CertFile := val\<rparr>\<rparr>)
      else if key = ''key_file'' then Inr (cfg\<lparr>c_IKEv2 := (c_IKEv2 cfg)\<lparr>ik_KeyFile := val\<rparr>\<rparr>)
      else if key = ''ca_file'' then Inr (cfg\<lparr>c_IKEv2 := (c_IKEv2 cfg)\<lparr>ik_CAFile := val\<rparr>\<rparr>)
      else if key = ''dpd_enabled'' then setBool val (\<lambda>n. cfg\<lparr>c_IKEv2 := (c_IKEv2 cfg)\<lparr>ik_DPDEnabled := n\<rparr>\<rparr>) ''ikev2'' key
      else if key = ''dpd_delay'' then setInt val (\<lambda>n. cfg\<lparr>c_IKEv2 := (c_IKEv2 cfg)\<lparr>ik_DPDDelay := n\<rparr>\<rparr>) ''ikev2'' key
      else if key = ''dpd_timeout'' then setInt val (\<lambda>n. cfg\<lparr>c_IKEv2 := (c_IKEv2 cfg)\<lparr>ik_DPDTimeout := n\<rparr>\<rparr>) ''ikev2'' key
      else if key = ''max_concurrent_packets'' then setInt val (\<lambda>n. cfg\<lparr>c_IKEv2 := (c_IKEv2 cfg)\<lparr>ik_MaxConcurrentPackets := n\<rparr>\<rparr>) ''ikev2'' key
      else if key = ''half_open_sa_timeout'' then setInt val (\<lambda>n. cfg\<lparr>c_IKEv2 := (c_IKEv2 cfg)\<lparr>ik_HalfOpenSATimeout := n\<rparr>\<rparr>) ''ikev2'' key
      else if key = ''max_half_open_sas'' then setInt val (\<lambda>n. cfg\<lparr>c_IKEv2 := (c_IKEv2 cfg)\<lparr>ik_MaxHalfOpenSAs := n\<rparr>\<rparr>) ''ikev2'' key
      else if key = ''cookie_threshold'' then setInt val (\<lambda>n. cfg\<lparr>c_IKEv2 := (c_IKEv2 cfg)\<lparr>ik_CookieThreshold := n\<rparr>\<rparr>) ''ikev2'' key
      else Inr cfg)"

definition set_logging :: "Config \<Rightarrow> string \<Rightarrow> string \<Rightarrow> config_error + Config" where
  "set_logging cfg key val =
     (if key = ''level'' then Inr (cfg\<lparr>c_Logging := (c_Logging cfg)\<lparr>lg_Level := val\<rparr>\<rparr>)
      else if key = ''file'' then Inr (cfg\<lparr>c_Logging := (c_Logging cfg)\<lparr>lg_File := val\<rparr>\<rparr>)
      else Inr cfg)"

definition set_swm :: "Config \<Rightarrow> string \<Rightarrow> string \<Rightarrow> config_error + Config" where
  "set_swm cfg key val =
     (if key = ''local_addr'' then Inr (cfg\<lparr>c_SWM := (c_SWM cfg)\<lparr>sw_LocalAddr := val\<rparr>\<rparr>)
      else if key = ''peer_addr'' then Inr (cfg\<lparr>c_SWM := (c_SWM cfg)\<lparr>sw_PeerAddr := val\<rparr>\<rparr>)
      else if key = ''peer_port'' then setInt val (\<lambda>n. cfg\<lparr>c_SWM := (c_SWM cfg)\<lparr>sw_PeerPort := n\<rparr>\<rparr>) ''swm'' key
      else if key = ''proto'' then Inr (cfg\<lparr>c_SWM := (c_SWM cfg)\<lparr>sw_Proto := val\<rparr>\<rparr>)
      else if key = ''origin_host'' then Inr (cfg\<lparr>c_SWM := (c_SWM cfg)\<lparr>sw_OriginHost := val\<rparr>\<rparr>)
      else if key = ''origin_realm'' then Inr (cfg\<lparr>c_SWM := (c_SWM cfg)\<lparr>sw_OriginRealm := val\<rparr>\<rparr>)
      else if key = ''destination_host'' then Inr (cfg\<lparr>c_SWM := (c_SWM cfg)\<lparr>sw_DestinationHost := val\<rparr>\<rparr>)
      else if key = ''destination_realm'' then Inr (cfg\<lparr>c_SWM := (c_SWM cfg)\<lparr>sw_DestinationRealm := val\<rparr>\<rparr>)
      else if key = ''watchdog_interval_seconds'' then setInt val (\<lambda>n. cfg\<lparr>c_SWM := (c_SWM cfg)\<lparr>sw_WatchdogIntervalSeconds := n\<rparr>\<rparr>) ''swm'' key
      else if key = ''watchdog_timeout_seconds'' then setInt val (\<lambda>n. cfg\<lparr>c_SWM := (c_SWM cfg)\<lparr>sw_WatchdogTimeoutSeconds := n\<rparr>\<rparr>) ''swm'' key
      else Inr cfg)"

definition set_gtp :: "Config \<Rightarrow> string \<Rightarrow> string \<Rightarrow> config_error + Config" where
  "set_gtp cfg key val =
     (if key = ''local_gtpc'' then Inr (cfg\<lparr>c_GTP := (c_GTP cfg)\<lparr>gt_LocalGTPC := val\<rparr>\<rparr>)
      else if key = ''local_gtpu'' then Inr (cfg\<lparr>c_GTP := (c_GTP cfg)\<lparr>gt_LocalGTPU := val\<rparr>\<rparr>)
      else if key = ''local_port'' then setInt val (\<lambda>n. cfg\<lparr>c_GTP := (c_GTP cfg)\<lparr>gt_LocalPort := n\<rparr>\<rparr>) ''gtp'' key
      else if key = ''pgw_gtpc'' then Inr (cfg\<lparr>c_GTP := (c_GTP cfg)\<lparr>gt_PGWGTPC := val\<rparr>\<rparr>)
      else if key = ''tun_addr'' then Inr (cfg\<lparr>c_GTP := (c_GTP cfg)\<lparr>gt_TunAddr := val\<rparr>\<rparr>)
      else if key = ''mtu'' then setInt val (\<lambda>n. cfg\<lparr>c_GTP := (c_GTP cfg)\<lparr>gt_MTU := n\<rparr>\<rparr>) ''gtp'' key
      else if key = ''validate_outer_peer'' then setBool val (\<lambda>n. cfg\<lparr>c_GTP := (c_GTP cfg)\<lparr>gt_ValidateOuterPeer := n\<rparr>\<rparr>) ''gtp'' key
      else if key = ''strict_peer_check'' then setBool val (\<lambda>n. cfg\<lparr>c_GTP := (c_GTP cfg)\<lparr>gt_StrictPeerCheck := n\<rparr>\<rparr>) ''gtp'' key
      else if key = ''max_sequence'' then setUint32 val (\<lambda>n. cfg\<lparr>c_GTP := (c_GTP cfg)\<lparr>gt_MaxSequence := n\<rparr>\<rparr>) ''gtp'' key
      else Inr cfg)"

definition set_apn :: "Config \<Rightarrow> string \<Rightarrow> string \<Rightarrow> config_error + Config" where
  "set_apn cfg key val =
     (if key = ''default'' then Inr (cfg\<lparr>c_APN := (c_APN cfg)\<lparr>ap_Default := val\<rparr>\<rparr>)
      else Inr cfg)"

definition set_pco :: "Config \<Rightarrow> string \<Rightarrow> string \<Rightarrow> config_error + Config" where
  "set_pco cfg key val =
     (if key = ''enabled'' then setBool val (\<lambda>n. cfg\<lparr>c_PCO := (c_PCO cfg)\<lparr>pc_Enabled := n\<rparr>\<rparr>) ''pco'' key
      else if key = ''request_dns_v4'' then setBool val (\<lambda>n. cfg\<lparr>c_PCO := (c_PCO cfg)\<lparr>pc_RequestDNSv4 := n\<rparr>\<rparr>) ''pco'' key
      else if key = ''request_dns_v6'' then setBool val (\<lambda>n. cfg\<lparr>c_PCO := (c_PCO cfg)\<lparr>pc_RequestDNSv6 := n\<rparr>\<rparr>) ''pco'' key
      else if key = ''request_pcscf_v4'' then setBool val (\<lambda>n. cfg\<lparr>c_PCO := (c_PCO cfg)\<lparr>pc_RequestPCSCFv4 := n\<rparr>\<rparr>) ''pco'' key
      else if key = ''request_pcscf_v6'' then setBool val (\<lambda>n. cfg\<lparr>c_PCO := (c_PCO cfg)\<lparr>pc_RequestPCSCFv6 := n\<rparr>\<rparr>) ''pco'' key
      else if key = ''include_apco'' then setBool val (\<lambda>n. cfg\<lparr>c_PCO := (c_PCO cfg)\<lparr>pc_IncludeAPCO := n\<rparr>\<rparr>) ''pco'' key
      else if key = ''strict_decode'' then setBool val (\<lambda>n. cfg\<lparr>c_PCO := (c_PCO cfg)\<lparr>pc_StrictDecode := n\<rparr>\<rparr>) ''pco'' key
      else Inr cfg)"

definition set_bpf :: "Config \<Rightarrow> string \<Rightarrow> string \<Rightarrow> config_error + Config" where
  "set_bpf cfg key val =
     (if key = ''xdp_attach_mode'' then Inr (cfg\<lparr>c_GTP := (c_GTP cfg)\<lparr>gt_BPF := (gt_BPF (c_GTP cfg))\<lparr>bf_XDPAttachMode := val\<rparr>\<rparr>\<rparr>)
      else if key = ''xdp_interface'' then Inr (cfg\<lparr>c_GTP := (c_GTP cfg)\<lparr>gt_BPF := (gt_BPF (c_GTP cfg))\<lparr>bf_XDPInterface := val\<rparr>\<rparr>\<rparr>)
      else if key = ''map_max_entries'' then setInt val (\<lambda>n. cfg\<lparr>c_GTP := (c_GTP cfg)\<lparr>gt_BPF := (gt_BPF (c_GTP cfg))\<lparr>bf_MapMaxEntries := n\<rparr>\<rparr>\<rparr>) ''bpf'' key
      else Inr cfg)"

definition set_shutdown :: "Config \<Rightarrow> string \<Rightarrow> string \<Rightarrow> config_error + Config" where
  "set_shutdown cfg key val =
     (if key = ''timeout_seconds'' then setInt val (\<lambda>n. cfg\<lparr>c_Shutdown := (c_Shutdown cfg)\<lparr>sh_TimeoutSeconds := n\<rparr>\<rparr>) ''shutdown'' key
      else Inr cfg)"

definition set_pgw_discovery :: "Config \<Rightarrow> string \<Rightarrow> string \<Rightarrow> config_error + Config" where
  "set_pgw_discovery cfg key val =
     (if key = ''dns_enabled'' then setBool val (\<lambda>n. cfg\<lparr>c_PGWDiscovery := (c_PGWDiscovery cfg)\<lparr>pd_DNSEnabled := n\<rparr>\<rparr>) ''pgw_discovery'' key
      else if key = ''allow_s5s8_fallback'' then setBool val (\<lambda>n. cfg\<lparr>c_PGWDiscovery := (c_PGWDiscovery cfg)\<lparr>pd_AllowS5S8Fallback := n\<rparr>\<rparr>) ''pgw_discovery'' key
      else Inr cfg)"

definition set_api :: "Config \<Rightarrow> string \<Rightarrow> string \<Rightarrow> config_error + Config" where
  "set_api cfg key val =
     (if key = ''enabled'' then setBool val (\<lambda>n. cfg\<lparr>c_API := (c_API cfg)\<lparr>ac_Enabled := n\<rparr>\<rparr>) ''api'' key
      else if key = ''listen_address'' then Inr (cfg\<lparr>c_API := (c_API cfg)\<lparr>ac_ListenAddress := val\<rparr>\<rparr>)
      else if key = ''listen_port'' then setInt val (\<lambda>n. cfg\<lparr>c_API := (c_API cfg)\<lparr>ac_ListenPort := n\<rparr>\<rparr>) ''api'' key
      else Inr cfg)"

definition setValue :: "Config \<Rightarrow> string \<Rightarrow> string \<Rightarrow> string \<Rightarrow> config_error + Config" where
  "setValue cfg section key val =
     (if section = ''epdg'' then set_epdg cfg key val
      else if section = ''ikev2'' then set_ikev2 cfg key val
      else if section = ''logging'' then set_logging cfg key val
      else if section = ''swm'' then set_swm cfg key val
      else if section = ''gtp'' then set_gtp cfg key val
      else if section = ''apn'' then set_apn cfg key val
      else if section = ''pco'' then set_pco cfg key val
      else if section = ''bpf'' then set_bpf cfg key val
      else if section = ''shutdown'' then set_shutdown cfg key val
      else if section = ''pgw_discovery'' then set_pgw_discovery cfg key val
      else if section = ''api'' then set_api cfg key val
      else Inl (UnknownSection section))"

definition stripComment :: "string \<Rightarrow> string" where
  "stripComment line = takeWhile (\<lambda>c. c \<noteq> CHR ''#'') line"

text \<open>\<^verbatim>\<open>strings.SplitN(s, ":", 2)\<close> gives two parts exactly when there is a colon.\<close>

definition parseKeyValue :: "string \<Rightarrow> (string \<times> string) option" where
  "parseKeyValue line =
     (let s = TrimSpace line in
      if CHR '':'' \<notin> set s then None
      else let key = TrimSpace (takeWhile (\<lambda>c. c \<noteq> CHR '':'') s);
               val = TrimFunc is_quote (TrimSpace (tl (dropWhile (\<lambda>c. c \<noteq> CHR '':'') s)))
           in if key = '''' then None else Some (key, val))"

fun Load_loop :: "Config \<Rightarrow> string \<Rightarrow> string list \<Rightarrow> config_error + Config" where
  "Load_loop cfg section [] = Inr cfg"
| "Load_loop cfg section (text # rest) =
     (let line = stripComment text;
          trimmed = TrimSpace line
      in if trimmed = '''' then Load_loop cfg section rest
         else if \<not> (line \<noteq> [] \<and> hd line = CHR '' '') \<and> last trimmed = CHR '':'' then Load_loop cfg (butlast trimmed) rest
         else case parseKeyValue line of
                None \<Rightarrow> Inl (InvalidLine text)
              | Some (key, val) \<Rightarrow> res_bind (setValue cfg section key val) (\<lambda>cfg. Load_loop cfg section rest))"

section \<open>Validation\<close>

definition require :: "string \<Rightarrow> string \<Rightarrow> string list" where
  "require val name = (if val = '''' then [name @ '' is required''] else [])"

definition requireIP :: "string \<Rightarrow> string \<Rightarrow> string list" where
  "requireIP val name =
     require val name @ (if val \<noteq> '''' \<and> ParseIP val = [] then [name @ '' must be an IP address''] else [])"

definition requirePort :: "int \<Rightarrow> string \<Rightarrow> string list" where
  "requirePort val name = (if val \<le> 0 \<or> 65535 < val then [name @ '' must be between 1 and 65535''] else [])"

definition check :: "bool \<Rightarrow> string \<Rightarrow> string list" where
  "check bad msg = (if bad then [msg] else [])"

definition Validate :: "Config \<Rightarrow> string list" where
  "Validate c =
     require (ep_Name (c_EPDG c)) ''epdg.name'' @
     require (ep_Realm (c_EPDG c)) ''epdg.realm'' @
     require (ep_MCC (c_EPDG c)) ''epdg.mcc'' @
     require (ep_MNC (c_EPDG c)) ''epdg.mnc'' @
     check (ep_MNCLength (c_EPDG c) \<noteq> 2 \<and> ep_MNCLength (c_EPDG c) \<noteq> 3) ''epdg.mnc_length must be 2 or 3'' @
     check (lg_Level (c_Logging c) \<notin> {''debug'', ''info'', ''warn'', ''warning'', ''error''})
       ''logging.level must be one of debug, info, warn, error'' @
     requireIP (sw_LocalAddr (c_SWM c)) ''swm.local_addr'' @
     requireIP (sw_PeerAddr (c_SWM c)) ''swm.peer_addr'' @
     requirePort (sw_PeerPort (c_SWM c)) ''swm.peer_port'' @
     check (ToLower (sw_Proto (c_SWM c)) \<notin> {''tcp'', ''sctp''}) ''swm.proto must be tcp or sctp'' @
     check (sw_WatchdogIntervalSeconds (c_SWM c) \<le> 0) ''swm.watchdog_interval_seconds must be greater than 0'' @
     check (sw_WatchdogTimeoutSeconds (c_SWM c) \<le> 0) ''swm.watchdog_timeout_seconds must be greater than 0'' @
     require (sw_OriginHost (c_SWM c)) ''swm.origin_host'' @
     require (sw_OriginRealm (c_SWM c)) ''swm.origin_realm'' @
     require (sw_DestinationRealm (c_SWM c)) ''swm.destination_realm'' @
     requireIP (gt_LocalGTPC (c_GTP c)) ''gtp.local_gtpc'' @
     requireIP (gt_LocalGTPU (c_GTP c)) ''gtp.local_gtpu'' @
     requirePort (gt_LocalPort (c_GTP c)) ''gtp.local_port'' @
     requireIP (gt_PGWGTPC (c_GTP c)) ''gtp.pgw_gtpc'' @
     check (gt_MTU (c_GTP c) < 576 \<or> 9000 < gt_MTU (c_GTP c)) ''gtp.mtu must be between 576 and 9000'' @
     require (ap_Default (c_APN c)) ''apn.default'' @
     check (sh_TimeoutSeconds (c_Shutdown c) \<le> 0) ''shutdown.timeout_seconds must be greater than 0'' @
     check (bf_XDPAttachMode (gt_BPF (c_GTP c)) \<notin> {''generic'', ''native'', ''offload''})
       ''bpf.xdp_attach_mode must be generic, native, or offload'' @
     check (bf_MapMaxEntries (gt_BPF (c_GTP c)) \<le> 0) ''bpf.map_max_entries must be greater than 0'' @
     require (bf_XDPInterface (gt_BPF (c_GTP c))) ''bpf.xdp_interface'' @
     (if ac_Enabled (c_API c)
      then requireIP (ac_ListenAddress (c_API c)) ''api.listen_address'' @
           requirePort (ac_ListenPort (c_API c)) ''api.listen_port''
      else [])"

text \<open>
  \<^verbatim>\<open>Load\<close>: \<open>file\<close> is what opening the path gives, the lines and whether the scanner ended with an
  error.
\<close>

definition Load :: "(string list \<times> bool) option \<Rightarrow> config_error + Config" where
  "Load file =
     (case file of
        None \<Rightarrow> Inl OpenError
      | Some (lines, scanErr) \<Rightarrow>
          res_bind (Load_loop Default '''' lines) (\<lambda>cfg.
            if scanErr then Inl ScanError
            else if Validate cfg \<noteq> [] then Inl (ValidationErrors (Validate cfg))
            else Inr cfg))"

section \<open>Printing and reading back\<close>

definition show_int :: "int \<Rightarrow> string" where
  "show_int n = (if n < 0 then ''-'' @ show_nat (nat (- n)) else show_nat (nat n))"

definition show_bool :: "bool \<Rightarrow> string" where
  "show_bool b = (if b then ''true'' else ''false'')"

definition epdg_settings :: "Config \<Rightarrow> (string \<times> string) list" where
  "epdg_settings cfg =
    [(''name'', ep_Name (c_EPDG cfg)),
     (''realm'', ep_Realm (c_EPDG cfg)),
     (''mcc'', ep_MCC (c_EPDG cfg)),
     (''mnc'', ep_MNC (c_EPDG cfg)),
     (''mnc_length'', show_int (ep_MNCLength (c_EPDG cfg)))]"

definition ikev2_settings :: "Config \<Rightarrow> (string \<times> string) list" where
  "ikev2_settings cfg =
    [(''listen_addr'', ik_ListenAddr (c_IKEv2 cfg)),
     (''listen_addr_v6'', ik_ListenAddrV6 (c_IKEv2 cfg)),
     (''listen_ifname'', ik_ListenIfname (c_IKEv2 cfg)),
     (''cert_file'', ik_CertFile (c_IKEv2 cfg)),
     (''key_file'', ik_KeyFile (c_IKEv2 cfg)),
     (''ca_file'', ik_CAFile (c_IKEv2 cfg)),
     (''dpd_enabled'', show_bool (ik_DPDEnabled (c_IKEv2 cfg))),
     (''dpd_delay'', show_int (ik_DPDDelay (c_IKEv2 cfg))),
     (''dpd_timeout'', show_int (ik_DPDTimeout (c_IKEv2 cfg))),
     (''max_concurrent_packets'', show_int (ik_MaxConcurrentPackets (c_IKEv2 cfg))),
     (''half_open_sa_timeout'', show_int (ik_HalfOpenSATimeout (c_IKEv2 cfg))),
     (''max_half_open_sas'', show_int (ik_MaxHalfOpenSAs (c_IKEv2 cfg))),
     (''cookie_threshold'', show_int (ik_CookieThreshold (c_IKEv2 cfg)))]"

definition logging_settings :: "Config \<Rightarrow> (string \<times> string) list" where
  "logging_settings cfg =
    [(''level'', lg_Level (c_Logging cfg)),
     (''file'', lg_File (c_Logging cfg))]"

definition swm_settings :: "Config \<Rightarrow> (string \<times> string) list" where
  "swm_settings cfg =
    [(''local_addr'', sw_LocalAddr (c_SWM cfg)),
     (''peer_addr'', sw_PeerAddr (c_SWM cfg)),
     (''peer_port'', show_int (sw_PeerPort (c_SWM cfg))),
     (''proto'', sw_Proto (c_SWM cfg)),
     (''origin_host'', sw_OriginHost (c_SWM cfg)),
     (''origin_realm'', sw_OriginRealm (c_SWM cfg)),
     (''destination_host'', sw_DestinationHost (c_SWM cfg)),
     (''destination_realm'', sw_DestinationRealm (c_SWM cfg)),
     (''watchdog_interval_seconds'', show_int (sw_WatchdogIntervalSeconds (c_SWM cfg))),
     (''watchdog_timeout_seconds'', show_int (sw_WatchdogTimeoutSeconds (c_SWM cfg)))]"

definition gtp_settings :: "Config \<Rightarrow> (string \<times> string) list" where
  "gtp_settings cfg =
    [(''local_gtpc'', gt_LocalGTPC (c_GTP cfg)),
     (''local_gtpu'', gt_LocalGTPU (c_GTP cfg)),
     (''local_port'', show_int (gt_LocalPort (c_GTP cfg))),
     (''pgw_gtpc'', gt_PGWGTPC (c_GTP cfg)),
     (''tun_addr'', gt_TunAddr (c_GTP cfg)),
     (''mtu'', show_int (gt_MTU (c_GTP cfg))),
     (''validate_outer_peer'', show_bool (gt_ValidateOuterPeer (c_GTP cfg))),
     (''strict_peer_check'', show_bool (gt_StrictPeerCheck (c_GTP cfg))),
     (''max_sequence'', show_nat (unat (gt_MaxSequence (c_GTP cfg))))]"

definition apn_settings :: "Config \<Rightarrow> (string \<times> string) list" where
  "apn_settings cfg =
    [(''default'', ap_Default (c_APN cfg))]"

definition pco_settings :: "Config \<Rightarrow> (string \<times> string) list" where
  "pco_settings cfg =
    [(''enabled'', show_bool (pc_Enabled (c_PCO cfg))),
     (''request_dns_v4'', show_bool (pc_RequestDNSv4 (c_PCO cfg))),
     (''request_dns_v6'', show_bool (pc_RequestDNSv6 (c_PCO cfg))),
     (''request_pcscf_v4'', show_bool (pc_RequestPCSCFv4 (c_PCO cfg))),
     (''request_pcscf_v6'', show_bool (pc_RequestPCSCFv6 (c_PCO cfg))),
     (''include_apco'', show_bool (pc_IncludeAPCO (c_PCO cfg))),
     (''strict_decode'', show_bool (pc_StrictDecode (c_PCO cfg)))]"

definition bpf_settings :: "Config \<Rightarrow> (string \<times> string) list" where
  "bpf_settings cfg =
    [(''xdp_attach_mode'', bf_XDPAttachMode (gt_BPF (c_GTP cfg))),
     (''xdp_interface'', bf_XDPInterface (gt_BPF (c_GTP cfg))),
     (''map_max_entries'', show_int (bf_MapMaxEntries (gt_BPF (c_GTP cfg))))]"

definition shutdown_settings :: "Config \<Rightarrow> (string \<times> string) list" where
  "shutdown_settings cfg =
    [(''timeout_seconds'', show_int (sh_TimeoutSeconds (c_Shutdown cfg)))]"

definition pgw_discovery_settings :: "Config \<Rightarrow> (string \<times> string) list" where
  "pgw_discovery_settings cfg =
    [(''dns_enabled'', show_bool (pd_DNSEnabled (c_PGWDiscovery cfg))),
     (''allow_s5s8_fallback'', show_bool (pd_AllowS5S8Fallback (c_PGWDiscovery cfg)))]"

definition api_settings :: "Config \<Rightarrow> (string \<times> string) list" where
  "api_settings cfg =
    [(''enabled'', show_bool (ac_Enabled (c_API cfg))),
     (''listen_address'', ac_ListenAddress (c_API cfg)),
     (''listen_port'', show_int (ac_ListenPort (c_API cfg)))]"

definition settings :: "Config \<Rightarrow> (string \<times> (string \<times> string) list) list" where
  "settings cfg =
    [(''epdg'', epdg_settings cfg),
     (''ikev2'', ikev2_settings cfg),
     (''logging'', logging_settings cfg),
     (''swm'', swm_settings cfg),
     (''gtp'', gtp_settings cfg),
     (''apn'', apn_settings cfg),
     (''pco'', pco_settings cfg),
     (''bpf'', bpf_settings cfg),
     (''shutdown'', shutdown_settings cfg),
     (''pgw_discovery'', pgw_discovery_settings cfg),
     (''api'', api_settings cfg)]"

definition print_setting :: "string \<times> string \<Rightarrow> string" where
  "print_setting kv = ''  '' @ fst kv @ '': '' @ snd kv"

definition print_section :: "string \<times> (string \<times> string) list \<Rightarrow> string list" where
  "print_section s = (fst s @ '':'') # map print_setting (snd s)"

definition print_config :: "Config \<Rightarrow> string list" where
  "print_config cfg = concat (map print_section (settings cfg))"

text \<open>Values that survive the reader: no comment sign, no blank or quote at either end.\<close>

definition plain_char :: "char \<Rightarrow> bool" where
  "plain_char c \<longleftrightarrow> c \<noteq> CHR ''#'' \<and> \<not> is_space c \<and> \<not> is_quote c"

definition plain_value :: "string \<Rightarrow> bool" where
  "plain_value v \<longleftrightarrow> CHR ''#'' \<notin> set v \<and> (v = [] \<or> plain_char (hd v) \<and> plain_char (last v))"

definition plain_key :: "string \<Rightarrow> bool" where
  "plain_key k \<longleftrightarrow> k \<noteq> [] \<and> list_all (\<lambda>c. plain_char c \<and> c \<noteq> CHR '':'') k"

text \<open>Every string value is plain and every integer is a 64-bit integer.\<close>

definition printable :: "Config \<Rightarrow> bool" where
  "printable cfg \<longleftrightarrow>
     list_all plain_value
      [ep_Name (c_EPDG cfg),
       ep_Realm (c_EPDG cfg),
       ep_MCC (c_EPDG cfg),
       ep_MNC (c_EPDG cfg),
       ik_ListenAddr (c_IKEv2 cfg),
       ik_ListenAddrV6 (c_IKEv2 cfg),
       ik_ListenIfname (c_IKEv2 cfg),
       ik_CertFile (c_IKEv2 cfg),
       ik_KeyFile (c_IKEv2 cfg),
       ik_CAFile (c_IKEv2 cfg),
       lg_Level (c_Logging cfg),
       lg_File (c_Logging cfg),
       sw_LocalAddr (c_SWM cfg),
       sw_PeerAddr (c_SWM cfg),
       sw_Proto (c_SWM cfg),
       sw_OriginHost (c_SWM cfg),
       sw_OriginRealm (c_SWM cfg),
       sw_DestinationHost (c_SWM cfg),
       sw_DestinationRealm (c_SWM cfg),
       gt_LocalGTPC (c_GTP cfg),
       gt_LocalGTPU (c_GTP cfg),
       gt_PGWGTPC (c_GTP cfg),
       gt_TunAddr (c_GTP cfg),
       ap_Default (c_APN cfg),
       bf_XDPAttachMode (gt_BPF (c_GTP cfg)),
       bf_XDPInterface (gt_BPF (c_GTP cfg)),
       ac_ListenAddress (c_API cfg)] \<and>
     list_all (\<lambda>n. - (2 ^ 63) \<le> n \<and> n < 2 ^ 63)
      [ep_MNCLength (c_EPDG cfg),
       ik_DPDDelay (c_IKEv2 cfg),
       ik_DPDTimeout (c_IKEv2 cfg),
       ik_MaxConcurrentPackets (c_IKEv2 cfg),
       ik_HalfOpenSATimeout (c_IKEv2 cfg),
       ik_MaxHalfOpenSAs (c_IKEv2 cfg),
       ik_CookieThreshold (c_IKEv2 cfg),
       sw_PeerPort (c_SWM cfg),
       sw_WatchdogIntervalSeconds (c_SWM cfg),
       sw_WatchdogTimeoutSeconds (c_SWM cfg),
       gt_LocalPort (c_GTP cfg),
       gt_MTU (c_GTP cfg),
       bf_MapMaxEntries (gt_BPF (c_GTP cfg)),
       sh_TimeoutSeconds (c_Shutdown cfg),
       ac_ListenPort (c_API cfg)]"

lemma TrimFunc_id: "v = [] \<or> \<not> p (hd v) \<and> \<not> p (last v) \<Longrightarrow> TrimFunc p v = v"
proof -
  assume v: "v = [] \<or> \<not> p (hd v) \<and> \<not> p (last v)"
  have "dropWhile p v = v" using v by (cases v) auto
  moreover have "dropWhile p (rev v) = rev v" using v by (cases v rule: rev_cases) auto
  ultimately show ?thesis by (simp add: TrimFunc_def)
qed

lemma TrimFunc_front: "p c \<Longrightarrow> TrimFunc p (c # v) = TrimFunc p v"
  by (simp add: TrimFunc_def)

lemma TrimFunc_back: "p c \<Longrightarrow> TrimFunc p (v @ [c]) = TrimFunc p v"
proof (cases "dropWhile p v = []")
  case True
  assume "p c"
  with True show ?thesis by (auto simp: TrimFunc_def dropWhile_append dest: set_dropWhileD)
next
  case False
  assume "p c"
  with False show ?thesis by (auto simp: TrimFunc_def dropWhile_append)
qed

lemma is_space_blank [simp]: "is_space CHR '' ''" "\<not> is_space CHR '':''" "\<not> is_quote CHR '':''" "\<not> is_quote CHR '' ''"
  by (simp_all add: is_space_def is_quote_def)

lemma plain_value_trim:
  assumes "plain_value v"
  shows "TrimFunc is_quote (TrimSpace (CHR '' '' # v)) = v" "TrimSpace v = v" "TrimFunc is_quote v = v"
  using assms by (auto simp: plain_value_def plain_char_def TrimSpace_def TrimFunc_front TrimFunc_id)

lemma stripComment_id: "CHR ''#'' \<notin> set s \<Longrightarrow> stripComment s = s"
  unfolding stripComment_def by (subst takeWhile_eq_all_conv) auto

lemma plain_key_chars: "plain_key k \<Longrightarrow> CHR ''#'' \<notin> set k \<and> CHR '':'' \<notin> set k"
  by (auto simp: plain_key_def plain_char_def list_all_iff)

lemma plain_key_trim: "plain_key k \<Longrightarrow> TrimSpace k = k"
  unfolding TrimSpace_def by (rule TrimFunc_id) (auto simp: plain_key_def plain_char_def list_all_iff)

lemma TrimSpace_setting:
  assumes "plain_key k" "plain_value v"
  shows "TrimSpace (print_setting (k, v)) = (if v = [] then k @ '':'' else k @ '': '' @ v)"
proof (cases "v = []")
  case True
  have "TrimSpace (print_setting (k, v)) = TrimFunc is_space ((k @ '':'') @ [CHR '' ''])"
    using True by (simp add: print_setting_def TrimSpace_def TrimFunc_front)
  also have "\<dots> = TrimFunc is_space (k @ '':'')" by (rule TrimFunc_back) simp
  also have "\<dots> = k @ '':''"
    using assms(1) by (intro TrimFunc_id) (auto simp: plain_key_def plain_char_def list_all_iff)
  finally show ?thesis using True by simp
next
  case False
  then have "TrimFunc is_space (k @ '': '' @ v) = k @ '': '' @ v"
    using assms by (intro TrimFunc_id) (auto simp: plain_key_def plain_value_def plain_char_def list_all_iff)
  then show ?thesis using False by (simp add: print_setting_def TrimSpace_def TrimFunc_front)
qed

lemma split_at_char:
  "c \<notin> set k \<Longrightarrow> takeWhile (\<lambda>x. x \<noteq> c) (k @ c # r) = k"
  "c \<notin> set k \<Longrightarrow> dropWhile (\<lambda>x. x \<noteq> c) (k @ c # r) = c # r"
  by (induction k) auto

lemma parse_printed:
  assumes "plain_key k" "plain_value v"
  shows "parseKeyValue (print_setting (k, v)) = Some (k, v)"
proof -
  have k: "takeWhile (\<lambda>c. c \<noteq> CHR '':'') (k @ CHR '':'' # r) = k"
    "dropWhile (\<lambda>c. c \<noteq> CHR '':'') (k @ CHR '':'' # r) = CHR '':'' # r" for r
    using plain_key_chars[OF assms(1)] by (simp_all add: split_at_char)
  show ?thesis
    using k plain_key_trim[OF assms(1)] plain_value_trim[OF assms(2)] assms
    unfolding parseKeyValue_def TrimSpace_setting[OF assms]
    by (auto simp: Let_def plain_key_def)
qed

fun apply_settings :: "Config \<Rightarrow> string \<Rightarrow> (string \<times> string) list \<Rightarrow> config_error + Config" where
  "apply_settings cfg section [] = Inr cfg"
| "apply_settings cfg section (kv # kvs) =
     res_bind (setValue cfg section (fst kv) (snd kv)) (\<lambda>cfg. apply_settings cfg section kvs)"

fun apply_sections :: "Config \<Rightarrow> (string \<times> (string \<times> string) list) list \<Rightarrow> config_error + Config" where
  "apply_sections cfg [] = Inr cfg"
| "apply_sections cfg (s # ss) = res_bind (apply_settings cfg (fst s) (snd s)) (\<lambda>cfg. apply_sections cfg ss)"

lemma Load_loop_setting:
  assumes "plain_key k" "plain_value v"
  shows "Load_loop cfg sec (print_setting (k, v) # rest) =
     res_bind (setValue cfg sec k v) (\<lambda>cfg. Load_loop cfg sec rest)"
proof -
  have "stripComment (print_setting (k, v)) = print_setting (k, v)"
    using plain_key_chars[OF assms(1)] assms(2)
    by (intro stripComment_id) (auto simp: print_setting_def plain_value_def)
  moreover have "TrimSpace (print_setting (k, v)) \<noteq> []"
    unfolding TrimSpace_setting[OF assms] by simp
  moreover have "print_setting (k, v) \<noteq> [] \<and> hd (print_setting (k, v)) = CHR '' ''" by (simp add: print_setting_def)
  ultimately show ?thesis using parse_printed[OF assms] by simp
qed

lemma Load_loop_settings:
  assumes "list_all (\<lambda>(k, v). plain_key k \<and> plain_value v) kvs"
  shows "Load_loop cfg sec (map print_setting kvs @ rest) =
     res_bind (apply_settings cfg sec kvs) (\<lambda>cfg. Load_loop cfg sec rest)"
  using assms
proof (induction kvs arbitrary: cfg)
  case (Cons kv kvs)
  then show ?case
    by (cases kv; cases "setValue cfg sec (fst kv) (snd kv)") (auto simp: Load_loop_setting simp del: Load_loop.simps(2))
qed simp

lemma Load_loop_section_header:
  assumes "plain_key sec"
  shows "Load_loop cfg old ((sec @ '':'') # rest) = Load_loop cfg sec rest"
proof -
  have "stripComment (sec @ '':'') = sec @ '':''"
    using plain_key_chars[OF assms] by (intro stripComment_id) auto
  moreover have "TrimSpace (sec @ '':'') = sec @ '':''"
    unfolding TrimSpace_def using assms
    by (intro TrimFunc_id) (auto simp: plain_key_def plain_char_def list_all_iff)
  moreover have "hd (sec @ '':'') \<noteq> CHR '' ''"
    using assms by (cases sec) (auto simp: plain_key_def plain_char_def is_space_def)
  ultimately show ?thesis by simp
qed

lemma Load_loop_sections:
  assumes "list_all (\<lambda>(s, kvs). plain_key s \<and> list_all (\<lambda>(k, v). plain_key k \<and> plain_value v) kvs) ss"
  shows "Load_loop cfg old (concat (map print_section ss)) = apply_sections cfg ss"
  using assms
proof (induction ss arbitrary: cfg old)
  case (Cons s ss)
  obtain n kvs where s: "s = (n, kvs)" by (cases s)
  with Cons.prems have n: "plain_key n" and kvs: "list_all (\<lambda>(k, v). plain_key k \<and> plain_value v) kvs" by auto
  have "Load_loop cfg old (concat (map print_section (s # ss))) =
      res_bind (apply_settings cfg n kvs) (\<lambda>cfg. Load_loop cfg n (concat (map print_section ss)))"
    using s by (simp add: print_section_def Load_loop_section_header[OF n] Load_loop_settings[OF kvs] del: Load_loop.simps(2))
  with Cons s show ?case by (cases "apply_settings cfg n kvs") auto
qed simp

lemma list_all_show_nat: "list_all is_digit (show_nat n)"
  using show_nat_digits by (simp add: list_all_iff)

lemma hd_show_nat_digit: "is_digit (hd (show_nat n))" "is_digit (last (show_nat n))"
  using show_nat_digits[of n] by (simp_all add: hd_in_set last_in_set)

lemma is_digit_plain: "is_digit c \<Longrightarrow> plain_char c \<and> c \<noteq> CHR ''-'' \<and> c \<noteq> CHR ''+'' \<and> c \<noteq> CHR ''#''"
  by (auto simp: is_digit_def plain_char_def is_space_def is_quote_def)

lemma Atoi_show_int:
  assumes "- (2 ^ 63) \<le> n" "n < 2 ^ 63"
  shows "Atoi (show_int n) = Some n"
proof (cases "n < 0")
  case True
  with assms show ?thesis by (simp add: show_int_def Atoi_def Let_def list_all_show_nat)
next
  case False
  with assms is_digit_plain[OF hd_show_nat_digit(1)[of "nat n"]] show ?thesis
    by (simp add: show_int_def Atoi_def Let_def list_all_show_nat)
qed

lemma plain_show_nat: "plain_value (show_nat n)"
  using is_digit_plain hd_show_nat_digit[of n] show_nat_digits[of n] by (auto simp: plain_value_def)

lemma plain_show_int: "plain_value (show_int n)"
  using plain_show_nat[of "nat (- n)"] plain_show_nat[of "nat n"]
  by (auto simp: show_int_def plain_value_def plain_char_def is_space_def is_quote_def)

lemma plain_show_bool: "plain_value (show_bool b)"
  by (simp add: show_bool_def plain_value_def plain_char_def is_space_def is_quote_def)

lemma ParseUint32_show [simp]: "ParseUint32 (show_nat (unat (w :: u32))) = Some w"
  using unsigned_less[of w, where ?'a = nat] by (simp add: ParseUint32_def list_all_show_nat not_le)

lemma ParseBool_show [simp]: "ParseBool (show_bool b) = Some b"
  by (simp add: ParseBool_def show_bool_def)

lemma setters_show [simp]:
  "- (2 ^ 63) \<le> n \<Longrightarrow> n < 2 ^ 63 \<Longrightarrow> setInt (show_int n) dst sec key = Inr (dst n)"
  "setUint32 (show_nat (unat w)) dst' sec key = Inr (dst' w)"
  "setBool (show_bool b) dst'' sec key = Inr (dst'' b)"
  by (simp_all only: setInt_def setUint32_def setBool_def Atoi_show_int ParseUint32_show ParseBool_show option.case)

lemmas plain_defs = plain_key_def plain_char_def is_space_def is_quote_def

lemma apply_epdg:
  assumes "printable cfg"
  shows "apply_settings c0 ''epdg'' (epdg_settings cfg) = Inr (c0\<lparr>c_EPDG := c_EPDG cfg\<rparr>)"
  using assms
  by (simp add: printable_def epdg_settings_def setValue_def set_epdg_def)

lemma apply_ikev2:
  assumes "printable cfg"
  shows "apply_settings c0 ''ikev2'' (ikev2_settings cfg) = Inr (c0\<lparr>c_IKEv2 := c_IKEv2 cfg\<rparr>)"
  using assms
  by (simp add: printable_def ikev2_settings_def setValue_def set_ikev2_def)

lemma apply_logging:
  assumes "printable cfg"
  shows "apply_settings c0 ''logging'' (logging_settings cfg) = Inr (c0\<lparr>c_Logging := c_Logging cfg\<rparr>)"
  using assms
  by (simp add: printable_def logging_settings_def setValue_def set_logging_def)

lemma apply_swm:
  assumes "printable cfg"
  shows "apply_settings c0 ''swm'' (swm_settings cfg) = Inr (c0\<lparr>c_SWM := c_SWM cfg\<rparr>)"
  using assms
  by (simp add: printable_def swm_settings_def setValue_def set_swm_def)

lemma apply_gtp:
  assumes "printable cfg"
  shows "apply_settings c0 ''gtp'' (gtp_settings cfg) = Inr (c0\<lparr>c_GTP := (c_GTP cfg)\<lparr>gt_BPF := gt_BPF (c_GTP c0)\<rparr>\<rparr>)"
  using assms
  by (simp add: printable_def gtp_settings_def setValue_def set_gtp_def)

lemma apply_apn:
  assumes "printable cfg"
  shows "apply_settings c0 ''apn'' (apn_settings cfg) = Inr (c0\<lparr>c_APN := c_APN cfg\<rparr>)"
  using assms
  by (simp add: printable_def apn_settings_def setValue_def set_apn_def)

lemma apply_pco:
  assumes "printable cfg"
  shows "apply_settings c0 ''pco'' (pco_settings cfg) = Inr (c0\<lparr>c_PCO := c_PCO cfg\<rparr>)"
  using assms
  by (simp add: printable_def pco_settings_def setValue_def set_pco_def)

lemma apply_bpf:
  assumes "printable cfg"
  shows "apply_settings c0 ''bpf'' (bpf_settings cfg) = Inr (c0\<lparr>c_GTP := (c_GTP c0)\<lparr>gt_BPF := gt_BPF (c_GTP cfg)\<rparr>\<rparr>)"
  using assms
  by (simp add: printable_def bpf_settings_def setValue_def set_bpf_def)

lemma apply_shutdown:
  assumes "printable cfg"
  shows "apply_settings c0 ''shutdown'' (shutdown_settings cfg) = Inr (c0\<lparr>c_Shutdown := c_Shutdown cfg\<rparr>)"
  using assms
  by (simp add: printable_def shutdown_settings_def setValue_def set_shutdown_def)

lemma apply_pgw_discovery:
  assumes "printable cfg"
  shows "apply_settings c0 ''pgw_discovery'' (pgw_discovery_settings cfg) = Inr (c0\<lparr>c_PGWDiscovery := c_PGWDiscovery cfg\<rparr>)"
  using assms
  by (simp add: printable_def pgw_discovery_settings_def setValue_def set_pgw_discovery_def)

lemma apply_api:
  assumes "printable cfg"
  shows "apply_settings c0 ''api'' (api_settings cfg) = Inr (c0\<lparr>c_API := c_API cfg\<rparr>)"
  using assms
  by (simp add: printable_def api_settings_def setValue_def set_api_def)

lemmas apply_all = apply_epdg apply_ikev2 apply_logging apply_swm apply_gtp apply_apn apply_pco apply_bpf apply_shutdown apply_pgw_discovery apply_api

lemma apply_settings_config: "printable cfg \<Longrightarrow> apply_sections c0 (settings cfg) = Inr cfg"
  by (simp add: settings_def apply_all)

lemma plain_epdg: "printable cfg \<Longrightarrow> list_all (\<lambda>(k, v). plain_key k \<and> plain_value v) (epdg_settings cfg)"
  by (simp add: printable_def epdg_settings_def plain_show_nat plain_show_int plain_show_bool plain_defs)

lemma plain_ikev2: "printable cfg \<Longrightarrow> list_all (\<lambda>(k, v). plain_key k \<and> plain_value v) (ikev2_settings cfg)"
  by (simp add: printable_def ikev2_settings_def plain_show_nat plain_show_int plain_show_bool plain_defs)

lemma plain_logging: "printable cfg \<Longrightarrow> list_all (\<lambda>(k, v). plain_key k \<and> plain_value v) (logging_settings cfg)"
  by (simp add: printable_def logging_settings_def plain_show_nat plain_show_int plain_show_bool plain_defs)

lemma plain_swm: "printable cfg \<Longrightarrow> list_all (\<lambda>(k, v). plain_key k \<and> plain_value v) (swm_settings cfg)"
  by (simp add: printable_def swm_settings_def plain_show_nat plain_show_int plain_show_bool plain_defs)

lemma plain_gtp: "printable cfg \<Longrightarrow> list_all (\<lambda>(k, v). plain_key k \<and> plain_value v) (gtp_settings cfg)"
  by (simp add: printable_def gtp_settings_def plain_show_nat plain_show_int plain_show_bool plain_defs)

lemma plain_apn: "printable cfg \<Longrightarrow> list_all (\<lambda>(k, v). plain_key k \<and> plain_value v) (apn_settings cfg)"
  by (simp add: printable_def apn_settings_def plain_show_nat plain_show_int plain_show_bool plain_defs)

lemma plain_pco: "printable cfg \<Longrightarrow> list_all (\<lambda>(k, v). plain_key k \<and> plain_value v) (pco_settings cfg)"
  by (simp add: printable_def pco_settings_def plain_show_nat plain_show_int plain_show_bool plain_defs)

lemma plain_bpf: "printable cfg \<Longrightarrow> list_all (\<lambda>(k, v). plain_key k \<and> plain_value v) (bpf_settings cfg)"
  by (simp add: printable_def bpf_settings_def plain_show_nat plain_show_int plain_show_bool plain_defs)

lemma plain_shutdown: "printable cfg \<Longrightarrow> list_all (\<lambda>(k, v). plain_key k \<and> plain_value v) (shutdown_settings cfg)"
  by (simp add: printable_def shutdown_settings_def plain_show_nat plain_show_int plain_show_bool plain_defs)

lemma plain_pgw_discovery: "printable cfg \<Longrightarrow> list_all (\<lambda>(k, v). plain_key k \<and> plain_value v) (pgw_discovery_settings cfg)"
  by (simp add: printable_def pgw_discovery_settings_def plain_show_nat plain_show_int plain_show_bool plain_defs)

lemma plain_api: "printable cfg \<Longrightarrow> list_all (\<lambda>(k, v). plain_key k \<and> plain_value v) (api_settings cfg)"
  by (simp add: printable_def api_settings_def plain_show_nat plain_show_int plain_show_bool plain_defs)

lemmas plain_all = plain_epdg plain_ikev2 plain_logging plain_swm plain_gtp plain_apn plain_pco plain_bpf plain_shutdown plain_pgw_discovery plain_api

lemma plain_section_names:
  "plain_key ''epdg''" "plain_key ''ikev2''" "plain_key ''logging''" "plain_key ''swm''" "plain_key ''gtp''" "plain_key ''apn''" "plain_key ''pco''" "plain_key ''bpf''" "plain_key ''shutdown''" "plain_key ''pgw_discovery''" "plain_key ''api''"
  by (simp_all add: plain_defs)

lemma plain_settings:
  "printable cfg \<Longrightarrow> list_all (\<lambda>(s, kvs). plain_key s \<and> list_all (\<lambda>(k, v). plain_key k \<and> plain_value v) kvs) (settings cfg)"
  by (simp add: settings_def plain_all plain_section_names)

lemma load_printed:
  assumes "printable cfg" "Validate cfg = []"
  shows "Load (Some (print_config cfg, False)) = Inr cfg"
  using assms Load_loop_sections[OF plain_settings[OF assms(1)]] apply_settings_config[OF assms(1)]
  by (simp add: Load_def print_config_def)


definition demo_config :: Config where
  "demo_config =
     Default\<lparr>c_EPDG := \<lparr>ep_Name = ''epdg'', ep_Realm = ''r.org'', ep_MCC = ''001'', ep_MNC = ''01'', ep_MNCLength = 2\<rparr>,
       c_SWM := (c_SWM Default)\<lparr>sw_LocalAddr := ''10.0.0.1'', sw_PeerAddr := ''10.0.0.2'', sw_PeerPort := 3868,
         sw_OriginHost := ''h'', sw_OriginRealm := ''r.org'', sw_DestinationRealm := ''d.org''\<rparr>,
       c_GTP := (c_GTP Default)\<lparr>gt_LocalGTPC := ''10.0.0.1'', gt_LocalGTPU := ''10.0.0.1'', gt_PGWGTPC := ''10.0.0.3'',
         gt_BPF := \<lparr>bf_XDPAttachMode = ''generic'', bf_XDPInterface = ''eth0'', bf_MapMaxEntries = 4096\<rparr>\<rparr>,
       c_APN := \<lparr>ap_Default = ''ims''\<rparr>\<rparr>"

lemma demo_config_valid: "Validate demo_config = []"
  by code_simp

lemma demo_config_printable: "printable demo_config"
  by (simp add: printable_def demo_config_def Default_def plain_value_def plain_char_def is_space_def is_quote_def)


section \<open>What the components may rely on\<close>

lemma checks_Nil [simp]:
  "require v n = [] \<longleftrightarrow> v \<noteq> ''''"
  "requireIP v n = [] \<longleftrightarrow> v \<noteq> '''' \<and> ParseIP v \<noteq> []"
  "requirePort p n = [] \<longleftrightarrow> 0 < p \<and> p \<le> 65535"
  "check b m = [] \<longleftrightarrow> \<not> b"
  by (auto simp: require_def requireIP_def requirePort_def check_def)

lemma Load_accepts: "Load f = Inr cfg \<Longrightarrow> Validate cfg = []"
  by (auto simp: Load_def res_bind_eq_Inr split: option.splits prod.splits if_splits)

text \<open>A loaded configuration is usable: the SWm and GTP addresses are IP addresses, the ports fit 16 bits,
  the watchdog and shutdown timers are positive, the MTU is between 576 and 9000, the MNC has 2 or
  3 digits declared and the BPF maps have room.\<close>

theorem Load_usable:
  assumes "Load f = Inr cfg"
  shows "(\<forall>a \<in> {sw_LocalAddr (c_SWM cfg), sw_PeerAddr (c_SWM cfg), gt_LocalGTPC (c_GTP cfg), gt_LocalGTPU (c_GTP cfg), gt_PGWGTPC (c_GTP cfg)}.
            ParseIP a \<noteq> [])
     \<and> (\<forall>p \<in> {sw_PeerPort (c_SWM cfg), gt_LocalPort (c_GTP cfg)}. 0 < p \<and> p < 2 ^ 16)
     \<and> (\<forall>t \<in> {sw_WatchdogIntervalSeconds (c_SWM cfg), sw_WatchdogTimeoutSeconds (c_SWM cfg), sh_TimeoutSeconds (c_Shutdown cfg),
              bf_MapMaxEntries (gt_BPF (c_GTP cfg))}. 0 < t)
     \<and> 576 \<le> gt_MTU (c_GTP cfg) \<and> gt_MTU (c_GTP cfg) \<le> 9000
     \<and> ep_MNCLength (c_EPDG cfg) \<in> {2, 3} \<and> ap_Default (c_APN cfg) \<noteq> ''''
     \<and> ToLower (sw_Proto (c_SWM cfg)) \<in> {''tcp'', ''sctp''}"
  using Load_accepts[OF assms] by (auto simp: Validate_def)

theorem Load_usable_witness: "ParseIP (gt_LocalGTPU (c_GTP demo_config)) \<noteq> []"
  using Load_usable[OF load_printed[OF demo_config_printable demo_config_valid]] by simp

end
