(* ===== verification/SwmClient.thy ===== *)
theory SwmClient
  imports DiameterCodec ConfigLoad
begin

text \<open>
  The SWm client (\<^verbatim>\<open>internal/swm\<close>): EAP packets (\<^verbatim>\<open>eap.go\<close>), the Diameter requests and answers the
  client builds, the reading of the Diameter-EAP-Answer (\<^verbatim>\<open>eapResult\<close>), and the request/answer
  correlation through the \<^verbatim>\<open>pending\<close> map.

  A Go channel of capacity one that waits for an answer is a number; \<open>cl_boxes\<close> holds what has been sent
  into each channel and \<open>cl_waiting\<close> the requests whose caller is still in the \<^verbatim>\<open>select\<close> of
  \<^verbatim>\<open>sendRequestOnConn\<close>.  The pieces of that function, a turn of \<^verbatim>\<open>readLoop\<close> and \<^verbatim>\<open>failPendingLocked\<close> are
  separate steps, interleaved freely by the relation \<open>swm_step\<close>.  Times, connections and the peer are
  arguments; dialling and the socket itself are not modelled.

  Shown: access is granted only on an EAP success with a Diameter success code; a Diameter-EAP-Request
  reaches the server with the identity and the EAP payload the UE presented; answers reach only the
  request they belong to, at most one per request, so that the reading loop never blocks, and after a
  disconnect no caller is left without an answer.
\<close>

section \<open>EAP packets\<close>

datatype eapState = eapStateUnknown | eapStateRequest | eapStateSuccess | eapStateFailure | eapStateInvalid

record EAPInfo =
  ei_State :: eapState
  ei_Description :: string
  ei_Identifier :: byte

datatype swm_error =
    EAPIdentityRequired | EAPIdentityTooLong
  | RequiresNAI | RequiresAPN | RequiresEAPPayload
  | PeerNotOpen | WaitOpenFailed | SendFailed | ContextDone | ClientStopped | ReadFailed diameter_error
  | CEARejected diameter_error | ExpectedCEA u32 bool | CEAResultCode u32

definition IdentityResponse :: "byte \<Rightarrow> string \<Rightarrow> swm_error + bytes" where
  "IdentityResponse ident identity =
     (if identity = '''' then Inl EAPIdentityRequired
      else let len = 5 + length identity in
           if len > 0xffff then Inl EAPIdentityTooLong
           else Inr ([2, ident, of_nat (len div 256), of_nat len, 1] @ str_bytes identity))"

definition eapAKASubtype :: "byte \<Rightarrow> string" where
  "eapAKASubtype subtype =
     (if subtype = 1 then ''challenge''
      else if subtype = 2 then ''authentication rejection''
      else if subtype = 4 then ''synchronization failure''
      else if subtype = 5 then ''identity''
      else if subtype = 12 then ''client error''
      else ''subtype '' @ show_nat (unat subtype))"

definition eapRequestDescription :: "bytes \<Rightarrow> string" where
  "eapRequestDescription data =
     (if data = [] then ''request''
      else if data ! 0 = 1 then ''identity request''
      else if data ! 0 = 23 then
        (if length data \<ge> 2 then ''eap-aka '' @ eapAKASubtype (data ! 1) else ''eap-aka request'')
      else if data ! 0 = 50 then
        (if length data \<ge> 2 then ''eap-aka-prime '' @ eapAKASubtype (data ! 1) else ''eap-aka-prime request'')
      else ''request type '' @ show_nat (unat (data ! 0)))"

definition ParseEAP :: "bytes \<Rightarrow> EAPInfo" where
  "ParseEAP payload =
     (if length payload < 4 then \<lparr>ei_State = eapStateInvalid, ei_Description = ''short header'', ei_Identifier = 0\<rparr>
      else let code = payload ! 0;
               ident = payload ! 1;
               len = unat (payload ! 2) * 256 + unat (payload ! 3)
           in if len < 4 \<or> len > length payload
              then \<lparr>ei_State = eapStateInvalid, ei_Description = ''invalid length'', ei_Identifier = ident\<rparr>
              else if code = 1 then
                (if len < 5
                 then \<lparr>ei_State = eapStateInvalid, ei_Description = ''request missing type'', ei_Identifier = ident\<rparr>
                 else \<lparr>ei_State = eapStateRequest, ei_Description = eapRequestDescription (subslice payload 4 len),
                       ei_Identifier = ident\<rparr>)
              else if code = 3 then \<lparr>ei_State = eapStateSuccess, ei_Description = ''success'', ei_Identifier = ident\<rparr>
              else if code = 4 then \<lparr>ei_State = eapStateFailure, ei_Description = ''failure'', ei_Identifier = ident\<rparr>
              else \<lparr>ei_State = eapStateUnknown, ei_Description = ''code '' @ show_nat (unat code), ei_Identifier = ident\<rparr>)"

section \<open>The client's messages\<close>

abbreviation (input) diameterSuccess :: u32 where "diameterSuccess \<equiv> 2001"
abbreviation (input) diameterLimitedSuccess :: u32 where "diameterLimitedSuccess \<equiv> 2002"

datatype EAPState = EAPStateChallenge | EAPStateSuccess | EAPStateFailure

record EAPRequest =
  er_SessionID :: string
  er_IMSI :: string
  er_NAI :: string
  er_APN :: string
  er_EAPPayload :: bytes

record SwmAPNProfile =
  sp_APN :: string
  sp_AMBRUplink :: u32
  sp_AMBRDownlink :: u32
  sp_AMBRPresent :: bool

record EAPResult =
  rs_SessionID :: string
  rs_ResultCode :: u32
  rs_State :: EAPState
  rs_Allowed :: bool
  rs_IMSI :: string
  rs_NAI :: string
  rs_APN :: string
  rs_Reason :: string
  rs_EAPPayload :: bytes
  rs_MSK :: bytes
  rs_APNProfile :: "SwmAPNProfile option"
  rs_PermanentIdentity :: string

datatype diameterResponse = RespMsg DMessage | RespErr swm_error

text \<open>The client with its two atomic counters, the pending map and the channels behind it.\<close>

record swm_client =
  cl_cfg :: SWMConfig
  cl_open :: bool
  cl_pending :: "u32 \<rightharpoonup> nat"
  cl_nextHop :: u32
  cl_nextEnd :: u32
  cl_boxes :: "nat \<Rightarrow> diameterResponse list"
  cl_waiting :: "nat \<rightharpoonup> u32"
  cl_nextCh :: nat

definition NewClient :: "SWMConfig \<Rightarrow> int \<Rightarrow> swm_client" where
  "NewClient cfg nowNano =
     \<lparr>cl_cfg = cfg, cl_open = False, cl_pending = Map.empty,
      cl_nextHop = of_int nowNano, cl_nextEnd = of_int (nowNano div 1000000000),
      cl_boxes = (\<lambda>_. []), cl_waiting = Map.empty, cl_nextCh = 0\<rparr>"

definition newRequest :: "u32 \<Rightarrow> u32 \<Rightarrow> bool \<Rightarrow> AVP list \<Rightarrow> swm_client \<Rightarrow> DMessage \<times> swm_client" where
  "newRequest command appID proxiable avps c =
     (let hop = cl_nextHop c + 1; e = cl_nextEnd c + 1
      in (\<lparr>d_Flags = (if proxiable then FlagRequest OR FlagProxiable else FlagRequest), d_CommandCode = command,
           d_AppID = appID, d_HopByHop = hop, d_EndToEnd = e, d_AVPs = avps\<rparr>,
          c\<lparr>cl_nextHop := hop, cl_nextEnd := e\<rparr>))"

definition newAnswer :: "DMessage \<Rightarrow> AVP list \<Rightarrow> DMessage" where
  "newAnswer req avps =
     \<lparr>d_Flags = d_Flags req AND NOT FlagRequest, d_CommandCode = d_CommandCode req, d_AppID = d_AppID req,
      d_HopByHop = d_HopByHop req, d_EndToEnd = d_EndToEnd req, d_AVPs = avps\<rparr>"

definition newSTR :: "string \<Rightarrow> u32 \<Rightarrow> swm_client \<Rightarrow> DMessage \<times> swm_client" where
  "newSTR sessionID cause c =
     (let cfg = cl_cfg c in
      newRequest CommandSTR SWMApplicationID True
       ([UTF8AVP AVPSessionID 0 sessionID,
         Uint32AVP AVPAuthApplicationID 0 SWMApplicationID,
         UTF8AVP AVPOriginHost 0 (sw_OriginHost cfg),
         UTF8AVP AVPOriginRealm 0 (sw_OriginRealm cfg),
         UTF8AVP AVPDestinationRealm 0 (sw_DestinationRealm cfg),
         Uint32AVP AVPTerminationCause 0 cause] @
        (if sw_DestinationHost cfg \<noteq> '''' then [UTF8AVP AVPDestinationHost 0 (sw_DestinationHost cfg)] else [])) c)"

definition newDER :: "string \<Rightarrow> string \<Rightarrow> string \<Rightarrow> bytes \<Rightarrow> swm_client \<Rightarrow> DMessage \<times> swm_client" where
  "newDER sessionID nai apn eapPayload c =
     (let cfg = cl_cfg c in
      newRequest CommandDER SWMApplicationID True
       ([UTF8AVP AVPSessionID 0 sessionID,
         Uint32AVP AVPAuthApplicationID 0 SWMApplicationID,
         UTF8AVP AVPOriginHost 0 (sw_OriginHost cfg),
         UTF8AVP AVPOriginRealm 0 (sw_OriginRealm cfg),
         UTF8AVP AVPDestinationRealm 0 (sw_DestinationRealm cfg),
         Uint32AVP AVPAuthRequestType 0 1,
         UTF8AVP AVPUserName 0 nai,
         UTF8AVP AVPServiceSelection 0 apn,
         OctetAVP AVPEAPPayload 0 FlagMandatory eapPayload] @
        (if sw_DestinationHost cfg \<noteq> '''' then [UTF8AVP AVPDestinationHost 0 (sw_DestinationHost cfg)] else [])) c)"

text \<open>\<^verbatim>\<open>localIPv4\<close>: \<open>connLocal\<close> is the local address of the connection, \<^verbatim>\<open>nil\<close> when it is not an IP address.\<close>

definition localIPv4 :: "SWMConfig \<Rightarrow> net_ip \<Rightarrow> bytes" where
  "localIPv4 cfg connLocal =
     (if To4 (ParseIP (sw_LocalAddr cfg)) \<noteq> [] then To4 (ParseIP (sw_LocalAddr cfg))
      else if To4 connLocal \<noteq> [] then To4 connLocal
      else [127, 0, 0, 1])"

definition newCER :: "net_ip \<Rightarrow> u32 \<Rightarrow> swm_client \<Rightarrow> DMessage \<times> swm_client" where
  "newCER connLocal nowUnix c =
     (let cfg = cl_cfg c in
      newRequest CommandCER 0 False
       [UTF8AVP AVPOriginHost 0 (sw_OriginHost cfg),
        UTF8AVP AVPOriginRealm 0 (sw_OriginRealm cfg),
        Uint32AVP AVPOriginStateID 0 nowUnix,
        AddressAVP AVPHostIPAddress (localIPv4 cfg connLocal),
        Uint32AVP AVPVendorID 0 0,
        UTF8AVPFlags AVPProductName 0 0 ''VectorCore ePDG'',
        Uint32AVPFlags AVPFirmwareRevision 0 0 FirmwareRevOne,
        Uint32AVP AVPInbandSecurityID 0 InbandNoSec,
        Uint32AVP AVPAuthApplicationID 0 SWMApplicationID,
        Uint32AVP AVPSupportedVendorID 0 Vendor3GPP,
        Uint32AVP AVPSupportedVendorID 0 VendorETSI,
        GroupedAVP AVPVendorSpecificApplicationID 0
          [Uint32AVP AVPVendorID 0 SWMVendorID, Uint32AVP AVPAuthApplicationID 0 SWMApplicationID]] c)"

text \<open>
  \<^verbatim>\<open>handshake\<close>: the bytes written, whether the write succeeded (\<open>wr\<close>), and the peer's byte stream.  The
  result is the error, if any, with the client, the bytes sent and the rest of the stream.
\<close>

definition handshake :: "net_ip \<Rightarrow> u32 \<Rightarrow> bool \<Rightarrow> bytes \<Rightarrow> swm_client \<Rightarrow> (swm_error + bytes) \<times> bytes \<times> swm_client" where
  "handshake connLocal nowUnix wr stream c =
     (case newCER connLocal nowUnix c of
        (cer, c') \<Rightarrow>
          let sent = Encode_message cer in
          if \<not> wr then (Inl SendFailed, [], c')
          else (case DecodeMessage stream of
                  Inl e \<Rightarrow> Inl (CEARejected e)
                | Inr (cea, rest) \<Rightarrow>
                    if d_CommandCode cea \<noteq> CommandCER \<or> IsRequest cea
                    then Inl (ExpectedCEA (d_CommandCode cea) (IsRequest cea))
                    else let rc = (case AVPUint32 (d_AVPs cea) AVPResultCode 0 of Some v \<Rightarrow> v | None \<Rightarrow> 0) in
                         if rc \<noteq> diameterSuccess \<and> rc \<noteq> diameterLimitedSuccess then Inl (CEAResultCode rc)
                         else Inr rest, sent, c'))"

definition handleRequest :: "SWMConfig \<Rightarrow> DMessage \<Rightarrow> bytes list" where
  "handleRequest cfg req =
     (if d_CommandCode req = CommandDWR
      then [Encode_message (newAnswer req
             [UTF8AVP AVPOriginHost 0 (sw_OriginHost cfg), UTF8AVP AVPOriginRealm 0 (sw_OriginRealm cfg),
              Uint32AVP AVPResultCode 0 diameterSuccess])]
      else [])"

definition newDWR :: "swm_client \<Rightarrow> DMessage \<times> swm_client" where
  "newDWR c =
     newRequest CommandDWR 0 False
      [UTF8AVP AVPOriginHost 0 (sw_OriginHost (cl_cfg c)), UTF8AVP AVPOriginRealm 0 (sw_OriginRealm (cl_cfg c))] c"

section \<open>Reading the answer\<close>

definition resultReason :: "u32 \<Rightarrow> string" where
  "resultReason code =
     (if code = diameterSuccess then ''diameter success''
      else if code = diameterLimitedSuccess then ''diameter limited success''
      else if code = 5001 then ''user unknown''
      else if code = 5003 then ''authorization rejected''
      else if code = 0 then ''missing result code''
      else ''diameter result code '' @ show_nat (unat code))"

text \<open>
  The source ranges over the runes of \<^verbatim>\<open>local\<close>; a byte that is not ASCII starts a rune above \<^verbatim>\<open>'9'\<close> (or the
  replacement rune), so testing the bytes gives the same answer.
\<close>

definition permanentIMSIFromUserName :: "string \<Rightarrow> string option" where
  "permanentIMSIFromUserName userName =
     (let loc = takeWhile (\<lambda>c. c \<noteq> CHR ''@'') userName in
      if length loc < 6 \<or> length loc > 15 then None
      else if list_all is_digit loc then Some loc else None)"

fun avpUint32AnyVendor :: "AVP list \<Rightarrow> u32 \<Rightarrow> u32 list \<Rightarrow> u32 option" where
  "avpUint32AnyVendor avps code [] = None"
| "avpUint32AnyVendor avps code (vendor # vendors) =
     (case AVPUint32 avps code vendor of Some v \<Rightarrow> Some v | None \<Rightarrow> avpUint32AnyVendor avps code vendors)"

text \<open>\<^verbatim>\<open>strings.EqualFold\<close> on ASCII text.\<close>

definition EqualFold :: "string \<Rightarrow> string \<Rightarrow> bool" where
  "EqualFold s t = (ToLower s = ToLower t)"

definition with_ambr :: "AVP list \<Rightarrow> SwmAPNProfile \<Rightarrow> SwmAPNProfile" where
  "with_ambr children p =
     (case FindAVP children AVPAMBR Vendor3GPP of
        None \<Rightarrow> p
      | Some ambr \<Rightarrow>
          (case DecodeAVPs (a_Data ambr) of
             Inl _ \<Rightarrow> p
           | Inr kids \<Rightarrow>
               let p = (case avpUint32AnyVendor kids AVPMaxRequestedBandwidthUL [0, Vendor3GPP] of
                          None \<Rightarrow> p | Some ul \<Rightarrow> p\<lparr>sp_AMBRUplink := ul, sp_AMBRPresent := True\<rparr>)
               in (case avpUint32AnyVendor kids AVPMaxRequestedBandwidthDL [0, Vendor3GPP] of
                     None \<Rightarrow> p | Some dl \<Rightarrow> p\<lparr>sp_AMBRDownlink := dl, sp_AMBRPresent := True\<rparr>)))"

fun parseAPNProfileFromAVPs :: "AVP list \<Rightarrow> string \<Rightarrow> SwmAPNProfile option" where
  "parseAPNProfileFromAVPs [] requested = None"
| "parseAPNProfileFromAVPs (a # avps) requested =
     (if a_Code a \<noteq> AVPAPNConfiguration \<or> a_VendorID a \<noteq> Vendor3GPP then parseAPNProfileFromAVPs avps requested
      else case DecodeAVPs (a_Data a) of
             Inl _ \<Rightarrow> parseAPNProfileFromAVPs avps requested
           | Inr children \<Rightarrow>
               let apn = AVPString children AVPServiceSelection 0 in
               if apn \<noteq> '''' \<and> requested \<noteq> '''' \<and> \<not> EqualFold apn requested then parseAPNProfileFromAVPs avps requested
               else Some (with_ambr children \<lparr>sp_APN = apn, sp_AMBRUplink = 0, sp_AMBRDownlink = 0, sp_AMBRPresent = False\<rparr>))"

fun parseAPNProfile_nested :: "AVP list \<Rightarrow> string \<Rightarrow> SwmAPNProfile option" where
  "parseAPNProfile_nested [] requested = None"
| "parseAPNProfile_nested (a # avps) requested =
     (if a_Code a \<noteq> AVPNon3GPPUserData \<or> a_VendorID a \<noteq> Vendor3GPP then parseAPNProfile_nested avps requested
      else case DecodeAVPs (a_Data a) of
             Inl _ \<Rightarrow> parseAPNProfile_nested avps requested
           | Inr children \<Rightarrow>
               (case parseAPNProfileFromAVPs children requested of
                  Some p \<Rightarrow> Some p
                | None \<Rightarrow> parseAPNProfile_nested avps requested))"

definition parseAPNProfile :: "AVP list \<Rightarrow> string \<Rightarrow> SwmAPNProfile option" where
  "parseAPNProfile avps requested =
     (case parseAPNProfileFromAVPs avps requested of
        Some p \<Rightarrow> Some p
      | None \<Rightarrow> parseAPNProfile_nested avps requested)"

definition result_code :: "AVP list \<Rightarrow> u32" where
  "result_code avps =
     (case AVPUint32 avps AVPResultCode 0 of
        Some v \<Rightarrow> v
      | None \<Rightarrow> (case ExperimentalResultCode avps of Some v \<Rightarrow> v | None \<Rightarrow> 0))"

definition code_ok :: "u32 \<Rightarrow> bool" where
  "code_ok rc = (rc = diameterSuccess \<or> rc = diameterLimitedSuccess)"

text \<open>State, allowed, reason and response payload, from the EAP payload AVP and the result code.\<close>

definition eap_outcome :: "AVP list \<Rightarrow> u32 \<Rightarrow> EAPState \<times> bool \<times> string \<times> bytes" where
  "eap_outcome avps rc =
     (case FindAVP avps AVPEAPPayload 0 of
        Some p \<Rightarrow>
          (let eap = ParseEAP (a_Data p) in
           case ei_State eap of
             eapStateRequest \<Rightarrow> (EAPStateChallenge, False, ei_Description eap, a_Data p)
           | eapStateSuccess \<Rightarrow> (EAPStateSuccess, code_ok rc, ''eap success'', a_Data p)
           | eapStateFailure \<Rightarrow> (EAPStateFailure, False, ''eap failure'', a_Data p)
           | _ \<Rightarrow> (EAPStateFailure, False, ''invalid or unsupported eap payload: '' @ ei_Description eap, a_Data p))
      | None \<Rightarrow>
          if code_ok rc then (EAPStateSuccess, True, resultReason rc, [])
          else (EAPStateFailure, False, resultReason rc, []))"

definition eapResult :: "EAPRequest \<Rightarrow> string \<Rightarrow> DMessage \<Rightarrow> EAPResult" where
  "eapResult req sessionID answer =
     (let avps = d_AVPs answer;
          rc = result_code avps
      in case eap_outcome avps rc of
           (state, allowed, reason, payload) \<Rightarrow>
             let ok = (state = EAPStateSuccess \<and> allowed);
                 msk = (if ok then case FindAVP avps AVPEAPMasterSessionKey 0 of
                                     Some key \<Rightarrow> if length (a_Data key) = 64 then a_Data key else []
                                   | None \<Rightarrow> []
                        else []);
                 userName = AVPString avps AVPUserName 0;
                 perm = (if ok \<and> userName \<noteq> '''' then case permanentIMSIFromUserName userName of Some imsi \<Rightarrow> imsi | None \<Rightarrow> ''''
                         else '''')
             in \<lparr>rs_SessionID = sessionID, rs_ResultCode = rc, rs_State = state, rs_Allowed = allowed,
                 rs_IMSI = er_IMSI req, rs_NAI = er_NAI req, rs_APN = er_APN req, rs_Reason = reason,
                 rs_EAPPayload = payload, rs_MSK = msk, rs_APNProfile = parseAPNProfile avps (er_APN req),
                 rs_PermanentIdentity = perm\<rparr>)"

text \<open>
  \<^verbatim>\<open>ExchangeEAP\<close>: \<open>opened\<close> is the outcome of \<^verbatim>\<open>waitOpen\<close> and \<open>exchange\<close> the outcome of \<^verbatim>\<open>sendRequest\<close> for the
  request that is sent.
\<close>

definition ExchangeEAP ::
  "EAPRequest \<Rightarrow> int \<Rightarrow> swm_error option \<Rightarrow> (DMessage \<Rightarrow> swm_error + DMessage) \<Rightarrow> swm_client \<Rightarrow> (swm_error + EAPResult) \<times> swm_client" where
  "ExchangeEAP req nowNano opened exchange c =
     (if er_NAI req = '''' then (Inl RequiresNAI, c)
      else if er_APN req = '''' then (Inl RequiresAPN, c)
      else if er_EAPPayload req = [] then (Inl RequiresEAPPayload, c)
      else case opened of
             Some e \<Rightarrow> (Inl e, c)
           | None \<Rightarrow>
               let sessionID = (if er_SessionID req = ''''
                                then sw_OriginHost (cl_cfg c) @ '';'' @ show_nat (nat nowNano) else er_SessionID req)
               in case newDER sessionID (er_NAI req) (er_APN req) (er_EAPPayload req) c of
                    (msg, c') \<Rightarrow> (res_map (eapResult req sessionID) (exchange msg), c'))"

definition terminateSessionWithCause ::
  "string \<Rightarrow> u32 \<Rightarrow> swm_error option \<Rightarrow> (DMessage \<Rightarrow> swm_error + DMessage) \<Rightarrow> swm_client \<Rightarrow> swm_error option \<times> swm_client" where
  "terminateSessionWithCause sessionID cause opened exchange c =
     (case opened of
        Some e \<Rightarrow> (Some e, c)
      | None \<Rightarrow>
          (case newSTR sessionID cause c of
             (msg, c') \<Rightarrow> (case exchange msg of Inl e \<Rightarrow> Some e | Inr _ \<Rightarrow> None, c')))"

definition TerminateSession ::
  "string \<Rightarrow> swm_error option \<Rightarrow> (DMessage \<Rightarrow> swm_error + DMessage) \<Rightarrow> swm_client \<Rightarrow> swm_error option \<times> swm_client" where
  "TerminateSession sessionID = terminateSessionWithCause sessionID 1"

definition TerminateSessionHandover ::
  "string \<Rightarrow> swm_error option \<Rightarrow> (DMessage \<Rightarrow> swm_error + DMessage) \<Rightarrow> swm_client \<Rightarrow> swm_error option \<times> swm_client" where
  "TerminateSessionHandover sessionID = terminateSessionWithCause sessionID 8"

section \<open>Timers and addresses\<close>

text \<open>Durations in seconds.\<close>

definition watchdogInterval :: "SWMConfig \<Rightarrow> int" where
  "watchdogInterval cfg = (if sw_WatchdogIntervalSeconds cfg > 0 then sw_WatchdogIntervalSeconds cfg else 30)"

definition watchdogTimeout :: "SWMConfig \<Rightarrow> int" where
  "watchdogTimeout cfg = (if sw_WatchdogTimeoutSeconds cfg > 0 then sw_WatchdogTimeoutSeconds cfg else 10)"

definition minDuration :: "int \<Rightarrow> int \<Rightarrow> int" where
  "minDuration a b = (if a < b then a else b)"

definition peerAddr :: "SWMConfig \<Rightarrow> string" where
  "peerAddr cfg = sw_PeerAddr cfg @ '':'' @ show_int (sw_PeerPort cfg)"

text \<open>
  One turn of \<^verbatim>\<open>connectLoop\<close> up to the established connection: from the outcome of the dial and of the
  handshake, the seconds slept, the next back-off and whether the peer is ready.
\<close>

datatype dial_outcome = DialFailed | HandshakeFailed | Connected

definition connect_turn :: "dial_outcome \<Rightarrow> int \<Rightarrow> int \<times> int \<times> bool" where
  "connect_turn out backoff =
     (case out of
        DialFailed \<Rightarrow> (backoff, minDuration (backoff * 2) 30, False)
      | HandshakeFailed \<Rightarrow> (1, 1, False)
      | Connected \<Rightarrow> (0, 1, True))"

section \<open>Requests in flight\<close>

definition register :: "DMessage \<Rightarrow> swm_client \<Rightarrow> swm_client" where
  "register req c =
     c\<lparr>cl_pending := (cl_pending c)(d_HopByHop req \<mapsto> cl_nextCh c),
       cl_waiting := (cl_waiting c)(cl_nextCh c \<mapsto> d_HopByHop req),
       cl_nextCh := Suc (cl_nextCh c)\<rparr>"

text \<open>The error branch of the write and the \<^verbatim>\<open>ctx.Done\<close> branch both drop the entry and return.\<close>

definition abandon :: "nat \<Rightarrow> u32 \<Rightarrow> swm_client \<Rightarrow> swm_client" where
  "abandon ch hop c = c\<lparr>cl_pending := (cl_pending c)(hop := None), cl_waiting := (cl_waiting c)(ch := None)\<rparr>"

definition take_response :: "nat \<Rightarrow> swm_client \<Rightarrow> (diameterResponse \<times> swm_client) option" where
  "take_response ch c =
     (case cl_boxes c ch of
        [] \<Rightarrow> None
      | r # rs \<Rightarrow> Some (r, c\<lparr>cl_boxes := (cl_boxes c)(ch := rs), cl_waiting := (cl_waiting c)(ch := None)\<rparr>))"

definition readLoop_turn :: "DMessage \<Rightarrow> swm_client \<Rightarrow> bytes list \<times> swm_client" where
  "readLoop_turn msg c =
     (if IsRequest msg then (handleRequest (cl_cfg c) msg, c)
      else ([], let c' = c\<lparr>cl_pending := (cl_pending c)(d_HopByHop msg := None)\<rparr> in
                case cl_pending c (d_HopByHop msg) of
                  None \<Rightarrow> c'
                | Some ch \<Rightarrow> c'\<lparr>cl_boxes := (cl_boxes c)(ch := cl_boxes c ch @ [RespMsg msg])\<rparr>))"

text \<open>\<^verbatim>\<open>failPendingLocked\<close> visits the map in the order \<open>hops\<close>.\<close>

fun failPendingLocked :: "u32 list \<Rightarrow> swm_error \<Rightarrow> swm_client \<Rightarrow> swm_client" where
  "failPendingLocked [] err c = c"
| "failPendingLocked (hop # hops) err c =
     (case cl_pending c hop of
        None \<Rightarrow> failPendingLocked hops err c
      | Some ch \<Rightarrow>
          failPendingLocked hops err
            (c\<lparr>cl_pending := (cl_pending c)(hop := None), cl_boxes := (cl_boxes c)(ch := cl_boxes c ch @ [RespErr err])\<rparr>))"

definition disconnected :: "u32 list \<Rightarrow> swm_error \<Rightarrow> swm_client \<Rightarrow> swm_client" where
  "disconnected hops err c = failPendingLocked hops err (c\<lparr>cl_open := False\<rparr>)"

definition sendRequest :: "DMessage \<Rightarrow> swm_client \<Rightarrow> swm_error + swm_client" where
  "sendRequest req c = (if \<not> cl_open c then Inl PeerNotOpen else Inr (register req c))"

text \<open>
  Reachable client states.  With \<open>fresh\<close> a request is registered under an identifier no waiting
  request has, which the counter guarantees as long as fewer than \<open>2 ^ 32\<close> requests are made while
  one of them waits.
\<close>

inductive swm_reachable :: "bool \<Rightarrow> SWMConfig \<Rightarrow> swm_client \<Rightarrow> bool" for fresh cfg where
  start: "swm_reachable fresh cfg (NewClient cfg now)"
| connected: "swm_reachable fresh cfg c \<Longrightarrow> swm_reachable fresh cfg (c\<lparr>cl_open := True\<rparr>)"
| numbered: "swm_reachable fresh cfg c \<Longrightarrow> swm_reachable fresh cfg (snd (newRequest cmd app prox avps c))"
| sent: "swm_reachable fresh cfg c \<Longrightarrow> sendRequest req c = Inr c' \<Longrightarrow>
    (fresh \<longrightarrow> (\<forall>ch. cl_waiting c ch \<noteq> Some (d_HopByHop req))) \<Longrightarrow> swm_reachable fresh cfg c'"
| given_up: "swm_reachable fresh cfg c \<Longrightarrow> cl_waiting c ch = Some hop \<Longrightarrow> swm_reachable fresh cfg (abandon ch hop c)"
| answered: "swm_reachable fresh cfg c \<Longrightarrow> cl_waiting c ch = Some hop \<Longrightarrow> take_response ch c = Some (r, c') \<Longrightarrow>
    swm_reachable fresh cfg c'"
| received: "swm_reachable fresh cfg c \<Longrightarrow> swm_reachable fresh cfg (snd (readLoop_turn msg c))"
| lost: "swm_reachable fresh cfg c \<Longrightarrow> dom (cl_pending c) \<subseteq> set hops \<Longrightarrow> swm_reachable fresh cfg (disconnected hops err c)"
| stopped: "swm_reachable fresh cfg c \<Longrightarrow> dom (cl_pending c) \<subseteq> set hops \<Longrightarrow>
    swm_reachable fresh cfg (failPendingLocked hops ClientStopped c)"

definition swm_inv :: "bool \<Rightarrow> swm_client \<Rightarrow> bool" where
  "swm_inv fresh c \<longleftrightarrow>
     (\<forall>hop ch. cl_pending c hop = Some ch \<longrightarrow> cl_waiting c ch = Some hop \<and> cl_boxes c ch = []) \<and>
     (\<forall>ch. length (cl_boxes c ch) \<le> 1) \<and>
     (\<forall>ch hop m. cl_waiting c ch = Some hop \<and> RespMsg m \<in> set (cl_boxes c ch) \<longrightarrow> d_HopByHop m = hop \<and> \<not> IsRequest m) \<and>
     (\<forall>ch. cl_nextCh c \<le> ch \<longrightarrow> cl_boxes c ch = [] \<and> cl_waiting c ch = None) \<and>
     (fresh \<longrightarrow> (\<forall>ch hop. cl_waiting c ch = Some hop \<longrightarrow> cl_pending c hop = Some ch \<or> cl_boxes c ch \<noteq> []) \<and>
                (\<forall>ch ch' hop. cl_waiting c ch = Some hop \<and> cl_waiting c ch' = Some hop \<longrightarrow> ch = ch'))"

lemma swm_inv_cong:
  "swm_inv fresh c \<Longrightarrow> cl_pending c' = cl_pending c \<Longrightarrow> cl_waiting c' = cl_waiting c \<Longrightarrow> cl_boxes c' = cl_boxes c \<Longrightarrow>
   cl_nextCh c' = cl_nextCh c \<Longrightarrow> swm_inv fresh c'"
  by (simp add: swm_inv_def)

lemma swm_inv_register:
  "swm_inv fresh c \<Longrightarrow> (fresh \<longrightarrow> (\<forall>ch. cl_waiting c ch \<noteq> Some (d_HopByHop req))) \<Longrightarrow> swm_inv fresh (register req c)"
  unfolding swm_inv_def register_def by (auto split: if_splits)

lemma swm_inv_abandon: "swm_inv fresh c \<Longrightarrow> cl_waiting c ch = Some hop \<Longrightarrow> swm_inv fresh (abandon ch hop c)"
  unfolding swm_inv_def abandon_def by (auto split: if_splits)

lemma swm_inv_take:
  "swm_inv fresh c \<Longrightarrow> take_response ch c = Some (r, c') \<Longrightarrow> swm_inv fresh c'"
proof -
  assume inv: "swm_inv fresh c" and "take_response ch c = Some (r, c')"
  then obtain rs where b: "cl_boxes c ch = r # rs"
    and c': "c' = c\<lparr>cl_boxes := (cl_boxes c)(ch := rs), cl_waiting := (cl_waiting c)(ch := None)\<rparr>"
    by (auto simp: take_response_def split: list.splits)
  have "length (cl_boxes c ch) \<le> 1" using inv by (simp add: swm_inv_def)
  with b have "rs = []" by simp
  with inv b show "swm_inv fresh c'" unfolding swm_inv_def c' by (auto split: if_splits)
qed

lemma swm_inv_deliver:
  assumes inv: "swm_inv fresh c" and p: "cl_pending c hop = Some ch"
    and r: "\<And>m. r = RespMsg m \<Longrightarrow> d_HopByHop m = hop \<and> \<not> IsRequest m"
  shows "swm_inv fresh (c\<lparr>cl_pending := (cl_pending c)(hop := None), cl_boxes := (cl_boxes c)(ch := cl_boxes c ch @ [r])\<rparr>)"
    (is "swm_inv fresh ?d")
proof -
  have w: "cl_waiting c ch = Some hop" and b: "cl_boxes c ch = []" using inv p by (auto simp: swm_inv_def)
  have n: "\<not> cl_nextCh c \<le> ch" using inv w by (auto simp: swm_inv_def)
  show ?thesis
    unfolding swm_inv_def
  proof (intro conjI impI)
    show "\<forall>x y. cl_pending ?d x = Some y \<longrightarrow> cl_waiting ?d y = Some x \<and> cl_boxes ?d y = []"
      using inv w by (auto simp: swm_inv_def split: if_splits)
  qed (use inv w b n r in \<open>auto simp: swm_inv_def split: if_splits\<close>)
qed

lemma swm_inv_read: "swm_inv fresh c \<Longrightarrow> swm_inv fresh (snd (readLoop_turn msg c))"
proof (cases "cl_pending c (d_HopByHop msg)")
  case None
  assume inv: "swm_inv fresh c"
  from None have "(cl_pending c)(d_HopByHop msg := None) = cl_pending c" by auto
  with inv None show ?thesis by (simp add: readLoop_turn_def)
next
  case (Some ch)
  assume inv: "swm_inv fresh c"
  from swm_inv_deliver[OF inv Some, of "RespMsg msg"] inv Some show ?thesis by (auto simp: readLoop_turn_def Let_def)
qed

lemma swm_inv_fail: "swm_inv fresh c \<Longrightarrow> swm_inv fresh (failPendingLocked hops err c)"
proof (induction hops arbitrary: c)
  case (Cons hop hops)
  then show ?case using swm_inv_deliver[OF Cons.prems, of hop _ "RespErr err"] by (auto split: option.splits)
qed simp

lemma swm_reachable_inv: "swm_reachable fresh cfg c \<Longrightarrow> swm_inv fresh c"
proof (induction rule: swm_reachable.induct)
  case (start now)
  show ?case by (simp add: swm_inv_def NewClient_def)
next
  case (connected c)
  from connected.IH show ?case by (rule swm_inv_cong) simp_all
next
  case (numbered c cmd app prox avps)
  from numbered.IH show ?case by (rule swm_inv_cong) (simp_all add: newRequest_def Let_def)
next
  case (sent c req c')
  then show ?case by (auto simp: sendRequest_def swm_inv_register split: if_splits)
next
  case (given_up c ch hop)
  then show ?case by (simp add: swm_inv_abandon)
next
  case (answered c ch hop r c')
  then show ?case by (simp add: swm_inv_take)
next
  case (received c msg)
  then show ?case by (simp add: swm_inv_read)
next
  case (lost c hops err)
  have "swm_inv fresh (c\<lparr>cl_open := False\<rparr>)" using lost.IH by (rule swm_inv_cong) simp_all
  then show ?case by (simp add: disconnected_def swm_inv_fail)
next
  case (stopped c hops)
  then show ?case by (simp add: swm_inv_fail)
qed

lemma swm_inv_boxD:
  "swm_inv fresh c \<Longrightarrow> cl_waiting c ch = Some hop \<Longrightarrow> RespMsg m \<in> set (cl_boxes c ch) \<Longrightarrow> d_HopByHop m = hop \<and> \<not> IsRequest m"
  unfolding swm_inv_def by blast

lemma swm_inv_pendingD: "swm_inv fresh c \<Longrightarrow> cl_pending c hop = Some ch \<Longrightarrow> cl_boxes c ch = [] \<and> cl_waiting c ch = Some hop"
  unfolding swm_inv_def by blast

text \<open>C21.  Whatever the order of requests, answers, timeouts, disconnects and restarts, an answer reaches only
  the caller whose request carried its Hop-by-Hop identifier, and the channel the reading loop sends into
  always has room, so that the loop never blocks on a slow caller.\<close>

theorem answers_correlated:
  assumes "swm_reachable fresh cfg c"
  shows "(take_response ch c = Some (RespMsg m, c') \<and> cl_waiting c ch = Some hop \<longrightarrow> d_HopByHop m = hop \<and> \<not> IsRequest m)
     \<and> (cl_pending c hop = Some ch \<longrightarrow> cl_boxes c ch = [] \<and> cl_waiting c ch = Some hop)"
proof -
  have "swm_inv fresh c" using assms by (rule swm_reachable_inv)
  from swm_inv_boxD[OF this] swm_inv_pendingD[OF this] show ?thesis
    by (fastforce simp: take_response_def split: list.splits)
qed

lemma failPendingLocked_pending: "cl_pending (failPendingLocked hops err c) = (\<lambda>h. if h \<in> set hops then None else cl_pending c h)"
  by (induction hops arbitrary: c) (auto split: option.splits)

lemma failPendingLocked_waiting [simp]: "cl_waiting (failPendingLocked hops err c) = cl_waiting c"
  by (induction hops arbitrary: c) (auto split: option.splits)

text \<open>C22.  No caller is left hanging when the connection goes away: as long as requests in flight have different
  Hop-by-Hop identifiers, after a disconnect every caller still waiting finds an answer or an error in
  its channel, and nothing stays pending.\<close>

theorem disconnect_releases_callers:
  assumes "swm_reachable True cfg c" "dom (cl_pending c) \<subseteq> set hops"
  shows "(\<forall>ch hop. cl_waiting c ch = Some hop \<longrightarrow> (\<exists>r c'. take_response ch (disconnected hops err c) = Some (r, c')))
     \<and> cl_pending (disconnected hops err c) = Map.empty"
proof -
  let ?c = "c\<lparr>cl_open := False\<rparr>"
  have "swm_inv True c" using assms(1) by (rule swm_reachable_inv)
  then have "swm_inv True ?c" by (rule swm_inv_cong) simp_all
  then have inv: "swm_inv True (disconnected hops err c)" unfolding disconnected_def by (rule swm_inv_fail)
  have p: "cl_pending (disconnected hops err c) = Map.empty"
    using assms(2) by (auto simp: disconnected_def failPendingLocked_pending fun_eq_iff dom_def)
  have w: "cl_waiting (disconnected hops err c) = cl_waiting c" by (simp add: disconnected_def)
  have "\<exists>r c'. take_response ch (disconnected hops err c) = Some (r, c')" if "cl_waiting c ch = Some hop" for ch hop
  proof -
    have "cl_boxes (disconnected hops err c) ch \<noteq> []" using inv that unfolding swm_inv_def w p by auto
    then show ?thesis by (auto simp: take_response_def neq_Nil_conv)
  qed
  then show ?thesis using p by blast
qed

definition demo_swm_cfg :: SWMConfig where
  "demo_swm_cfg = c_SWM demo_config"

definition demo_der :: "DMessage \<times> swm_client" where
  "demo_der = newDER ''s'' ''0001@nai'' ''ims'' [2, 1, 0, 5, 1] ((NewClient demo_swm_cfg 7)\<lparr>cl_open := True\<rparr>)"

definition demo_inflight :: swm_client where
  "demo_inflight = register (fst demo_der) (snd demo_der)"

lemma demo_inflight_reachable: "swm_reachable fresh demo_swm_cfg demo_inflight"
proof -
  have "swm_reachable fresh demo_swm_cfg (snd demo_der)"
    unfolding demo_der_def newDER_def Let_def by (intro swm_reachable.numbered swm_reachable.connected swm_reachable.start)
  then show ?thesis
    by (rule swm_reachable.sent[where req = "fst demo_der"])
      (simp_all add: demo_inflight_def sendRequest_def demo_der_def newDER_def newRequest_def Let_def NewClient_def)
qed

theorem answers_correlated_witness: "cl_boxes demo_inflight 0 = [] \<and> cl_waiting demo_inflight 0 = Some 8"
  using answers_correlated[OF demo_inflight_reachable[of True], of 0 undefined undefined 8]
  by (simp add: demo_inflight_def register_def demo_der_def newDER_def newRequest_def Let_def NewClient_def)

lemma demo_inflight_dom: "dom (cl_pending demo_inflight) \<subseteq> set [8]"
  by (simp add: demo_inflight_def register_def demo_der_def newDER_def newRequest_def Let_def NewClient_def)

theorem disconnect_releases_callers_witness:
  "\<exists>r c'. take_response 0 (disconnected [8] (ReadFailed ReadEOF) demo_inflight) = Some (r, c')"
proof -
  have "cl_waiting demo_inflight 0 = Some 8"
    by (simp add: demo_inflight_def register_def demo_der_def newDER_def newRequest_def Let_def NewClient_def)
  then show ?thesis
    using disconnect_releases_callers[OF demo_inflight_reachable demo_inflight_dom, of "ReadFailed ReadEOF"] by blast
qed

section \<open>Authorisation\<close>

lemma ParseEAP_success: "ei_State (ParseEAP p) = eapStateSuccess \<Longrightarrow> 4 \<le> length p \<and> p ! 0 = 3"
  by (auto simp: ParseEAP_def Let_def split: if_splits)

lemma eap_outcome_allowed:
  "eap_outcome avps rc = (st, True, reason, payload) \<Longrightarrow>
   st = EAPStateSuccess \<and> code_ok rc \<and> (\<forall>p. FindAVP avps AVPEAPPayload 0 = Some p \<longrightarrow> 4 \<le> length (a_Data p) \<and> a_Data p ! 0 = 3)"
  by (auto simp: eap_outcome_def Let_def dest!: ParseEAP_success split: option.splits eapState.splits if_splits)

text \<open>C23.  The AAA server's word is needed: a UE is allowed only when the answer has a Diameter success code and
  its EAP payload, if there is one, is an EAP Success packet; a master session key is taken over only
  then and has 64 bytes, and a permanent identity only then and is an IMSI of 6 to 15 digits.\<close>

theorem eapResult_authorises:
  "let r = eapResult req sid answer in
     (rs_Allowed r \<longrightarrow> rs_State r = EAPStateSuccess \<and> rs_ResultCode r \<in> {diameterSuccess, diameterLimitedSuccess} \<and>
        (\<forall>p. FindAVP (d_AVPs answer) AVPEAPPayload 0 = Some p \<longrightarrow> 4 \<le> length (a_Data p) \<and> a_Data p ! 0 = 3))
     \<and> (rs_MSK r \<noteq> [] \<longrightarrow> rs_Allowed r \<and> length (rs_MSK r) = 64)
     \<and> (rs_PermanentIdentity r \<noteq> '''' \<longrightarrow> rs_Allowed r \<and> list_all is_digit (rs_PermanentIdentity r) \<and>
          6 \<le> length (rs_PermanentIdentity r) \<and> length (rs_PermanentIdentity r) \<le> 15)"
proof -
  obtain st al reason payload where o: "eap_outcome (d_AVPs answer) (result_code (d_AVPs answer)) = (st, al, reason, payload)"
    by (cases "eap_outcome (d_AVPs answer) (result_code (d_AVPs answer))") auto
  have a: "al \<Longrightarrow> st = EAPStateSuccess \<and> code_ok (result_code (d_AVPs answer)) \<and>
      (\<forall>p. FindAVP (d_AVPs answer) AVPEAPPayload 0 = Some p \<longrightarrow> 4 \<le> length (a_Data p) \<and> a_Data p ! 0 = 3)"
    using o by (cases al) (auto dest: eap_outcome_allowed)
  show ?thesis
    using a by (auto simp: eapResult_def o Let_def code_ok_def permanentIMSIFromUserName_def split: option.splits if_splits)
qed

definition demo_dea :: DMessage where
  "demo_dea = \<lparr>d_Flags = 0x40, d_CommandCode = CommandDER, d_AppID = SWMApplicationID, d_HopByHop = 8, d_EndToEnd = 1,
     d_AVPs = [Uint32AVP AVPResultCode 0 2001, OctetAVP AVPEAPPayload 0 FlagMandatory [3, 1, 0, 4],
               OctetAVP AVPEAPMasterSessionKey 0 FlagMandatory (replicate 64 7), UTF8AVP AVPUserName 0 ''001010000000001@r'']\<rparr>"

definition demo_eap_request :: EAPRequest where
  "demo_eap_request = \<lparr>er_SessionID = '''', er_IMSI = '''', er_NAI = ''0001@nai'', er_APN = ''ims'', er_EAPPayload = [2, 1, 0, 5, 1]\<rparr>"

lemma demo_eap_allowed: "rs_MSK (eapResult demo_eap_request ''s'' demo_dea) \<noteq> []"
  by (simp add: eapResult_def eap_outcome_def result_code_def demo_dea_def Uint32AVP_def UTF8AVP_def OctetAVP_def
      Uint32AVPFlags_def UTF8AVPFlags_def AVPUint32_def ParseEAP_def Let_def subslice_def code_ok_def)

theorem eapResult_authorises_witness:
  "rs_Allowed (eapResult demo_eap_request ''s'' demo_dea) \<and> length (rs_MSK (eapResult demo_eap_request ''s'' demo_dea)) = 64"
  using eapResult_authorises[of demo_eap_request "''s''" demo_dea] demo_eap_allowed by (simp add: Let_def)

section \<open>What the server reads\<close>

lemmas avp_builders = Uint32AVP_def UTF8AVP_def OctetAVP_def Uint32AVPFlags_def UTF8AVPFlags_def

lemma wire_form_no_vendor: "a_VendorID a = 0 \<Longrightarrow> wire_form a = a"
  by (simp add: wire_form_def)

text \<open>A Diameter-EAP-Request that fits the wire is read by the server with the NAI exactly as the UE presented
  it, the requested APN, the session and the EAP payload unchanged, as a proxiable request under the
  next Hop-by-Hop identifier, and with a Destination-Host only when one is configured.\<close>

theorem newDER_read_back:
  assumes "newDER sid nai apn payload c = (m, c')" "message_fits m"
  shows "\<exists>m'. DecodeMessage (Encode_message m @ rest) = Inr (m', rest) \<and> IsRequest m' \<and>
     d_HopByHop m' = cl_nextHop c + 1 \<and> cl_nextHop c' = cl_nextHop c + 1 \<and>
     AVPString (d_AVPs m') AVPUserName 0 = nai \<and> AVPString (d_AVPs m') AVPServiceSelection 0 = apn \<and>
     AVPString (d_AVPs m') AVPSessionID 0 = sid \<and> map_option a_Data (FindAVP (d_AVPs m') AVPEAPPayload 0) = Some payload \<and>
     AVPString (d_AVPs m') AVPDestinationHost 0 = sw_DestinationHost (cl_cfg c)"
proof -
  have "map wire_form (d_AVPs m) = d_AVPs m"
    using assms(1) by (intro map_idI wire_form_no_vendor)
      (auto simp: newDER_def newRequest_def Let_def avp_builders split: if_splits)
  with decode_encoded_dmessage[OF assms(2), of rest] have d: "DecodeMessage (Encode_message m @ rest) = Inr (m, rest)" by simp
  show ?thesis
    by (rule exI[of _ m]) (use d assms(1) in \<open>auto simp: newDER_def newRequest_def Let_def avp_builders AVPString_def IsRequest_def\<close>)
qed

lemma demo_der_fits: "message_fits (fst demo_der)"
  by (simp add: message_fits_def demo_der_def newDER_def newRequest_def length_Encode_message length_AVP_Encode avp_fits_def
      Pad4_def avp_builders Let_def NewClient_def demo_swm_cfg_def demo_config_def Default_def)

theorem newDER_read_back_witness:
  "\<exists>m'. DecodeMessage (Encode_message (fst demo_der) @ [9]) = Inr (m', [9]) \<and> AVPString (d_AVPs m') AVPUserName 0 = ''0001@nai''"
  using newDER_read_back[where m = "fst demo_der" and c' = "snd demo_der" and rest = "[9]", OF _ demo_der_fits]
  by (metis demo_der_def prod.collapse)

text \<open>The answer to a Device-Watchdog-Request.\<close>

lemma handleRequest_answer:
  assumes "handleRequest cfg req = [b]" "message_fits (newAnswer req
      [UTF8AVP AVPOriginHost 0 (sw_OriginHost cfg), UTF8AVP AVPOriginRealm 0 (sw_OriginRealm cfg), Uint32AVP AVPResultCode 0 diameterSuccess])"
  shows "\<exists>m. DecodeMessage (b @ rest) = Inr (m, rest) \<and> d_HopByHop m = d_HopByHop req \<and> d_EndToEnd m = d_EndToEnd req \<and>
     AVPUint32 (d_AVPs m) AVPResultCode 0 = Some diameterSuccess"
  using assms decode_encoded_dmessage[OF assms(2), of rest]
  by (auto simp: handleRequest_def newAnswer_def avp_builders wire_form_def AVPUint32_def subslice_def split: if_splits)

end
