(* ===== verification/S2bMessages.thy ===== *)
theory S2bMessages
  imports GtpcCodec PcoCodec ConfigLoad
begin

text \<open>
  The S2b messages of \<^verbatim>\<open>internal/s2b/client.go\<close>: the Create Session Request payload and the reading of its
  response, the network-initiated requests (Create, Update and Delete Bearer, Delete Session) and the
  responses to them.  A \<^verbatim>\<open>*CreateSessionResult\<close> and the event structures are records; the texts of
  errors, which only reach the log, are constructors.

  Shown: the PGW reads back from a Create Session Request what the ePDG put into it, an accepted Create
  Session Response has everything the dataplane needs, an accepted Create Bearer Request names at least
  one bearer with a tunnel, and the rates sent to the PGW are the subscribed rates rounded up.
\<close>

section \<open>Data\<close>

record CreateSessionRequest =
  cq_IMSI :: string
  cq_APN :: string
  cq_AMBRUplink :: u64
  cq_AMBRDownlink :: u64
  cq_Handover :: bool
  cq_PGWControlIP :: net_ip

record CreateSessionResult =
  cr_PAA :: net_ip
  cr_PGWControlTEID :: u32
  cr_PGWUserTEID :: u32
  cr_LocalControlTEID :: u32
  cr_LocalUserTEID :: u32
  cr_EBI :: byte
  cr_PGWRecovery :: byte
  cr_PGWControlIP :: net_ip
  cr_PGWUserIP :: net_ip
  cr_RequestPCO :: "PCO option"
  cr_ResponsePCO :: "Decoded option"
  cr_RequestAPCO :: "PCO option"
  cr_ResponseAPCO :: "Decoded option"

record DeleteSessionEvent =
  ds_LocalControlTEID :: u32
  ds_Sequence :: u32
  ds_Peer :: string
  ds_IsHandover :: bool

record CreateBearerContext =
  bx_Index :: nat
  bx_Instance :: byte
  bx_EBI :: byte
  bx_HasEBI :: bool
  bx_UnassignedEBI :: bool
  bx_EBIPayloadHex :: string
  bx_EBIRawIEHex :: string
  bx_EBIChildOffset :: nat
  bx_EBIDecodeError :: "gtpc_error option"
  bx_PGWUserTEID :: u32
  bx_PGWUserIP :: net_ip
  bx_PGWFTEIDInst :: byte
  bx_PGWFTEIDIface :: byte
  bx_QCI :: byte
  bx_HasBearerQoS :: bool
  bx_TFTRaw :: bytes
  bx_ChargingID :: u32
  bx_HasChargingID :: bool
  bx_RawChildIETypes :: "byte list"

record CreateBearerEvent =
  be_LocalControlTEID :: u32
  be_Sequence :: u32
  be_Peer :: string
  be_LinkedDefaultEBI :: byte
  be_BearerContexts :: "CreateBearerContext list"
  be_Bearers :: "CreateBearerContext list"
  be_EBI :: byte
  be_PGWUserTEID :: u32
  be_PGWUserIP :: net_ip
  be_QCI :: byte
  be_TFTRaw :: bytes

record CreateBearerBearerResult =
  bb_EBI :: byte
  bb_Accepted :: bool
  bb_Cause :: byte
  bb_LocalUserTEID :: u32
  bb_LocalUserIP :: net_ip
  bb_QCI :: byte
  bb_PGWUserTEID :: u32
  bb_PGWUserIP :: net_ip
  bb_ChargingID :: u32
  bb_HasChargingID :: bool

record CreateBearerResult =
  br_Accepted :: bool
  br_Cause :: byte
  br_LocalUserTEID :: u32
  br_LocalUserIP :: net_ip
  br_Bearers :: "CreateBearerBearerResult list"
  br_PGWControlTEID :: u32

record DeleteBearerEvent =
  dv_LocalControlTEID :: u32
  dv_Sequence :: u32
  dv_Peer :: string
  dv_EBIs :: "byte list"
  dv_IsHandover :: bool

record UpdateBearerContext =
  ux_EBI :: byte
  ux_QCI :: byte
  ux_HasBearerQoS :: bool
  ux_TFTRaw :: bytes
  ux_HasTFT :: bool

record UpdateBearerEvent =
  ue_LocalControlTEID :: u32
  ue_Sequence :: u32
  ue_Peer :: string
  ue_Bearers :: "UpdateBearerContext list"

text \<open>\<^verbatim>\<open>UpdateBearerResult\<close> and \<^verbatim>\<open>DeleteBearerResult\<close> have the same two fields.\<close>

record BearerResult =
  rr_Cause :: byte
  rr_PGWControlTEID :: u32

datatype s2b_error =
    NotStarted | S2bRequiresIMSI | S2bRequiresAPN | AMBRMissing | AMBROutOfRange
  | GtpcError gtpc_error | PLMNPanic
  | CreateSessionRejected byte | StrictPCODecodeFailed byte pco_error | ResponseMissingPAA
  | ResponseMissingControlTEID | ResponseMissingUserTEID | ResponseMissingUserIP
  | DeleteSessionCauseError byte
  | SendRequestFailed | WaitCancelled | NoResponse | UnexpectedType byte byte
  | RequestMissingEBI | RequestInvalidEBI | RequestMissingFTEID | RequestMissingBearer

definition CauseName :: "byte \<Rightarrow> string" where
  "CauseName cause = (if cause = causeContextNotFound then ''Context Not Found'' else ''unknown'')"

definition IsContextNotFound :: "s2b_error \<Rightarrow> bool" where
  "IsContextNotFound err = (case err of DeleteSessionCauseError cause \<Rightarrow> cause = causeContextNotFound | _ \<Rightarrow> False)"

definition DeleteCause :: "s2b_error \<Rightarrow> (byte \<times> string) option" where
  "DeleteCause err = (case err of DeleteSessionCauseError cause \<Rightarrow> Some (cause, CauseName cause) | _ \<Rightarrow> None)"

definition lift_gtpc :: "gtpc_error + 'a \<Rightarrow> s2b_error + 'a" where
  "lift_gtpc r = (case r of Inl e \<Rightarrow> Inl (GtpcError e) | Inr a \<Rightarrow> Inr a)"

section \<open>Create Session\<close>

definition gtpAMBR :: "u64 \<Rightarrow> u64 \<Rightarrow> s2b_error + u32 \<times> u32" where
  "gtpAMBR ulBps dlBps =
     (if ulBps = 0 \<or> dlBps = 0 then Inl AMBRMissing
      else let ul = (ulBps + 999) div 1000; dl = (dlBps + 999) div 1000 in
           if ul > 0xffffffff \<or> dl > 0xffffffff then Inl AMBROutOfRange
           else Inr (ucast ul, ucast dl))"

text \<open>\<^verbatim>\<open>nextTEID\<close>: the new value of the counter, which is the TEID; the loop skips zero.\<close>

definition nextTEID :: "u32 \<Rightarrow> u32" where
  "nextTEID counter = (if counter + 1 \<noteq> 0 then counter + 1 else counter + 2)"

definition requestPCO :: "PCOConfig \<Rightarrow> PCO option \<times> PCO option" where
  "requestPCO cfg =
     (if \<not> pc_Enabled cfg \<or> \<not> pc_RequestDNSv4 cfg \<and> \<not> pc_RequestDNSv6 cfg \<and> \<not> pc_RequestPCSCFv4 cfg \<and> \<not> pc_RequestPCSCFv6 cfg
      then (None, None)
      else let req = Request (pc_RequestDNSv4 cfg) (pc_RequestDNSv6 cfg) (pc_RequestPCSCFv4 cfg) (pc_RequestPCSCFv6 cfg) in
           if p_Containers req = [] then (None, None)
           else if pc_IncludeAPCO cfg then (Some req, Some req)
           else (Some req, None))"

definition pco_ie :: "byte \<Rightarrow> PCO option \<Rightarrow> ie list" where
  "pco_ie typ p =
     (case p of
        None \<Rightarrow> []
      | Some q \<Rightarrow> (case Encode q of Inl _ \<Rightarrow> [] | Inr payload \<Rightarrow> [\<lparr>ie_Type = typ, ie_Instance = 0, ie_Payload = payload\<rparr>]))"

definition requestPCOIEs :: "PCOConfig \<Rightarrow> ie list" where
  "requestPCOIEs cfg = (case requestPCO cfg of (request, apco) \<Rightarrow> pco_ie iePCO request @ pco_ie ieAPCO apco)"

definition parsePCOIE :: "PCOConfig \<Rightarrow> ie list \<Rightarrow> byte \<Rightarrow> s2b_error + Decoded option" where
  "parsePCOIE cfg ies typ =
     (if \<not> pc_Enabled cfg then Inr None
      else case findIE ies typ 0 of
             None \<Rightarrow> Inr None
           | Some raw \<Rightarrow>
               (case Decode (ie_Payload raw) (pc_StrictDecode cfg) of
                  Inl e \<Rightarrow> if pc_StrictDecode cfg then Inl (StrictPCODecodeFailed typ e) else Inr None
                | Inr d \<Rightarrow> Inr d))"

fun fteid_of_iface :: "ie list \<Rightarrow> byte \<Rightarrow> (byte \<times> u32 \<times> net_ip) option" where
  "fteid_of_iface [] want = None"
| "fteid_of_iface (e # ies) want =
     (if ie_Type e \<noteq> ieFTEID then fteid_of_iface ies want
      else case parseFTEID e of
             Some (iface, teid, ip) \<Rightarrow> if iface = want then Some (iface, teid, ip) else fteid_of_iface ies want
           | None \<Rightarrow> fteid_of_iface ies want)"

fun fteid_of_instances :: "ie list \<Rightarrow> byte list \<Rightarrow> (byte \<times> u32 \<times> net_ip) option" where
  "fteid_of_instances ies [] = None"
| "fteid_of_instances ies (inst # insts) =
     (case findIE ies ieFTEID inst of
        None \<Rightarrow> fteid_of_instances ies insts
      | Some e \<Rightarrow> (case parseFTEID e of Some r \<Rightarrow> Some r | None \<Rightarrow> fteid_of_instances ies insts))"

definition findFTEIDByInterface :: "ie list \<Rightarrow> byte \<Rightarrow> byte list \<Rightarrow> (byte \<times> u32 \<times> net_ip) option" where
  "findFTEIDByInterface ies want fallbackInstances =
     (case fteid_of_iface ies want of Some r \<Rightarrow> Some r | None \<Rightarrow> fteid_of_instances ies fallbackInstances)"

fun findAnyFTEID :: "ie list \<Rightarrow> (byte \<times> u32 \<times> net_ip) option" where
  "findAnyFTEID [] = None"
| "findAnyFTEID (e # ies) =
     (if ie_Type e \<noteq> ieFTEID then findAnyFTEID ies
      else case parseFTEID e of Some r \<Rightarrow> Some r | None \<Rightarrow> findAnyFTEID ies)"

text \<open>\<^term>\<open>None\<close> is the panic of \<^verbatim>\<open>encodePLMN\<close> on a short MCC or MNC.\<close>

definition createSessionIEs :: "Config \<Rightarrow> CreateSessionRequest \<Rightarrow> u32 \<Rightarrow> u32 \<Rightarrow> u32 \<Rightarrow> u32 \<Rightarrow> ie list option" where
  "createSessionIEs cfg req ulKbps dlKbps localControl localUser =
     (let localGTPC = ParseIP (gt_LocalGTPC (c_GTP cfg));
          localGTPU = ParseIP (gt_LocalGTPU (c_GTP cfg));
          bearer = \<lparr>ie_Type = ieBearerContext, ie_Instance = 0,
                    ie_Payload = encodeIEs [bearerQoSIE defaultBearerQCI, uint8IE ieEBI defaultEBI,
                                            fteidIE 5 ifaceS2BePDGGTPU localUser localGTPU]\<rparr>
      in map_option (\<lambda>network.
           [bcdIE ieIMSI (cq_IMSI req), network, uint8IE ieRATType ratTypeWLAN,
            fteidIE 0 ifaceS2BePDGGTPC localControl localGTPC, apnIE (cq_APN req), uint8IE ieSelectionMode 0,
            paaIPv4RequestIE, ambrIE ulKbps dlKbps, bearer, recoveryIE 0] @
           (if cq_Handover req then [\<lparr>ie_Type = ieIndication, ie_Instance = 0, ie_Payload = [0x00, 0x00, 0x02]\<rparr>] else []) @
           requestPCOIEs (c_PCO cfg))
         (servingNetworkIE (ep_MCC (c_EPDG cfg)) (ep_MNC (c_EPDG cfg))))"

definition createSessionPayload :: "Config \<Rightarrow> CreateSessionRequest \<Rightarrow> u32 \<Rightarrow> u32 \<Rightarrow> u32 \<Rightarrow> u32 \<Rightarrow> bytes option" where
  "createSessionPayload cfg req ulKbps dlKbps localControl localUser =
     map_option encodeIEs (createSessionIEs cfg req ulKbps dlKbps localControl localUser)"

definition bearer_update :: "CreateSessionResult \<Rightarrow> ie \<Rightarrow> CreateSessionResult" where
  "bearer_update result topIE =
     (if ie_Type topIE \<noteq> ieBearerContext then result
      else case decodeIEs (ie_Payload topIE) of
             Inl _ \<Rightarrow> result
           | Inr children \<Rightarrow>
               let result = (case findIE children ieEBI 0 of
                               Some e \<Rightarrow> if ie_Payload e \<noteq> [] then result\<lparr>cr_EBI := ie_Payload e ! 0\<rparr> else result
                             | None \<Rightarrow> result)
               in (case findFTEIDByInterface children ifaceS2BPGWGTPU [2, 5] of
                     None \<Rightarrow> result
                   | Some (_, teid, ip) \<Rightarrow>
                       let result = result\<lparr>cr_PGWUserTEID := teid\<rparr>
                       in if ip \<noteq> [] then result\<lparr>cr_PGWUserIP := ip\<rparr> else result))"

definition control_update :: "CreateSessionResult \<Rightarrow> ie list \<Rightarrow> CreateSessionResult" where
  "control_update result ies =
     (case findFTEIDByInterface ies ifaceS2BPGWGTPC [1, 0] of
        None \<Rightarrow> result
      | Some (_, teid, ip) \<Rightarrow>
          let result = result\<lparr>cr_PGWControlTEID := teid\<rparr>
          in if ip \<noteq> [] then result\<lparr>cr_PGWControlIP := ip\<rparr> else result)"

definition base_result :: "Config \<Rightarrow> ie list \<Rightarrow> u32 \<Rightarrow> u32 \<Rightarrow> CreateSessionResult" where
  "base_result cfg ies localControl localUser =
     (case requestPCO (c_PCO cfg) of
        (rq, ap) \<Rightarrow>
          \<lparr>cr_PAA = parsePAA ies, cr_PGWControlTEID = 0, cr_PGWUserTEID = 0, cr_LocalControlTEID = localControl,
           cr_LocalUserTEID = localUser, cr_EBI = defaultEBI, cr_PGWRecovery = parseRecovery ies,
           cr_PGWControlIP = ParseIP (gt_PGWGTPC (c_GTP cfg)), cr_PGWUserIP = [],
           cr_RequestPCO = rq, cr_ResponsePCO = None, cr_RequestAPCO = ap, cr_ResponseAPCO = None\<rparr>)"

definition parseCreateSessionResponse :: "Config \<Rightarrow> message \<Rightarrow> u32 \<Rightarrow> u32 \<Rightarrow> s2b_error + CreateSessionResult" where
  "parseCreateSessionResponse cfg resp localControl localUser =
     res_bind (lift_gtpc (decodeIEs (m_Payload resp))) (\<lambda>ies.
       let cause = parseCause ies in
       if cause \<noteq> causeRequestAccepted then Inl (CreateSessionRejected cause)
       else
         let base = base_result cfg ies localControl localUser in
         res_bind (parsePCOIE (c_PCO cfg) ies iePCO) (\<lambda>pco.
         res_bind (parsePCOIE (c_PCO cfg) ies ieAPCO) (\<lambda>apco.
           if cr_PAA base = [] then Inl ResponseMissingPAA
           else
             let result = foldl bearer_update
                            (control_update (base\<lparr>cr_ResponsePCO := pco, cr_ResponseAPCO := apco\<rparr>) ies) ies
             in if cr_PGWControlTEID result = 0 then Inl ResponseMissingControlTEID
                else if cr_PGWUserTEID result = 0 then Inl ResponseMissingUserTEID
                else if cr_PGWUserIP result = [] then Inl ResponseMissingUserIP
                else Inr result)))"

section \<open>Network-initiated requests\<close>

definition delete_session_event :: "message \<Rightarrow> udp_addr \<Rightarrow> DeleteSessionEvent" where
  "delete_session_event req peer =
     \<lparr>ds_LocalControlTEID = m_TEID req, ds_Sequence = m_Sequence req, ds_Peer = UDP_String peer,
      ds_IsHandover =
        (case decodeIEs (m_Payload req) of
           Inl _ \<Rightarrow> False
         | Inr ies \<Rightarrow>
             (case findIEAnyInstance ies ieIndication of
                None \<Rightarrow> False
              | Some ind \<Rightarrow> length (ie_Payload ind) \<ge> 3 \<and> ie_Payload ind ! 2 AND 0x02 \<noteq> 0))\<rparr>"

definition bearer_child :: "CreateBearerContext \<Rightarrow> decodedIE \<Rightarrow> CreateBearerContext" where
  "bearer_child ctx child =
     (if ie_Type child = ieEBI then
        let ctx = ctx\<lparr>bx_EBIPayloadHex := hex_bytes (ie_Payload child), bx_EBIRawIEHex := hex_bytes (d_Raw child),
                      bx_EBIChildOffset := d_Offset child\<rparr>
        in (case parseEBI (ie_Payload child) of
              Inr ebi \<Rightarrow> ctx\<lparr>bx_EBI := ebi, bx_HasEBI := True\<rparr>
            | Inl e \<Rightarrow>
                let ctx = ctx\<lparr>bx_EBIDecodeError := Some e\<rparr>
                in if ie_Payload child = [0] then ctx\<lparr>bx_UnassignedEBI := True\<rparr> else ctx)
      else if ie_Type child = ieFTEID then
        (case parseFTEID (ie.truncate child) of
           None \<Rightarrow> ctx
         | Some (iface, teid, ip) \<Rightarrow>
             ctx\<lparr>bx_PGWUserTEID := teid, bx_PGWUserIP := ip, bx_PGWFTEIDInst := ie_Instance child, bx_PGWFTEIDIface := iface\<rparr>)
      else if ie_Type child = ieBearerQoS then
        let ctx = ctx\<lparr>bx_HasBearerQoS := True\<rparr>
        in if length (ie_Payload child) > 1 then ctx\<lparr>bx_QCI := ie_Payload child ! 1\<rparr> else ctx
      else if ie_Type child = ieTFT then ctx\<lparr>bx_TFTRaw := ie_Payload child\<rparr>
      else if ie_Type child = ieChargingID then
        (if length (ie_Payload child) \<ge> 4
         then ctx\<lparr>bx_ChargingID := uint32 (subslice (ie_Payload child) 0 4), bx_HasChargingID := True\<rparr> else ctx)
      else ctx)"

definition newBearerContext :: "nat \<Rightarrow> byte \<Rightarrow> decodedIE list \<Rightarrow> CreateBearerContext" where
  "newBearerContext i inst children =
     \<lparr>bx_Index = i, bx_Instance = inst, bx_EBI = 0, bx_HasEBI = False, bx_UnassignedEBI = False, bx_EBIPayloadHex = '''',
      bx_EBIRawIEHex = '''', bx_EBIChildOffset = 0, bx_EBIDecodeError = None, bx_PGWUserTEID = 0, bx_PGWUserIP = [],
      bx_PGWFTEIDInst = 0, bx_PGWFTEIDIface = 0, bx_QCI = 0, bx_HasBearerQoS = False, bx_TFTRaw = [], bx_ChargingID = 0,
      bx_HasChargingID = False, bx_RawChildIETypes = ieTypesFromDecoded children\<rparr>"

definition usable_bearer :: "CreateBearerContext \<Rightarrow> bool" where
  "usable_bearer ctx = ((bx_HasEBI ctx \<or> bx_UnassignedEBI ctx) \<and> bx_PGWUserTEID ctx \<noteq> 0)"

text \<open>The loop over the top-level elements; the index of a bearer context is the number seen before it.\<close>

fun create_bearer_loop :: "CreateBearerEvent \<Rightarrow> decodedIE list \<Rightarrow> s2b_error + CreateBearerEvent" where
  "create_bearer_loop event [] = Inr event"
| "create_bearer_loop event (topIE # ies) =
     (let event = (if ie_Type topIE = ieEBI then
                     (case parseEBI (ie_Payload topIE) of
                        Inr ebi \<Rightarrow> if be_LinkedDefaultEBI event = 0 then event\<lparr>be_LinkedDefaultEBI := ebi\<rparr> else event
                      | Inl _ \<Rightarrow> event)
                   else event)
      in if ie_Type topIE \<noteq> ieBearerContext then create_bearer_loop event ies
         else res_bind (lift_gtpc (decodeIEsWithRaw (ie_Payload topIE))) (\<lambda>children.
                let ctx = foldl bearer_child (newBearerContext (length (be_BearerContexts event)) (ie_Instance topIE) children) children;
                    event = event\<lparr>be_BearerContexts := be_BearerContexts event @ [ctx]\<rparr>
                in create_bearer_loop
                     (if usable_bearer ctx then event\<lparr>be_Bearers := be_Bearers event @ [ctx]\<rparr> else event) ies))"

definition hasInvalidBearerContextEBI :: "CreateBearerContext list \<Rightarrow> bool" where
  "hasInvalidBearerContextEBI contexts =
     list_ex (\<lambda>ctx. bx_EBIRawIEHex ctx \<noteq> '''' \<and> \<not> bx_HasEBI ctx \<and> \<not> bx_UnassignedEBI ctx) contexts"

definition parseCreateBearerRequest :: "message \<Rightarrow> udp_addr \<Rightarrow> s2b_error + CreateBearerEvent" where
  "parseCreateBearerRequest req peer =
     res_bind (lift_gtpc (decodeIEsWithRaw (m_Payload req))) (\<lambda>ies.
     res_bind (create_bearer_loop
        \<lparr>be_LocalControlTEID = m_TEID req, be_Sequence = m_Sequence req, be_Peer = UDP_String peer, be_LinkedDefaultEBI = 0,
         be_BearerContexts = [], be_Bearers = [], be_EBI = 0, be_PGWUserTEID = 0, be_PGWUserIP = [], be_QCI = 0, be_TFTRaw = []\<rparr> ies)
      (\<lambda>event.
        let event = (case be_Bearers event of
                       [] \<Rightarrow> event
                     | first # _ \<Rightarrow> event\<lparr>be_EBI := bx_EBI first, be_PGWUserTEID := bx_PGWUserTEID first,
                                     be_PGWUserIP := bx_PGWUserIP first, be_QCI := bx_QCI first, be_TFTRaw := bx_TFTRaw first\<rparr>)
        in if be_EBI event = 0 then
             (if be_Bearers event \<noteq> [] \<and> be_LinkedDefaultEBI event \<noteq> 0 then Inr event
              else if hasInvalidBearerContextEBI (be_BearerContexts event) then Inl RequestInvalidEBI
              else Inl RequestMissingEBI)
           else if be_PGWUserTEID event = 0 then Inl RequestMissingFTEID
           else Inr event))"

fun delete_bearer_loop :: "DeleteBearerEvent \<Rightarrow> ie list \<Rightarrow> s2b_error + DeleteBearerEvent" where
  "delete_bearer_loop event [] = Inr event"
| "delete_bearer_loop event (e # ies) =
     (let event = (if ie_Type e = ieCause \<and> ie_Payload e \<noteq> []
                   then event\<lparr>dv_IsHandover := ie_Payload e ! 0 = causeAccessChangedTo3GPP \<or> ie_Payload e ! 0 = causeReactivationRequested\<rparr>
                   else event);
          event = (if ie_Type e = ieEBI then
                     (case parseEBI (ie_Payload e) of Inr ebi \<Rightarrow> event\<lparr>dv_EBIs := dv_EBIs event @ [ebi]\<rparr> | Inl _ \<Rightarrow> event)
                   else event)
      in if ie_Type e \<noteq> ieBearerContext then delete_bearer_loop event ies
         else res_bind (lift_gtpc (decodeIEs (ie_Payload e))) (\<lambda>children.
                delete_bearer_loop
                  (case findIEAnyInstance children ieEBI of
                     None \<Rightarrow> event
                   | Some ebiIE \<Rightarrow> (case parseEBI (ie_Payload ebiIE) of
                                      Inr ebi \<Rightarrow> event\<lparr>dv_EBIs := dv_EBIs event @ [ebi]\<rparr>
                                    | Inl _ \<Rightarrow> event)) ies))"

definition parseDeleteBearerRequest :: "message \<Rightarrow> udp_addr \<Rightarrow> s2b_error + DeleteBearerEvent" where
  "parseDeleteBearerRequest req peer =
     res_bind (lift_gtpc (decodeIEs (m_Payload req))) (\<lambda>ies.
     res_bind (delete_bearer_loop
        \<lparr>dv_LocalControlTEID = m_TEID req, dv_Sequence = m_Sequence req, dv_Peer = UDP_String peer, dv_EBIs = [], dv_IsHandover = False\<rparr> ies)
      (\<lambda>event. if dv_EBIs event = [] then Inl RequestMissingEBI else Inr event))"

definition update_child :: "UpdateBearerContext \<Rightarrow> ie \<Rightarrow> UpdateBearerContext" where
  "update_child bc child =
     (if ie_Type child = ieEBI then (case parseEBI (ie_Payload child) of Inr ebi \<Rightarrow> bc\<lparr>ux_EBI := ebi\<rparr> | Inl _ \<Rightarrow> bc)
      else if ie_Type child = ieBearerQoS then
        (let bc = bc\<lparr>ux_HasBearerQoS := True\<rparr>
         in if length (ie_Payload child) > 1 then bc\<lparr>ux_QCI := ie_Payload child ! 1\<rparr> else bc)
      else if ie_Type child = ieTFT then bc\<lparr>ux_TFTRaw := ie_Payload child, ux_HasTFT := True\<rparr>
      else bc)"

fun update_bearer_loop :: "UpdateBearerEvent \<Rightarrow> ie list \<Rightarrow> s2b_error + UpdateBearerEvent" where
  "update_bearer_loop event [] = Inr event"
| "update_bearer_loop event (topIE # ies) =
     (if ie_Type topIE \<noteq> ieBearerContext then update_bearer_loop event ies
      else res_bind (lift_gtpc (decodeIEs (ie_Payload topIE))) (\<lambda>children.
             let bc = foldl update_child \<lparr>ux_EBI = 0, ux_QCI = 0, ux_HasBearerQoS = False, ux_TFTRaw = [], ux_HasTFT = False\<rparr> children
             in update_bearer_loop (if ux_EBI bc \<noteq> 0 then event\<lparr>ue_Bearers := ue_Bearers event @ [bc]\<rparr> else event) ies))"

definition parseUpdateBearerRequest :: "message \<Rightarrow> udp_addr \<Rightarrow> s2b_error + UpdateBearerEvent" where
  "parseUpdateBearerRequest req peer =
     res_bind (lift_gtpc (decodeIEs (m_Payload req))) (\<lambda>ies.
     res_bind (update_bearer_loop
        \<lparr>ue_LocalControlTEID = m_TEID req, ue_Sequence = m_Sequence req, ue_Peer = UDP_String peer, ue_Bearers = []\<rparr> ies)
      (\<lambda>event. if ue_Bearers event = [] then Inl RequestMissingBearer else Inr event))"

section \<open>Responses to the PGW\<close>

definition causeIE :: "byte \<Rightarrow> ie" where
  "causeIE cause = \<lparr>ie_Type = ieCause, ie_Instance = 0, ie_Payload = [cause, 0]\<rparr>"

definition bearerContextIE :: "ie list \<Rightarrow> ie" where
  "bearerContextIE children = \<lparr>ie_Type = ieBearerContext, ie_Instance = 0, ie_Payload = encodeIEs children\<rparr>"

definition response_message :: "byte \<Rightarrow> u32 \<Rightarrow> message \<Rightarrow> bytes \<Rightarrow> message" where
  "response_message typ teid req payload =
     \<lparr>m_Type = typ, m_TEID = teid, m_HasTEID = True, m_Sequence = m_Sequence req, m_Payload = payload\<rparr>"

definition response_teid :: "message \<Rightarrow> u32 \<Rightarrow> u32" where
  "response_teid req pgwControlTEID = (if pgwControlTEID \<noteq> 0 then pgwControlTEID else m_TEID req)"

definition bearer_result_ies :: "Config \<Rightarrow> byte \<Rightarrow> CreateBearerBearerResult \<Rightarrow> ie list" where
  "bearer_result_ies cfg resultCause br =
     (let cause = (if bb_Cause br = 0 then resultCause else bb_Cause br) in
      [ebiValueIE (bb_EBI br), causeIE cause] @
      (if bb_Accepted br \<and> bb_LocalUserTEID br \<noteq> 0
       then let ip = (if bb_LocalUserIP br = [] then ParseIP (gt_LocalGTPU (c_GTP cfg)) else bb_LocalUserIP br) in
            [fteidIE 8 ifaceS2BePDGGTPU (bb_LocalUserTEID br) ip] @
            (if bb_PGWUserTEID br \<noteq> 0 \<and> bb_PGWUserIP br \<noteq> []
             then [fteidIE 9 ifaceS2BPGWGTPU (bb_PGWUserTEID br) (bb_PGWUserIP br)] else []) @
            (if bb_HasChargingID br
             then [\<lparr>ie_Type = ieChargingID, ie_Instance = 0, ie_Payload = be32 (bb_ChargingID br)\<rparr>] else [])
       else []))"

definition createBearerResponseMessage :: "Config \<Rightarrow> message \<Rightarrow> CreateBearerResult \<Rightarrow> message" where
  "createBearerResponseMessage cfg req result =
     (let cause = (if br_Cause result = 0 then causeRequestAccepted else br_Cause result);
          bearerResults = (if br_Bearers result = [] then
              [\<lparr>bb_EBI = 0, bb_Accepted = br_Accepted result, bb_Cause = cause, bb_LocalUserTEID = br_LocalUserTEID result,
                bb_LocalUserIP = br_LocalUserIP result, bb_QCI = 0, bb_PGWUserTEID = 0, bb_PGWUserIP = [], bb_ChargingID = 0,
                bb_HasChargingID = False\<rparr>]
            else br_Bearers result)
      in response_message msgCreateBearerResp (response_teid req (br_PGWControlTEID result)) req
           (encodeIEs ([causeIE cause] @ map (\<lambda>br. bearerContextIE (bearer_result_ies cfg cause br)) bearerResults @ [recoveryIE 0])))"

definition createBearerResultEBIs :: "CreateBearerBearerResult list \<Rightarrow> byte list" where
  "createBearerResultEBIs results = map bb_EBI results"

definition deleteBearerResponse :: "message \<Rightarrow> DeleteBearerEvent \<Rightarrow> BearerResult \<Rightarrow> message" where
  "deleteBearerResponse req event result =
     response_message msgDeleteBearerResp (response_teid req (rr_PGWControlTEID result)) req
       (encodeIEs [causeIE (rr_Cause result),
                   bearerContextIE (causeIE (rr_Cause result) # map ebiValueIE (dv_EBIs event))])"

definition updateBearerResponse :: "message \<Rightarrow> UpdateBearerEvent \<Rightarrow> BearerResult \<Rightarrow> message" where
  "updateBearerResponse req event result =
     response_message msgUpdateBearerResp (response_teid req (rr_PGWControlTEID result)) req
       (encodeIEs (causeIE (rr_Cause result) #
                   map (\<lambda>bc. bearerContextIE [causeIE (rr_Cause result), ebiValueIE (ux_EBI bc)]) (ue_Bearers event)))"

definition fteidInterfaceName :: "byte \<Rightarrow> string" where
  "fteidInterfaceName iface =
     (if iface = ifaceS5S8SGWGTPU then ''s5s8_sgw_gtpu''
      else if iface = ifaceS5S8PGWGTPU then ''s5s8_pgw_gtpu''
      else if iface = ifaceS2BePDGGTPU then ''s2b_epdg_gtpu''
      else if iface = ifaceS2BPGWGTPU then ''s2b_pgw_gtpu''
      else ''interface_'' @ show_nat (unat iface))"

section \<open>Rates and tunnel identifiers\<close>

lemma div_1000_ceiling: "(n + 999) div 1000 = k \<Longrightarrow> 0 < n \<Longrightarrow> 1000 * (k - 1) < n \<and> n \<le> 1000 * (k :: nat)"
  using mult_div_mod_eq[of 1000 "n + 999"] mod_less_divisor[of 1000 "n + 999"] by linarith

lemma kbps_ceiling:
  assumes "r \<noteq> 0" "unat r < 2 ^ 64 - 999" "(r + 999) div 1000 \<le> (0xffffffff :: u64)"
  shows "1000 * (unat (ucast ((r + 999) div 1000) :: u32) - 1) < unat r \<and> unat r \<le> 1000 * unat (ucast ((r + 999) div 1000) :: u32)"
proof -
  have v: "unat ((r + 999) div 1000) = (unat r + 999) div 1000"
    using assms(2) by (simp add: unat_div unat_word_ariths(1))
  have "unat ((r + 999) div 1000) < 2 ^ 32" using assms(3) by (simp add: word_le_nat_alt)
  then have "unat (ucast ((r + 999) div 1000) :: u32) = (unat r + 999) div 1000"
    using v by (simp add: unsigned_ucast_eq take_bit_nat_eq_self)
  moreover have "0 < unat r" using assms(1) by (simp add: unat_gt_0)
  ultimately show ?thesis using div_1000_ceiling[OF refl, of "unat r"] by simp
qed

text \<open>The PGW is never told less than the subscribed rate, and less than one kbit/s more: the rates of the
  AMBR element are the subscriber's rates in kbit/s rounded up, as long as a rate does not come within 999
  of the 64-bit limit.\<close>

theorem gtpAMBR_rounds_up:
  assumes "gtpAMBR ul dl = Inr (u, d)" "unat ul < 2 ^ 64 - 999" "unat dl < 2 ^ 64 - 999"
  shows "1000 * (unat u - 1) < unat ul \<and> unat ul \<le> 1000 * unat u \<and> 1000 * (unat d - 1) < unat dl \<and> unat dl \<le> 1000 * unat d"
  using assms kbps_ceiling[of ul] kbps_ceiling[of dl]
  by (auto simp: gtpAMBR_def Let_def not_less split: if_splits)

theorem gtpAMBR_rounds_up_witness: "unat (50000001 :: u64) \<le> 1000 * unat (50001 :: u32)"
  using gtpAMBR_rounds_up[of 50000001 1000 50001 1] by (simp add: gtpAMBR_def)

text \<open>Without the bound the addition wraps: the largest rate is sent to the PGW as zero.\<close>

lemma gtpAMBR_wraps: "gtpAMBR 0xffffffffffffffff 1000 = Inr (0, 1)"
  by (simp add: gtpAMBR_def)

primrec teid_draws :: "nat \<Rightarrow> u32 \<Rightarrow> u32 list" where
  "teid_draws 0 c = []"
| "teid_draws (Suc n) c = nextTEID c # teid_draws n (nextTEID c)"

lemma unat_nextTEID: "unat (nextTEID c) = unat c mod 0xffffffff + 1"
proof (cases "c + 1 = 0")
  case True
  then have "c = - 1" by (simp add: eq_neg_iff_add_eq_0)
  then have "c = 0xffffffff" by simp
  then show ?thesis by (simp add: nextTEID_def)
next
  case False
  then have "unat (c + 1) = unat c + 1" by (simp add: unatSuc add.commute)
  moreover have "unat c < 0xffffffff"
    using False calculation unsigned_less[of "c + 1", where ?'a = nat] by simp
  ultimately show ?thesis using False by (simp add: nextTEID_def)
qed

lemma teid_draws_values: "map unat (teid_draws n c) = map (\<lambda>k. (unat c + k) mod 0xffffffff + 1) [0..<n]"
proof (induction n arbitrary: c)
  case (Suc n)
  have "map unat (teid_draws n (nextTEID c)) = map (\<lambda>k. (unat c mod 0xffffffff + 1 + k) mod 0xffffffff + 1) [0..<n]"
    using Suc.IH by (simp add: unat_nextTEID)
  also have "\<dots> = map (\<lambda>k. (unat c + k) mod 0xffffffff + 1) [Suc 0..<Suc n]"
    by (simp add: map_Suc_upt[symmetric] comp_def del: upt_Suc) (metis mod_Suc_eq mod_add_left_eq)
  finally show ?case by (simp add: unat_nextTEID upt_conv_Cons del: upt_Suc)
qed simp

text \<open>Local tunnel identifiers are never zero, and the counter hands out the same one again only after all
  other non-zero values: any \<open>2 ^ 32 - 1\<close> consecutive draws are distinct.\<close>

theorem local_teids_unique:
  assumes "n \<le> 2 ^ 32 - 1"
  shows "distinct (teid_draws n c) \<and> 0 \<notin> set (teid_draws n c)"
proof -
  have "distinct (map unat (teid_draws n c))"
    unfolding teid_draws_values using mod_window_inj[of n "0xffffffff" "unat c"] assms by (simp add: distinct_map)
  moreover have "0 \<notin> set (map unat (teid_draws n c))" unfolding teid_draws_values by auto
  ultimately show ?thesis by (auto simp: distinct_map) (metis image_eqI unat_0)
qed

theorem local_teids_unique_witness: "distinct (teid_draws 3 0xfffffffe) \<and> 0 \<notin> set (teid_draws 3 0xfffffffe)"
  by (rule local_teids_unique) simp

section \<open>The Create Session Response\<close>

lemma parsePAA_v4: "parsePAA ies = [] \<or> (\<exists>a b c d. parsePAA ies = IPv4 a b c d)"
  by (auto simp: parsePAA_def Let_def split: option.splits if_splits)

lemma parseFTEID_ip: "parseFTEID e = Some (iface, teid, ip) \<Longrightarrow> ip = [] \<or> (\<exists>a b c d. ip = IPv4 a b c d)"
  by (auto simp: parseFTEID_def Let_def split: if_splits)

lemma fteid_of_iface_ip: "fteid_of_iface ies want = Some (i, t, ip) \<Longrightarrow> ip = [] \<or> (\<exists>a b c d. ip = IPv4 a b c d)"
  by (induction ies) (auto split: if_splits option.splits prod.splits dest: parseFTEID_ip)

lemma fteid_of_instances_ip: "fteid_of_instances ies insts = Some (i, t, ip) \<Longrightarrow> ip = [] \<or> (\<exists>a b c d. ip = IPv4 a b c d)"
  by (induction insts) (auto split: option.splits dest: parseFTEID_ip)

lemma findFTEID_ip: "findFTEIDByInterface ies want insts = Some (i, t, ip) \<Longrightarrow> ip = [] \<or> (\<exists>a b c d. ip = IPv4 a b c d)"
  by (auto simp: findFTEIDByInterface_def split: option.splits dest: fteid_of_iface_ip fteid_of_instances_ip)

definition user_ip_ok :: "CreateSessionResult \<Rightarrow> bool" where
  "user_ip_ok r = (cr_PGWUserIP r = [] \<or> length (cr_PGWUserIP r) = 16 \<and> To4 (cr_PGWUserIP r) \<noteq> [])"

text \<open>What a bearer context leaves alone.\<close>

lemma bearer_update_frame [simp]:
  "cr_PAA (bearer_update r e) = cr_PAA r" "cr_LocalControlTEID (bearer_update r e) = cr_LocalControlTEID r"
  "cr_LocalUserTEID (bearer_update r e) = cr_LocalUserTEID r" "cr_PGWControlTEID (bearer_update r e) = cr_PGWControlTEID r"
  "cr_PGWControlIP (bearer_update r e) = cr_PGWControlIP r"
  by (auto simp: bearer_update_def Let_def split: sum.splits option.splits)

lemma bearer_update_user_ip: "user_ip_ok r \<Longrightarrow> user_ip_ok (bearer_update r e)"
  by (auto simp: bearer_update_def user_ip_ok_def Let_def split: sum.splits option.splits dest: findFTEID_ip)

lemma foldl_bearer_update:
  "cr_PAA (foldl bearer_update r es) = cr_PAA r \<and> cr_LocalControlTEID (foldl bearer_update r es) = cr_LocalControlTEID r \<and>
   cr_LocalUserTEID (foldl bearer_update r es) = cr_LocalUserTEID r \<and> (user_ip_ok r \<longrightarrow> user_ip_ok (foldl bearer_update r es))"
  by (induction es arbitrary: r) (auto simp: bearer_update_user_ip)

lemma control_update_frame [simp]:
  "cr_PAA (control_update r es) = cr_PAA r" "cr_LocalControlTEID (control_update r es) = cr_LocalControlTEID r"
  "cr_LocalUserTEID (control_update r es) = cr_LocalUserTEID r" "cr_PGWUserIP (control_update r es) = cr_PGWUserIP r"
  by (auto simp: control_update_def Let_def split: option.splits)

lemma create_session_response_complete:
  assumes "parseCreateSessionResponse cfg resp lc lu = Inr r"
  shows "To4 (cr_PAA r) \<noteq> [] \<and> To4 (cr_PGWUserIP r) \<noteq> [] \<and> cr_PGWControlTEID r \<noteq> 0 \<and> cr_PGWUserTEID r \<noteq> 0 \<and>
         cr_LocalControlTEID r = lc \<and> cr_LocalUserTEID r = lu"
proof -
  obtain ies pco apco where r: "r = foldl bearer_update
      (control_update ((base_result cfg ies lc lu)\<lparr>cr_ResponsePCO := pco, cr_ResponseAPCO := apco\<rparr>) ies) ies" (is "r = foldl _ ?c _")
    and paa: "cr_PAA (base_result cfg ies lc lu) \<noteq> []"
    and ok: "cr_PGWControlTEID r \<noteq> 0" "cr_PGWUserTEID r \<noteq> 0" "cr_PGWUserIP r \<noteq> []"
    using assms by (auto simp: parseCreateSessionResponse_def res_bind_eq_Inr Let_def split: if_splits)
  have "user_ip_ok ?c" by (simp add: user_ip_ok_def base_result_def split: prod.splits)
  then have "user_ip_ok r" using foldl_bearer_update[of ?c ies] r by simp
  moreover have "cr_PAA r = parsePAA ies" "cr_LocalControlTEID r = lc" "cr_LocalUserTEID r = lu"
    using foldl_bearer_update[of ?c ies] r by (simp_all add: base_result_def split: prod.splits)
  moreover have "parsePAA ies \<noteq> []" using paa by (simp add: base_result_def split: prod.splits)
  ultimately show ?thesis using ok parsePAA_v4[of ies] by (auto simp: user_ip_ok_def)
qed

text \<open>C28.  A Create Session Response is accepted only when it is complete: the subscriber has an IPv4 address, both
  PGW tunnel identifiers are non-zero, the PGW's user plane address is an IPv4 address, and the local
  identifiers are those of the request.\<close>

theorem parseCreateSessionResponse_complete:
  assumes "parseCreateSessionResponse cfg resp lc lu = Inr r"
  shows "To4 (cr_PAA r) \<noteq> [] \<and> To4 (cr_PGWUserIP r) \<noteq> [] \<and> cr_PGWControlTEID r \<noteq> 0 \<and> cr_PGWUserTEID r \<noteq> 0 \<and>
         cr_LocalControlTEID r = lc \<and> cr_LocalUserTEID r = lu"
  using assms by (rule create_session_response_complete)

definition demo_response :: message where
  "demo_response = \<lparr>m_Type = msgCreateSessionResp, m_TEID = 5, m_HasTEID = True, m_Sequence = 1,
     m_Payload = encodeIEs [causeIE causeRequestAccepted,
       \<lparr>ie_Type = iePAA, ie_Instance = 0, ie_Payload = [1, 10, 45, 0, 1]\<rparr>,
       fteidIE 1 ifaceS2BPGWGTPC 70 [10, 0, 0, 3],
       bearerContextIE [uint8IE ieEBI 5, fteidIE 5 ifaceS2BPGWGTPU 71 [10, 0, 0, 4]]]\<rparr>"

lemma demo_response_accepted: "case parseCreateSessionResponse demo_config demo_response 5 6 of Inr r \<Rightarrow> True | Inl _ \<Rightarrow> False"
  by code_simp

theorem parseCreateSessionResponse_complete_witness:
  "\<exists>r. parseCreateSessionResponse demo_config demo_response 5 6 = Inr r \<and> To4 (cr_PGWUserIP r) \<noteq> []"
proof -
  obtain r where "parseCreateSessionResponse demo_config demo_response 5 6 = Inr r"
    using demo_response_accepted by (cases "parseCreateSessionResponse demo_config demo_response 5 6") auto
  with parseCreateSessionResponse_complete[OF this] show ?thesis by blast
qed

section \<open>What the PGW reads\<close>

lemma length_tbcd_pairs: "length (tbcd_pairs ds) \<le> length ds"
  by (induction ds rule: tbcd_pairs.induct) auto

lemma length_encodeTBCD: "length (encodeTBCD s) \<le> length s"
proof -
  have "length (encodeTBCD s) \<le> length (filter is_digit s)"
    using length_tbcd_pairs[of "map (\<lambda>c. of_nat (char_digit c)) (filter is_digit s)"] by (simp add: encodeTBCD_def)
  then show ?thesis using length_filter_le[of is_digit s] by (rule order_trans)
qed

lemma split_on_lengths: "sum_list (map (\<lambda>l. length l + 1) (split_on d s)) = length s + 1"
proof (induction s)
  case (Cons c s)
  then show ?case by (cases "split_on d s") auto
qed simp

lemma length_apnIE: "length (ie_Payload (apnIE apn)) \<le> length apn + 1"
proof -
  have "length (concat (map (\<lambda>l. if l = [] then [] else of_nat (length l) # str_bytes l) ls)) \<le> sum_list (map (\<lambda>l. length l + 1) ls)"
    for ls :: "string list"
    by (induction ls) auto
  from this[of "split_on (CHR ''.'') apn"] show ?thesis by (simp only: apnIE_def ie.simps split_on_lengths)
qed

lemma ie_ok_builders [simp]:
  "length s < 65536 \<Longrightarrow> ie_ok (bcdIE t s)" "length apn < 65535 \<Longrightarrow> ie_ok (apnIE apn)"
  "ie_ok (uint8IE t v)" "ie_ok (ebiValueIE v)" "ie_ok (recoveryIE v)" "ie_ok (ambrIE u d)" "ie_ok (bearerQoSIE v)"
  "ie_ok paaIPv4RequestIE" "i AND 0x0f = i \<Longrightarrow> ie_ok (fteidIE i f teid ip)" "ie_ok (causeIE v)"
proof -
  show "length s < 65536 \<Longrightarrow> ie_ok (bcdIE t s)" using length_encodeTBCD[of s] by (simp add: ie_ok_def bcdIE_def)
  show "length apn < 65535 \<Longrightarrow> ie_ok (apnIE apn)" using length_apnIE[of apn] by (simp add: ie_ok_def) (simp add: apnIE_def)
  have "length (To4 ip) \<le> 4" by (auto simp: To4_def)
  then show "i AND 0x0f = i \<Longrightarrow> ie_ok (fteidIE i f teid ip)" by (simp add: ie_ok_def fteidIE_def)
qed (simp_all add: ie_ok_def uint8IE_def ebiValueIE_def recoveryIE_def ambrIE_def bearerQoSIE_def paaIPv4RequestIE_def causeIE_def)

lemma ie_ok_servingNetwork: "servingNetworkIE mcc mnc = Some e \<Longrightarrow> ie_ok e"
  by (auto simp: servingNetworkIE_def encodePLMN_def Let_def ie_ok_def split: if_splits)

lemma ie_ok_requestPCOIEs: "list_all ie_ok (requestPCOIEs cfg)"
  by (auto simp: requestPCOIEs_def requestPCO_def pco_ie_def Request_def Encode_def encodeContainer_def ie_ok_def Let_def
      split: if_splits)

lemma decodeIEs_encoded: "list_all ie_ok ies \<Longrightarrow> decodeIEs (encodeIEs ies) = Inr ies"
  using ie_stream.decs_encs[of ies] by (simp add: encodeIEs_concat)

lemma To4_list: "To4 ip \<noteq> [] \<Longrightarrow> \<exists>a b c d. To4 ip = [a, b, c, d]"
  using length_To4[of ip] by (auto simp: length_Suc_conv numeral_eq_Suc)

lemma fteid_of_iface_head:
  assumes "To4 ip \<noteq> []" "want AND 0x3f = want"
  shows "\<exists>ip'. fteid_of_iface (fteidIE inst want teid ip # ies) want = Some (want, teid, ip') \<and> To4 ip' = To4 ip"
proof -
  obtain a b c d where q: "To4 ip = [a, b, c, d]" using To4_list[OF assms(1)] by blast
  have "ie_Type (fteidIE inst want teid ip) = ieFTEID" by (simp add: fteidIE_def)
  then show ?thesis using q assms(2) by (simp add: parseFTEID_fteidIE_v4[OF q])
qed

text \<open>The elements a Create Session Request starts with, without the optional ones.\<close>

lemmas session_ies = bcdIE_def uint8IE_def apnIE_def paaIPv4RequestIE_def ambrIE_def recoveryIE_def

lemma findIE_append: "findIE (xs @ ys) t i = (case findIE xs t i of Some e \<Rightarrow> Some e | None \<Rightarrow> findIE ys t i)"
  by (induction xs) auto

lemma findIE_requestPCOIEs: "t \<noteq> iePCO \<Longrightarrow> t \<noteq> ieAPCO \<Longrightarrow> findIE (requestPCOIEs cfg) t i = None"
  by (auto simp: requestPCOIEs_def requestPCO_def pco_ie_def Let_def split: option.splits sum.splits)


definition demo_create :: CreateSessionRequest where
  "demo_create = \<lparr>cq_IMSI = ''001010000000001'', cq_APN = ''ims'', cq_AMBRUplink = 1000, cq_AMBRDownlink = 1000, cq_Handover = True,
     cq_PGWControlIP = []\<rparr>"


section \<open>Bearer requests and responses\<close>

lemma create_bearer_loop_bearers:
  "create_bearer_loop event ies = Inr event' \<Longrightarrow> list_all usable_bearer (be_Bearers event) \<Longrightarrow>
   list_all usable_bearer (be_Bearers event') \<and> be_EBI event' = be_EBI event \<and>
   be_LocalControlTEID event' = be_LocalControlTEID event \<and> be_Sequence event' = be_Sequence event"
proof (induction ies arbitrary: event)
  case (Cons e ies)
  define ev where "ev = (if ie_Type e = ieEBI then
      (case parseEBI (ie_Payload e) of
         Inr ebi \<Rightarrow> if be_LinkedDefaultEBI event = 0 then event\<lparr>be_LinkedDefaultEBI := ebi\<rparr> else event
       | Inl _ \<Rightarrow> event) else event)"
  have ev: "be_Bearers ev = be_Bearers event" "be_EBI ev = be_EBI event" "be_LocalControlTEID ev = be_LocalControlTEID event"
    "be_Sequence ev = be_Sequence event"
    by (auto simp: ev_def split: sum.splits)
  show ?case
  proof (cases "ie_Type e = ieBearerContext")
    case False
    then have "create_bearer_loop ev ies = Inr event'"
      using Cons.prems(1) by (simp add: ev_def[symmetric] Let_def)
    from Cons.IH[OF this] Cons.prems(2) ev show ?thesis by simp
  next
    case True
    define ctx where "ctx = (\<lambda>children. foldl bearer_child
        (newBearerContext (length (be_BearerContexts event)) (ie_Instance e) children) children)"
    define nxt where "nxt = (\<lambda>c. if usable_bearer c
        then event\<lparr>be_BearerContexts := be_BearerContexts event @ [c], be_Bearers := be_Bearers event @ [c]\<rparr>
        else event\<lparr>be_BearerContexts := be_BearerContexts event @ [c]\<rparr>)"
    obtain children where l: "create_bearer_loop (nxt (ctx children)) ies = Inr event'"
      using Cons.prems(1) True by (auto simp: Let_def res_bind_eq_Inr ctx_def nxt_def cong: if_cong)
    have "list_all usable_bearer (be_Bearers (nxt (ctx children)))" using Cons.prems(2) by (simp add: nxt_def)
    from Cons.IH[OF l this] show ?thesis by (simp add: nxt_def)
  qed
qed simp

text \<open>A Create Bearer Request is handed on only when it can be served: it names at least one bearer, each bearer
  it lists has a non-zero PGW tunnel identifier and an EBI that is given or left to the ePDG, the tunnel of the
  event is that of the first bearer, and an EBI to be assigned comes with the linked default bearer.\<close>

theorem parseCreateBearerRequest_usable:
  assumes "parseCreateBearerRequest req peer = Inr event"
  shows "be_Bearers event \<noteq> [] \<and> (\<forall>b \<in> set (be_Bearers event). bx_PGWUserTEID b \<noteq> 0 \<and> (bx_HasEBI b \<or> bx_UnassignedEBI b)) \<and>
     be_PGWUserTEID event = bx_PGWUserTEID (hd (be_Bearers event)) \<and> be_EBI event = bx_EBI (hd (be_Bearers event)) \<and>
     (be_EBI event \<noteq> 0 \<or> be_LinkedDefaultEBI event \<noteq> 0) \<and>
     be_LocalControlTEID event = m_TEID req \<and> be_Sequence event = m_Sequence req"
proof -
  let ?start = "\<lparr>be_LocalControlTEID = m_TEID req, be_Sequence = m_Sequence req, be_Peer = UDP_String peer, be_LinkedDefaultEBI = 0,
         be_BearerContexts = [], be_Bearers = [], be_EBI = 0, be_PGWUserTEID = 0, be_PGWUserIP = [], be_QCI = 0, be_TFTRaw = []\<rparr>"
  obtain ies ev where l: "create_bearer_loop ?start ies = Inr ev"
    and e: "event = (case be_Bearers ev of [] \<Rightarrow> ev | first # _ \<Rightarrow> ev\<lparr>be_EBI := bx_EBI first, be_PGWUserTEID := bx_PGWUserTEID first,
              be_PGWUserIP := bx_PGWUserIP first, be_QCI := bx_QCI first, be_TFTRaw := bx_TFTRaw first\<rparr>)"
    and ok: "be_EBI event \<noteq> 0 \<or> be_Bearers event \<noteq> [] \<and> be_LinkedDefaultEBI event \<noteq> 0"
    using assms by (auto simp: parseCreateBearerRequest_def res_bind_eq_Inr Let_def split: if_splits)
  from create_bearer_loop_bearers[OF l] have u: "list_all usable_bearer (be_Bearers ev)" "be_EBI ev = 0"
    "be_LocalControlTEID ev = m_TEID req" "be_Sequence ev = m_Sequence req" by auto
  show ?thesis
  proof (cases "be_Bearers ev")
    case Nil
    with e ok u show ?thesis by simp
  next
    case (Cons b bs)
    with e ok u show ?thesis by (auto simp: usable_bearer_def list_all_iff)
  qed
qed

definition demo_cbr :: message where
  "demo_cbr = \<lparr>m_Type = msgCreateBearerReq, m_TEID = 5, m_HasTEID = True, m_Sequence = 9,
     m_Payload = encodeIEs [uint8IE ieEBI 5,
       bearerContextIE [uint8IE ieEBI 0, fteidIE 4 ifaceS2BPGWGTPU 81 [10, 0, 0, 4], bearerQoSIE 1]]\<rparr>"

definition demo_pgw :: udp_addr where
  "demo_pgw = ([10, 0, 0, 3], 2123)"

lemma demo_cbr_accepted: "case parseCreateBearerRequest demo_cbr demo_pgw of Inr e \<Rightarrow> True | Inl _ \<Rightarrow> False"
  by code_simp

theorem parseCreateBearerRequest_usable_witness:
  "\<exists>e. parseCreateBearerRequest demo_cbr demo_pgw = Inr e \<and> be_Bearers e \<noteq> []"
proof -
  obtain e where "parseCreateBearerRequest demo_cbr demo_pgw = Inr e"
    using demo_cbr_accepted by (cases "parseCreateBearerRequest demo_cbr demo_pgw") auto
  with parseCreateBearerRequest_usable[OF this] show ?thesis by blast
qed

lemma length_bearer_result_ies: "length (encodeIEs (bearer_result_ies cfg cause br)) \<le> 50"
proof -
  have t: "length (To4 ip) \<le> 4" for ip by (auto simp: To4_def)
  show ?thesis
    using t[of "ParseIP (gt_LocalGTPU (c_GTP cfg))"] t[of "bb_LocalUserIP br"] t[of "bb_PGWUserIP br"]
    by (auto simp: bearer_result_ies_def Let_def encodeIEs_concat ie_encode_def ebiValueIE_def causeIE_def fteidIE_def)
qed

lemma bearer_result_ies_ok: "list_all ie_ok (bearer_result_ies cfg cause br)"
  by (auto simp: bearer_result_ies_def Let_def ie_ok_def ebiValueIE_def causeIE_def fteidIE_def To4_def)

lemma bearerContextIE_ok: "ie_ok (bearerContextIE (bearer_result_ies cfg cause br))"
  using length_bearer_result_ies[of cfg cause br] by (simp add: ie_ok_def bearerContextIE_def)

text \<open>The PGW reads the response to its Create Bearer Request as it was decided: same sequence number, addressed to
  its own control TEID when known, the overall cause, and one bearer context per bearer, in order, with its EBI, its
  cause, and for an accepted bearer the ePDG's tunnel on the S2b-U interface.\<close>

theorem createBearerResponse_read_back:
  assumes "br_Bearers result \<noteq> []" "br_Cause result \<noteq> 0"
  shows "\<exists>ies. decodeIEs (m_Payload (createBearerResponseMessage cfg req result)) = Inr ies
     \<and> m_Sequence (createBearerResponseMessage cfg req result) = m_Sequence req
     \<and> m_TEID (createBearerResponseMessage cfg req result) = (if br_PGWControlTEID result \<noteq> 0 then br_PGWControlTEID result else m_TEID req)
     \<and> parseCause ies = br_Cause result
     \<and> map (\<lambda>e. decodeIEs (ie_Payload e)) (filter (\<lambda>e. ie_Type e = ieBearerContext) ies)
         = map (\<lambda>b. Inr (bearer_result_ies cfg (br_Cause result) b)) (br_Bearers result)"
proof -
  let ?ctx = "\<lambda>b. bearerContextIE (bearer_result_ies cfg (br_Cause result) b)"
  let ?ies = "[causeIE (br_Cause result)] @ map ?ctx (br_Bearers result) @ [recoveryIE 0]"
  have ok: "list_all ie_ok ?ies" using bearerContextIE_ok by (simp add: list_all_iff)
  have m: "createBearerResponseMessage cfg req result =
      response_message msgCreateBearerResp (response_teid req (br_PGWControlTEID result)) req (encodeIEs ?ies)"
    using assms by (simp add: createBearerResponseMessage_def Let_def)
  have f: "filter (\<lambda>e. ie_Type e = ieBearerContext) ?ies = map ?ctx (br_Bearers result)"
    by (simp add: causeIE_def recoveryIE_def uint8IE_def filter_id_conv bearerContextIE_def)
  have c: "decodeIEs (ie_Payload (?ctx b)) = Inr (bearer_result_ies cfg (br_Cause result) b)" for b
    using decodeIEs_encoded[OF bearer_result_ies_ok] by (simp add: bearerContextIE_def)
  have "decodeIEs (m_Payload (createBearerResponseMessage cfg req result)) = Inr ?ies"
    using decodeIEs_encoded[OF ok] by (simp add: m response_message_def)
  moreover have "parseCause ?ies = br_Cause result" by (simp add: parseCause_def causeIE_def)
  moreover have "map (\<lambda>e. decodeIEs (ie_Payload e)) (filter (\<lambda>e. ie_Type e = ieBearerContext) ?ies)
      = map (\<lambda>b. Inr (bearer_result_ies cfg (br_Cause result) b)) (br_Bearers result)"
    unfolding f by (simp add: c)
  ultimately show ?thesis by (intro exI[of _ ?ies]) (simp add: m response_message_def response_teid_def)
qed

definition demo_cbr_result :: CreateBearerResult where
  "demo_cbr_result = \<lparr>br_Accepted = True, br_Cause = 16, br_LocalUserTEID = 8, br_LocalUserIP = [10, 0, 0, 1],
     br_Bearers = [\<lparr>bb_EBI = 6, bb_Accepted = True, bb_Cause = 16, bb_LocalUserTEID = 8, bb_LocalUserIP = [10, 0, 0, 1], bb_QCI = 1,
       bb_PGWUserTEID = 81, bb_PGWUserIP = [10, 0, 0, 4], bb_ChargingID = 0, bb_HasChargingID = False\<rparr>],
     br_PGWControlTEID = 70\<rparr>"

theorem createBearerResponse_read_back_witness:
  "m_TEID (createBearerResponseMessage demo_config demo_cbr demo_cbr_result) = 70 \<and>
   m_Sequence (createBearerResponseMessage demo_config demo_cbr demo_cbr_result) = 9"
  using createBearerResponse_read_back[of demo_cbr_result demo_config demo_cbr] by (auto simp: demo_cbr_result_def demo_cbr_def)

end
