(* ===== verification/S2bClient.thy ===== *)
theory S2bClient
  imports S2bMessages
begin

text \<open>
  The S2b client of \<^verbatim>\<open>internal/s2b/client.go\<close> with its state: the pending transactions, the trusted peer of each
  control TEID, the cache of Create Bearer responses, and the counters.  A transaction waits on a channel of
  capacity one, which is a number here; \<open>k_boxes\<close> holds what the channels contain.  A turn of \<^verbatim>\<open>readLoop\<close> takes a
  datagram and its source and gives the datagrams sent, the Delete Session events handed to a new goroutine and
  the new state.  The handlers installed by the main program work on a state of their own, the type parameter.

  Times are integers in seconds.  Sockets, the read deadline and log output are not modelled; whether a write
  succeeds is an argument.

  Shown: with the strict peer check a forged request or response changes nothing, a retransmitted Create Bearer
  Request is answered from the cache without running the handler again, and a request is sent at most three
  times, with the answer returned when one arrives in time.
\<close>

section \<open>State\<close>

record pendingTxn =
  tx_ch :: nat
  tx_peer :: udp_addr

record createBearerResponseCacheEntry =
  ce_Encoded :: bytes
  ce_BearerEBI :: "byte list"
  ce_Expires :: int

record s2b_client =
  k_cfg :: Config
  k_started :: bool
  k_peer :: udp_addr
  k_seq :: sequenceAllocator
  k_localControl :: u32
  k_localUser :: u32
  k_pending :: "u32 \<rightharpoonup> pendingTxn"
  k_sessionPeers :: "u32 \<rightharpoonup> net_ip"
  k_createBearerCache :: "string \<rightharpoonup> createBearerResponseCacheEntry"
  k_boxes :: "nat \<Rightarrow> message list"
  k_nextCh :: nat

record 'w handlers =
  h_delete :: bool
  h_createBearer :: "(CreateBearerEvent \<Rightarrow> 'w \<Rightarrow> CreateBearerResult \<times> 'w) option"
  h_deleteBearer :: "(DeleteBearerEvent \<Rightarrow> 'w \<Rightarrow> BearerResult \<times> 'w) option"
  h_updateBearer :: "(UpdateBearerEvent \<Rightarrow> 'w \<Rightarrow> BearerResult \<times> 'w) option"

text \<open>The random bytes for the sequence allocator and the two start values of the TEID counters are arguments.\<close>

definition s2b_NewClient :: "Config \<Rightarrow> bytes option \<Rightarrow> u32 \<Rightarrow> u32 \<Rightarrow> s2b_client" where
  "s2b_NewClient cfg rnd controlStart userStart =
     \<lparr>k_cfg = cfg, k_started = False, k_peer = ([], 0), k_seq = newSequenceAllocatorWithMax rnd (gt_MaxSequence (c_GTP cfg)),
      k_localControl = controlStart, k_localUser = userStart, k_pending = Map.empty, k_sessionPeers = Map.empty,
      k_createBearerCache = Map.empty, k_boxes = (\<lambda>_. []), k_nextCh = 0\<rparr>"

datatype start_error = InvalidLocalGTPC string | ListenFailed | InvalidPGWGTPC string

definition s2b_Start :: "bool \<Rightarrow> s2b_client \<Rightarrow> start_error option \<times> s2b_client" where
  "s2b_Start listenOK c =
     (let gtp = c_GTP (k_cfg c) in
      if ParseIP (gt_LocalGTPC gtp) = [] then (Some (InvalidLocalGTPC (gt_LocalGTPC gtp)), c)
      else if \<not> listenOK then (Some ListenFailed, c)
      else if ParseIP (gt_PGWGTPC gtp) = [] then (Some (InvalidPGWGTPC (gt_PGWGTPC gtp)), c)
      else (None, c\<lparr>k_started := True, k_peer := (ParseIP (gt_PGWGTPC gtp), defaultGTPControlPort)\<rparr>))"

section \<open>Transactions\<close>

abbreviation (input) n3Requests :: nat where "n3Requests \<equiv> 3"

text \<open>
  What ends the wait of one attempt: a response in the channel, the T3 timer (with the context still alive or
  already done), or the context.
\<close>

datatype wait_outcome = GotResponse message | T3Expired | T3ExpiredDone | CtxDone

text \<open>
  The retransmission loop: \<open>n\<close> attempts left, \<open>k\<close> made so far; \<open>wr k\<close> says whether attempt \<open>k\<close> could be written and \<open>wait k\<close>
  how its wait ended.  The result comes with the number of datagrams sent.
\<close>

fun transaction_attempts :: "nat \<Rightarrow> nat \<Rightarrow> (nat \<Rightarrow> bool) \<Rightarrow> (nat \<Rightarrow> wait_outcome) \<Rightarrow> byte \<Rightarrow> (s2b_error + message) \<times> nat" where
  "transaction_attempts 0 k wr wait expected = (Inl NoResponse, k)"
| "transaction_attempts (Suc n) k wr wait expected =
     (if \<not> wr k then (Inl SendRequestFailed, k)
      else case wait k of
             GotResponse resp \<Rightarrow>
               if m_Type resp \<noteq> expected then (Inl (UnexpectedType expected (m_Type resp)), Suc k) else (Inr resp, Suc k)
           | T3Expired \<Rightarrow> transaction_attempts n (Suc k) wr wait expected
           | T3ExpiredDone \<Rightarrow> (Inl WaitCancelled, Suc k)
           | CtxDone \<Rightarrow> (Inl WaitCancelled, Suc k))"

definition transactionTo ::
  "(nat \<Rightarrow> bool) \<Rightarrow> (nat \<Rightarrow> wait_outcome) \<Rightarrow> message \<Rightarrow> byte \<Rightarrow> udp_addr \<Rightarrow> (s2b_error + message) \<times> datagram list" where
  "transactionTo wr wait req expected peer =
     (case message_encode req of
        Inl e \<Rightarrow> (Inl (GtpcError e), [])
      | Inr encoded \<Rightarrow>
          (case transaction_attempts n3Requests 0 wr wait expected of
             (res, sent) \<Rightarrow> (res, replicate sent (encoded, peer))))"

text \<open>Registration before the loop and the deferred removal after it.\<close>

definition txn_begin :: "u32 \<Rightarrow> udp_addr \<Rightarrow> s2b_client \<Rightarrow> s2b_client" where
  "txn_begin seq peer c =
     c\<lparr>k_pending := (k_pending c)(seq \<mapsto> \<lparr>tx_ch = k_nextCh c, tx_peer = peer\<rparr>), k_nextCh := Suc (k_nextCh c)\<rparr>"

definition txn_end :: "u32 \<Rightarrow> s2b_client \<Rightarrow> s2b_client" where
  "txn_end seq c = c\<lparr>k_pending := (k_pending c)(seq := None)\<rparr>"

text \<open>The peer of a request: the address given, when it is IPv4, else the configured PGW.\<close>

definition choose_peer :: "net_ip \<Rightarrow> s2b_client \<Rightarrow> udp_addr" where
  "choose_peer ip c = (if To4 ip \<noteq> [] then (To4 ip, defaultGTPControlPort) else k_peer c)"

definition next_seq :: "s2b_client \<Rightarrow> u32 \<times> s2b_client" where
  "next_seq c = (case sequence_next (k_seq c) of (seq, a) \<Rightarrow> (seq, c\<lparr>k_seq := a\<rparr>))"

definition s2b_CreateSession ::
  "(nat \<Rightarrow> bool) \<Rightarrow> (nat \<Rightarrow> wait_outcome) \<Rightarrow> CreateSessionRequest \<Rightarrow> s2b_client \<Rightarrow>
   (s2b_error + CreateSessionResult) \<times> datagram list \<times> s2b_client" where
  "s2b_CreateSession wr wait req c =
     (if \<not> k_started c then (Inl NotStarted, [], c)
      else if cq_IMSI req = '''' then (Inl S2bRequiresIMSI, [], c)
      else if cq_APN req = '''' then (Inl S2bRequiresAPN, [], c)
      else case gtpAMBR (cq_AMBRUplink req) (cq_AMBRDownlink req) of
             Inl e \<Rightarrow> (Inl e, [], c)
           | Inr (ulKbps, dlKbps) \<Rightarrow>
               let localControl = nextTEID (k_localControl c);
                   localUser = nextTEID (k_localUser c)
               in case next_seq (c\<lparr>k_localControl := localControl, k_localUser := localUser\<rparr>) of
                    (seq, c) \<Rightarrow>
                      (case createSessionPayload (k_cfg c) req ulKbps dlKbps localControl localUser of
                         None \<Rightarrow> (Inl PLMNPanic, [], c)
                       | Some payload \<Rightarrow>
                           let peer = choose_peer (cq_PGWControlIP req) c in
                           (case transactionTo wr wait \<lparr>m_Type = msgCreateSessionReq, m_TEID = 0, m_HasTEID = True, m_Sequence = seq,
                                   m_Payload = payload\<rparr> msgCreateSessionResp peer of
                              (Inl e, sent) \<Rightarrow> (Inl e, sent, c)
                            | (Inr resp, sent) \<Rightarrow>
                                (case parseCreateSessionResponse (k_cfg c) resp localControl localUser of
                                   Inl e \<Rightarrow> (Inl e, sent, c)
                                 | Inr result \<Rightarrow>
                                     (Inr result, sent, c\<lparr>k_sessionPeers := (k_sessionPeers c)(localControl \<mapsto> fst peer)\<rparr>)))))"

definition s2b_Echo ::
  "(nat \<Rightarrow> bool) \<Rightarrow> (nat \<Rightarrow> wait_outcome) \<Rightarrow> s2b_client \<Rightarrow> (s2b_error + byte) \<times> datagram list \<times> s2b_client" where
  "s2b_Echo wr wait c =
     (case next_seq c of
        (seq, c) \<Rightarrow>
          (case transactionTo wr wait \<lparr>m_Type = msgEchoRequest, m_TEID = 0, m_HasTEID = False, m_Sequence = seq,
                  m_Payload = ie_encode (recoveryIE 0)\<rparr> msgEchoResponse (k_peer c) of
             (res, sent) \<Rightarrow> (res_bind res (\<lambda>resp. res_map parseRecovery (lift_gtpc (decodeIEs (m_Payload resp)))), sent, c)))"

definition s2b_DeleteSession ::
  "(nat \<Rightarrow> bool) \<Rightarrow> (nat \<Rightarrow> wait_outcome) \<Rightarrow> net_ip \<Rightarrow> u32 \<Rightarrow> u32 \<Rightarrow> u32 \<Rightarrow> byte \<Rightarrow> s2b_client \<Rightarrow>
   s2b_error option \<times> datagram list \<times> s2b_client" where
  "s2b_DeleteSession wr wait pgwControlIP pgwControlTEID localControlTEID localUserTEID ebi c =
     (let peer = choose_peer pgwControlIP c;
          fteidTEID = (if localControlTEID = 0 then localUserTEID else localControlTEID);
          payload = encodeIEs [uint8IE ieEBI ebi,
                               fteidIE 0 ifaceS2BePDGGTPC fteidTEID (ParseIP (gt_LocalGTPC (c_GTP (k_cfg c))))]
      in case next_seq c of
           (seq, c) \<Rightarrow>
             let c = c\<lparr>k_sessionPeers := (k_sessionPeers c)(localControlTEID := None)\<rparr> in
             (case transactionTo wr wait \<lparr>m_Type = msgDeleteSessionReq, m_TEID = pgwControlTEID, m_HasTEID = True, m_Sequence = seq,
                     m_Payload = payload\<rparr> msgDeleteSessionResp peer of
                (Inl e, sent) \<Rightarrow> (Some e, sent, c)
              | (Inr resp, sent) \<Rightarrow>
                  (case decodeIEs (m_Payload resp) of
                     Inl e \<Rightarrow> (Some (GtpcError e), sent, c)
                   | Inr ies \<Rightarrow>
                       (if parseCause ies \<noteq> causeRequestAccepted then Some (DeleteSessionCauseError (parseCause ies)) else None, sent, c))))"

section \<open>Network-initiated requests\<close>

definition send_message :: "bool \<Rightarrow> udp_addr \<Rightarrow> message \<Rightarrow> datagram list" where
  "send_message wr peer resp = (case message_encode resp of Inl _ \<Rightarrow> [] | Inr encoded \<Rightarrow> if wr then [(encoded, peer)] else [])"

definition handleDeleteSessionRequest ::
  "bool \<Rightarrow> bool \<Rightarrow> message \<Rightarrow> udp_addr \<Rightarrow> s2b_client \<Rightarrow> datagram list \<times> DeleteSessionEvent list \<times> s2b_client" where
  "handleDeleteSessionRequest hasHandler wr req peer c =
     (let c = c\<lparr>k_sessionPeers := (k_sessionPeers c)(m_TEID req := None)\<rparr>;
          sent = send_message wr peer (response_message msgDeleteSessionResp (m_TEID req) req (ie_encode (causeIE causeRequestAccepted)))
      in (sent, if sent \<noteq> [] \<and> hasHandler then [delete_session_event req peer] else [], c))"

definition handleEchoRequest :: "bool \<Rightarrow> message \<Rightarrow> udp_addr \<Rightarrow> datagram list" where
  "handleEchoRequest wr req peer =
     send_message wr peer \<lparr>m_Type = msgEchoResponse, m_TEID = 0, m_HasTEID = m_HasTEID req, m_Sequence = m_Sequence req,
       m_Payload = ie_encode (recoveryIE 0)\<rparr>"

definition createBearerCacheKey :: "udp_addr \<Rightarrow> message \<Rightarrow> string" where
  "createBearerCacheKey peer req =
     UDP_String peer @ ''|'' @ show_nat (unat (m_TEID req)) @ ''|'' @ show_nat (unat (m_Sequence req)) @ ''|'' @ show_nat (unat (m_Type req))"

definition purgeExpiredCreateBearerCacheLocked :: "int \<Rightarrow> s2b_client \<Rightarrow> s2b_client" where
  "purgeExpiredCreateBearerCacheLocked now c =
     c\<lparr>k_createBearerCache := (\<lambda>key. case k_createBearerCache c key of
         None \<Rightarrow> None | Some entry \<Rightarrow> if now > ce_Expires entry then None else Some entry)\<rparr>"

definition cachedCreateBearerResponse :: "int \<Rightarrow> string \<Rightarrow> s2b_client \<Rightarrow> createBearerResponseCacheEntry option \<times> s2b_client" where
  "cachedCreateBearerResponse now key c =
     (let c = purgeExpiredCreateBearerCacheLocked now c in (k_createBearerCache c key, c))"

definition cacheCreateBearerResponse :: "int \<Rightarrow> string \<Rightarrow> bytes \<Rightarrow> byte list \<Rightarrow> s2b_client \<Rightarrow> s2b_client" where
  "cacheCreateBearerResponse now key encoded ebis c =
     (let c = purgeExpiredCreateBearerCacheLocked now c in
      c\<lparr>k_createBearerCache := (k_createBearerCache c)(key \<mapsto>
          \<lparr>ce_Encoded = encoded, ce_BearerEBI = ebis, ce_Expires = now + 60\<rparr>)\<rparr>)"

definition context_not_found :: "byte \<Rightarrow> message \<Rightarrow> message" where
  "context_not_found typ req = response_message typ (m_TEID req) req (ie_encode (causeIE causeContextNotFound))"

text \<open>The bearers of the result: a default entry when the handler gave none, and the QCI of the request by position.\<close>

definition fill_bearers :: "CreateBearerEvent \<Rightarrow> CreateBearerResult \<Rightarrow> CreateBearerBearerResult list" where
  "fill_bearers event result =
     (let bearers = (if br_Bearers result = [] then
            [\<lparr>bb_EBI = be_EBI event, bb_Accepted = br_Accepted result, bb_Cause = br_Cause result,
              bb_LocalUserTEID = br_LocalUserTEID result, bb_LocalUserIP = br_LocalUserIP result, bb_QCI = be_QCI event,
              bb_PGWUserTEID = 0, bb_PGWUserIP = [], bb_ChargingID = 0, bb_HasChargingID = False\<rparr>]
          else br_Bearers result)
      in map (\<lambda>i. let b = bearers ! i in
                  if bb_QCI b = 0 \<and> i < length (be_Bearers event) then b\<lparr>bb_QCI := bx_QCI (be_Bearers event ! i)\<rparr> else b)
           [0..<length bearers])"

definition no_create_result :: "CreateBearerResult" where
  "no_create_result = \<lparr>br_Accepted = False, br_Cause = causeContextNotFound, br_LocalUserTEID = 0, br_LocalUserIP = [],
     br_Bearers = [], br_PGWControlTEID = 0\<rparr>"

text \<open>\<open>now\<close> is the time of the cache lookup and \<open>now'\<close> that of the insertion, after the handler.\<close>

definition handleCreateBearerRequest ::
  "'w handlers \<Rightarrow> int \<Rightarrow> int \<Rightarrow> bool \<Rightarrow> message \<Rightarrow> udp_addr \<Rightarrow> s2b_client \<Rightarrow> 'w \<Rightarrow> datagram list \<times> s2b_client \<times> 'w" where
  "handleCreateBearerRequest h now now' wr req peer c w =
     (let key = createBearerCacheKey peer req in
      case cachedCreateBearerResponse now key c of
        (Some cached, c) \<Rightarrow> (if wr then [(ce_Encoded cached, peer)] else [], c, w)
      | (None, c) \<Rightarrow>
          (case parseCreateBearerRequest req peer of
             Inl _ \<Rightarrow> (send_message wr peer (context_not_found msgCreateBearerResp req), c, w)
           | Inr event \<Rightarrow>
               (case (case h_createBearer h of None \<Rightarrow> (no_create_result, w) | Some handler \<Rightarrow> handler event w) of
                  (result, w) \<Rightarrow>
                    let result = (if br_Cause result = 0 then result\<lparr>br_Cause := causeRequestAccepted\<rparr> else result);
                        result = result\<lparr>br_Bearers := fill_bearers event result\<rparr>
                    in (case message_encode (createBearerResponseMessage (k_cfg c) req result) of
                          Inl _ \<Rightarrow> ([], c, w)
                        | Inr encoded \<Rightarrow>
                            (if wr then [(encoded, peer)] else [],
                             cacheCreateBearerResponse now' key encoded (createBearerResultEBIs (br_Bearers result)) c, w)))))"

definition with_cause :: "BearerResult \<Rightarrow> BearerResult" where
  "with_cause r = (if rr_Cause r = 0 then r\<lparr>rr_Cause := causeRequestAccepted\<rparr> else r)"

definition no_bearer_result :: BearerResult where
  "no_bearer_result = \<lparr>rr_Cause = causeContextNotFound, rr_PGWControlTEID = 0\<rparr>"

definition handleDeleteBearerRequest ::
  "'w handlers \<Rightarrow> bool \<Rightarrow> message \<Rightarrow> udp_addr \<Rightarrow> 'w \<Rightarrow> datagram list \<times> 'w" where
  "handleDeleteBearerRequest h wr req peer w =
     (case parseDeleteBearerRequest req peer of
        Inl _ \<Rightarrow> (send_message wr peer (context_not_found msgDeleteBearerResp req), w)
      | Inr event \<Rightarrow>
          (case (case h_deleteBearer h of None \<Rightarrow> (no_bearer_result, w) | Some handler \<Rightarrow> handler event w) of
             (result, w) \<Rightarrow> (send_message wr peer (deleteBearerResponse req event (with_cause result)), w)))"

definition handleUpdateBearerRequest ::
  "'w handlers \<Rightarrow> bool \<Rightarrow> message \<Rightarrow> udp_addr \<Rightarrow> 'w \<Rightarrow> datagram list \<times> 'w" where
  "handleUpdateBearerRequest h wr req peer w =
     (case parseUpdateBearerRequest req peer of
        Inl _ \<Rightarrow> (send_message wr peer (context_not_found msgUpdateBearerResp req), w)
      | Inr event \<Rightarrow>
          (case (case h_updateBearer h of None \<Rightarrow> (no_bearer_result, w) | Some handler \<Rightarrow> handler event w) of
             (result, w) \<Rightarrow> (send_message wr peer (updateBearerResponse req event (with_cause result)), w)))"

section \<open>The reading loop\<close>

definition network_initiated :: "byte \<Rightarrow> bool" where
  "network_initiated typ = (typ \<in> {msgDeleteSessionReq, msgCreateBearerReq, msgDeleteBearerReq, msgUpdateBearerReq})"

text \<open>The claim of a pending transaction and the non-blocking send into its channel of capacity one.\<close>

definition claim :: "message \<Rightarrow> pendingTxn \<Rightarrow> s2b_client \<Rightarrow> s2b_client" where
  "claim msg txn c =
     c\<lparr>k_pending := (k_pending c)(m_Sequence msg := None),
       k_boxes := (if k_boxes c (tx_ch txn) = [] then (k_boxes c)(tx_ch txn := [msg]) else k_boxes c)\<rparr>"

definition s2b_readLoop_turn ::
  "'w handlers \<Rightarrow> int \<Rightarrow> int \<Rightarrow> bool \<Rightarrow> bytes \<Rightarrow> udp_addr \<Rightarrow> s2b_client \<Rightarrow> 'w \<Rightarrow>
   datagram list \<times> DeleteSessionEvent list \<times> s2b_client \<times> 'w" where
  "s2b_readLoop_turn h now now' wr buf peer c w =
     (case decodeMessage buf of
        Inl _ \<Rightarrow> ([], [], c, w)
      | Inr msg \<Rightarrow>
          let strict = gt_StrictPeerCheck (c_GTP (k_cfg c));
              txn = k_pending c (m_Sequence msg);
              expectedPeer = k_sessionPeers c (m_TEID msg);
              pendingMatch = (case txn of None \<Rightarrow> None
                 | Some t \<Rightarrow> if strict \<and> \<not> IP_Equal (fst peer) (fst (tx_peer t)) then None else Some t)
          in if m_Type msg = msgEchoRequest then (handleEchoRequest wr msg peer, [], c, w)
             else if network_initiated (m_Type msg) then
               (if strict \<and> (case expectedPeer of None \<Rightarrow> False | Some ip \<Rightarrow> ip \<noteq> [] \<and> \<not> IP_Equal (fst peer) ip) then ([], [], c, w)
                else if m_Type msg = msgDeleteSessionReq then
                  (case handleDeleteSessionRequest (h_delete h) wr msg peer c of (out, evs, c) \<Rightarrow> (out, evs, c, w))
                else if m_Type msg = msgCreateBearerReq then
                  (case handleCreateBearerRequest h now now' wr msg peer c w of (out, c, w) \<Rightarrow> (out, [], c, w))
                else if m_Type msg = msgDeleteBearerReq then
                  (case handleDeleteBearerRequest h wr msg peer w of (out, w) \<Rightarrow> (out, [], c, w))
                else (case handleUpdateBearerRequest h wr msg peer w of (out, w) \<Rightarrow> (out, [], c, w)))
             else (case pendingMatch of
                     None \<Rightarrow> ([], [], c, w)
                   | Some t \<Rightarrow> ([], [], claim msg t c, w)))"

section \<open>Forged messages\<close>

text \<open>C25.  With the strict peer check a network-initiated request (Delete Session, Create, Update or Delete Bearer) for a
  known session that does not come from the PGW of that session is dropped: no answer, no event, no handler run, and
  nothing changed.\<close>

theorem forged_request_dropped:
  assumes "gt_StrictPeerCheck (c_GTP (k_cfg c))" "decodeMessage buf = Inr msg" "network_initiated (m_Type msg)"
    and "k_sessionPeers c (m_TEID msg) = Some ip" "ip \<noteq> []" "\<not> IP_Equal (fst peer) ip"
  shows "s2b_readLoop_turn h now now' wr buf peer c w = ([], [], c, w)"
  using assms by (auto simp: s2b_readLoop_turn_def Let_def network_initiated_def)

definition demo_client :: s2b_client where
  "demo_client = (s2b_NewClient demo_config None 4 5)\<lparr>k_sessionPeers := [5 \<mapsto> [10, 0, 0, 3]]\<rparr>"

definition demo_forged :: bytes where
  "demo_forged = [0x48, 36, 0, 8, 0, 0, 0, 5, 0, 0, 9, 0]"

theorem forged_request_dropped_witness:
  "s2b_readLoop_turn (\<lparr>h_delete = True, h_createBearer = None, h_deleteBearer = None, h_updateBearer = None\<rparr> :: unit handlers)
     1 1 True demo_forged ([192, 0, 2, 66], 2123) demo_client () = ([], [], demo_client, ())"
proof (rule forged_request_dropped[where msg = "\<lparr>m_Type = 36, m_TEID = 5, m_HasTEID = True, m_Sequence = 9, m_Payload = []\<rparr>" and ip = "[10, 0, 0, 3]"])
  show "decodeMessage demo_forged = Inr \<lparr>m_Type = 36, m_TEID = 5, m_HasTEID = True, m_Sequence = 9, m_Payload = []\<rparr>" by code_simp
qed (simp_all add: demo_client_def s2b_NewClient_def demo_config_def Default_def network_initiated_def IP_Equal_def)

lemma handlers_boxes [simp]:
  "k_boxes (purgeExpiredCreateBearerCacheLocked now c) = k_boxes c"
  "k_boxes (cacheCreateBearerResponse now key e ebis c) = k_boxes c"
  "k_pending (purgeExpiredCreateBearerCacheLocked now c) = k_pending c"
  "k_pending (cacheCreateBearerResponse now key e ebis c) = k_pending c"
  by (simp_all add: purgeExpiredCreateBearerCacheLocked_def cacheCreateBearerResponse_def)

lemma handleCreateBearerRequest_boxes:
  "handleCreateBearerRequest h now now' wr req peer c w = (out, c', w') \<Longrightarrow> k_boxes c' = k_boxes c \<and> k_pending c' = k_pending c"
  by (auto simp: handleCreateBearerRequest_def cachedCreateBearerResponse_def Let_def split: option.splits sum.splits prod.splits)

lemma handleDeleteSessionRequest_boxes:
  "handleDeleteSessionRequest hh wr req peer c = (out, evs, c') \<Longrightarrow> k_boxes c' = k_boxes c \<and> k_pending c' = k_pending c"
  by (auto simp: handleDeleteSessionRequest_def Let_def)

text \<open>With the strict peer check a response reaches a waiting transaction only from the address its request was sent to:
  whenever a turn of the reading loop puts anything into a channel, it is the decoded datagram, its sequence number is that
  of the transaction waiting there, its source is the transaction's peer, and the transaction is no longer pending, so that
  a duplicate cannot be delivered again.\<close>

theorem response_from_peer_only:
  assumes "s2b_readLoop_turn h now now' wr buf peer c w = (out, evs, c', w')"
    and "gt_StrictPeerCheck (c_GTP (k_cfg c))" "k_boxes c' ch \<noteq> k_boxes c ch"
  shows "\<exists>msg txn. decodeMessage buf = Inr msg \<and> k_pending c (m_Sequence msg) = Some txn \<and> tx_ch txn = ch \<and>
     IP_Equal (fst peer) (fst (tx_peer txn)) \<and> k_boxes c ch = [] \<and> k_boxes c' ch = [msg] \<and> k_pending c' (m_Sequence msg) = None"
proof -
  obtain msg where d: "decodeMessage buf = Inr msg"
    using assms(1,3) by (cases "decodeMessage buf") (auto simp: s2b_readLoop_turn_def)
  have ne: "m_Type msg \<noteq> msgEchoRequest" using assms(1,3) d by (auto simp: s2b_readLoop_turn_def Let_def)
  have nn: "\<not> network_initiated (m_Type msg)"
  proof
    assume "network_initiated (m_Type msg)"
    with assms(1) d ne have "k_boxes c' = k_boxes c"
      by (auto simp: s2b_readLoop_turn_def Let_def split: if_splits prod.splits
          dest: handleCreateBearerRequest_boxes handleDeleteSessionRequest_boxes)
    with assms(3) show False by simp
  qed
  have "c' = (case k_pending c (m_Sequence msg) of None \<Rightarrow> c
      | Some t \<Rightarrow> if \<not> IP_Equal (fst peer) (fst (tx_peer t)) then c else claim msg t c)"
    using assms(1,2) d ne nn by (auto simp: s2b_readLoop_turn_def Let_def split: option.splits if_splits)
  with assms(3) d show ?thesis by (auto simp: claim_def split: option.splits if_splits)
qed

definition demo_waiting :: s2b_client where
  "demo_waiting = txn_begin 9 ([10, 0, 0, 3], 2123) (s2b_NewClient demo_config None 4 5)"

definition demo_answer :: message where
  "demo_answer = \<lparr>m_Type = 33, m_TEID = 5, m_HasTEID = True, m_Sequence = 9, m_Payload = []\<rparr>"

lemma demo_answer_turn:
  "decodeMessage [0x48, 33, 0, 8, 0, 0, 0, 5, 0, 0, 9, 0] = Inr demo_answer"
  "s2b_readLoop_turn (\<lparr>h_delete = True, h_createBearer = None, h_deleteBearer = None, h_updateBearer = None\<rparr> :: unit handlers)
     1 1 True [0x48, 33, 0, 8, 0, 0, 0, 5, 0, 0, 9, 0] ([10, 0, 0, 3], 2123) demo_waiting () =
   ([], [], claim demo_answer \<lparr>tx_ch = 0, tx_peer = ([10, 0, 0, 3], 2123)\<rparr> demo_waiting, ())"
proof -
  show d: "decodeMessage [0x48, 33, 0, 8, 0, 0, 0, 5, 0, 0, 9, 0] = Inr demo_answer" by code_simp
  show "s2b_readLoop_turn (\<lparr>h_delete = True, h_createBearer = None, h_deleteBearer = None, h_updateBearer = None\<rparr> :: unit handlers)
     1 1 True [0x48, 33, 0, 8, 0, 0, 0, 5, 0, 0, 9, 0] ([10, 0, 0, 3], 2123) demo_waiting () =
   ([], [], claim demo_answer \<lparr>tx_ch = 0, tx_peer = ([10, 0, 0, 3], 2123)\<rparr> demo_waiting, ())"
    by (simp add: s2b_readLoop_turn_def d) (simp add: demo_answer_def network_initiated_def demo_waiting_def txn_begin_def s2b_NewClient_def)
qed

theorem response_from_peer_only_witness:
  "\<exists>txn. k_pending demo_waiting 9 = Some txn \<and> IP_Equal [10, 0, 0, 3] (fst (tx_peer txn))"
  using response_from_peer_only[OF demo_answer_turn(2), of 0] demo_answer_turn(1)
  by (fastforce simp: demo_answer_def claim_def demo_waiting_def txn_begin_def s2b_NewClient_def demo_config_def Default_def)

section \<open>Retransmitted Create Bearer Requests\<close>

text \<open>C26.  Create Bearer is idempotent for a minute: when a request that was not answered before has been answered at time
  \<open>now'\<close>, the same request arriving again at a time up to \<open>now' + 60\<close> gets the byte-identical answer and the bearer handler does
  not run again.\<close>

theorem create_bearer_retransmission:
  assumes first: "handleCreateBearerRequest h now now' True req peer c w = ([d], c1, w1)"
    and miss: "fst (cachedCreateBearerResponse now (createBearerCacheKey peer req) c) = None"
    and t: "t \<le> now' + 60"
  shows "\<exists>c2. handleCreateBearerRequest h' t t' True req peer c1 w1 = ([d], c2, w1)"
proof (cases "parseCreateBearerRequest req peer")
  case (Inl e)
  have c1: "c1 = purgeExpiredCreateBearerCacheLocked now c" and w1: "w1 = w"
    and d: "send_message True peer (context_not_found msgCreateBearerResp req) = [d]"
    using first miss Inl by (auto simp: handleCreateBearerRequest_def cachedCreateBearerResponse_def Let_def)
  have "k_createBearerCache c1 (createBearerCacheKey peer req) = None"
    using miss c1 by (simp add: cachedCreateBearerResponse_def Let_def)
  then have "fst (cachedCreateBearerResponse t (createBearerCacheKey peer req) c1) = None"
    by (simp add: cachedCreateBearerResponse_def purgeExpiredCreateBearerCacheLocked_def Let_def)
  then show ?thesis using Inl d by (auto simp: handleCreateBearerRequest_def Let_def split: prod.splits option.splits)
next
  case (Inr event)
  let ?key = "createBearerCacheKey peer req"
  obtain enc ebis c0 where d: "d = (enc, peer)" and c1: "c1 = cacheCreateBearerResponse now' ?key enc ebis c0"
    using first miss Inr
    by (auto simp: handleCreateBearerRequest_def Let_def split: prod.splits option.splits sum.splits)
  have "cachedCreateBearerResponse t ?key c1 = (Some \<lparr>ce_Encoded = enc, ce_BearerEBI = ebis, ce_Expires = now' + 60\<rparr>,
      purgeExpiredCreateBearerCacheLocked t c1)"
    using t by (simp add: c1 cachedCreateBearerResponse_def cacheCreateBearerResponse_def purgeExpiredCreateBearerCacheLocked_def Let_def)
  then show ?thesis by (simp add: handleCreateBearerRequest_def d)
qed

definition demo_handlers :: "nat handlers" where
  "demo_handlers = \<lparr>h_delete = True, h_createBearer = Some (\<lambda>e n. (demo_cbr_result, Suc n)), h_deleteBearer = None, h_updateBearer = None\<rparr>"

lemma demo_cache_miss: "fst (cachedCreateBearerResponse 100 (createBearerCacheKey demo_pgw demo_cbr) demo_client) = None"
  by (simp add: cachedCreateBearerResponse_def purgeExpiredCreateBearerCacheLocked_def demo_client_def s2b_NewClient_def)

lemma message_encode_ok:
  "minSequence \<le> m_Sequence m \<Longrightarrow> m_Sequence m \<le> maxSequence \<Longrightarrow> length (m_Payload m) \<le> 65000 \<Longrightarrow> \<exists>b. message_encode m = Inr b"
  by (auto simp: message_encode_def Let_def not_less)

lemma demo_encoded: "\<exists>enc. message_encode (createBearerResponseMessage demo_config demo_cbr demo_cbr_result) = Inr enc"
proof (rule message_encode_ok)
  show "length (m_Payload (createBearerResponseMessage demo_config demo_cbr demo_cbr_result)) \<le> 65000"
    using length_bearer_result_ies[of demo_config 16 "hd (br_Bearers demo_cbr_result)"]
    by (simp add: createBearerResponseMessage_def response_message_def demo_cbr_result_def encodeIEs_concat ie_encode_def bearerContextIE_def
        causeIE_def recoveryIE_def uint8IE_def)
qed (simp_all add: createBearerResponseMessage_def response_message_def demo_cbr_def Let_def)

lemma demo_first_answer:
  "\<exists>d c1. handleCreateBearerRequest demo_handlers 100 101 True demo_cbr demo_pgw demo_client 0 = ([d], c1, 1)"
proof -
  obtain e where e: "parseCreateBearerRequest demo_cbr demo_pgw = Inr e"
    using demo_cbr_accepted by (cases "parseCreateBearerRequest demo_cbr demo_pgw") auto
  obtain enc where enc: "message_encode (createBearerResponseMessage demo_config demo_cbr demo_cbr_result) = Inr enc"
    using demo_encoded by blast
  have f: "demo_cbr_result\<lparr>br_Bearers := fill_bearers e demo_cbr_result\<rparr> = demo_cbr_result" "br_Cause demo_cbr_result \<noteq> 0"
    by (simp_all add: fill_bearers_def demo_cbr_result_def)
  obtain c0 where c0: "cachedCreateBearerResponse 100 (createBearerCacheKey demo_pgw demo_cbr) demo_client = (None, c0)"
    using demo_cache_miss by (cases "cachedCreateBearerResponse 100 (createBearerCacheKey demo_pgw demo_cbr) demo_client") auto
  then have "k_cfg c0 = demo_config"
    by (auto simp: cachedCreateBearerResponse_def purgeExpiredCreateBearerCacheLocked_def demo_client_def s2b_NewClient_def Let_def)
  then show ?thesis by (simp add: handleCreateBearerRequest_def c0 e demo_handlers_def f enc)
qed

theorem create_bearer_retransmission_witness:
  "\<exists>d c1 c2. handleCreateBearerRequest demo_handlers 100 101 True demo_cbr demo_pgw demo_client 0 = ([d], c1, 1) \<and>
     handleCreateBearerRequest demo_handlers 160 160 True demo_cbr demo_pgw c1 1 = ([d], c2, 1)"
proof -
  obtain d c1 where "handleCreateBearerRequest demo_handlers 100 101 True demo_cbr demo_pgw demo_client 0 = ([d], c1, 1)"
    using demo_first_answer by blast
  with create_bearer_retransmission[OF this demo_cache_miss, where t = 160] show ?thesis by fastforce
qed

section \<open>Retransmission of our own requests\<close>

lemma transaction_attempts_bound: "snd (transaction_attempts n k wr wait expected) \<le> k + n"
proof (induction n arbitrary: k)
  case (Suc n)
  from Suc.IH[of "Suc k"] show ?case by (auto split: wait_outcome.splits)
qed simp

lemma transaction_attempts_type: "fst (transaction_attempts n k wr wait expected) = Inr m \<Longrightarrow> m_Type m = expected"
  by (induction n arbitrary: k) (auto split: wait_outcome.splits if_splits)

lemma transaction_attempts_answer:
  "\<forall>j. k \<le> j \<and> j \<le> k + i \<longrightarrow> wr j \<Longrightarrow> \<forall>j. k \<le> j \<and> j < k + i \<longrightarrow> wait j = T3Expired \<Longrightarrow> wait (k + i) = GotResponse m \<Longrightarrow>
   m_Type m = expected \<Longrightarrow> i < n \<Longrightarrow> transaction_attempts n k wr wait expected = (Inr m, k + i + 1)"
proof (induction i arbitrary: n k)
  case 0
  then show ?case by (cases n) auto
next
  case (Suc i)
  then obtain n' where n: "n = Suc n'" by (cases n) auto
  have "transaction_attempts n' (Suc k) wr wait expected = (Inr m, Suc k + i + 1)"
    using Suc.prems n by (intro Suc.IH) auto
  with Suc.prems n show ?case by auto
qed

text \<open>C27.  Every request ends: it is sent at most three times, each time the same bytes to the same peer, and what is returned as
  a response has the expected type.  When the peer answers the \<open>i\<close>-th attempt in time with the expected type, the call
  returns that answer after exactly \<open>i\<close> transmissions.\<close>

theorem transaction_bounded_and_answered:
  assumes "transactionTo wr wait req expected peer = (res, sent)"
  shows "length sent \<le> 3 \<and> (\<forall>(d, a) \<in> set sent. message_encode req = Inr d \<and> a = peer) \<and> (\<forall>m. res = Inr m \<longrightarrow> m_Type m = expected) \<and>
     (\<forall>i m enc. message_encode req = Inr enc \<and> i < 3 \<and> (\<forall>j \<le> i. wr j) \<and> (\<forall>j < i. wait j = T3Expired) \<and> wait i = GotResponse m \<and>
        m_Type m = expected \<longrightarrow> res = Inr m \<and> length sent = i + 1)"
proof (cases "message_encode req")
  case (Inl e)
  with assms show ?thesis by (auto simp: transactionTo_def)
next
  case (Inr enc)
  obtain n where a: "transaction_attempts 3 0 wr wait expected = (res, n)" and s: "sent = replicate n (enc, peer)"
    using assms Inr by (auto simp: transactionTo_def split: prod.splits)
  have "n \<le> 3" using transaction_attempts_bound[of 3 0 wr wait expected] a by simp
  moreover have "m_Type m = expected" if "res = Inr m" for m
    using transaction_attempts_type[of 3 0 wr wait expected m] a that by simp
  moreover have "res = Inr m \<and> n = i + 1"
    if "i < 3" "\<forall>j \<le> i. wr j" "\<forall>j < i. wait j = T3Expired" "wait i = GotResponse m" "m_Type m = expected" for i m
    using transaction_attempts_answer[of 0 i wr wait m expected 3] that a by simp
  ultimately show ?thesis using s Inr by auto
qed

theorem transaction_bounded_and_answered_witness:
  "\<exists>sent. transactionTo (\<lambda>_. True) (\<lambda>i. if i = 1 then GotResponse demo_answer else T3Expired) demo_cbr 33 demo_pgw = (Inr demo_answer, sent) \<and>
     length sent = 2"
proof -
  obtain enc where "message_encode demo_cbr = Inr enc"
    using message_encode_ok[of demo_cbr]
    by (auto simp: demo_cbr_def encodeIEs_def ie_encode_def bearerContextIE_def uint8IE_def fteidIE_def bearerQoSIE_def To4_def)
  then show ?thesis
    using transaction_bounded_and_answered[OF prod.collapse[symmetric], of "\<lambda>_. True"
        "\<lambda>i. if i = 1 then GotResponse demo_answer else T3Expired" demo_cbr 33 demo_pgw]
    by (metis (no_types, lifting) demo_answer_def less_one message.select_convs(1) nat_neq_iff one_add_one one_less_numeral_iff
        prod.collapse semiring_norm(77))
qed

end
