(* ===== verification/EpdgMain.thy ===== *)
theory EpdgMain
  imports S2bClient SwmClient GtpuDataplane
begin

text \<open>
  The program around the components (\<^verbatim>\<open>cmd/epdg/main.go\<close>): the handlers that serve the requests of the PGW on the
  session manager and the dataplane, the cleanup of a session and the choice of bearer identifiers.  The shared state
  is the record \<open>epdg\<close>; a session pointer is the entry of the manager with its identifier.  Where a handler sleeps, other
  goroutines run: \<open>idle k\<close> is what they do during the \<open>k\<close>-th sleep, or \<^term>\<open>None\<close> when the context ends instead.  The visiting order
  of the manager's map is \<open>ord\<close>.  \<open>teids i k\<close> is what the \<open>k\<close>-th call of \<^verbatim>\<open>gtpu.AllocateTEID\<close> for the \<open>i\<close>-th bearer returns.
\<close>

section \<open>State\<close>

record epdg =
  ep_manager :: Manager
  ep_gtpu :: dplane

definition set_session :: "Session \<Rightarrow> epdg \<Rightarrow> epdg" where
  "set_session sess w = w\<lparr>ep_manager := update_session (ep_manager w) (s_ID sess) (\<lambda>_. sess)\<rparr>"

definition find_by_teid :: "(Manager \<Rightarrow> string list) \<Rightarrow> u32 \<Rightarrow> epdg \<Rightarrow> Session option" where
  "find_by_teid ord teid w = FindByLocalControlTEID (ep_manager w) (ord (ep_manager w)) teid"

section \<open>Session cleanup\<close>

definition cleanupSession ::
  "genv \<Rightarrow> (nat \<Rightarrow> bool) \<Rightarrow> (nat \<Rightarrow> wait_outcome) \<Rightarrow> bool \<Rightarrow> Session option \<Rightarrow> s2b_client \<Rightarrow> dplane \<Rightarrow>
   Session option \<times> datagram list \<times> s2b_client \<times> dplane" where
  "cleanupSession env wr wait sendS2BDelete osess c g = (case osess of
     None \<Rightarrow> (None, [], c, g)
   | Some sess \<Rightarrow>
      if s_State sess = StateDeleted then (Some sess, [], c, g)
      else let sess = snd (Transition sess StateCleaningUp) in
        (case s_S2B sess of
           None \<Rightarrow> (Some (snd (Transition sess StateDeleted)), [], c, g)
         | Some b \<Rightarrow>
             let g = RemoveSession env g (Some sess) in
             (case (if sendS2BDelete \<and> sc_PGWControlTEID b \<noteq> 0 \<and> sc_EBI b \<noteq> 0
                    then s2b_DeleteSession wr wait (sc_PGWControlIP b) (sc_PGWControlTEID b) (sc_LocalControlTEID b)
                           (sc_LocalUserTEID b) (sc_EBI b) c
                    else (None, [], c)) of
                (_, sent, c) \<Rightarrow> (Some (snd (Transition sess StateDeleted)), sent, c, g))))"

text \<open>
  The three calls of this file do not ask for a Delete Session Request, so the client and the network are not touched
  (\<open>cleanup_quiet\<close> below): what is left is the session and the dataplane.
\<close>

definition cleanup :: "genv \<Rightarrow> s2b_client \<Rightarrow> Session \<Rightarrow> epdg \<Rightarrow> Session \<times> epdg" where
  "cleanup env c sess w =
     (case cleanupSession env (\<lambda>_. True) (\<lambda>_. CtxDone) False (Some sess) c (ep_gtpu w) of
        (osess, _, _, g) \<Rightarrow> (the osess, set_session (the osess) (w\<lparr>ep_gtpu := g\<rparr>)))"

section \<open>Delete Session\<close>

definition handlePGWDelete ::
  "genv \<Rightarrow> (Manager \<Rightarrow> string list) \<Rightarrow> s2b_client \<Rightarrow> swm_error option \<Rightarrow> (DMessage \<Rightarrow> swm_error + DMessage) \<Rightarrow>
   DeleteSessionEvent \<Rightarrow> epdg \<Rightarrow> swm_client option \<Rightarrow> epdg \<times> swm_client option" where
  "handlePGWDelete env ord c opened exchange event w swm =
     (case find_by_teid ord (ds_LocalControlTEID event) w of
        None \<Rightarrow> (w, swm)
      | Some sess \<Rightarrow>
          (case cleanup env c sess w of
             (_, w) \<Rightarrow>
               (w\<lparr>ep_manager := Delete (ep_manager w) (s_ID sess)\<rparr>,
                (case swm of
                   None \<Rightarrow> None
                 | Some cl \<Rightarrow>
                     if s_SWMSessionID sess = [] then Some cl
                     else Some (snd ((if ds_IsHandover event then TerminateSessionHandover else TerminateSession)
                                       (s_SWMSessionID sess) opened exchange cl))))))"

section \<open>Create Bearer\<close>

definition allocateDedicatedEBI :: "dplane \<Rightarrow> string \<Rightarrow> byte \<Rightarrow> byte option" where
  "allocateDedicatedEBI g sessionID dflt =
     find (\<lambda>ebi. ebi \<noteq> dflt \<and> \<not> HasBearer g sessionID ebi) [6, 7, 8, 9, 10, 11, 12, 13, 14, 15]"

datatype alloc_error = TEIDReadFailed | AddBearerFailed dp_error

text \<open>The loop of \<^verbatim>\<open>allocateBearerTEID\<close>: \<open>n\<close> attempts left, \<open>k\<close> made.  The result is the TEID and the error of the Go function.\<close>

fun allocate_attempts ::
  "genv \<Rightarrow> (nat \<Rightarrow> unit + u32) \<Rightarrow> string \<Rightarrow> Bearer \<Rightarrow> nat \<Rightarrow> nat \<Rightarrow> alloc_error option \<Rightarrow> dplane \<Rightarrow>
   u32 \<times> alloc_error option \<times> dplane" where
  "allocate_attempts env teids sessionID b 0 k lastErr g = (0, lastErr, g)"
| "allocate_attempts env teids sessionID b (Suc n) k lastErr g =
     (case teids k of
        Inl _ \<Rightarrow> (0, Some TEIDReadFailed, g)
      | Inr teid \<Rightarrow>
          (case AddBearer env g sessionID (b\<lparr>b_LocalRXTEID := teid\<rparr>) of
             (Some e, g) \<Rightarrow> allocate_attempts env teids sessionID b n (Suc k) (Some (AddBearerFailed e)) g
           | (None, g) \<Rightarrow> (teid, None, g)))"

definition allocateBearerTEID ::
  "genv \<Rightarrow> (nat \<Rightarrow> unit + u32) \<Rightarrow> string \<Rightarrow> Bearer \<Rightarrow> dplane \<Rightarrow> u32 \<times> alloc_error option \<times> dplane" where
  "allocateBearerTEID env teids sessionID b g = allocate_attempts env teids sessionID b 8 0 None g"

definition rejected_bearer :: "byte \<Rightarrow> CreateBearerBearerResult" where
  "rejected_bearer ebi =
     \<lparr>bb_EBI = ebi, bb_Accepted = False, bb_Cause = 64, bb_LocalUserTEID = 0, bb_LocalUserIP = [], bb_QCI = 0,
      bb_PGWUserTEID = 0, bb_PGWUserIP = [], bb_ChargingID = 0, bb_HasChargingID = False\<rparr>"

definition dedicated_bearer :: "genv \<Rightarrow> byte \<Rightarrow> CreateBearerContext \<Rightarrow> Bearer" where
  "dedicated_bearer env ebi bearer =
     \<lparr>b_EBI = ebi, b_LocalRXTEID = 0, b_RemoteTXTEID = bx_PGWUserTEID bearer, b_PGWGTPUIP = bx_PGWUserIP bearer,
      b_LocalGTPUIP = ParseIP (ge_LocalGTPU env), b_QCI = bx_QCI bearer,
      b_TFT = (case ParseTFT (bx_TFTRaw bearer) of Inl _ \<Rightarrow> Some \<lparr>tft_Filters = []\<rparr> | Inr tft \<Rightarrow> tft),
      b_Counters = zeroCounters, b_State = BearerUnset\<rparr>"

definition install_bearer ::
  "genv \<Rightarrow> (nat \<Rightarrow> unit + u32) \<Rightarrow> string \<Rightarrow> byte \<Rightarrow> CreateBearerContext \<Rightarrow> dplane \<Rightarrow> CreateBearerBearerResult \<times> dplane" where
  "install_bearer env teids sessionID ebi bearer g =
     (case allocateBearerTEID env teids sessionID (dedicated_bearer env ebi bearer) g of
        (_, Some _, g) \<Rightarrow> (rejected_bearer ebi, g)
      | (localTEID, None, g) \<Rightarrow>
          (\<lparr>bb_EBI = ebi, bb_Accepted = True, bb_Cause = 16, bb_LocalUserTEID = localTEID,
            bb_LocalUserIP = ParseIP (ge_LocalGTPU env), bb_QCI = 0, bb_PGWUserTEID = bx_PGWUserTEID bearer,
            bb_PGWUserIP = bx_PGWUserIP bearer, bb_ChargingID = bx_ChargingID bearer,
            bb_HasChargingID = bx_HasChargingID bearer\<rparr>, g))"

definition create_bearer ::
  "genv \<Rightarrow> (nat \<Rightarrow> unit + u32) \<Rightarrow> string \<Rightarrow> byte \<Rightarrow> CreateBearerContext \<Rightarrow> dplane \<Rightarrow> CreateBearerBearerResult \<times> dplane" where
  "create_bearer env teids sessionID dflt bearer g =
     (if bx_UnassignedEBI bearer \<or> bx_EBI bearer = 0 then
        (case allocateDedicatedEBI g sessionID dflt of
           None \<Rightarrow> (rejected_bearer 0, g)
         | Some ebi \<Rightarrow> install_bearer env teids sessionID ebi bearer g)
      else if bx_EBI bearer = dflt \<or> HasBearer g sessionID (bx_EBI bearer) then (rejected_bearer (bx_EBI bearer), g)
      else install_bearer env teids sessionID (bx_EBI bearer) bearer g)"

definition add_result :: "CreateBearerResult \<Rightarrow> CreateBearerBearerResult \<Rightarrow> CreateBearerResult" where
  "add_result result bb =
     (let result = result\<lparr>br_Bearers := br_Bearers result @ [bb]\<rparr> in
      if \<not> bb_Accepted bb then result\<lparr>br_Accepted := False, br_Cause := 64\<rparr>
      else if br_LocalUserTEID result = 0
      then result\<lparr>br_LocalUserTEID := bb_LocalUserTEID bb, br_LocalUserIP := bb_LocalUserIP bb\<rparr>
      else result)"

fun create_bearers ::
  "genv \<Rightarrow> (nat \<Rightarrow> nat \<Rightarrow> unit + u32) \<Rightarrow> string \<Rightarrow> byte \<Rightarrow> nat \<Rightarrow> CreateBearerContext list \<Rightarrow> CreateBearerResult \<Rightarrow> dplane \<Rightarrow>
   CreateBearerResult \<times> dplane" where
  "create_bearers env teids sessionID dflt i [] result g = (result, g)"
| "create_bearers env teids sessionID dflt i (bearer # bs) result g =
     (case create_bearer env (teids i) sessionID dflt bearer g of
        (bb, g) \<Rightarrow> create_bearers env teids sessionID dflt (Suc i) bs (add_result result bb) g)"

definition event_bearers :: "CreateBearerEvent \<Rightarrow> CreateBearerContext list" where
  "event_bearers event =
     (if be_Bearers event = [] then
        [\<lparr>bx_Index = 0, bx_Instance = 0, bx_EBI = be_EBI event, bx_HasEBI = (be_EBI event \<noteq> 0), bx_UnassignedEBI = False,
          bx_EBIPayloadHex = [], bx_EBIRawIEHex = [], bx_EBIChildOffset = 0, bx_EBIDecodeError = None,
          bx_PGWUserTEID = be_PGWUserTEID event, bx_PGWUserIP = be_PGWUserIP event, bx_PGWFTEIDInst = 0,
          bx_PGWFTEIDIface = 0, bx_QCI = be_QCI event, bx_HasBearerQoS = False, bx_TFTRaw = be_TFTRaw event,
          bx_ChargingID = 0, bx_HasChargingID = False, bx_RawChildIETypes = []\<rparr>]
      else be_Bearers event)"

text \<open>The two waiting loops; the first component of a result says that the context ended.\<close>

fun find_session_loop ::
  "(nat \<Rightarrow> epdg \<Rightarrow> epdg option) \<Rightarrow> (Manager \<Rightarrow> string list) \<Rightarrow> u32 \<Rightarrow> nat \<Rightarrow> nat \<Rightarrow> epdg \<Rightarrow> bool \<times> Session option \<times> epdg" where
  "find_session_loop idle ord teid 0 k w = (False, None, w)"
| "find_session_loop idle ord teid (Suc n) k w =
     (case find_by_teid ord teid w of
        Some sess \<Rightarrow> (False, Some sess, w)
      | None \<Rightarrow>
          (case idle k w of
             None \<Rightarrow> (True, None, w)
           | Some w' \<Rightarrow> find_session_loop idle ord teid n (Suc k) w'))"

fun wait_bearer_loop ::
  "(nat \<Rightarrow> epdg \<Rightarrow> epdg option) \<Rightarrow> string \<Rightarrow> byte \<Rightarrow> nat \<Rightarrow> nat \<Rightarrow> epdg \<Rightarrow> bool \<times> epdg" where
  "wait_bearer_loop idle sessionID ebi 0 k w = (False, w)"
| "wait_bearer_loop idle sessionID ebi (Suc n) k w =
     (if HasBearer (ep_gtpu w) sessionID ebi then (False, w)
      else case idle k w of
             None \<Rightarrow> (True, w)
           | Some w' \<Rightarrow> wait_bearer_loop idle sessionID ebi n (Suc k) w')"

definition create_refused :: CreateBearerResult where
  "create_refused = \<lparr>br_Accepted = False, br_Cause = 64, br_LocalUserTEID = 0, br_LocalUserIP = [], br_Bearers = [],
     br_PGWControlTEID = 0\<rparr>"

definition create_accepted :: CreateBearerResult where
  "create_accepted = \<lparr>br_Accepted = True, br_Cause = 16, br_LocalUserTEID = 0, br_LocalUserIP = [], br_Bearers = [],
     br_PGWControlTEID = 0\<rparr>"

definition handlePGWCreateBearer ::
  "genv \<Rightarrow> (nat \<Rightarrow> epdg \<Rightarrow> epdg option) \<Rightarrow> (Manager \<Rightarrow> string list) \<Rightarrow> (nat \<Rightarrow> nat \<Rightarrow> unit + u32) \<Rightarrow>
   CreateBearerEvent \<Rightarrow> epdg \<Rightarrow> CreateBearerResult \<times> epdg" where
  "handlePGWCreateBearer env idle ord teids event w =
     (case find_session_loop idle ord (be_LocalControlTEID event) 10 0 w of
        (True, _, w) \<Rightarrow> (create_refused, w)
      | (False, None, w) \<Rightarrow> (create_refused, w)
      | (False, Some sess, w) \<Rightarrow>
          let dflt = (case s_S2B sess of None \<Rightarrow> 0 | Some b \<Rightarrow> sc_EBI b);
              pgwControlTEID = (case s_S2B sess of None \<Rightarrow> 0 | Some b \<Rightarrow> sc_PGWControlTEID b)
          in (case (if dflt \<noteq> 0 then wait_bearer_loop idle (s_ID sess) dflt 20 10 w else (False, w)) of
                (True, w) \<Rightarrow> (create_refused, w)
              | (False, w) \<Rightarrow>
                  (case create_bearers env teids (s_ID sess) dflt 0 (event_bearers event) create_accepted (ep_gtpu w) of
                     (result, g) \<Rightarrow>
                       (if pgwControlTEID \<noteq> 0 then result\<lparr>br_PGWControlTEID := pgwControlTEID\<rparr> else result,
                        w\<lparr>ep_gtpu := g\<rparr>))))"

section \<open>Delete Bearer and Update Bearer\<close>

fun delete_bearers ::
  "genv \<Rightarrow> s2b_client \<Rightarrow> Session \<Rightarrow> byte \<Rightarrow> u32 \<Rightarrow> byte list \<Rightarrow> epdg \<Rightarrow> BearerResult \<times> epdg" where
  "delete_bearers env c sess dflt pgwControlTEID [] w = (\<lparr>rr_Cause = 16, rr_PGWControlTEID = pgwControlTEID\<rparr>, w)"
| "delete_bearers env c sess dflt pgwControlTEID (ebi # ebis) w =
     (if dflt \<noteq> 0 \<and> ebi = dflt then
        (\<lparr>rr_Cause = 16, rr_PGWControlTEID = pgwControlTEID\<rparr>,
         case cleanup env c sess w of
           (sess', w) \<Rightarrow>
             if s_HandoverComplete sess then set_session (sess'\<lparr>s_S2B := None\<rparr>) w
             else w\<lparr>ep_manager := Delete (ep_manager w) (s_ID sess)\<rparr>)
      else (case RemoveBearer env (ep_gtpu w) (s_ID sess) ebi of
              (Some _, g) \<Rightarrow> (\<lparr>rr_Cause = 64, rr_PGWControlTEID = pgwControlTEID\<rparr>, w\<lparr>ep_gtpu := g\<rparr>)
            | (None, g) \<Rightarrow> delete_bearers env c sess dflt pgwControlTEID ebis (w\<lparr>ep_gtpu := g\<rparr>)))"

definition handlePGWDeleteBearer ::
  "genv \<Rightarrow> (Manager \<Rightarrow> string list) \<Rightarrow> s2b_client \<Rightarrow> DeleteBearerEvent \<Rightarrow> epdg \<Rightarrow> BearerResult \<times> epdg" where
  "handlePGWDeleteBearer env ord c event w =
     (case find_by_teid ord (dv_LocalControlTEID event) w of
        None \<Rightarrow> (\<lparr>rr_Cause = 64, rr_PGWControlTEID = 0\<rparr>, w)
      | Some sess \<Rightarrow>
          let pgwControlTEID = (case s_S2B sess of None \<Rightarrow> 0 | Some b \<Rightarrow> sc_PGWControlTEID b);
              dflt = (case s_S2B sess of None \<Rightarrow> 0 | Some b \<Rightarrow> sc_EBI b);
              sess' = (if dv_IsHandover event then sess\<lparr>s_HandoverComplete := True\<rparr> else sess)
          in delete_bearers env c sess' dflt pgwControlTEID (dv_EBIs event) (set_session sess' w))"

fun update_bearers :: "genv \<Rightarrow> string \<Rightarrow> UpdateBearerContext list \<Rightarrow> dplane \<Rightarrow> bool \<times> dplane" where
  "update_bearers env sessionID [] g = (True, g)"
| "update_bearers env sessionID (bc # bcs) g =
     (if \<not> ux_HasBearerQoS bc \<and> \<not> ux_HasTFT bc then update_bearers env sessionID bcs g
      else case UpdateBearer env g sessionID (ux_EBI bc) (ux_QCI bc) (ux_TFTRaw bc) of
             (Some _, g) \<Rightarrow> (False, g)
           | (None, g) \<Rightarrow> update_bearers env sessionID bcs g)"

definition handlePGWUpdateBearer ::
  "genv \<Rightarrow> (Manager \<Rightarrow> string list) \<Rightarrow> UpdateBearerEvent \<Rightarrow> epdg \<Rightarrow> BearerResult \<times> epdg" where
  "handlePGWUpdateBearer env ord event w =
     (case find_by_teid ord (ue_LocalControlTEID event) w of
        None \<Rightarrow> (\<lparr>rr_Cause = 64, rr_PGWControlTEID = 0\<rparr>, w)
      | Some sess \<Rightarrow>
          let pgwControlTEID = (case s_S2B sess of None \<Rightarrow> 0 | Some b \<Rightarrow> sc_PGWControlTEID b) in
          (case update_bearers env (s_ID sess) (ue_Bearers event) (ep_gtpu w) of
             (ok, g) \<Rightarrow> (\<lparr>rr_Cause = (if ok then 16 else 64), rr_PGWControlTEID = pgwControlTEID\<rparr>, w\<lparr>ep_gtpu := g\<rparr>)))"

text \<open>The handlers \<^verbatim>\<open>main\<close> registers with the S2b client.\<close>

definition epdg_handlers ::
  "genv \<Rightarrow> (nat \<Rightarrow> epdg \<Rightarrow> epdg option) \<Rightarrow> (Manager \<Rightarrow> string list) \<Rightarrow> (nat \<Rightarrow> nat \<Rightarrow> unit + u32) \<Rightarrow> s2b_client \<Rightarrow> epdg handlers" where
  "epdg_handlers env idle ord teids c =
     \<lparr>h_delete = True,
      h_createBearer = Some (handlePGWCreateBearer env idle ord teids),
      h_deleteBearer = Some (handlePGWDeleteBearer env ord c),
      h_updateBearer = Some (handlePGWUpdateBearer env ord)\<rparr>"

section \<open>Bearers reported as accepted are installed\<close>

lemma allocateDedicatedEBI_free:
  "allocateDedicatedEBI g i dflt = Some e \<Longrightarrow> e \<noteq> dflt \<and> \<not> HasBearer g i e \<and> 6 \<le> e \<and> e \<le> 15"
  by (auto simp: allocateDedicatedEBI_def split: if_splits)

text \<open>Whatever the attempts do, they change only the bearer they are for, keep all index entries, and end with the
  bearer installed under the returned TEID when they report no error.\<close>

lemma allocate_attempts_effect:
  assumes "allocate_attempts env teids i b n k lastErr g = (t, err, g')" "lastErr \<noteq> None \<or> 0 < n"
  shows "\<forall>j e. (j, e) \<noteq> (i, b_EBI b) \<longrightarrow> bearer_at g' j e = bearer_at g j e"
    and "dp_byLocal g \<subseteq>\<^sub>m dp_byLocal g'"
    and "dp_live g \<Longrightarrow> dp_live g'"
    and "err = None \<Longrightarrow> t \<noteq> 0 \<and> b_EBI b \<noteq> 0 \<and> dp_byLocal g' t = Some \<lparr>br_SessionID = i, br_BearerEBI = b_EBI b\<rparr> \<and>
           (\<exists>b'. bearer_at g' i (b_EBI b) = Some b' \<and> b_LocalRXTEID b' = t \<and> b_RemoteTXTEID b' = b_RemoteTXTEID b \<and>
                 b_QCI b' = b_QCI b \<and> b_TFT b' = b_TFT b)"
proof -
  have "(\<forall>j e. (j, e) \<noteq> (i, b_EBI b) \<longrightarrow> bearer_at g' j e = bearer_at g j e) \<and> dp_byLocal g \<subseteq>\<^sub>m dp_byLocal g' \<and>
     (dp_live g \<longrightarrow> dp_live g') \<and>
     (err = None \<longrightarrow> t \<noteq> 0 \<and> b_EBI b \<noteq> 0 \<and> dp_byLocal g' t = Some \<lparr>br_SessionID = i, br_BearerEBI = b_EBI b\<rparr> \<and>
        (\<exists>b'. bearer_at g' i (b_EBI b) = Some b' \<and> b_LocalRXTEID b' = t \<and> b_RemoteTXTEID b' = b_RemoteTXTEID b \<and>
              b_QCI b' = b_QCI b \<and> b_TFT b' = b_TFT b))"
    using assms
  proof (induction n arbitrary: k lastErr g)
    case 0
    then show ?case by simp
  next
    case (Suc n)
    show ?case
    proof (cases "teids k")
      case (Inl u)
      with Suc.prems show ?thesis by auto
    next
      case (Inr teid)
      obtain e1 g1 where add: "AddBearer env g i (b\<lparr>b_LocalRXTEID := teid\<rparr>) = (e1, g1)" by fastforce
      note eff = AddBearer_effect[of env g i "b\<lparr>b_LocalRXTEID := teid\<rparr>"]
      have frame: "\<forall>j e. (j, e) \<noteq> (i, b_EBI b) \<longrightarrow> bearer_at g1 j e = bearer_at g j e" "dp_byLocal g \<subseteq>\<^sub>m dp_byLocal g1"
        by (cases rule: eff; use add in \<open>auto simp: map_le_def\<close>)+
      have live: "dp_live g \<Longrightarrow> dp_live g1" using AddBearer_live[of g env i] add by (metis snd_conv)
      show ?thesis
      proof (cases e1)
        case None
        with add Inr Suc.prems have r: "t = teid" "err = None" "g' = g1" by simp_all
        show ?thesis using frame live r add None by (cases rule: eff) (auto simp: map_le_def)
      next
        case (Some e)
        with add Inr Suc.prems
        have "allocate_attempts env teids i b n (Suc k) (Some (AddBearerFailed e)) g1 = (t, err, g')" by simp
        from Suc.IH[OF this] frame live show ?thesis by (auto intro: map_le_trans)
      qed
    qed
  qed
  then show "\<forall>j e. (j, e) \<noteq> (i, b_EBI b) \<longrightarrow> bearer_at g' j e = bearer_at g j e" "dp_byLocal g \<subseteq>\<^sub>m dp_byLocal g'"
    "dp_live g \<Longrightarrow> dp_live g'"
    "err = None \<Longrightarrow> t \<noteq> 0 \<and> b_EBI b \<noteq> 0 \<and> dp_byLocal g' t = Some \<lparr>br_SessionID = i, br_BearerEBI = b_EBI b\<rparr> \<and>
           (\<exists>b'. bearer_at g' i (b_EBI b) = Some b' \<and> b_LocalRXTEID b' = t \<and> b_RemoteTXTEID b' = b_RemoteTXTEID b \<and>
                 b_QCI b' = b_QCI b \<and> b_TFT b' = b_TFT b)"
    by blast+
qed

definition installed_as :: "dplane \<Rightarrow> string \<Rightarrow> CreateBearerBearerResult \<Rightarrow> bool" where
  "installed_as g i bb \<longleftrightarrow> bb_LocalUserTEID bb \<noteq> 0 \<and> bb_EBI bb \<noteq> 0 \<and>
     dp_byLocal g (bb_LocalUserTEID bb) = Some \<lparr>br_SessionID = i, br_BearerEBI = bb_EBI bb\<rparr> \<and>
     (case bearer_at g i (bb_EBI bb) of None \<Rightarrow> False
      | Some b \<Rightarrow> b_LocalRXTEID b = bb_LocalUserTEID bb \<and> b_RemoteTXTEID b = bb_PGWUserTEID bb)"

lemma installed_as_frame:
  assumes "installed_as g i bb" "dp_byLocal g \<subseteq>\<^sub>m dp_byLocal g'" "bearer_at g' i (bb_EBI bb) = bearer_at g i (bb_EBI bb)"
  shows "installed_as g' i bb"
  using assms by (auto simp: installed_as_def map_le_def dom_def split: option.splits)

lemma create_bearer_effect:
  assumes "create_bearer env teids i dflt bearer g = (bb, g')"
  shows "dp_live g \<Longrightarrow> dp_live g'"
    and "installed_as g i bb' \<Longrightarrow> installed_as g' i bb'"
    and "bb_Accepted bb \<Longrightarrow> installed_as g' i bb \<and> bearer_at g i (bb_EBI bb) = None \<and> bb_EBI bb \<noteq> dflt"
proof -
  have inst: "(dp_live g \<longrightarrow> dp_live g') \<and> (installed_as g i bb' \<longrightarrow> installed_as g' i bb') \<and>
      (bb_Accepted bb \<longrightarrow> installed_as g' i bb \<and> bearer_at g i (bb_EBI bb) = None \<and> bb_EBI bb \<noteq> dflt)"
    if r: "install_bearer env teids i ebi bearer g = (bb, g')" and free: "\<not> HasBearer g i ebi" "ebi \<noteq> dflt" for ebi
  proof -
    obtain t err g1 where a: "allocateBearerTEID env teids i (dedicated_bearer env ebi bearer) g = (t, err, g1)"
      by (metis prod_cases3)
    note eff = allocate_attempts_effect[OF a[unfolded allocateBearerTEID_def], simplified]
    have g1: "g1 = g'" using r a by (auto simp: install_bearer_def split: option.splits)
    have ebi: "b_EBI (dedicated_bearer env ebi bearer) = ebi" "b_RemoteTXTEID (dedicated_bearer env ebi bearer) = bx_PGWUserTEID bearer"
      by (simp_all add: dedicated_bearer_def)
    have none: "bearer_at g i ebi = None" using free by (simp add: HasBearer_at)
    have "installed_as g' i bb'" if "installed_as g i bb'"
    proof (rule installed_as_frame[OF that])
      have "bb_EBI bb' \<noteq> ebi" using that none by (auto simp: installed_as_def)
      then show "bearer_at g' i (bb_EBI bb') = bearer_at g i (bb_EBI bb')" using eff(1) g1 ebi by auto
    qed (use eff(2) g1 in simp)
    moreover have "installed_as g' i bb \<and> bb_EBI bb = ebi" if "bb_Accepted bb"
    proof -
      have "err = None" using that r a by (auto simp: install_bearer_def rejected_bearer_def split: option.splits)
      with eff(4) g1 ebi r a show ?thesis by (auto simp: installed_as_def install_bearer_def)
    qed
    ultimately show ?thesis using eff(3) g1 none free by auto
  qed
  consider "bb = rejected_bearer (bb_EBI bb) \<and> g' = g" | ebi where "install_bearer env teids i ebi bearer g = (bb, g')" "\<not> HasBearer g i ebi" "ebi \<noteq> dflt"
    using assms allocateDedicatedEBI_free[of g i dflt]
    by (auto simp: create_bearer_def rejected_bearer_def split: if_splits option.splits)
  then have "(dp_live g \<longrightarrow> dp_live g') \<and> (installed_as g i bb' \<longrightarrow> installed_as g' i bb') \<and>
      (bb_Accepted bb \<longrightarrow> installed_as g' i bb \<and> bearer_at g i (bb_EBI bb) = None \<and> bb_EBI bb \<noteq> dflt)"
  proof cases
    case 1
    then have "\<not> bb_Accepted bb" by (metis rejected_bearer_def CreateBearerBearerResult.select_convs(2))
    with 1 show ?thesis by simp
  qed (rule inst)
  then show "dp_live g \<Longrightarrow> dp_live g'" "installed_as g i bb' \<Longrightarrow> installed_as g' i bb'"
    "bb_Accepted bb \<Longrightarrow> installed_as g' i bb \<and> bearer_at g i (bb_EBI bb) = None \<and> bb_EBI bb \<noteq> dflt" by blast+
qed

definition result_ok :: "dplane \<Rightarrow> string \<Rightarrow> byte \<Rightarrow> CreateBearerResult \<Rightarrow> bool" where
  "result_ok g i dflt r \<longleftrightarrow>
     br_Accepted r = list_all bb_Accepted (br_Bearers r) \<and>
     br_Cause r = (if br_Accepted r then 16 else 64) \<and>
     distinct (map bb_EBI (filter bb_Accepted (br_Bearers r))) \<and>
     list_all (\<lambda>bb. installed_as g i bb \<and> bb_EBI bb \<noteq> dflt) (filter bb_Accepted (br_Bearers r))"

lemma add_result_ok:
  assumes ok: "result_ok g i dflt r" and b: "create_bearer env teids i dflt bearer g = (bb, g')"
  shows "result_ok g' i dflt (add_result r bb)"
proof -
  note eff = create_bearer_effect[OF b]
  have old: "list_all (\<lambda>bb. installed_as g' i bb \<and> bb_EBI bb \<noteq> dflt) (filter bb_Accepted (br_Bearers r))"
    using ok eff(2) by (auto simp: result_ok_def list_all_iff)
  have "bb_EBI bb \<notin> set (map bb_EBI (filter bb_Accepted (br_Bearers r)))" if "bb_Accepted bb"
    using ok eff(3)[OF that] by (auto simp: result_ok_def list_all_iff installed_as_def)
  with old ok eff(3) show ?thesis by (auto simp: result_ok_def add_result_def Let_def)
qed

lemma create_bearers_ok:
  "create_bearers env teids i dflt k bs r g = (r', g') \<Longrightarrow> result_ok g i dflt r \<Longrightarrow>
   result_ok g' i dflt r' \<and> length (br_Bearers r') = length (br_Bearers r) + length bs \<and> (dp_live g \<longrightarrow> dp_live g')"
proof (induction env teids i dflt k bs r g rule: create_bearers.induct)
  case (2 env teids i dflt k bearer bs r g)
  obtain bb g1 where b: "create_bearer env (teids k) i dflt bearer g = (bb, g1)" by fastforce
  have "length (br_Bearers (add_result r bb)) = Suc (length (br_Bearers r))" by (simp add: add_result_def Let_def)
  with "2.IH"[OF b[symmetric]] "2.prems" b add_result_ok[OF "2.prems"(2) b] create_bearer_effect(1)[OF b]
  show ?case by simp
qed simp


definition demo_world :: epdg where
  "demo_world = \<lparr>ep_manager = NewManager\<lparr>mgr_sessions := [''s'' \<mapsto> demo_session\<lparr>s_State := StateActive\<rparr>]\<rparr>, ep_gtpu = demo_installed\<rparr>"

definition demo_env :: "faults \<Rightarrow> genv" where
  "demo_env F = (demo_genv F)\<lparr>ge_range := (\<lambda>bs. filter (\<lambda>e. bs e \<noteq> None) [5, 6])\<rparr>"

definition demo_create_event :: CreateBearerEvent where
  "demo_create_event = \<lparr>be_LocalControlTEID = 4, be_Sequence = 1, be_Peer = [], be_LinkedDefaultEBI = 5, be_BearerContexts = [],
     be_Bearers = [], be_EBI = 0, be_PGWUserTEID = 33, be_PGWUserIP = [192, 0, 2, 2], be_QCI = 1, be_TFTRaw = [0]\<rparr>"

definition demo_created :: "CreateBearerResult \<times> epdg" where
  "demo_created = handlePGWCreateBearer (demo_env (\<lambda>_ _. False)) (\<lambda>_ _. None) (\<lambda>_. [''s'']) (\<lambda>_ k. Inr (of_nat k + 7)) demo_create_event demo_world"

lemma demo_created_bearers:
  "map (\<lambda>bb. (bb_EBI bb, bb_LocalUserTEID bb, bb_Accepted bb)) (br_Bearers (fst demo_created)) = [(6, 8, True)]"
  by code_simp


section \<open>A refused bearer may stay installed\<close>

text \<open>When the kernel refuses the rule update, \<^verbatim>\<open>AddBearer\<close> reports an error with the bearer already installed.  The retries of
  \<^verbatim>\<open>allocateBearerTEID\<close> then add it again under the same EBI: the request is refused, but the bearer is left in the dataplane
  together with an index entry for each of the eight TEIDs tried.\<close>

lemma refused_bearer_left_behind:
  "case handlePGWCreateBearer (demo_env (\<lambda>_ call. call = KLookup)) (\<lambda>_ _. None) (\<lambda>_. [''s'']) (\<lambda>_ k. Inr (of_nat k + 8))
        demo_create_event demo_world of
     (result, w) \<Rightarrow> \<not> br_Accepted result \<and> map_option b_LocalRXTEID (bearer_at (ep_gtpu w) ''s'' 6) = Some 15 \<and>
       map (\<lambda>t. dp_byLocal (ep_gtpu w) t) [8, 9, 10, 11, 12, 13, 14, 15] = replicate 8 (Some \<lparr>br_SessionID = ''s'', br_BearerEBI = 6\<rparr>)"
  by code_simp

section \<open>Teardown on the request of the PGW\<close>

lemma Transition_keeps [simp]:
  "s_ID (snd (Transition s st)) = s_ID s" "s_S2B (snd (Transition s st)) = s_S2B s"
  "s_HandoverComplete (snd (Transition s st)) = s_HandoverComplete s" "s_SWMSessionID (snd (Transition s st)) = s_SWMSessionID s"
  by (simp_all add: Transition_def)

text \<open>Without the request to send a Delete Session the client and the network are not touched.\<close>

lemma cleanup_quiet:
  "\<exists>sess' g'. cleanupSession env wr wait False osess c g = (sess', [], c, g')"
  by (auto simp: cleanupSession_def Let_def split: option.splits)

lemma cleanup_effect:
  assumes "cleanup env c sess w = (sess', w')" "range_ok env"
  shows "s_ID sess' = s_ID sess" "s_HandoverComplete sess' = s_HandoverComplete sess" "s_SWMSessionID sess' = s_SWMSessionID sess"
    "s_State sess \<notin> {StateNew, StateDeleted} \<Longrightarrow> s_State sess' = StateDeleted"
    "s_State sess \<noteq> StateDeleted \<Longrightarrow> s_S2B sess \<noteq> None \<Longrightarrow> dp_sessionsByID (ep_gtpu w') = (dp_sessionsByID (ep_gtpu w))(s_ID sess := None)"
    "ep_manager w' = update_session (ep_manager w) (s_ID sess) (\<lambda>_. sess')"
    "dp_live (ep_gtpu w) \<Longrightarrow> dp_live (ep_gtpu w')"
proof -
  let ?s = "snd (Transition sess StateCleaningUp)"
  have r: "if s_State sess = StateDeleted then sess' = sess \<and> w' = set_session sess w
           else sess' = snd (Transition ?s StateDeleted) \<and>
             w' = set_session sess' (w\<lparr>ep_gtpu := (if s_S2B sess = None then ep_gtpu w else RemoveSession env (ep_gtpu w) (Some ?s))\<rparr>)"
    using assms(1) by (auto simp: cleanup_def cleanupSession_def Let_def split: option.splits if_splits)
  then show id: "s_ID sess' = s_ID sess" "s_HandoverComplete sess' = s_HandoverComplete sess" "s_SWMSessionID sess' = s_SWMSessionID sess"
    by (auto split: if_splits)
  show "s_State sess' = StateDeleted" if "s_State sess \<notin> {StateNew, StateDeleted}"
    using r that by (cases "s_State sess") (auto simp: Transition_def allowedTransitions_def)
  show "ep_manager w' = update_session (ep_manager w) (s_ID sess) (\<lambda>_. sess')"
    using r id(1) by (auto simp: set_session_def split: if_splits)
  show "dp_sessionsByID (ep_gtpu w') = (dp_sessionsByID (ep_gtpu w))(s_ID sess := None)" if "s_State sess \<noteq> StateDeleted" "s_S2B sess \<noteq> None"
    using r that RemoveSession_sessions[OF assms(2), of "ep_gtpu w" ?s] by (simp add: set_session_def)
  show "dp_live (ep_gtpu w')" if "dp_live (ep_gtpu w)"
    using r that RemoveSession_live[OF assms(2) that] by (auto simp: set_session_def split: if_splits)
qed

lemma find_by_teid_SomeD:
  "find_by_teid ord teid w = Some sess \<Longrightarrow> mgr_inv (ep_manager w) \<Longrightarrow>
   mgr_sessions (ep_manager w) (s_ID sess) = Some sess \<and> (\<exists>b. s_S2B sess = Some b \<and> sc_LocalControlTEID b = teid)"
  by (auto simp: find_by_teid_def FindByLocalControlTEID_def mgr_inv_def dest!: range_find_SomeD split: if_splits option.splits)

lemma delete_bearers_default:
  assumes "delete_bearers env c sess dflt pgw ebis w = (result, w')" "range_ok env"
    "dflt \<noteq> 0" "dflt \<in> set ebis" "rr_Cause result = 16"
    "s_State sess \<notin> {StateNew, StateDeleted}" "s_S2B sess \<noteq> None" "mgr_sessions (ep_manager w) (s_ID sess) \<noteq> None"
  shows "dp_sessionsByID (ep_gtpu w') (s_ID sess) = None \<and>
     (if s_HandoverComplete sess
      then \<exists>sess'. Get (ep_manager w') (s_ID sess) = Some sess' \<and> s_State sess' = StateDeleted \<and> s_S2B sess' = None \<and>
             s_HandoverComplete sess' \<and> s_SWMSessionID sess' = s_SWMSessionID sess
      else Get (ep_manager w') (s_ID sess) = None)"
  using assms
proof (induction env c sess dflt pgw ebis w rule: delete_bearers.induct)
  case (2 env c sess dflt pgw ebi ebis w)
  show ?case
  proof (cases "ebi = dflt")
    case True
    obtain sess' w1 where cl: "cleanup env c sess w = (sess', w1)" by fastforce
    note e = cleanup_effect[OF cl "2.prems"(2)]
    have "w' = (if s_HandoverComplete sess then set_session (sess'\<lparr>s_S2B := None\<rparr>) w1
                else w1\<lparr>ep_manager := Delete (ep_manager w1) (s_ID sess)\<rparr>)"
      using "2.prems"(1,3) True cl by auto
    with e "2.prems"(6,7,8) show ?thesis
      by (auto simp: set_session_def update_session_def Get_def Delete_def)
  next
    case False
    obtain err g where rm: "RemoveBearer env (ep_gtpu w) (s_ID sess) ebi = (err, g)" by fastforce
    with False "2.prems"(1,5) have err: "err = None" by (auto split: option.splits)
    with rm False "2.prems"(1) have "delete_bearers env c sess dflt pgw ebis (w\<lparr>ep_gtpu := g\<rparr>) = (result, w')" by simp
    from "2.IH"[OF _ rm[symmetric] err this] False "2.prems" show ?thesis by simp
  qed
qed simp

text \<open>C32.  Deleting the default bearer ends the session: when the PGW's Delete Bearer Request names the default bearer and is
  answered with acceptance, the dataplane no longer has the session.  If the PGW signalled a handover, in this request
  or in an earlier one for a dedicated bearer, the session stays with the manager without its S2b part, for the IKE
  side to report the move to the AAA server; otherwise it is gone from the manager too.\<close>

theorem default_bearer_deletion_ends_session:
  assumes "handlePGWDeleteBearer env ord c event w = (result, w')" "rr_Cause result = 16"
    "find_by_teid ord (dv_LocalControlTEID event) w = Some sess" "s_S2B sess = Some b" "sc_EBI b \<noteq> 0" "sc_EBI b \<in> set (dv_EBIs event)"
    "s_State sess \<notin> {StateNew, StateDeleted}" "mgr_inv (ep_manager w)" "range_ok env"
  shows "dp_sessionsByID (ep_gtpu w') (s_ID sess) = None \<and>
     (if dv_IsHandover event \<or> s_HandoverComplete sess
      then \<exists>sess'. Get (ep_manager w') (s_ID sess) = Some sess' \<and> s_State sess' = StateDeleted \<and> s_S2B sess' = None \<and>
             s_HandoverComplete sess' \<and> s_SWMSessionID sess' = s_SWMSessionID sess
      else Get (ep_manager w') (s_ID sess) = None)"
proof -
  define sess1 where "sess1 = (if dv_IsHandover event then sess\<lparr>s_HandoverComplete := True\<rparr> else sess)"
  have s1: "s_ID sess1 = s_ID sess" "s_State sess1 = s_State sess" "s_S2B sess1 = Some b" "s_SWMSessionID sess1 = s_SWMSessionID sess"
    "s_HandoverComplete sess1 = (dv_IsHandover event \<or> s_HandoverComplete sess)" using assms(4) by (simp_all add: sess1_def)
  have "delete_bearers env c sess1 (sc_EBI b) (sc_PGWControlTEID b) (dv_EBIs event) (set_session sess1 w) = (result, w')"
    using assms(1,3,4) by (simp add: handlePGWDeleteBearer_def Let_def sess1_def)
  note del = this
  have "mgr_sessions (ep_manager (set_session sess1 w)) (s_ID sess1) \<noteq> None"
    using find_by_teid_SomeD[OF assms(3,8)] s1 by (simp add: set_session_def update_session_def)
  with delete_bearers_default[OF del assms(9,5,6,2)] assms(7) show ?thesis unfolding s1 by simp
qed

definition demo_delete_event :: "bool \<Rightarrow> DeleteBearerEvent" where
  "demo_delete_event ho = \<lparr>dv_LocalControlTEID = 4, dv_Sequence = 2, dv_Peer = [], dv_EBIs = [5], dv_IsHandover = ho\<rparr>"

theorem default_bearer_deletion_ends_session_witness:
  "dp_sessionsByID (ep_gtpu (snd (handlePGWDeleteBearer (demo_genv (\<lambda>_ _. False)) (\<lambda>_. [''s'']) demo_client (demo_delete_event True) demo_world))) ''s'' = None"
proof -
  let ?r = "handlePGWDeleteBearer (demo_genv (\<lambda>_ _. False)) (\<lambda>_. [''s'']) demo_client (demo_delete_event True) demo_world"
  have f: "find_by_teid (\<lambda>_. [''s'']) (dv_LocalControlTEID (demo_delete_event True)) demo_world = Some (demo_session\<lparr>s_State := StateActive\<rparr>)"
    by (simp add: find_by_teid_def FindByLocalControlTEID_def demo_delete_event_def demo_world_def demo_session_def)
  have c: "rr_Cause (fst ?r) = 16"
    using f by (simp add: handlePGWDeleteBearer_def Let_def demo_delete_event_def demo_session_def)
  have i: "mgr_inv (ep_manager demo_world)" by (simp add: mgr_inv_def demo_world_def demo_session_def New_def)
  define sess where "sess = demo_session\<lparr>s_State := StateActive\<rparr>"
  have b: "s_S2B sess = Some (the (s_S2B demo_session))" "sc_EBI (the (s_S2B demo_session)) \<noteq> 0"
    "sc_EBI (the (s_S2B demo_session)) \<in> set (dv_EBIs (demo_delete_event True))" "s_State sess \<notin> {StateNew, StateDeleted}" "s_ID sess = ''s''"
    by (simp_all add: sess_def demo_session_def demo_delete_event_def New_def)
  from default_bearer_deletion_ends_session[OF prod.collapse[symmetric] c f[folded sess_def] b(1-4) i demo_range_ok]
  show ?thesis unfolding b(5) by (rule conjunct1)
qed

section \<open>The whole program\<close>

text \<open>
  Everything that touches the shared state, in any interleaving: datagrams from the PGW served by the registered handlers
  (during whose sleeps anything else may run), Delete Session events, sessions the IKE side installs under a fresh
  identifier and removes, the dataplane's own socket and timers, and any change of the session manager.
\<close>

inductive epdg_run :: "genv \<Rightarrow> epdg \<Rightarrow> epdg \<Rightarrow> bool" for env where
  run_refl: "epdg_run env w w"
| run_trans: "epdg_run env w w' \<Longrightarrow> epdg_run env w' w'' \<Longrightarrow> epdg_run env w w''"
| run_datagram: "(\<And>k x x'. idle k x = Some x' \<Longrightarrow> epdg_run env x x') \<Longrightarrow>
    s2b_readLoop_turn (epdg_handlers env idle ord teids c) now now' wr buf peer c w = (out, evs, c', w') \<Longrightarrow> epdg_run env w w'"
| run_delete: "handlePGWDelete env ord c opened exchange event w swm = (w', swm') \<Longrightarrow> epdg_run env w w'"
| run_add: "dp_sessionsByID (ep_gtpu w) (s_ID sess) = None \<Longrightarrow> AddSession env (ep_gtpu w) (Some sess) = (err, g, osess) \<Longrightarrow>
    epdg_run env w (w\<lparr>ep_gtpu := g\<rparr>)"
| run_remove: "epdg_run env w (w\<lparr>ep_gtpu := RemoveSession env (ep_gtpu w) osess\<rparr>)"
| run_downlink: "epdg_run env w (w\<lparr>ep_gtpu := fst (handleDownlink env (ep_gtpu w) pkt peer now wr)\<rparr>)"
| run_tick: "epdg_run env w (w\<lparr>ep_gtpu := fst (pathEchoTick (ep_gtpu w) ks now wr)\<rparr>)"
| run_manager: "epdg_run env w (w\<lparr>ep_manager := m\<rparr>)"

lemma find_session_loop_keeps:
  assumes "\<And>k x x'. idle k x = Some x' \<Longrightarrow> P x \<Longrightarrow> P x'"
  shows "find_session_loop idle ord teid n k w = (d, s, w') \<Longrightarrow> P w \<Longrightarrow> P w'"
  by (induction n arbitrary: k w) (auto split: option.splits dest: assms)

lemma wait_bearer_loop_keeps:
  assumes "\<And>k x x'. idle k x = Some x' \<Longrightarrow> P x \<Longrightarrow> P x'"
  shows "wait_bearer_loop idle i e n k w = (d, w') \<Longrightarrow> P w \<Longrightarrow> P w'"
  by (induction n arbitrary: k w) (auto split: option.splits if_splits dest: assms)

lemma handlePGWCreateBearer_live:
  assumes idle: "\<And>k x x'. idle k x = Some x' \<Longrightarrow> dp_live (ep_gtpu x) \<Longrightarrow> dp_live (ep_gtpu x')"
    and r: "handlePGWCreateBearer env idle ord teids event w = (result, w')" and w: "dp_live (ep_gtpu w)"
  shows "dp_live (ep_gtpu w')"
proof -
  have start: "result_ok g i dflt create_accepted" for g i dflt by (simp add: result_ok_def create_accepted_def)
  obtain c1 s1 w1 where f: "find_session_loop idle ord (be_LocalControlTEID event) 10 0 w = (c1, s1, w1)" by (metis prod_cases3)
  note w1 = find_session_loop_keeps[where P = "\<lambda>x. dp_live (ep_gtpu x)", OF idle f w]
  show ?thesis
  proof (cases "c1 \<or> s1 = None")
    case True
    with r f w1 show ?thesis by (auto simp: handlePGWCreateBearer_def split: bool.splits option.splits)
  next
    case False
    then obtain sess where sess: "\<not> c1" "s1 = Some sess" by auto
    define dflt where "dflt = (case s_S2B sess of None \<Rightarrow> 0 | Some b \<Rightarrow> sc_EBI b)"
    obtain c2 w2 where wl: "(if dflt \<noteq> 0 then wait_bearer_loop idle (s_ID sess) dflt 20 10 w1 else (False, w1)) = (c2, w2)" by fastforce
    have w2: "dp_live (ep_gtpu w2)"
      using wl w1 wait_bearer_loop_keeps[where P = "\<lambda>x. dp_live (ep_gtpu x)", OF idle] by (auto split: if_splits)
    obtain res g where cb: "create_bearers env teids (s_ID sess) dflt 0 (event_bearers event) create_accepted (ep_gtpu w2) = (res, g)" by fastforce
    note run = r[unfolded handlePGWCreateBearer_def f Let_def, simplified sess, simplified, folded dflt_def, unfolded wl, simplified]
    from run w2 cb create_bearers_ok[OF cb start] show ?thesis by (cases c2) auto
  qed
qed

lemma delete_bearers_live:
  "delete_bearers env c sess dflt pgw ebis w = (result, w') \<Longrightarrow> range_ok env \<Longrightarrow> dp_live (ep_gtpu w) \<Longrightarrow> dp_live (ep_gtpu w')"
proof (induction env c sess dflt pgw ebis w rule: delete_bearers.induct)
  case (2 env c sess dflt pgw ebi ebis w)
  obtain sess' w1 where cl: "cleanup env c sess w = (sess', w1)" by fastforce
  obtain err g where rm: "RemoveBearer env (ep_gtpu w) (s_ID sess) ebi = (err, g)" by fastforce
  have "dp_live g" using RemoveBearer_live[OF "2.prems"(3), of env "s_ID sess" ebi] rm by simp
  with "2.prems"(1,2) "2.IH"[OF _ rm[symmetric]] cleanup_effect(7)[OF cl "2.prems"(2,3)] cl rm show ?case
    by (auto simp: set_session_def split: if_splits option.splits)
qed auto

lemma update_bearers_live: "update_bearers env i bcs g = (ok, g') \<Longrightarrow> dp_live g \<Longrightarrow> dp_live g'"
proof (induction env i bcs g rule: update_bearers.induct)
  case (2 env i bc bcs g)
  obtain err g1 where u: "UpdateBearer env g i (ux_EBI bc) (ux_QCI bc) (ux_TFTRaw bc) = (err, g1)" by fastforce
  have "dp_live g1" using UpdateBearer_live[OF "2.prems"(2), of env i "ux_EBI bc" "ux_QCI bc" "ux_TFTRaw bc"] u by simp
  with "2.prems" "2.IH"(1) "2.IH"(2)[OF _ u[symmetric]] u show ?case by (auto split: if_splits option.splits)
qed auto

lemma handlePGWUpdateBearer_live:
  assumes "handlePGWUpdateBearer env ord event w = (result, w')" "dp_live (ep_gtpu w)"
  shows "dp_live (ep_gtpu w')"
proof (cases "find_by_teid ord (ue_LocalControlTEID event) w")
  case (Some sess)
  obtain ok g where u: "update_bearers env (s_ID sess) (ue_Bearers event) (ep_gtpu w) = (ok, g)" by fastforce
  from assms(1) Some u have "ep_gtpu w' = g" by (auto simp: handlePGWUpdateBearer_def Let_def)
  with update_bearers_live[OF u assms(2)] show ?thesis by simp
qed (use assms in \<open>simp add: handlePGWUpdateBearer_def\<close>)

text \<open>A datagram changes the shared state only through one of the handlers.\<close>

lemma s2b_turn_world:
  assumes "s2b_readLoop_turn h now now' wr buf peer c w = (out, evs, c', w')" "w' \<noteq> w"
  obtains (create) event f result where "h_createBearer h = Some f" "f event w = (result, w')"
  | (delete) event f result where "h_deleteBearer h = Some f" "f event w = (result, w')"
  | (update) event f result where "h_updateBearer h = Some f" "f event w = (result, w')"
proof -
  have "(\<exists>event f result. h_createBearer h = Some f \<and> f event w = (result, w')) \<or>
        (\<exists>event f result. h_deleteBearer h = Some f \<and> f event w = (result, w')) \<or>
        (\<exists>event f result. h_updateBearer h = Some f \<and> f event w = (result, w'))"
    using assms
    by (auto simp: s2b_readLoop_turn_def handleDeleteSessionRequest_def handleCreateBearerRequest_def handleDeleteBearerRequest_def
        handleUpdateBearerRequest_def Let_def split: sum.splits if_splits prod.splits option.splits)
  then show ?thesis using that by blast
qed

lemma handlePGWDelete_live:
  assumes "handlePGWDelete env ord c opened exchange event w swm = (w', swm')" "range_ok env" "dp_live (ep_gtpu w)"
  shows "dp_live (ep_gtpu w')"
proof (cases "find_by_teid ord (ds_LocalControlTEID event) w")
  case (Some sess)
  obtain sess' w1 where cl: "cleanup env c sess w = (sess', w1)" by fastforce
  with Some assms(1) cleanup_effect(7)[OF cl assms(2,3)] show ?thesis by (auto simp: handlePGWDelete_def)
qed (use assms in \<open>simp add: handlePGWDelete_def\<close>)

lemma epdg_run_live: "epdg_run env w w' \<Longrightarrow> range_ok env \<Longrightarrow> dp_live (ep_gtpu w) \<Longrightarrow> dp_live (ep_gtpu w')"
proof (induction rule: epdg_run.induct)
  case (run_datagram idle ord teids c now now' wr buf peer w out evs c' w')
  show ?case
  proof (cases "w' = w")
    case False
    from run_datagram.hyps(2) False show ?thesis
    proof (cases rule: s2b_turn_world)
      case (create event f result)
      then have "handlePGWCreateBearer env idle ord teids event w = (result, w')" by (simp add: epdg_handlers_def)
      then show ?thesis using run_datagram.prems(2)
        by (rule handlePGWCreateBearer_live[rotated]) (use run_datagram.IH run_datagram.prems(1) in blast)
    next
      case (delete event f result)
      with run_datagram.prems show ?thesis
        by (auto simp: epdg_handlers_def handlePGWDeleteBearer_def Let_def set_session_def split: option.splits dest!: delete_bearers_live)
    next
      case (update event f result)
      with run_datagram.prems show ?thesis
        by (auto simp: epdg_handlers_def intro: handlePGWUpdateBearer_live)
    qed
  qed (use run_datagram.prems in simp)
next
  case (run_add w sess err g osess)
  then show ?case using AddSession_live[of env "ep_gtpu w" "Some sess"] by simp
next
  case (run_tick w ks now wr)
  then show ?case using dp_live_index[OF pathEchoTick_index[of "ep_gtpu w" ks now wr]] by simp
qed (auto intro: handlePGWDelete_live RemoveSession_live handleDownlink_live)

text \<open>C31.  However the requests of the PGW, the IKE side and the dataplane interleave, and whichever kernel calls fail, every
  installed bearer is found under its local TEID and no two bearers, of whatever sessions, share one: downlink traffic
  of a live tunnel is never attributed to another bearer.\<close>

theorem live_bearers_found_by_teid:
  assumes "epdg_run env w0 w" "ep_gtpu w0 = (gtpu_NewManager k)\<lparr>dp_bpf := b0, dp_tc := t0\<rparr>" "range_ok env"
    "bearer_at (ep_gtpu w) i e = Some b"
  shows "dp_byLocal (ep_gtpu w) (b_LocalRXTEID b) = Some \<lparr>br_SessionID = i, br_BearerEBI = e\<rparr> \<and>
         (\<forall>j e' b'. bearer_at (ep_gtpu w) j e' = Some b' \<and> b_LocalRXTEID b' = b_LocalRXTEID b \<longrightarrow> j = i \<and> e' = e)"
proof -
  have live: "dp_live (ep_gtpu w)" using epdg_run_live[OF assms(1,3)] assms(2) dp_live_NewManager by simp
  show ?thesis using dp_liveD[OF live assms(4)] dp_live_unique[OF live _ assms(4)] by blast
qed

theorem live_bearers_found_by_teid_witness:
  "dp_byLocal demo_installed 7 = Some \<lparr>br_SessionID = ''s'', br_BearerEBI = 5\<rparr>"
proof -
  define w0 where "w0 = \<lparr>ep_manager = NewManager, ep_gtpu = demo_start\<rparr>"
  let ?env = "demo_genv (\<lambda>_ _. False)"
  have "dp_sessionsByID (ep_gtpu w0) (s_ID demo_session) = None" by (simp add: w0_def demo_start_def gtpu_NewManager_def)
  moreover obtain err g os where a: "AddSession ?env (ep_gtpu w0) (Some demo_session) = (err, g, os)" by (metis prod_cases3)
  ultimately have run: "epdg_run ?env w0 (w0\<lparr>ep_gtpu := g\<rparr>)" by (rule epdg_run.run_add)
  have g: "demo_installed = g" using a by (simp add: demo_installed_def w0_def)
  have "map_option b_LocalRXTEID (bearer_at demo_installed ''s'' 5) = Some 7" by code_simp
  then obtain b where "bearer_at demo_installed ''s'' 5 = Some b" "b_LocalRXTEID b = 7" by auto
  with live_bearers_found_by_teid[OF run _ demo_range_ok, where k = empty_kern and ?b0.0 = "Some 2" and ?t0.0 = "Some 9" and i = "''s''" and e = 5] g show ?thesis
    by (simp add: w0_def demo_start_def)
qed

end
