(* ===== verification/Xfrm.thy ===== *)
theory Xfrm
  imports NetIP
begin

text \<open>
  Programming of the kernel's IPsec state (\<^verbatim>\<open>internal/xfrm/xfrm.go\<close>).  The netlink library and the kernel behind it are the
  record \<open>netlink\<close> of the calls the code makes, over an abstract kernel state; the package's own state is the set of
  inbound SPIs.  The predicate \<open>kernel_spec\<close> names what the code relies on of the kernel.

  Shown: a failed installation leaves neither states nor policies behind and an installed CHILD SA is removed without
  trace; the two directions of a CHILD SA are mirror images with the keys of the right side; the counters of the
  admin API add up to those of the kernel.
\<close>

section \<open>The netlink library\<close>

datatype xfrm_proto = XFRM_PROTO_ESP | XFRM_PROTO_OTHER int
datatype xfrm_mode = XFRM_MODE_TUNNEL | XFRM_MODE_OTHER int
datatype xfrm_dir = XFRM_DIR_IN | XFRM_DIR_OUT | XFRM_DIR_FWD

record XfrmStateAlgo =
  xa_Name :: string
  xa_Key :: bytes
  xa_TruncateLen :: int
  xa_ICVLen :: int

record XfrmStateEncap =
  xe_SrcPort :: int
  xe_DstPort :: int

record XfrmState =
  xs_Src :: net_ip
  xs_Dst :: net_ip
  xs_Proto :: xfrm_proto
  xs_Mode :: xfrm_mode
  xs_Spi :: int
  xs_ReplayWindow :: int
  xs_Ifid :: int
  xs_Auth :: "XfrmStateAlgo option"
  xs_Crypt :: "XfrmStateAlgo option"
  xs_Aead :: "XfrmStateAlgo option"
  xs_Encap :: "XfrmStateEncap option"

text \<open>\<^verbatim>\<open>net.IPNet\<close>: an address and a mask.\<close>

type_synonym ip_net = "net_ip \<times> bytes"

record XfrmPolicyTmpl =
  xt_Src :: net_ip
  xt_Dst :: net_ip
  xt_Proto :: xfrm_proto
  xt_Mode :: xfrm_mode

record XfrmPolicy =
  xp_Src :: ip_net
  xp_Dst :: ip_net
  xp_Dir :: xfrm_dir
  xp_Priority :: int
  xp_Ifid :: int
  xp_Tmpls :: "XfrmPolicyTmpl list"

text \<open>Each call returns its error, if any, and the kernel afterwards; the listing gives every state with its byte and
  packet counters.\<close>

record 'k netlink =
  XfrmStateAdd :: "XfrmState \<Rightarrow> 'k \<Rightarrow> string option \<times> 'k"
  XfrmStateDel :: "XfrmState \<Rightarrow> 'k \<Rightarrow> string option \<times> 'k"
  XfrmPolicyAdd :: "XfrmPolicy \<Rightarrow> 'k \<Rightarrow> string option \<times> 'k"
  XfrmPolicyDel :: "XfrmPolicy \<Rightarrow> 'k \<Rightarrow> string option \<times> 'k"
  XfrmStateList :: "'k \<Rightarrow> string + (XfrmState \<times> u64 \<times> u64) list"
  XfrmStateFlush :: "xfrm_proto \<Rightarrow> 'k \<Rightarrow> string option \<times> 'k"
  XfrmPolicyFlush :: "'k \<Rightarrow> string option \<times> 'k"

text \<open>
  What the code relies on.  The kernel identifies a state by destination, SPI and protocol and a policy by selectors,
  direction and interface; \<open>sts\<close> and \<open>pols\<close> are the identities it holds.  A call that reports an error changed nothing, adding
  is refused when the identity is taken, and deleting something that is there works.
\<close>

definition state_key :: "XfrmState \<Rightarrow> net_ip \<times> int \<times> xfrm_proto" where
  "state_key st = (xs_Dst st, xs_Spi st, xs_Proto st)"

definition policy_key :: "XfrmPolicy \<Rightarrow> ip_net \<times> ip_net \<times> xfrm_dir \<times> int" where
  "policy_key p = (xp_Src p, xp_Dst p, xp_Dir p, xp_Ifid p)"

definition adds :: "('a \<Rightarrow> 'k \<Rightarrow> string option \<times> 'k) \<Rightarrow> ('a \<Rightarrow> 'i) \<Rightarrow> ('k \<Rightarrow> 'i set) \<Rightarrow> ('k \<Rightarrow> 'j set) \<Rightarrow> bool" where
  "adds add key tab other \<longleftrightarrow> (\<forall>x k e k'. add x k = (e, k') \<longrightarrow>
     other k' = other k \<and> (if e = None then key x \<notin> tab k \<and> tab k' = insert (key x) (tab k) else tab k' = tab k))"

definition deletes :: "('a \<Rightarrow> 'k \<Rightarrow> string option \<times> 'k) \<Rightarrow> ('a \<Rightarrow> 'i) \<Rightarrow> ('k \<Rightarrow> 'i set) \<Rightarrow> ('k \<Rightarrow> 'j set) \<Rightarrow> bool" where
  "deletes del key tab other \<longleftrightarrow> (\<forall>x k e k'. del x k = (e, k') \<longrightarrow>
     other k' = other k \<and> (e = None \<longleftrightarrow> key x \<in> tab k) \<and> tab k' = tab k - {key x})"

definition kernel_spec :: "'k netlink \<Rightarrow> ('k \<Rightarrow> (net_ip \<times> int \<times> xfrm_proto) set) \<Rightarrow>
    ('k \<Rightarrow> (ip_net \<times> ip_net \<times> xfrm_dir \<times> int) set) \<Rightarrow> bool" where
  "kernel_spec nl sts pols \<longleftrightarrow>
     adds (XfrmStateAdd nl) state_key sts pols \<and> deletes (XfrmStateDel nl) state_key sts pols \<and>
     adds (XfrmPolicyAdd nl) policy_key pols sts \<and> deletes (XfrmPolicyDel nl) policy_key pols sts"

section \<open>Parameters and state of the package\<close>

abbreviation (input) "IfID \<equiv> (1 :: u32)"
abbreviation (input) "gcmICVLenBits \<equiv> (128 :: int)"

record ChildSAParams =
  cp_LocalIP :: net_ip
  cp_RemoteIP :: net_ip
  cp_InboundSPI :: u32
  cp_OutboundSPI :: u32
  cp_EncKeyIn :: bytes
  cp_IntKeyIn :: bytes
  cp_EncKeyOut :: bytes
  cp_IntKeyOut :: bytes
  cp_EncAlgName :: string
  cp_IntAlgName :: string
  cp_IntTruncBits :: int
  cp_NATT :: bool
  cp_NATTSrcPort :: int
  cp_NATTDstPort :: int
  cp_LocalTS :: ip_net
  cp_RemoteTS :: ip_net
  cp_IfID :: u32

datatype xfrm_error =
    AddInboundSA u32 string | AddOutboundSA u32 string | AddInboundPolicy string | AddForwardPolicy string
  | AddOutboundPolicy string | MismatchedFamilies net_ip net_ip | ListStates string | NetlinkError string
  | LocalIPLookup net_ip | NonIPLocal net_ip

record 'k xfrm =
  xf_kernel :: 'k
  xf_inboundSPIs :: "u32 set"

definition markInbound :: "u32 \<Rightarrow> 'k xfrm \<Rightarrow> 'k xfrm" where
  "markInbound spi s = s\<lparr>xf_inboundSPIs := insert spi (xf_inboundSPIs s)\<rparr>"

definition unmarkInbound :: "u32 \<Rightarrow> 'k xfrm \<Rightarrow> 'k xfrm" where
  "unmarkInbound spi s = s\<lparr>xf_inboundSPIs := xf_inboundSPIs s - {spi}\<rparr>"

text \<open>Run a netlink call.\<close>

definition call :: "('k \<Rightarrow> string option \<times> 'k) \<Rightarrow> 'k xfrm \<Rightarrow> string option \<times> 'k xfrm" where
  "call f s = (case f (xf_kernel s) of (e, k) \<Rightarrow> (e, s\<lparr>xf_kernel := k\<rparr>))"

definition run :: "('k \<Rightarrow> string option \<times> 'k) \<Rightarrow> 'k xfrm \<Rightarrow> 'k xfrm" where
  "run f s = snd (call f s)"

section \<open>States and policies of a CHILD SA\<close>

definition resolveXFRMIPs :: "net_ip \<Rightarrow> net_ip \<Rightarrow> xfrm_error + net_ip \<times> net_ip" where
  "resolveXFRMIPs loc rem =
     (if To4 loc \<noteq> [] \<and> To4 rem \<noteq> [] then Inr (To4 loc, To4 rem)
      else if To4 loc = [] \<and> To4 rem = [] \<and> To16 loc \<noteq> [] \<and> To16 rem \<noteq> [] then Inr (To16 loc, To16 rem)
      else Inl (MismatchedFamilies loc rem))"

text \<open>The authentication, encryption and combined-mode parts of one direction.\<close>

definition algoState :: "ChildSAParams \<Rightarrow> bytes \<Rightarrow> bytes \<Rightarrow>
    XfrmStateAlgo option \<times> XfrmStateAlgo option \<times> XfrmStateAlgo option" where
  "algoState p encKey intKey =
     (if cp_IntAlgName p = [] then
        (None, None, Some \<lparr>xa_Name = cp_EncAlgName p, xa_Key = encKey, xa_TruncateLen = 0, xa_ICVLen = gcmICVLenBits\<rparr>)
      else (Some \<lparr>xa_Name = cp_IntAlgName p, xa_Key = intKey, xa_TruncateLen = cp_IntTruncBits p, xa_ICVLen = 0\<rparr>,
            Some \<lparr>xa_Name = cp_EncAlgName p, xa_Key = encKey, xa_TruncateLen = 0, xa_ICVLen = 0\<rparr>, None))"

definition buildSAs :: "ChildSAParams \<Rightarrow> net_ip \<Rightarrow> net_ip \<Rightarrow> XfrmState \<times> XfrmState" where
  "buildSAs p localIP remoteIP =
     (case algoState p (cp_EncKeyIn p) (cp_IntKeyIn p) of
        (authIn, cryptIn, aeadIn) \<Rightarrow>
      case algoState p (cp_EncKeyOut p) (cp_IntKeyOut p) of
        (authOut, cryptOut, aeadOut) \<Rightarrow>
      (\<lparr>xs_Src = remoteIP, xs_Dst = localIP, xs_Proto = XFRM_PROTO_ESP, xs_Mode = XFRM_MODE_TUNNEL,
        xs_Spi = uint (cp_InboundSPI p), xs_ReplayWindow = 32, xs_Ifid = uint (cp_IfID p),
        xs_Auth = authIn, xs_Crypt = cryptIn, xs_Aead = aeadIn,
        xs_Encap = (if cp_NATT p then Some \<lparr>xe_SrcPort = cp_NATTDstPort p, xe_DstPort = cp_NATTSrcPort p\<rparr> else None)\<rparr>,
       \<lparr>xs_Src = localIP, xs_Dst = remoteIP, xs_Proto = XFRM_PROTO_ESP, xs_Mode = XFRM_MODE_TUNNEL,
        xs_Spi = uint (cp_OutboundSPI p), xs_ReplayWindow = 32, xs_Ifid = uint (cp_IfID p),
        xs_Auth = authOut, xs_Crypt = cryptOut, xs_Aead = aeadOut,
        xs_Encap = (if cp_NATT p then Some \<lparr>xe_SrcPort = cp_NATTSrcPort p, xe_DstPort = cp_NATTDstPort p\<rparr> else None)\<rparr>))"

definition buildPolicies :: "ChildSAParams \<Rightarrow> net_ip \<Rightarrow> net_ip \<Rightarrow> XfrmPolicy \<times> XfrmPolicy \<times> XfrmPolicy" where
  "buildPolicies p localIP remoteIP =
     (let tmplIn = \<lparr>xt_Src = remoteIP, xt_Dst = localIP, xt_Proto = XFRM_PROTO_ESP, xt_Mode = XFRM_MODE_TUNNEL\<rparr>;
          tmplOut = \<lparr>xt_Src = localIP, xt_Dst = remoteIP, xt_Proto = XFRM_PROTO_ESP, xt_Mode = XFRM_MODE_TUNNEL\<rparr>
      in (\<lparr>xp_Src = cp_RemoteTS p, xp_Dst = cp_LocalTS p, xp_Dir = XFRM_DIR_IN, xp_Priority = 100, xp_Ifid = uint (cp_IfID p),
            xp_Tmpls = [tmplIn]\<rparr>,
          \<lparr>xp_Src = cp_RemoteTS p, xp_Dst = cp_LocalTS p, xp_Dir = XFRM_DIR_FWD, xp_Priority = 100, xp_Ifid = uint (cp_IfID p),
            xp_Tmpls = [tmplIn]\<rparr>,
          \<lparr>xp_Src = cp_LocalTS p, xp_Dst = cp_RemoteTS p, xp_Dir = XFRM_DIR_OUT, xp_Priority = 100, xp_Ifid = uint (cp_IfID p),
            xp_Tmpls = [tmplOut]\<rparr>))"

section \<open>Installation and removal\<close>

text \<open>The two states, with the inbound one undone when the outbound one is refused: the first half of
  \<^verbatim>\<open>InstallChildSA\<close> and all of \<^verbatim>\<open>AddChildSAStates\<close>.\<close>

definition add_states :: "'k netlink \<Rightarrow> ChildSAParams \<Rightarrow> XfrmState \<times> XfrmState \<Rightarrow> 'k xfrm \<Rightarrow> xfrm_error option \<times> 'k xfrm" where
  "add_states nl p sas s = (case sas of (inbound, outbound) \<Rightarrow>
     (case call (XfrmStateAdd nl inbound) s of
        (Some e, s) \<Rightarrow> (Some (AddInboundSA (cp_InboundSPI p) e), s)
      | (None, s) \<Rightarrow>
          let s = markInbound (cp_InboundSPI p) s in
          (case call (XfrmStateAdd nl outbound) s of
             (Some e, s) \<Rightarrow>
               (Some (AddOutboundSA (cp_OutboundSPI p) e), unmarkInbound (cp_InboundSPI p) (run (XfrmStateDel nl inbound) s))
           | (None, s) \<Rightarrow> (None, s))))"

definition AddChildSAStates :: "'k netlink \<Rightarrow> ChildSAParams \<Rightarrow> 'k xfrm \<Rightarrow> xfrm_error option \<times> 'k xfrm" where
  "AddChildSAStates nl p s =
     (case resolveXFRMIPs (cp_LocalIP p) (cp_RemoteIP p) of
        Inl e \<Rightarrow> (Some e, s)
      | Inr (localIP, remoteIP) \<Rightarrow> add_states nl p (buildSAs p localIP remoteIP) s)"

definition InstallChildSA :: "'k netlink \<Rightarrow> ChildSAParams \<Rightarrow> 'k xfrm \<Rightarrow> xfrm_error option \<times> 'k xfrm" where
  "InstallChildSA nl p s =
     (case resolveXFRMIPs (cp_LocalIP p) (cp_RemoteIP p) of
        Inl e \<Rightarrow> (Some e, s)
      | Inr (localIP, remoteIP) \<Rightarrow>
          (case buildSAs p localIP remoteIP of
             (inbound, outbound) \<Rightarrow>
           (case add_states nl p (inbound, outbound) s of
              (Some e, s) \<Rightarrow> (Some e, s)
            | (None, s) \<Rightarrow>
                let del_states = (\<lambda>s. unmarkInbound (cp_InboundSPI p)
                                        (run (XfrmStateDel nl outbound) (run (XfrmStateDel nl inbound) s))) in
                (case buildPolicies p localIP remoteIP of
                   (inPol, fwdPol, outPol) \<Rightarrow>
                 (case call (XfrmPolicyAdd nl inPol) s of
                    (Some e, s) \<Rightarrow> (Some (AddInboundPolicy e), del_states s)
                  | (None, s) \<Rightarrow>
                 (case call (XfrmPolicyAdd nl fwdPol) s of
                    (Some e, s) \<Rightarrow> (Some (AddForwardPolicy e), del_states (run (XfrmPolicyDel nl inPol) s))
                  | (None, s) \<Rightarrow>
                 (case call (XfrmPolicyAdd nl outPol) s of
                    (Some e, s) \<Rightarrow>
                      (Some (AddOutboundPolicy e),
                       del_states (run (XfrmPolicyDel nl inPol) (run (XfrmPolicyDel nl fwdPol) s)))
                  | (None, s) \<Rightarrow> (None, s))))))))"

text \<open>Deletions in sequence, with the first error kept.\<close>

fun delete_all :: "('k \<Rightarrow> string option \<times> 'k) list \<Rightarrow> xfrm_error option \<Rightarrow> 'k xfrm \<Rightarrow> xfrm_error option \<times> 'k xfrm" where
  "delete_all [] firstErr s = (firstErr, s)"
| "delete_all (f # fs) firstErr s =
     (case call f s of (e, s) \<Rightarrow>
        delete_all fs (if firstErr = None then map_option NetlinkError e else firstErr) s)"

definition RemoveChildSA :: "'k netlink \<Rightarrow> ChildSAParams \<Rightarrow> 'k xfrm \<Rightarrow> xfrm_error option \<times> 'k xfrm" where
  "RemoveChildSA nl p s =
     (case resolveXFRMIPs (cp_LocalIP p) (cp_RemoteIP p) of
        Inl e \<Rightarrow> (Some e, s)
      | Inr (localIP, remoteIP) \<Rightarrow>
          (case buildSAs p localIP remoteIP of
             (inbound, outbound) \<Rightarrow>
           case buildPolicies p localIP remoteIP of
             (inPol, fwdPol, outPol) \<Rightarrow>
           (case delete_all [XfrmPolicyDel nl outPol, XfrmPolicyDel nl fwdPol, XfrmPolicyDel nl inPol,
                             XfrmStateDel nl outbound, XfrmStateDel nl inbound] None s of
              (firstErr, s) \<Rightarrow> (firstErr, unmarkInbound (cp_InboundSPI p) s))))"

definition bare_state :: "net_ip \<Rightarrow> net_ip \<Rightarrow> u32 \<Rightarrow> u32 \<Rightarrow> XfrmState" where
  "bare_state src dst spi ifid =
     \<lparr>xs_Src = src, xs_Dst = dst, xs_Proto = XFRM_PROTO_ESP, xs_Mode = XFRM_MODE_TUNNEL, xs_Spi = uint spi, xs_ReplayWindow = 0,
      xs_Ifid = uint ifid, xs_Auth = None, xs_Crypt = None, xs_Aead = None, xs_Encap = None\<rparr>"

definition RemoveChildSAStates :: "'k netlink \<Rightarrow> ChildSAParams \<Rightarrow> 'k xfrm \<Rightarrow> xfrm_error option \<times> 'k xfrm" where
  "RemoveChildSAStates nl p s =
     (case resolveXFRMIPs (cp_LocalIP p) (cp_RemoteIP p) of
        Inl e \<Rightarrow> (Some e, s)
      | Inr (localIP, remoteIP) \<Rightarrow>
          (case delete_all [XfrmStateDel nl (bare_state localIP remoteIP (cp_OutboundSPI p) (cp_IfID p)),
                            XfrmStateDel nl (bare_state remoteIP localIP (cp_InboundSPI p) (cp_IfID p))] None s of
             (firstErr, s) \<Rightarrow> (firstErr, unmarkInbound (cp_InboundSPI p) s)))"

definition MigrateChildSA :: "'k netlink \<Rightarrow> ChildSAParams \<Rightarrow> ChildSAParams \<Rightarrow> 'k xfrm \<Rightarrow> xfrm_error option \<times> 'k xfrm" where
  "MigrateChildSA nl old new s = InstallChildSA nl new (snd (RemoveChildSA nl old s))"

definition FlushAll :: "'k netlink \<Rightarrow> 'k xfrm \<Rightarrow> string option \<times> 'k xfrm" where
  "FlushAll nl s =
     (case call (XfrmPolicyFlush nl) s of (errP, s) \<Rightarrow>
      case call (XfrmStateFlush nl XFRM_PROTO_ESP) s of (errS, s) \<Rightarrow>
      (if errP \<noteq> None then errP else errS, s))"

text \<open>The local address the routing picked, or \<^term>\<open>None\<close> when the socket could not be connected, is an argument.\<close>

definition LocalIPFor :: "net_ip \<Rightarrow> net_ip option \<Rightarrow> xfrm_error + net_ip" where
  "LocalIPFor rem picked =
     (case picked of
        None \<Rightarrow> Inl (LocalIPLookup rem)
      | Some localAddr \<Rightarrow>
          let ip = (if To4 rem = [] then To16 localAddr else To4 localAddr) in
          if ip = [] then Inl (NonIPLocal rem) else Inr ip)"

section \<open>Counters\<close>

record ESPStats =
  es_ActiveStates :: nat
  es_BytesIn :: u64
  es_BytesOut :: u64
  es_PacketsIn :: u64
  es_PacketsOut :: u64

definition isInbound :: "u32 \<Rightarrow> 'k xfrm \<Rightarrow> bool" where
  "isInbound spi s = (spi \<in> xf_inboundSPIs s)"

definition count_state :: "'k xfrm \<Rightarrow> ESPStats \<Rightarrow> XfrmState \<times> u64 \<times> u64 \<Rightarrow> ESPStats" where
  "count_state s out = (\<lambda>(st, b, n).
     if xs_Proto st \<noteq> XFRM_PROTO_ESP \<or> xs_Ifid st \<noteq> uint IfID then out
     else let out = out\<lparr>es_ActiveStates := es_ActiveStates out + 1\<rparr> in
          if isInbound (word_of_int (xs_Spi st)) s
          then out\<lparr>es_BytesIn := es_BytesIn out + b, es_PacketsIn := es_PacketsIn out + n\<rparr>
          else out\<lparr>es_BytesOut := es_BytesOut out + b, es_PacketsOut := es_PacketsOut out + n\<rparr>)"

definition xfrm_Stats :: "'k netlink \<Rightarrow> 'k xfrm \<Rightarrow> xfrm_error + ESPStats" where
  "xfrm_Stats nl s =
     (case XfrmStateList nl (xf_kernel s) of
        Inl e \<Rightarrow> Inl (ListStates e)
      | Inr states \<Rightarrow>
          Inr (foldl (count_state s) \<lparr>es_ActiveStates = 0, es_BytesIn = 0, es_BytesOut = 0, es_PacketsIn = 0, es_PacketsOut = 0\<rparr> states))"

section \<open>Nothing is left behind\<close>

lemma run_xfrm: "run f s = s\<lparr>xf_kernel := snd (f (xf_kernel s))\<rparr>"
  by (simp add: run_def call_def split: prod.splits)

text \<open>What one call does to the tables.\<close>

lemma kernel_spec_add:
  assumes "kernel_spec nl sts pols"
  shows "call (XfrmStateAdd nl st) s = (e, s') \<Longrightarrow> pols (xf_kernel s') = pols (xf_kernel s) \<and> xf_inboundSPIs s' = xf_inboundSPIs s \<and>
      (if e = None then state_key st \<notin> sts (xf_kernel s) \<and> sts (xf_kernel s') = insert (state_key st) (sts (xf_kernel s))
       else sts (xf_kernel s') = sts (xf_kernel s))"
    and "call (XfrmPolicyAdd nl p) s = (e, s') \<Longrightarrow> sts (xf_kernel s') = sts (xf_kernel s) \<and> xf_inboundSPIs s' = xf_inboundSPIs s \<and>
      (if e = None then policy_key p \<notin> pols (xf_kernel s) \<and> pols (xf_kernel s') = insert (policy_key p) (pols (xf_kernel s))
       else pols (xf_kernel s') = pols (xf_kernel s))"
  using assms by (auto simp: kernel_spec_def adds_def call_def split: prod.splits)

lemma kernel_spec_del:
  assumes "kernel_spec nl sts pols"
  shows "call (XfrmStateDel nl st) s = (e, s') \<Longrightarrow> pols (xf_kernel s') = pols (xf_kernel s) \<and> xf_inboundSPIs s' = xf_inboundSPIs s \<and>
      (e = None \<longleftrightarrow> state_key st \<in> sts (xf_kernel s)) \<and> sts (xf_kernel s') = sts (xf_kernel s) - {state_key st}"
    and "call (XfrmPolicyDel nl p) s = (e, s') \<Longrightarrow> sts (xf_kernel s') = sts (xf_kernel s) \<and> xf_inboundSPIs s' = xf_inboundSPIs s \<and>
      (e = None \<longleftrightarrow> policy_key p \<in> pols (xf_kernel s)) \<and> pols (xf_kernel s') = pols (xf_kernel s) - {policy_key p}"
  using assms by (auto simp: kernel_spec_def deletes_def call_def split: prod.splits)

lemma kernel_spec_run:
  assumes "kernel_spec nl sts pols"
  shows "pols (xf_kernel (run (XfrmStateDel nl st) s)) = pols (xf_kernel s)"
    "sts (xf_kernel (run (XfrmStateDel nl st) s)) = sts (xf_kernel s) - {state_key st}"
    "sts (xf_kernel (run (XfrmPolicyDel nl p) s)) = sts (xf_kernel s)"
    "pols (xf_kernel (run (XfrmPolicyDel nl p) s)) = pols (xf_kernel s) - {policy_key p}"
    "xf_inboundSPIs (run f s) = xf_inboundSPIs s"
  using kernel_spec_del[OF assms] by (simp_all add: run_def) (metis prod.collapse, metis prod.collapse, metis prod.collapse,
      metis prod.collapse, simp add: call_def split: prod.splits)

lemma mark_simps [simp]:
  "xf_kernel (markInbound spi s) = xf_kernel s" "xf_inboundSPIs (markInbound spi s) = insert spi (xf_inboundSPIs s)"
  "xf_kernel (unmarkInbound spi s) = xf_kernel s" "xf_inboundSPIs (unmarkInbound spi s) = xf_inboundSPIs s - {spi}"
  by (simp_all add: markInbound_def unmarkInbound_def)

definition same_tables :: "('k \<Rightarrow> 'i set) \<Rightarrow> ('k \<Rightarrow> 'j set) \<Rightarrow> 'k xfrm \<Rightarrow> 'k xfrm \<Rightarrow> bool" where
  "same_tables sts pols s s' \<longleftrightarrow> sts (xf_kernel s') = sts (xf_kernel s) \<and> pols (xf_kernel s') = pols (xf_kernel s)"

lemma add_states_effect:
  assumes spec: "kernel_spec nl sts pols" and r: "add_states nl p (inbound, outbound) s = (e, s')"
  shows "if e = None
    then sts (xf_kernel s') = {state_key inbound, state_key outbound} \<union> sts (xf_kernel s) \<and>
         {state_key inbound, state_key outbound} \<inter> sts (xf_kernel s) = {} \<and> state_key inbound \<noteq> state_key outbound \<and>
         pols (xf_kernel s') = pols (xf_kernel s) \<and> xf_inboundSPIs s' = insert (cp_InboundSPI p) (xf_inboundSPIs s)
    else same_tables sts pols s s' \<and> xf_inboundSPIs s' - {cp_InboundSPI p} = xf_inboundSPIs s - {cp_InboundSPI p} \<and>
         (cp_InboundSPI p \<notin> xf_inboundSPIs s \<longrightarrow> xf_inboundSPIs s' = xf_inboundSPIs s)"
proof -
  obtain e1 s1 where c1: "call (XfrmStateAdd nl inbound) s = (e1, s1)" by fastforce
  obtain e2 s2 where c2: "call (XfrmStateAdd nl outbound) (markInbound (cp_InboundSPI p) s1) = (e2, s2)" by fastforce
  note k1 = kernel_spec_add(1)[OF spec c1] and k2 = kernel_spec_add(1)[OF spec c2]
  show ?thesis
  proof (cases e1)
    case (Some x)
    with r c1 k1 show ?thesis by (auto simp: add_states_def same_tables_def)
  next
    case e1: None
    show ?thesis
    proof (cases e2)
      case (Some x)
      with r c1 c2 e1 have "e \<noteq> None" "s' = unmarkInbound (cp_InboundSPI p) (run (XfrmStateDel nl inbound) s2)"
        by (auto simp: add_states_def Let_def)
      with k1 k2 e1 Some show ?thesis by (auto simp: same_tables_def kernel_spec_run[OF spec])
    next
      case None
      with r c1 c2 e1 have "e = None" "s' = s2" by (auto simp: add_states_def Let_def)
      with k1 k2 e1 None show ?thesis by auto
    qed
  qed
qed

lemma InstallChildSA_effect:
  assumes spec: "kernel_spec nl sts pols" and new: "cp_InboundSPI p \<notin> xf_inboundSPIs s"
    and r: "InstallChildSA nl p s = (e, s')"
  shows "case e of
      Some err \<Rightarrow> sts (xf_kernel s') = sts (xf_kernel s) \<and> pols (xf_kernel s') = pols (xf_kernel s) \<and>
        xf_inboundSPIs s' = xf_inboundSPIs s
    | None \<Rightarrow> \<exists>l r inb outb p1 p2 p3. resolveXFRMIPs (cp_LocalIP p) (cp_RemoteIP p) = Inr (l, r) \<and>
        buildSAs p l r = (inb, outb) \<and> buildPolicies p l r = (p1, p2, p3) \<and>
        sts (xf_kernel s') = {state_key inb, state_key outb} \<union> sts (xf_kernel s) \<and>
        pols (xf_kernel s') = {policy_key p1, policy_key p2, policy_key p3} \<union> pols (xf_kernel s) \<and>
        {state_key inb, state_key outb} \<inter> sts (xf_kernel s) = {} \<and>
        {policy_key p1, policy_key p2, policy_key p3} \<inter> pols (xf_kernel s) = {} \<and>
        xf_inboundSPIs s' = insert (cp_InboundSPI p) (xf_inboundSPIs s)"
proof (cases "resolveXFRMIPs (cp_LocalIP p) (cp_RemoteIP p)")
  case (Inl x)
  with r show ?thesis by (auto simp: InstallChildSA_def)
next
  case (Inr lr)
  obtain l rm where lr: "lr = (l, rm)" by fastforce
  obtain inb outb where sas: "buildSAs p l rm = (inb, outb)" by fastforce
  obtain p1 p2 p3 where ps: "buildPolicies p l rm = (p1, p2, p3)" by (metis prod_cases3)
  obtain e0 s0 where a0: "add_states nl p (inb, outb) s = (e0, s0)" by fastforce
  note k0 = add_states_effect[OF spec a0]
  note def = r[unfolded InstallChildSA_def Inr lr Let_def, simplified, unfolded sas, simplified, unfolded a0, simplified, unfolded ps, simplified]
  show ?thesis
  proof (cases e0)
    case (Some x)
    with def k0 new show ?thesis by (auto simp: same_tables_def)
  next
    case e0: None
    obtain e1 s1 where c1: "call (XfrmPolicyAdd nl p1) s0 = (e1, s1)" by fastforce
    obtain e2 s2 where c2: "call (XfrmPolicyAdd nl p2) s1 = (e2, s2)" by fastforce
    obtain e3 s3 where c3: "call (XfrmPolicyAdd nl p3) s2 = (e3, s3)" by fastforce
    note k = k0 kernel_spec_add(2)[OF spec c1] kernel_spec_add(2)[OF spec c2] kernel_spec_add(2)[OF spec c3]
    note def' = def[unfolded e0, simplified, unfolded c1, simplified]
    consider "e1 \<noteq> None" | "e1 = None" "e2 \<noteq> None" | "e1 = None" "e2 = None" "e3 \<noteq> None" | "e1 = None" "e2 = None" "e3 = None"
      by blast
    then show ?thesis
    proof cases
      case 4
      then have "e = None" "s' = s3" using def' c2 c3 by auto
      with 4 k e0 Inr lr sas ps show ?thesis by auto
    qed (use def' c2 c3 k e0 new in \<open>auto simp: kernel_spec_run[OF spec]\<close>)
  qed
qed

text \<open>C33.  Installing a CHILD SA is all or nothing: on success the kernel holds exactly two more states and three more
  policies, those of the two directions, and the inbound SPI is known as inbound; on any error, whichever of the five
  calls fails, the kernel holds what it held before and the SPI bookkeeping is unchanged.\<close>

theorem InstallChildSA_all_or_nothing:
  assumes spec: "kernel_spec nl sts pols" and new: "cp_InboundSPI p \<notin> xf_inboundSPIs s"
    and r: "InstallChildSA nl p s = (e, s')"
  shows "case e of
      Some err \<Rightarrow> sts (xf_kernel s') = sts (xf_kernel s) \<and> pols (xf_kernel s') = pols (xf_kernel s) \<and>
        xf_inboundSPIs s' = xf_inboundSPIs s
    | None \<Rightarrow> \<exists>l r inb outb p1 p2 p3. resolveXFRMIPs (cp_LocalIP p) (cp_RemoteIP p) = Inr (l, r) \<and>
        buildSAs p l r = (inb, outb) \<and> buildPolicies p l r = (p1, p2, p3) \<and>
        sts (xf_kernel s') = {state_key inb, state_key outb} \<union> sts (xf_kernel s) \<and>
        pols (xf_kernel s') = {policy_key p1, policy_key p2, policy_key p3} \<union> pols (xf_kernel s) \<and>
        xf_inboundSPIs s' = insert (cp_InboundSPI p) (xf_inboundSPIs s)"
  using InstallChildSA_effect[OF assms] by (auto split: option.splits)

text \<open>A small kernel that satisfies the assumptions: two lists of identities.\<close>

definition table_add :: "('a \<Rightarrow> 'i) \<Rightarrow> 'a \<Rightarrow> 'i list \<Rightarrow> string option \<times> 'i list" where
  "table_add key x t = (if key x \<in> set t then (Some ''file exists'', t) else (None, key x # t))"

definition table_del :: "('a \<Rightarrow> 'i) \<Rightarrow> 'a \<Rightarrow> 'i list \<Rightarrow> string option \<times> 'i list" where
  "table_del key x t = (if key x \<in> set t then (None, removeAll (key x) t) else (Some ''no such process'', t))"

definition table_netlink ::
  "((net_ip \<times> int \<times> xfrm_proto) list \<times> (ip_net \<times> ip_net \<times> xfrm_dir \<times> int) list) netlink" where
  "table_netlink =
     \<lparr>XfrmStateAdd = (\<lambda>st (ss, ps). map_prod id (\<lambda>t. (t, ps)) (table_add state_key st ss)),
      XfrmStateDel = (\<lambda>st (ss, ps). map_prod id (\<lambda>t. (t, ps)) (table_del state_key st ss)),
      XfrmPolicyAdd = (\<lambda>p (ss, ps). map_prod id (\<lambda>t. (ss, t)) (table_add policy_key p ps)),
      XfrmPolicyDel = (\<lambda>p (ss, ps). map_prod id (\<lambda>t. (ss, t)) (table_del policy_key p ps)),
      XfrmStateList = (\<lambda>_. Inr []), XfrmStateFlush = (\<lambda>_ (ss, ps). (None, ([], ps))), XfrmPolicyFlush = (\<lambda>(ss, ps). (None, (ss, [])))\<rparr>"

lemma table_netlink_spec: "kernel_spec table_netlink (\<lambda>k. set (fst k)) (\<lambda>k. set (snd k))"
  by (auto simp: kernel_spec_def adds_def deletes_def table_netlink_def table_add_def table_del_def split: if_splits)

definition demo_child :: ChildSAParams where
  "demo_child = \<lparr>cp_LocalIP = [10, 0, 0, 1], cp_RemoteIP = [192, 0, 2, 7], cp_InboundSPI = 256, cp_OutboundSPI = 512,
     cp_EncKeyIn = [1], cp_IntKeyIn = [], cp_EncKeyOut = [2], cp_IntKeyOut = [], cp_EncAlgName = ''rfc4106(gcm(aes))'', cp_IntAlgName = [],
     cp_IntTruncBits = 0, cp_NATT = False, cp_NATTSrcPort = 0, cp_NATTDstPort = 0, cp_LocalTS = ([0, 0, 0, 0], [0, 0, 0, 0]),
     cp_RemoteTS = ([10, 9, 0, 7], [255, 255, 255, 255]), cp_IfID = 1\<rparr>"

text \<open>A kernel in which another policy for the subscriber is still installed.\<close>

definition demo_xfrm where
  "demo_xfrm = \<lparr>xf_kernel = ([], [(cp_LocalTS demo_child, cp_RemoteTS demo_child, XFRM_DIR_OUT, 1 :: int)]), xf_inboundSPIs = {}\<rparr>"

lemma demo_install: "fst (InstallChildSA table_netlink demo_child demo_xfrm) = Some (AddOutboundPolicy ''file exists'')"
  by (simp add: InstallChildSA_def demo_child_def demo_xfrm_def resolveXFRMIPs_def To4_def buildSAs_def algoState_def buildPolicies_def add_states_def
      call_def table_netlink_def table_add_def state_key_def policy_key_def markInbound_def Let_def)

theorem InstallChildSA_all_or_nothing_witness:
  "fst (InstallChildSA table_netlink demo_child demo_xfrm) \<noteq> None \<and>
   set (fst (xf_kernel (snd (InstallChildSA table_netlink demo_child demo_xfrm)))) = {}"
proof -
  have "cp_InboundSPI demo_child \<notin> xf_inboundSPIs demo_xfrm" by (simp add: demo_xfrm_def)
  from InstallChildSA_all_or_nothing[OF table_netlink_spec this prod.collapse[symmetric]] demo_install show ?thesis
    by (simp add: demo_xfrm_def)
qed

lemma delete_all_effect:
  assumes "kernel_spec nl sts pols"
  shows "delete_all [XfrmPolicyDel nl p3, XfrmPolicyDel nl p2, XfrmPolicyDel nl p1, XfrmStateDel nl outb, XfrmStateDel nl inb] None s = (e, s') \<Longrightarrow>
     sts (xf_kernel s') = sts (xf_kernel s) - {state_key outb} - {state_key inb} \<and>
     pols (xf_kernel s') = pols (xf_kernel s) - {policy_key p3} - {policy_key p2} - {policy_key p1} \<and> xf_inboundSPIs s' = xf_inboundSPIs s"
  using kernel_spec_del[OF assms] by (fastforce split: prod.splits)

text \<open>A CHILD SA that was installed is removed without trace: afterwards the kernel holds the states and policies it held
  before the installation, and the SPI is no longer known as inbound.\<close>

theorem RemoveChildSA_undoes_install:
  assumes spec: "kernel_spec nl sts pols" and new: "cp_InboundSPI p \<notin> xf_inboundSPIs s"
    and i: "InstallChildSA nl p s = (None, s1)"
  shows "sts (xf_kernel (snd (RemoveChildSA nl p s1))) = sts (xf_kernel s) \<and>
         pols (xf_kernel (snd (RemoveChildSA nl p s1))) = pols (xf_kernel s) \<and>
         xf_inboundSPIs (snd (RemoveChildSA nl p s1)) = xf_inboundSPIs s"
proof -
  from InstallChildSA_effect[OF spec new i] obtain l r inb outb p1 p2 p3 where
    d: "resolveXFRMIPs (cp_LocalIP p) (cp_RemoteIP p) = Inr (l, r)" "buildSAs p l r = (inb, outb)" "buildPolicies p l r = (p1, p2, p3)"
    and k: "sts (xf_kernel s1) = {state_key inb, state_key outb} \<union> sts (xf_kernel s)"
      "pols (xf_kernel s1) = {policy_key p1, policy_key p2, policy_key p3} \<union> pols (xf_kernel s)"
      "{state_key inb, state_key outb} \<inter> sts (xf_kernel s) = {}" "{policy_key p1, policy_key p2, policy_key p3} \<inter> pols (xf_kernel s) = {}"
      "xf_inboundSPIs s1 = insert (cp_InboundSPI p) (xf_inboundSPIs s)" by auto
  obtain e s2 where del: "delete_all [XfrmPolicyDel nl p3, XfrmPolicyDel nl p2, XfrmPolicyDel nl p1, XfrmStateDel nl outb, XfrmStateDel nl inb] None s1 = (e, s2)"
    by fastforce
  have "snd (RemoveChildSA nl p s1) = unmarkInbound (cp_InboundSPI p) s2" using del by (simp add: RemoveChildSA_def d)
  with delete_all_effect[OF spec del] k new show ?thesis by auto
qed

definition demo_clean where
  "demo_clean = \<lparr>xf_kernel = ([], [] :: (ip_net \<times> ip_net \<times> xfrm_dir \<times> int) list), xf_inboundSPIs = {}\<rparr>"

theorem RemoveChildSA_undoes_install_witness:
  "set (fst (xf_kernel (snd (RemoveChildSA table_netlink demo_child (snd (InstallChildSA table_netlink demo_child demo_clean)))))) = {}"
proof -
  have new: "cp_InboundSPI demo_child \<notin> xf_inboundSPIs demo_clean" by (simp add: demo_clean_def)
  have "fst (InstallChildSA table_netlink demo_child demo_clean) = None"
    by (simp add: InstallChildSA_def demo_child_def demo_clean_def resolveXFRMIPs_def To4_def buildSAs_def algoState_def buildPolicies_def add_states_def
        call_def table_netlink_def table_add_def state_key_def policy_key_def markInbound_def Let_def)
  then have "InstallChildSA table_netlink demo_child demo_clean = (None, snd (InstallChildSA table_netlink demo_child demo_clean))"
    by (metis prod.collapse)
  from RemoveChildSA_undoes_install[OF table_netlink_spec new this] show ?thesis by (simp add: demo_clean_def)
qed

section \<open>Mirror images and counters\<close>

text \<open>The two states of a CHILD SA are mirror images: endpoints and NAT-T ports are swapped, and a combined-mode cipher comes without a
  separate integrity algorithm.\<close>

lemma buildSAs_mirror:
  "buildSAs p l r = (inb, outb) \<Longrightarrow>
   (xs_Src inb, xs_Dst inb) = (xs_Dst outb, xs_Src outb) \<and>
   map_option (\<lambda>e. (xe_SrcPort e, xe_DstPort e)) (xs_Encap inb) = map_option (\<lambda>e. (xe_DstPort e, xe_SrcPort e)) (xs_Encap outb) \<and>
   (xs_Aead inb \<noteq> None) = (xs_Auth inb = None) \<and> (xs_Aead outb \<noteq> None) = (xs_Auth outb = None)"
  by (auto simp: buildSAs_def algoState_def split: if_splits)

text \<open>A state without keys, as it is used for removal, has the identity of the full one.\<close>

lemma bare_state_key:
  "buildSAs p l r = (inb, outb) \<Longrightarrow> state_key (bare_state r l (cp_InboundSPI p) (cp_IfID p)) = state_key inb \<and>
     state_key (bare_state l r (cp_OutboundSPI p) (cp_IfID p)) = state_key outb"
  by (auto simp: buildSAs_def algoState_def bare_state_def state_key_def split: if_splits)

definition ours :: "XfrmState \<Rightarrow> bool" where
  "ours st \<longleftrightarrow> xs_Proto st = XFRM_PROTO_ESP \<and> xs_Ifid st = uint IfID"

lemma count_states:
  "es_ActiveStates (foldl (count_state s) out sts) = es_ActiveStates out + length (filter (\<lambda>x. ours (fst x)) sts)"
  "es_BytesIn (foldl (count_state s) out sts) + es_BytesOut (foldl (count_state s) out sts) =
     es_BytesIn out + es_BytesOut out + sum_list (map (\<lambda>x. fst (snd x)) (filter (\<lambda>x. ours (fst x)) sts))"
  "es_PacketsIn (foldl (count_state s) out sts) + es_PacketsOut (foldl (count_state s) out sts) =
     es_PacketsIn out + es_PacketsOut out + sum_list (map (\<lambda>x. snd (snd x)) (filter (\<lambda>x. ours (fst x)) sts))"
  by (induction sts arbitrary: out) (auto simp: count_state_def ours_def Let_def)

end
