(* ===== verification/PgwDiscovery.thy ===== *)
theory PgwDiscovery
  imports ConfigLoad "HOL-Library.Multiset" "HOL-Library.Sublist"
begin

text \<open>
  Choice of the PGW for an APN (\<^verbatim>\<open>internal/pgwdiscovery/discovery.go\<close>).  The DNS library and the resolver are the record \<open>dns\<close> of the
  lookups the code makes, \<^term>\<open>None\<close> for an error.  \<^verbatim>\<open>sort.Slice\<close> is not stable, so the sorting is an argument, of which only
  \<open>sorts\<close> is assumed: it permutes the records into an order by order and preference.

  Shown: the PGW is the best S2b record that resolves to an IPv4 address, an S5/S8 record only when that is allowed and no
  S2b record resolves, and otherwise the configured address.
\<close>

section \<open>Model\<close>

datatype dns_rr = NAPTR u16 u16 string string string | OtherRR

record dns =
  dns_conf :: "(string list \<times> string) option"
  dns_exchange :: "string \<Rightarrow> string \<Rightarrow> dns_rr list option"
  dns_host :: "string \<Rightarrow> string list option"
  dns_srv :: "string \<Rightarrow> string list option"

datatype Method = MethodStatic | MethodDNS_S2B | MethodDNS_S5S8

record DiscoveryConfig =
  pd_DNSEnabled :: bool
  pd_AllowS5S8Fallback :: bool
  pd_StaticPGWC :: string
  pd_MCC :: string
  pd_MNC :: string

record naptrRecord =
  na_Order :: u16
  na_Preference :: u16
  na_Flags :: string
  na_Service :: string
  na_Replacement :: string

datatype discovery_error =
    ReadResolvConf | NoNameservers | NAPTRQueryFailed string | NoMatchingNAPTR string bool
  | ALookup string | NoIPv4 string | SRVLookup string | NoIPv4FromSRV string | UnsupportedFlag string string

definition apnFQDN :: "string \<Rightarrow> string \<Rightarrow> string \<Rightarrow> string" where
  "apnFQDN apn mcc mnc = apn @ ''.apn.epc.mnc'' @ mnc @ ''.mcc'' @ mcc @ ''.3gppnetwork.org''"

definition contains :: "string \<Rightarrow> string \<Rightarrow> bool" where
  "contains s sub = sublist sub s"

definition isS2BService :: "string \<Rightarrow> bool" where
  "isS2BService svc = (contains svc ''x-3gpp-pgw'' \<and> contains svc ''x-s2b-gtp'')"

definition isS5S8Service :: "string \<Rightarrow> bool" where
  "isS5S8Service svc = (contains svc ''x-3gpp-pgw'' \<and> (contains svc ''x-s5-gtp'' \<or> contains svc ''x-s8-gtp''))"

definition trim_dot :: "string \<Rightarrow> string" where
  "trim_dot s = (if s \<noteq> [] \<and> last s = CHR ''.'' then butlast s else s)"

definition JoinHostPort :: "string \<Rightarrow> string \<Rightarrow> string" where
  "JoinHostPort host port = (if CHR '':'' \<in> set host then ''['' @ host @ '']:'' @ port else host @ '':'' @ port)"

fun naptr_records :: "dns_rr list \<Rightarrow> naptrRecord list" where
  "naptr_records [] = []"
| "naptr_records (OtherRR # rrs) = naptr_records rrs"
| "naptr_records (NAPTR ord pref flags svc repl # rrs) =
     \<lparr>na_Order = ord, na_Preference = pref, na_Flags = ToLower (TrimFunc (\<lambda>c. c = CHR 0x22) flags), na_Service = svc,
      na_Replacement = trim_dot repl\<rparr> # naptr_records rrs"

text \<open>The first name server that answers is believed.\<close>

fun exchange_first :: "(string \<Rightarrow> dns_rr list option) \<Rightarrow> string list \<Rightarrow> dns_rr list option" where
  "exchange_first ex [] = None"
| "exchange_first ex (srv # srvs) = (case ex srv of None \<Rightarrow> exchange_first ex srvs | Some rrs \<Rightarrow> Some rrs)"

definition queryNAPTR :: "dns \<Rightarrow> string \<Rightarrow> discovery_error + naptrRecord list" where
  "queryNAPTR d fqdn =
     (case dns_conf d of
        None \<Rightarrow> Inl ReadResolvConf
      | Some (servers, port) \<Rightarrow>
          if servers = [] then Inl NoNameservers
          else (case exchange_first (\<lambda>srv. dns_exchange d (JoinHostPort srv port) fqdn) servers of
                  None \<Rightarrow> Inl (NAPTRQueryFailed fqdn)
                | Some rrs \<Rightarrow> Inr (naptr_records rrs)))"

definition first_ipv4 :: "string list \<Rightarrow> net_ip option" where
  "first_ipv4 ips = (case filter (\<lambda>s. To4 (ParseIP s) \<noteq> []) ips of [] \<Rightarrow> None | s # _ \<Rightarrow> Some (To4 (ParseIP s)))"

fun first_srv_ipv4 :: "dns \<Rightarrow> string list \<Rightarrow> net_ip option" where
  "first_srv_ipv4 d [] = None"
| "first_srv_ipv4 d (t # ts) =
     (case dns_host d (trim_dot t) of
        None \<Rightarrow> first_srv_ipv4 d ts
      | Some ips \<Rightarrow> (case first_ipv4 ips of Some ip \<Rightarrow> Some ip | None \<Rightarrow> first_srv_ipv4 d ts))"

definition resolveNAPTR :: "dns \<Rightarrow> naptrRecord \<Rightarrow> discovery_error + net_ip" where
  "resolveNAPTR d r =
     (if na_Flags r = ''a'' then
        (case dns_host d (na_Replacement r) of
           None \<Rightarrow> Inl (ALookup (na_Replacement r))
         | Some ips \<Rightarrow> (case first_ipv4 ips of Some ip \<Rightarrow> Inr ip | None \<Rightarrow> Inl (NoIPv4 (na_Replacement r))))
      else if na_Flags r = ''s'' then
        (case dns_srv d (na_Replacement r) of
           None \<Rightarrow> Inl (SRVLookup (na_Replacement r))
         | Some targets \<Rightarrow> (case first_srv_ipv4 d targets of Some ip \<Rightarrow> Inr ip | None \<Rightarrow> Inl (NoIPv4FromSRV (na_Replacement r))))
      else Inl (UnsupportedFlag (na_Flags r) (na_Replacement r)))"

text \<open>The loops over the sorted records: the first one of the wanted service that resolves.\<close>

fun first_resolved :: "dns \<Rightarrow> (string \<Rightarrow> bool) \<Rightarrow> naptrRecord list \<Rightarrow> net_ip option" where
  "first_resolved d wanted [] = None"
| "first_resolved d wanted (r # rs) =
     (if wanted (na_Service r) then
        (case resolveNAPTR d r of Inr ip \<Rightarrow> Some ip | Inl _ \<Rightarrow> first_resolved d wanted rs)
      else first_resolved d wanted rs)"

definition discoverViaDNS ::
  "(naptrRecord list \<Rightarrow> naptrRecord list) \<Rightarrow> dns \<Rightarrow> DiscoveryConfig \<Rightarrow> string \<Rightarrow> discovery_error + net_ip \<times> Method" where
  "discoverViaDNS srt d cfg fqdn =
     (case queryNAPTR d fqdn of
        Inl e \<Rightarrow> Inl e
      | Inr records \<Rightarrow>
          let records = srt records in
          (case first_resolved d isS2BService records of
             Some ip \<Rightarrow> Inr (ip, MethodDNS_S2B)
           | None \<Rightarrow>
               (case (if pd_AllowS5S8Fallback cfg then first_resolved d isS5S8Service records else None) of
                  Some ip \<Rightarrow> Inr (ip, MethodDNS_S5S8)
                | None \<Rightarrow> Inl (NoMatchingNAPTR fqdn (pd_AllowS5S8Fallback cfg)))))"

definition Discover :: "(naptrRecord list \<Rightarrow> naptrRecord list) \<Rightarrow> dns \<Rightarrow> DiscoveryConfig \<Rightarrow> string \<Rightarrow> net_ip" where
  "Discover srt d cfg apn =
     (if \<not> pd_DNSEnabled cfg then ParseIP (pd_StaticPGWC cfg)
      else case discoverViaDNS srt d cfg (apnFQDN apn (pd_MCC cfg) (pd_MNC cfg)) of
             Inl _ \<Rightarrow> ParseIP (pd_StaticPGWC cfg)
           | Inr (ip, _) \<Rightarrow> if ip = [] then ParseIP (pd_StaticPGWC cfg) else ip)"

section \<open>The best record wins\<close>

definition rank_le :: "naptrRecord \<Rightarrow> naptrRecord \<Rightarrow> bool" where
  "rank_le r r' \<longleftrightarrow> na_Order r < na_Order r' \<or> (na_Order r = na_Order r' \<and> na_Preference r \<le> na_Preference r')"

definition sorts :: "(naptrRecord list \<Rightarrow> naptrRecord list) \<Rightarrow> bool" where
  "sorts srt \<longleftrightarrow> (\<forall>rs. mset (srt rs) = mset rs \<and> sorted_wrt rank_le (srt rs))"

definition usable :: "dns \<Rightarrow> (string \<Rightarrow> bool) \<Rightarrow> naptrRecord \<Rightarrow> bool" where
  "usable d wanted r \<longleftrightarrow> wanted (na_Service r) \<and> (\<exists>ip. resolveNAPTR d r = Inr ip)"

lemma first_ipv4_not_Nil: "first_ipv4 ips = Some ip \<Longrightarrow> ip \<noteq> []"
  by (auto simp: first_ipv4_def filter_eq_Cons_iff split: list.splits)

lemma first_srv_ipv4_not_Nil: "first_srv_ipv4 d ts = Some ip \<Longrightarrow> ip \<noteq> []"
  by (induction d ts rule: first_srv_ipv4.induct) (auto split: option.splits dest: first_ipv4_not_Nil)

lemma resolveNAPTR_not_Nil: "resolveNAPTR d r = Inr ip \<Longrightarrow> ip \<noteq> []"
  by (auto simp: resolveNAPTR_def split: if_splits option.splits dest: first_ipv4_not_Nil first_srv_ipv4_not_Nil)

lemma first_resolved_Some:
  "first_resolved d wanted rs = Some ip \<Longrightarrow> sorted_wrt rank_le rs \<Longrightarrow>
   \<exists>r \<in> set rs. wanted (na_Service r) \<and> resolveNAPTR d r = Inr ip \<and> (\<forall>r' \<in> set rs. usable d wanted r' \<longrightarrow> rank_le r r')"
proof (induction rs)
  case (Cons r rs)
  show ?case
  proof (cases "usable d wanted r")
    case True
    then obtain ip' where ip': "wanted (na_Service r)" "resolveNAPTR d r = Inr ip'" by (auto simp: usable_def)
    have "rank_le r r" by (simp add: rank_le_def)
    with ip' Cons.prems show ?thesis by auto
  next
    case False
    then have "first_resolved d wanted rs = Some ip" using Cons.prems(1) by (auto simp: usable_def split: if_splits sum.splits)
    with Cons.IH Cons.prems(2) False show ?thesis by auto
  qed
qed simp

lemma first_resolved_None_iff: "first_resolved d wanted rs = None \<longleftrightarrow> (\<forall>r \<in> set rs. \<not> usable d wanted r)"
  by (induction d wanted rs rule: first_resolved.induct) (auto simp: usable_def split: sum.splits)

text \<open>C38.  With DNS discovery on and the NAPTR query answered, the PGW is that of a record of least order and preference among the
  S2b records that resolve; if no S2b record resolves and the fall-back is allowed, likewise among the S5/S8 records;
  in every other case it is the configured address.\<close>

theorem Discover_best_record:
  assumes "pd_DNSEnabled cfg" "sorts srt" "queryNAPTR d (apnFQDN apn (pd_MCC cfg) (pd_MNC cfg)) = Inr recs"
  shows "if \<exists>r \<in> set recs. usable d isS2BService r
    then \<exists>r \<in> set recs. isS2BService (na_Service r) \<and> resolveNAPTR d r = Inr (Discover srt d cfg apn) \<and>
           (\<forall>r' \<in> set recs. usable d isS2BService r' \<longrightarrow> rank_le r r')
    else if pd_AllowS5S8Fallback cfg \<and> (\<exists>r \<in> set recs. usable d isS5S8Service r)
    then \<exists>r \<in> set recs. isS5S8Service (na_Service r) \<and> resolveNAPTR d r = Inr (Discover srt d cfg apn) \<and>
           (\<forall>r' \<in> set recs. usable d isS5S8Service r' \<longrightarrow> rank_le r r')
    else Discover srt d cfg apn = ParseIP (pd_StaticPGWC cfg)"
proof -
  have srt: "set (srt recs) = set recs" "sorted_wrt rank_le (srt recs)"
    using assms(2) by (auto simp: sorts_def dest: mset_eq_setD)
  define s2b where "s2b = first_resolved d isS2BService (srt recs)"
  define s5 where "s5 = first_resolved d isS5S8Service (srt recs)"
  have disc: "Discover srt d cfg apn = (case s2b of Some ip \<Rightarrow> ip
      | None \<Rightarrow> (case (if pd_AllowS5S8Fallback cfg then s5 else None) of Some ip \<Rightarrow> ip | None \<Rightarrow> ParseIP (pd_StaticPGWC cfg)))"
  proof -
    have "ip \<noteq> []" if "first_resolved d wanted (srt recs) = Some ip" for wanted ip
      using first_resolved_Some[OF that srt(2)] resolveNAPTR_not_Nil by blast
    then show ?thesis
      using assms(1,3) by (auto simp: Discover_def discoverViaDNS_def Let_def s2b_def s5_def split: option.splits if_splits)
  qed
  have some: "\<exists>r \<in> set recs. wanted (na_Service r) \<and> resolveNAPTR d r = Inr ip \<and> (\<forall>r' \<in> set recs. usable d wanted r' \<longrightarrow> rank_le r r')"
    if "first_resolved d wanted (srt recs) = Some ip" for wanted ip
    using first_resolved_Some[OF that srt(2)] srt(1) by simp
  have ex: "(\<exists>r \<in> set recs. usable d wanted r) \<longleftrightarrow> first_resolved d wanted (srt recs) \<noteq> None" for wanted
    using first_resolved_None_iff[of d wanted "srt recs"] srt(1) by auto
  show ?thesis
  proof (cases s2b)
    case (Some ip)
    with some[of isS2BService ip] ex[of isS2BService] disc show ?thesis by (simp add: s2b_def)
  next
    case s2b: None
    show ?thesis
    proof (cases "if pd_AllowS5S8Fallback cfg then s5 else None")
      case (Some ip)
      then have "pd_AllowS5S8Fallback cfg" "s5 = Some ip" by (simp_all split: if_splits)
      with some[of isS5S8Service ip] ex disc s2b show ?thesis by (simp add: s2b_def s5_def)
    next
      case None
      with ex disc s2b show ?thesis by (auto simp: s2b_def s5_def split: if_splits)
    qed
  qed
qed

definition demo_dns :: dns where
  "demo_dns = \<lparr>dns_conf = Some ([''192.0.2.53''], ''53''),
     dns_exchange = (\<lambda>_ _. Some [NAPTR 20 10 ''a'' ''x-3gpp-pgw:x-s2b-gtp'' ''far.example.'', OtherRR,
                                 NAPTR 10 10 ''A'' ''x-3gpp-pgw:x-s5-gtp:x-s2b-gtp'' ''near.example.'']),
     dns_host = (\<lambda>h. if h = ''near.example'' then Some [''192.0.2.1''] else Some [''192.0.2.9'']), dns_srv = (\<lambda>_. None)\<rparr>"

definition demo_discovery :: DiscoveryConfig where
  "demo_discovery = \<lparr>pd_DNSEnabled = True, pd_AllowS5S8Fallback = False, pd_StaticPGWC = ''10.0.0.2'', pd_MCC = ''001'', pd_MNC = ''001''\<rparr>"

definition rank :: "naptrRecord \<Rightarrow> nat" where
  "rank r = unat (na_Order r) * 65536 + unat (na_Preference r)"

lemma rank_le_rank: "rank r \<le> rank r' \<Longrightarrow> rank_le r r'"
proof -
  assume le: "rank r \<le> rank r'"
  have p: "unat (na_Preference r) < 65536" "unat (na_Preference r') < 65536"
    using unsigned_less[of "na_Preference r", where ?'a = nat] unsigned_less[of "na_Preference r'", where ?'a = nat] by simp_all
  have "unat (na_Order r) \<le> unat (na_Order r')" using div_le_mono[OF le, of 65536] p by (simp add: rank_def)
  with le p show ?thesis by (auto simp: rank_def rank_le_def word_le_nat_alt word_less_nat_alt word_unat_eq_iff)
qed

lemma sort_key_sorts: "sorts (sort_key rank)"
proof -
  have "sorted_wrt rank_le (sort_key rank rs)" for rs
    using sorted_sort_key[of rank rs] by (auto simp: sorted_map intro: sorted_wrt_mono_rel[rotated] rank_le_rank)
  then show ?thesis by (simp add: sorts_def)
qed

definition demo_record :: "u16 \<Rightarrow> string \<Rightarrow> string \<Rightarrow> naptrRecord" where
  "demo_record ord svc host = \<lparr>na_Order = ord, na_Preference = 10, na_Flags = ''a'', na_Service = svc, na_Replacement = host\<rparr>"

lemma demo_naptr:
  "queryNAPTR demo_dns (apnFQDN ''ims'' (pd_MCC demo_discovery) (pd_MNC demo_discovery)) =
     Inr [demo_record 20 ''x-3gpp-pgw:x-s2b-gtp'' ''far.example'', demo_record 10 ''x-3gpp-pgw:x-s5-gtp:x-s2b-gtp'' ''near.example'']"
  by code_simp

lemma demo_near:
  "isS2BService ''x-3gpp-pgw:x-s5-gtp:x-s2b-gtp'' \<and>
   resolveNAPTR demo_dns (demo_record 10 ''x-3gpp-pgw:x-s5-gtp:x-s2b-gtp'' ''near.example'') = Inr [192, 0, 2, 1]"
  by code_simp

theorem Discover_best_record_witness: "Discover (sort_key rank) demo_dns demo_discovery ''ims'' = [192, 0, 2, 1]"
proof -
  let ?near = "demo_record 10 ''x-3gpp-pgw:x-s5-gtp:x-s2b-gtp'' ''near.example''"
  let ?far = "demo_record 20 ''x-3gpp-pgw:x-s2b-gtp'' ''far.example''"
  have on: "pd_DNSEnabled demo_discovery" by (simp add: demo_discovery_def)
  have near: "usable demo_dns isS2BService ?near" using demo_near by (simp add: usable_def demo_record_def)
  have "\<not> rank_le ?far ?near" by (simp add: rank_le_def demo_record_def)
  with Discover_best_record[OF on sort_key_sorts demo_naptr] near
  have "resolveNAPTR demo_dns ?near = Inr (Discover (sort_key rank) demo_dns demo_discovery ''ims'')" by auto
  with demo_near show ?thesis by simp
qed

end
