(* ===== verification/IkeCrypto.thy ===== *)
theory IkeCrypto
  imports NetIP
begin

text \<open>
  The cryptographic layer of the IKEv2 responder (\<^verbatim>\<open>internal/ikev2/crypto.go\<close>): Diffie-Hellman groups, key derivation and the
  encrypted payload.  Hashes, AES and the elliptic curves are the record \<open>crypto\<close>; \<open>crypto_ok\<close> states what is used of them (output
  lengths, decryption undoes encryption).  The MODP groups are computed here.  Random bytes are arguments, \<^term>\<open>None\<close> for a failed
  read.  A \<^verbatim>\<open>nil\<close> integrity algorithm is \<^term>\<open>None\<close>; dereferencing it is the error \<open>NilIntegPanic\<close>.

  Shown: both ends of a MODP exchange compute the same secret; \<^verbatim>\<open>prfPlus\<close> ends and is the prf+ of RFC 7296; \<^verbatim>\<open>deriveKeys\<close> cuts its
  output into the seven keys; what \<^verbatim>\<open>encryptSK\<close> produces has the announced length and is opened by the peer's \<^verbatim>\<open>decryptSK\<close>.
\<close>

section \<open>Primitives\<close>

datatype hash_fn = SHA1 | SHA256 | SHA512
datatype curve = P256 | P384

record crypto =
  cr_hmac :: "hash_fn \<Rightarrow> bytes \<Rightarrow> bytes \<Rightarrow> bytes"
  cr_sha1 :: "bytes \<Rightarrow> bytes"
  cr_cbc_enc :: "bytes \<Rightarrow> bytes \<Rightarrow> bytes \<Rightarrow> bytes"
  cr_cbc_dec :: "bytes \<Rightarrow> bytes \<Rightarrow> bytes \<Rightarrow> bytes"
  cr_gcm_seal :: "bytes \<Rightarrow> bytes \<Rightarrow> bytes \<Rightarrow> bytes \<Rightarrow> bytes"
  cr_gcm_open :: "bytes \<Rightarrow> bytes \<Rightarrow> bytes \<Rightarrow> bytes \<Rightarrow> bytes option"
  cr_ecdh_public :: "curve \<Rightarrow> bytes \<Rightarrow> bytes"
  cr_ecdh :: "curve \<Rightarrow> bytes \<Rightarrow> bytes \<Rightarrow> bytes option"

fun hash_len :: "hash_fn \<Rightarrow> nat" where
  "hash_len SHA1 = 20"
| "hash_len SHA256 = 32"
| "hash_len SHA512 = 64"

definition crypto_ok :: "crypto \<Rightarrow> bool" where
  "crypto_ok cr \<longleftrightarrow>
     (\<forall>h k d. length (cr_hmac cr h k d) = hash_len h) \<and>
     (\<forall>k iv p. length p mod 16 = 0 \<longrightarrow> length (cr_cbc_enc cr k iv p) = length p \<and> cr_cbc_dec cr k iv (cr_cbc_enc cr k iv p) = p) \<and>
     (\<forall>k n p a. length (cr_gcm_seal cr k n p a) = length p + 16 \<and> cr_gcm_open cr k n (cr_gcm_seal cr k n p a) a = Some p)"

datatype ike_crypto_error =
    BadAESKey nat | RandFailed | InvalidCiphertextLength nat | EmptyPlaintext | BadPadLength nat
  | SKTooShort | IntegrityFailed | KeyTooShortForSalt nat | NilIntegPanic | IndexPanic
  | InvalidDHPublic | InvalidECDHLength nat | InvalidECDHPublic

text \<open>The identifiers of RFC 7296 as the message library has them.\<close>

abbreviation (input) "DH_2048_BIT_MODP \<equiv> (14 :: u16)"
abbreviation (input) "DH_3072_BIT_MODP \<equiv> (15 :: u16)"
abbreviation (input) "PRF_HMAC_SHA1 \<equiv> (2 :: u16)"
abbreviation (input) "PRF_HMAC_SHA2_256 \<equiv> (5 :: u16)"
abbreviation (input) "AUTH_HMAC_SHA1_96 \<equiv> (2 :: u16)"
abbreviation (input) "AUTH_HMAC_SHA2_256_128 \<equiv> (12 :: u16)"
abbreviation (input) "ENCR_AES_CBC \<equiv> (12 :: u16)"
abbreviation (input) "IKE_HEADER_LEN \<equiv> (28 :: nat)"
abbreviation (input) "prfHmacSha2512 \<equiv> (7 :: u16)"
abbreviation (input) "authHmacSha2512_256 \<equiv> (14 :: u16)"
abbreviation (input) "dh256RandomECP \<equiv> (19 :: u16)"
abbreviation (input) "dh384RandomECP \<equiv> (20 :: u16)"
abbreviation (input) "encrAESGCM16 \<equiv> (20 :: u16)"

section \<open>Diffie-Hellman groups\<close>

text \<open>\<^verbatim>\<open>big.Int\<close>: \<^verbatim>\<open>SetBytes\<close> and the minimal big-endian \<^verbatim>\<open>Bytes\<close>.\<close>

definition big_value :: "bytes \<Rightarrow> nat" where
  "big_value bs = foldl (\<lambda>a b. a * 256 + unat b) 0 bs"

fun big_bytes :: "nat \<Rightarrow> bytes" where
  "big_bytes n = (if n = 0 then [] else big_bytes (n div 256) @ [of_nat n])"

declare big_bytes.simps [simp del]

record modpGroup =
  mg_id :: u16
  mg_prime :: nat
  mg_generator :: nat
  mg_byteLen :: nat

record ecdhGroup =
  eg_id :: u16
  eg_curve :: curve
  eg_byteLen :: nat

text \<open>The interface \<^verbatim>\<open>dhGroup\<close> and its private keys.\<close>

datatype dhGroup = Modp modpGroup | Ecdh ecdhGroup
datatype dhPriv = ModpPriv nat | EcdhPriv bytes

fun dh_TransformID :: "dhGroup \<Rightarrow> u16" where
  "dh_TransformID (Modp g) = mg_id g"
| "dh_TransformID (Ecdh g) = eg_id g"

fun dh_ByteLen :: "dhGroup \<Rightarrow> nat" where
  "dh_ByteLen (Modp g) = mg_byteLen g"
| "dh_ByteLen (Ecdh g) = 2 * eg_byteLen g"

text \<open>The copy into the end of a buffer of fixed length; slicing panics when the number is longer.\<close>

definition fixed_bytes :: "nat \<Rightarrow> bytes \<Rightarrow> ike_crypto_error + bytes" where
  "fixed_bytes n bs = (if length bs > n then Inl IndexPanic else Inr (replicate (n - length bs) 0 @ bs))"

definition modp_PublicKey :: "modpGroup \<Rightarrow> nat \<Rightarrow> ike_crypto_error + bytes" where
  "modp_PublicKey g priv = fixed_bytes (mg_byteLen g) (big_bytes (mg_generator g ^ priv mod mg_prime g))"

definition modp_SharedKey :: "modpGroup \<Rightarrow> nat \<Rightarrow> bytes \<Rightarrow> ike_crypto_error + bytes" where
  "modp_SharedKey g priv peerPub =
     (let peer = big_value peerPub in
      if peer \<le> 1 \<or> peer \<ge> mg_prime g - 1 then Inl InvalidDHPublic
      else fixed_bytes (mg_byteLen g) (big_bytes (peer ^ priv mod mg_prime g)))"

text \<open>\<open>rnd\<close> is what \<^verbatim>\<open>rand.Int\<close> returned, below the prime minus two.\<close>

definition modp_GeneratePrivateKey :: "nat option \<Rightarrow> ike_crypto_error + nat" where
  "modp_GeneratePrivateKey rnd = (case rnd of None \<Rightarrow> Inl RandFailed | Some n \<Rightarrow> Inr (n + 2))"

definition ecdh_PublicKey :: "crypto \<Rightarrow> ecdhGroup \<Rightarrow> bytes \<Rightarrow> bytes" where
  "ecdh_PublicKey cr g priv = tl (cr_ecdh_public cr (eg_curve g) priv)"

definition ecdh_SharedKey :: "crypto \<Rightarrow> ecdhGroup \<Rightarrow> bytes \<Rightarrow> bytes \<Rightarrow> ike_crypto_error + bytes" where
  "ecdh_SharedKey cr g priv peerPub =
     (if length peerPub \<noteq> 2 * eg_byteLen g then Inl (InvalidECDHLength (length peerPub))
      else case cr_ecdh cr (eg_curve g) priv (0x04 # peerPub) of
             None \<Rightarrow> Inl InvalidECDHPublic
           | Some shared \<Rightarrow> Inr shared)"

fun dh_PublicKey :: "crypto \<Rightarrow> dhGroup \<Rightarrow> dhPriv \<Rightarrow> ike_crypto_error + bytes" where
  "dh_PublicKey cr (Modp g) (ModpPriv priv) = modp_PublicKey g priv"
| "dh_PublicKey cr (Ecdh g) (EcdhPriv priv) = Inr (ecdh_PublicKey cr g priv)"
| "dh_PublicKey cr _ _ = Inl IndexPanic"

fun dh_SharedKey :: "crypto \<Rightarrow> dhGroup \<Rightarrow> dhPriv \<Rightarrow> bytes \<Rightarrow> ike_crypto_error + bytes" where
  "dh_SharedKey cr (Modp g) (ModpPriv priv) peer = modp_SharedKey g priv peer"
| "dh_SharedKey cr (Ecdh g) (EcdhPriv priv) peer = ecdh_SharedKey cr g priv peer"
| "dh_SharedKey cr _ _ peer = Inl IndexPanic"

definition ecdh256Group :: dhGroup where
  "ecdh256Group = Ecdh \<lparr>eg_id = dh256RandomECP, eg_curve = P256, eg_byteLen = 32\<rparr>"

definition ecdh384Group :: dhGroup where
  "ecdh384Group = Ecdh \<lparr>eg_id = dh384RandomECP, eg_curve = P384, eg_byteLen = 48\<rparr>"

definition dhGroup14 :: dhGroup where
  "dhGroup14 = Modp \<lparr>mg_id = DH_2048_BIT_MODP, mg_prime = 0xFFFFFFFFFFFFFFFFC90FDAA22168C234C4C6628B80DC1CD129024E088A67CC74020BBEA63B139B22514A08798E3404DDEF9519B3CD3A431B302B0A6DF25F14374FE1356D6D51C245E485B576625E7EC6F44C42E9A637ED6B0BFF5CB6F406B7EDEE386BFB5A899FA5AE9F24117C4B1FE649286651ECE45B3DC2007CB8A163BF0598DA48361C55D39A69163FA8FD24CF5F83655D23DCA3AD961C62F356208552BB9ED529077096966D670C354E4ABC9804F1746C08CA18217C32905E462E36CE3BE39E772C180E86039B2783A2EC07A28FB5C55DF06F4C52C9DE2BCBF6955817183995497CEA956AE515D2261898FA051015728E5A8AACAA68FFFFFFFFFFFFFFFF, mg_generator = 2, mg_byteLen = 256\<rparr>"

definition dhGroup15 :: dhGroup where
  "dhGroup15 = Modp \<lparr>mg_id = DH_3072_BIT_MODP, mg_prime = 0xFFFFFFFFFFFFFFFFC90FDAA22168C234C4C6628B80DC1CD129024E088A67CC74020BBEA63B139B22514A08798E3404DDEF9519B3CD3A431B302B0A6DF25F14374FE1356D6D51C245E485B576625E7EC6F44C42E9A637ED6B0BFF5CB6F406B7EDEE386BFB5A899FA5AE9F24117C4B1FE649286651ECE45B3DC2007CB8A163BF0598DA48361C55D39A69163FA8FD24CF5F83655D23DCA3AD961C62F356208552BB9ED529077096966D670C354E4ABC9804F1746C08CA18217C32905E462E36CE3BE39E772C180E86039B2783A2EC07A28FB5C55DF06F4C52C9DE2BCBF6955817183995497CEA956AE515D2261898FA051015728E5A8AAAC42DAD33170D04507A33A85521ABDF1CBA64ECFB850458DBEF0A8AEA71575D060C7DB3970F85A6E1E4C7ABF5AE8CDB0933D71E8C94E04A25619DCEE3D2261AD2EE6BF12FFA06D98A0864D87602733EC86A64521F2B18177B200CBBE117577A615D6C770988C0BAD946E208E24FA074E5AB3143DB5BFCE0FD108E4B82D120A93AD2CAFFFFFFFFFFFFFFFF, mg_generator = 2, mg_byteLen = 384\<rparr>"

definition dhGroupByID :: "u16 \<Rightarrow> dhGroup option" where
  "dhGroupByID i =
     (if i = DH_2048_BIT_MODP then Some dhGroup14 else if i = DH_3072_BIT_MODP then Some dhGroup15
      else if i = dh256RandomECP then Some ecdh256Group else if i = dh384RandomECP then Some ecdh384Group else None)"

section \<open>Algorithms\<close>

record prfAlg =
  pr_id :: u16
  pr_keyLen :: nat
  pr_outputLen :: nat
  pr_hash :: hash_fn

record integAlg =
  ia_id :: u16
  ia_keyLen :: nat
  ia_outputLen :: nat
  ia_hash :: hash_fn

record encrAlg =
  ea_id :: u16
  ea_keyBits :: nat
  ea_saltLen :: nat

definition prfSha1 :: prfAlg where
  "prfSha1 = \<lparr>pr_id = PRF_HMAC_SHA1, pr_keyLen = 20, pr_outputLen = 20, pr_hash = SHA1\<rparr>"

definition prfSha256 :: prfAlg where
  "prfSha256 = \<lparr>pr_id = PRF_HMAC_SHA2_256, pr_keyLen = 32, pr_outputLen = 32, pr_hash = SHA256\<rparr>"

definition prfSha512 :: prfAlg where
  "prfSha512 = \<lparr>pr_id = prfHmacSha2512, pr_keyLen = 64, pr_outputLen = 64, pr_hash = SHA512\<rparr>"

definition prfByID :: "u16 \<Rightarrow> prfAlg option" where
  "prfByID i = (if i = PRF_HMAC_SHA1 then Some prfSha1 else if i = PRF_HMAC_SHA2_256 then Some prfSha256
     else if i = prfHmacSha2512 then Some prfSha512 else None)"

definition integSha1_96 :: integAlg where
  "integSha1_96 = \<lparr>ia_id = AUTH_HMAC_SHA1_96, ia_keyLen = 20, ia_outputLen = 12, ia_hash = SHA1\<rparr>"

definition integSha256_128 :: integAlg where
  "integSha256_128 = \<lparr>ia_id = AUTH_HMAC_SHA2_256_128, ia_keyLen = 32, ia_outputLen = 16, ia_hash = SHA256\<rparr>"

definition integSha512_256 :: integAlg where
  "integSha512_256 = \<lparr>ia_id = authHmacSha2512_256, ia_keyLen = 64, ia_outputLen = 32, ia_hash = SHA512\<rparr>"

definition integByID :: "u16 \<Rightarrow> integAlg option" where
  "integByID i = (if i = AUTH_HMAC_SHA1_96 then Some integSha1_96 else if i = AUTH_HMAC_SHA2_256_128 then Some integSha256_128
     else if i = authHmacSha2512_256 then Some integSha512_256 else None)"

definition encrAesCbc128 :: encrAlg where
  "encrAesCbc128 = \<lparr>ea_id = ENCR_AES_CBC, ea_keyBits = 128, ea_saltLen = 0\<rparr>"

definition encrAesCbc256 :: encrAlg where
  "encrAesCbc256 = \<lparr>ea_id = ENCR_AES_CBC, ea_keyBits = 256, ea_saltLen = 0\<rparr>"

definition encrAesGcm16_128 :: encrAlg where
  "encrAesGcm16_128 = \<lparr>ea_id = encrAESGCM16, ea_keyBits = 128, ea_saltLen = 4\<rparr>"

definition encrAesGcm16_256 :: encrAlg where
  "encrAesGcm16_256 = \<lparr>ea_id = encrAESGCM16, ea_keyBits = 256, ea_saltLen = 4\<rparr>"

definition encrByIDAndKeyBits :: "u16 \<Rightarrow> nat \<Rightarrow> encrAlg option" where
  "encrByIDAndKeyBits i keyBits =
     (if i = ENCR_AES_CBC then (if keyBits = 128 then Some encrAesCbc128 else if keyBits = 256 then Some encrAesCbc256 else None)
      else if i = encrAESGCM16 then (if keyBits = 128 then Some encrAesGcm16_128 else if keyBits = 256 then Some encrAesGcm16_256 else None)
      else None)"

definition encr_KeyLen :: "encrAlg \<Rightarrow> nat" where
  "encr_KeyLen e = ea_keyBits e div 8 + ea_saltLen e"

definition IsAEAD :: "encrAlg \<Rightarrow> bool" where
  "IsAEAD e = (ea_saltLen e > 0)"

text \<open>\<^verbatim>\<open>aes.NewCipher\<close> accepts keys of 16, 24 and 32 bytes.\<close>

definition NewCipher :: "bytes \<Rightarrow> ike_crypto_error option" where
  "NewCipher key = (if length key \<in> {16, 24, 32} then None else Some (BadAESKey (length key)))"

definition encr_pad :: "bytes \<Rightarrow> bytes" where
  "encr_pad plaintext =
     (let padLen = 16 - length plaintext mod 16 in plaintext @ replicate (padLen - 1) 0 @ [of_nat (padLen - 1)])"

definition encr_Encrypt :: "crypto \<Rightarrow> bytes \<Rightarrow> bytes \<Rightarrow> bytes option \<Rightarrow> ike_crypto_error + bytes" where
  "encr_Encrypt cr key plaintext iv =
     (case NewCipher key of
        Some e \<Rightarrow> Inl e
      | None \<Rightarrow> (case iv of None \<Rightarrow> Inl RandFailed | Some iv \<Rightarrow> Inr (iv @ cr_cbc_enc cr key iv (encr_pad plaintext))))"

definition encr_Decrypt :: "crypto \<Rightarrow> bytes \<Rightarrow> bytes \<Rightarrow> ike_crypto_error + bytes" where
  "encr_Decrypt cr key ciphertext =
     (if length ciphertext < 16 \<or> length ciphertext mod 16 \<noteq> 0 then Inl (InvalidCiphertextLength (length ciphertext))
      else case NewCipher key of
             Some e \<Rightarrow> Inl e
           | None \<Rightarrow>
               let plain = cr_cbc_dec cr key (take 16 ciphertext) (drop 16 ciphertext) in
               if plain = [] then Inl EmptyPlaintext
               else let padLen = unat (last plain) + 1 in
                    if padLen > length plain then Inl (BadPadLength padLen)
                    else Inr (take (length plain - padLen) plain))"

section \<open>Keys of an IKE SA\<close>

record ikeSAKey =
  sk_dh :: dhGroup
  sk_encr :: encrAlg
  sk_integ :: "integAlg option"
  sk_prf :: prfAlg
  SK_d :: bytes
  SK_ai :: bytes
  SK_ar :: bytes
  SK_ei :: bytes
  SK_er :: bytes
  SK_pi :: bytes
  SK_pr :: bytes

definition integKeyLen :: "integAlg option \<Rightarrow> nat" where
  "integKeyLen i = (case i of None \<Rightarrow> 0 | Some a \<Rightarrow> ia_keyLen a)"

text \<open>The loop of \<^verbatim>\<open>prfPlus\<close> over a keyed hash \<open>h\<close>; \<^term>\<open>None\<close> when it does not end.\<close>

partial_function (option) prfPlus_loop :: "(bytes \<Rightarrow> bytes) \<Rightarrow> bytes \<Rightarrow> nat \<Rightarrow> nat \<Rightarrow> bytes \<Rightarrow> bytes \<Rightarrow> bytes option" where
  "prfPlus_loop h seed len i prev out =
     (if length out < len
      then prfPlus_loop h seed len (Suc i) (h (prev @ seed @ [of_nat i])) (out @ h (prev @ seed @ [of_nat i]))
      else Some (take len out))"

definition prfPlus :: "(bytes \<Rightarrow> bytes) \<Rightarrow> bytes \<Rightarrow> nat \<Rightarrow> bytes option" where
  "prfPlus h seed len = prfPlus_loop h seed len 1 [] []"

definition prf_New :: "crypto \<Rightarrow> prfAlg \<Rightarrow> bytes \<Rightarrow> bytes \<Rightarrow> bytes" where
  "prf_New cr p key data = cr_hmac cr (pr_hash p) key data"

definition deriveKeys :: "crypto \<Rightarrow> ikeSAKey \<Rightarrow> bytes \<Rightarrow> bytes \<Rightarrow> u64 \<Rightarrow> u64 \<Rightarrow> ikeSAKey option" where
  "deriveKeys cr k nonces dhShared spiI spiR =
     (let skeyseed = prf_New cr (sk_prf k) nonces dhShared;
          seed = nonces @ be64 spiI @ be64 spiR;
          i = integKeyLen (sk_integ k); e = encr_KeyLen (sk_encr k); p = pr_keyLen (sk_prf k)
      in case prfPlus (prf_New cr (sk_prf k) skeyseed) seed (p + i * 2 + e * 2 + p * 2) of
           None \<Rightarrow> None
         | Some keymat \<Rightarrow>
             Some (k\<lparr>SK_d := take p keymat,
                     SK_ai := take i (drop p keymat),
                     SK_ar := take i (drop (p + i) keymat),
                     SK_ei := take e (drop (p + i + i) keymat),
                     SK_er := take e (drop (p + i + i + e) keymat),
                     SK_pi := take p (drop (p + i + i + e + e) keymat),
                     SK_pr := take p (drop (p + i + i + e + e + p) keymat)\<rparr>))"

section \<open>The encrypted payload\<close>

text \<open>\<^verbatim>\<open>aeadCipher\<close>: the AES key and the salt; the nonce of GCM has 12 bytes and its tag 16.\<close>

definition aeadCipher :: "bytes \<Rightarrow> nat \<Rightarrow> ike_crypto_error + bytes \<times> bytes" where
  "aeadCipher key saltLen =
     (if length key \<le> saltLen then Inl (KeyTooShortForSalt saltLen)
      else let aesKey = take (length key - saltLen) key; salt = drop (length key - saltLen) key in
           case NewCipher aesKey of Some e \<Rightarrow> Inl e | None \<Rightarrow> Inr (aesKey, salt))"

definition encryptedSKMessageLen :: "ikeSAKey \<Rightarrow> nat \<Rightarrow> ike_crypto_error + nat" where
  "encryptedSKMessageLen k plainLen =
     (if IsAEAD (sk_encr k) then
        (case aeadCipher (SK_er k) (ea_saltLen (sk_encr k)) of
           Inl e \<Rightarrow> Inl e
         | Inr (_, salt) \<Rightarrow> Inr (IKE_HEADER_LEN + (4 + (12 - length salt) + plainLen + 16)))
      else case sk_integ k of
             None \<Rightarrow> Inl NilIntegPanic
           | Some a \<Rightarrow>
               let padLen = 16 - plainLen mod 16 in
               Inr (IKE_HEADER_LEN + (4 + (16 + plainLen + padLen) + ia_outputLen a)))"

text \<open>The generic header of the payload; its length field has 16 bits.\<close>

definition sk_header :: "byte \<Rightarrow> nat \<Rightarrow> bytes" where
  "sk_header innerNextPayload skPayloadLen = [innerNextPayload, 0] @ be16 (of_nat skPayloadLen)"

definition encryptSKAEAD :: "crypto \<Rightarrow> ikeSAKey \<Rightarrow> byte \<Rightarrow> bytes \<Rightarrow> bytes \<Rightarrow> bytes option \<Rightarrow> ike_crypto_error + bytes" where
  "encryptSKAEAD cr k innerNextPayload plain hdr rnd =
     (case aeadCipher (SK_er k) (ea_saltLen (sk_encr k)) of
        Inl e \<Rightarrow> Inl e
      | Inr (key, salt) \<Rightarrow>
          (case rnd of
             None \<Rightarrow> Inl RandFailed
           | Some explicitIV \<Rightarrow>
               let aad = hdr @ sk_header innerNextPayload (4 + length explicitIV + length plain + 16) in
               Inr (aad @ explicitIV @ cr_gcm_seal cr key (salt @ explicitIV) plain aad)))"

definition encryptSK :: "crypto \<Rightarrow> ikeSAKey \<Rightarrow> byte \<Rightarrow> bytes \<Rightarrow> bytes \<Rightarrow> bytes option \<Rightarrow> ike_crypto_error + bytes" where
  "encryptSK cr k innerNextPayload plain hdr rnd =
     (if IsAEAD (sk_encr k) then encryptSKAEAD cr k innerNextPayload plain hdr rnd
      else case encr_Encrypt cr (SK_er k) plain rnd of
             Inl e \<Rightarrow> Inl e
           | Inr ciphertext \<Rightarrow>
               (case sk_integ k of
                  None \<Rightarrow> Inl NilIntegPanic
                | Some a \<Rightarrow>
                    let msg = hdr @ sk_header innerNextPayload (4 + length ciphertext + ia_outputLen a) @ ciphertext in
                    Inr (msg @ take (ia_outputLen a) (cr_hmac cr (ia_hash a) (SK_ar k) msg))))"

definition decryptSKAEAD :: "crypto \<Rightarrow> ikeSAKey \<Rightarrow> bytes \<Rightarrow> ike_crypto_error + byte \<times> bytes" where
  "decryptSKAEAD cr k msg =
     (case aeadCipher (SK_ei k) (ea_saltLen (sk_encr k)) of
        Inl e \<Rightarrow> Inl e
      | Inr (key, salt) \<Rightarrow>
          let ivLen = 12 - length salt in
          if length msg < 32 + ivLen + 16 then Inl SKTooShort
          else (case cr_gcm_open cr key (salt @ take ivLen (drop 32 msg)) (drop (32 + ivLen) msg) (take 32 msg) of
                  None \<Rightarrow> Inl IntegrityFailed
                | Some plain \<Rightarrow> Inr (msg ! 28, plain)))"

definition decryptSK :: "crypto \<Rightarrow> ikeSAKey \<Rightarrow> bytes \<Rightarrow> ike_crypto_error + byte \<times> bytes" where
  "decryptSK cr k msg =
     (if IsAEAD (sk_encr k) then decryptSKAEAD cr k msg
      else case sk_integ k of
             None \<Rightarrow> Inl NilIntegPanic
           | Some a \<Rightarrow>
               let integLen = ia_outputLen a; n = length msg - integLen in
               if length msg < 28 + 4 + integLen then Inl SKTooShort
               else if take integLen (cr_hmac cr (ia_hash a) (SK_ai k) (take n msg)) \<noteq> drop n msg then Inl IntegrityFailed
               else (case encr_Decrypt cr (SK_ei k) (drop 32 (take n msg)) of
                       Inl e \<Rightarrow> Inl e
                     | Inr plain \<Rightarrow> Inr (msg ! 28, plain)))"

section \<open>Both ends compute the same secret\<close>

lemma big_value_snoc [simp]: "big_value [] = 0" "big_value (bs @ [b]) = big_value bs * 256 + unat b"
  by (simp_all add: big_value_def)

lemma big_value_zeros [simp]: "big_value (replicate k 0 @ bs) = big_value bs"
  by (induction bs rule: rev_induct) (induction k, simp_all add: big_value_def flip: append_assoc replicate_append_same)

lemma big_value_big_bytes [simp]: "big_value (big_bytes n) = n"
proof (induction n rule: big_bytes.induct)
  case (1 n)
  have "unat (of_nat n :: byte) = n mod 256" by (simp add: unsigned_of_nat take_bit_eq_mod)
  with 1 show ?case by (simp add: big_bytes.simps[of n])
qed

lemma length_big_bytes: "n < 256 ^ l \<Longrightarrow> length (big_bytes n) \<le> l"
proof (induction n arbitrary: l rule: big_bytes.induct)
  case (1 n)
  show ?case
  proof (cases "n = 0")
    case False
    then obtain l' where l: "l = Suc l'" using "1.prems" by (cases l) auto
    have "n div 256 < 256 ^ l'" using "1.prems" l by (simp add: less_mult_imp_div_less mult.commute)
    with "1.IH"[OF False] l False show ?thesis by (simp add: big_bytes.simps[of n])
  qed (simp add: big_bytes.simps)
qed

lemma fixed_bytes_ok: "n < 256 ^ l \<Longrightarrow> \<exists>bs. fixed_bytes l (big_bytes n) = Inr bs \<and> length bs = l \<and> big_value bs = n"
  using length_big_bytes[of n l] by (simp add: fixed_bytes_def)

text \<open>C36.  Diffie-Hellman over a MODP group: the public values have the length of the group, and when both are acceptable the two
  ends compute the same secret, again of the length of the group, without any out-of-range access.\<close>

theorem modp_exchange_agrees:
  assumes size: "0 < mg_prime g" "mg_prime g \<le> 256 ^ mg_byteLen g"
    and A: "1 < mg_generator g ^ a mod mg_prime g" "mg_generator g ^ a mod mg_prime g < mg_prime g - 1"
    and B: "1 < mg_generator g ^ b mod mg_prime g" "mg_generator g ^ b mod mg_prime g < mg_prime g - 1"
  shows "\<exists>pa pb s. modp_PublicKey g a = Inr pa \<and> modp_PublicKey g b = Inr pb \<and> length pa = mg_byteLen g \<and> length pb = mg_byteLen g \<and>
           modp_SharedKey g a pb = Inr s \<and> modp_SharedKey g b pa = Inr s \<and> length s = mg_byteLen g"
proof -
  have fits: "n mod mg_prime g < 256 ^ mg_byteLen g" for n
    using size mod_less_divisor[of "mg_prime g" n] by linarith
  let ?pub = "\<lambda>x. mg_generator g ^ x mod mg_prime g"
  obtain pa where pa: "modp_PublicKey g a = Inr pa" "length pa = mg_byteLen g" "big_value pa = ?pub a"
    using fixed_bytes_ok[OF fits, of "mg_generator g ^ a"] by (auto simp: modp_PublicKey_def)
  obtain pb where pb: "modp_PublicKey g b = Inr pb" "length pb = mg_byteLen g" "big_value pb = ?pub b"
    using fixed_bytes_ok[OF fits, of "mg_generator g ^ b"] by (auto simp: modp_PublicKey_def)
  have "?pub b ^ a mod mg_prime g = ?pub a ^ b mod mg_prime g"
    by (simp add: power_mod mult.commute flip: power_mult)
  moreover obtain s where s: "fixed_bytes (mg_byteLen g) (big_bytes (?pub b ^ a mod mg_prime g)) = Inr s" "length s = mg_byteLen g"
    using fixed_bytes_ok[OF fits, of "?pub b ^ a"] by auto
  ultimately show ?thesis using pa pb A B by (auto simp: modp_SharedKey_def not_le)
qed

theorem modp_exchange_agrees_witness:
  "\<exists>pa pb s. let g = \<lparr>mg_id = 14, mg_prime = 23, mg_generator = 5, mg_byteLen = 1\<rparr> in
     modp_PublicKey g 6 = Inr pa \<and> modp_PublicKey g 15 = Inr pb \<and> modp_SharedKey g 6 pb = Inr s \<and> modp_SharedKey g 15 pa = Inr s"
  using modp_exchange_agrees[of "\<lparr>mg_id = 14, mg_prime = 23, mg_generator = 5, mg_byteLen = 1\<rparr>" 6 15] by (auto simp: Let_def)

text \<open>The two groups offered have primes of their byte length, so the size assumption holds for them.\<close>

lemma modp_groups_sized:
  "dhGroup14 = Modp g \<Longrightarrow> 0 < mg_prime g \<and> mg_prime g \<le> 256 ^ mg_byteLen g"
  "dhGroup15 = Modp g \<Longrightarrow> 0 < mg_prime g \<and> mg_prime g \<le> 256 ^ mg_byteLen g"
  by (auto simp: dhGroup14_def dhGroup15_def)

section \<open>Key derivation\<close>

text \<open>The blocks \<^verbatim>\<open>T1\<close>, \<^verbatim>\<open>T2\<close>, ... of RFC 7296, section 2.13.\<close>

primrec prf_T :: "(bytes \<Rightarrow> bytes) \<Rightarrow> bytes \<Rightarrow> nat \<Rightarrow> bytes" where
  "prf_T h seed 0 = []"
| "prf_T h seed (Suc i) = h (prf_T h seed i @ seed @ [of_nat (Suc i)])"

lemma length_prf_blocks:
  assumes "\<And>x. length (h x) = n"
  shows "length (concat (map (prf_T h seed) [1..<Suc m])) = m * n"
proof (induction m)
  case (Suc m)
  then show ?case using assms by (simp add: upt_Suc_append del: upt_Suc)
qed simp

lemma prfPlus_loop_eq:
  assumes n: "\<And>x. length (h x) = n" "0 < n"
  shows "i \<le> len \<Longrightarrow> prfPlus_loop h seed len (Suc i) (prf_T h seed i) (concat (map (prf_T h seed) [1..<Suc i])) =
    Some (take len (concat (map (prf_T h seed) [1..<Suc len])))"
proof (induction "len - i" arbitrary: i rule: less_induct)
  case less
  let ?out = "concat (map (prf_T h seed) [1..<Suc i])"
  have out: "length ?out = i * n" using length_prf_blocks[of h n seed i] n(1) by simp
  show ?case
  proof (cases "length ?out < len")
    case True
    have "i \<le> i * n" using n(2) by simp
    moreover have "i * n < len" using True unfolding out .
    ultimately have i: "i < len" by linarith
    have "prf_T h seed (Suc i) = h (prf_T h seed i @ seed @ [of_nat (Suc i)])" by simp
    moreover have "concat (map (prf_T h seed) [1..<Suc (Suc i)]) = ?out @ prf_T h seed (Suc i)"
      by (simp add: upt_Suc_append del: upt_Suc prf_T.simps)
    ultimately have "prfPlus_loop h seed len (Suc i) (prf_T h seed i) ?out =
        prfPlus_loop h seed len (Suc (Suc i)) (prf_T h seed (Suc i)) (concat (map (prf_T h seed) [1..<Suc (Suc i)]))"
      using True by (subst prfPlus_loop.simps) (simp del: upt_Suc prf_T.simps)
    with less.hyps[of "Suc i"] i show ?thesis by simp
  next
    case False
    have "[1..<Suc len] = [1..<Suc i] @ [Suc i..<Suc len]"
      using upt_add_eq_append[of 1 "Suc i" "len - i"] less.prems by simp
    then have "take len (concat (map (prf_T h seed) [1..<Suc len])) = take len ?out" using False by simp
    with False show ?thesis by (subst prfPlus_loop.simps) simp
  qed
qed

lemma prfPlus_blocks:
  assumes "\<And>x. length (h x) = n" "0 < n"
  shows "prfPlus h seed len = Some (take len (concat (map (prf_T h seed) [1..<Suc len])))"
  using prfPlus_loop_eq[of h n 0 len seed] assms by (simp add: prfPlus_def)

text \<open>\<^verbatim>\<open>prfPlus\<close> always returns, and what it returns is the requested number of bytes of the concatenation
  \<^verbatim>\<open>T1 | T2 | ...\<close> of RFC 7296, for every keyed hash with outputs of one positive length.\<close>

theorem prfPlus_returns:
  assumes "\<And>x. length (h x) = n" "0 < n"
  shows "\<exists>out. prfPlus h seed len = Some out \<and> length out = len \<and> out = take len (concat (map (prf_T h seed) [1..<Suc len]))"
proof -
  have "len \<le> len * n" using assms(2) by simp
  then show ?thesis using prfPlus_blocks[OF assms] length_prf_blocks[of h n seed len] assms(1) by simp
qed

theorem prfPlus_returns_witness:
  "\<exists>out. prfPlus (\<lambda>x. [of_nat (length x), 7]) [1, 2, 3] 5 = Some out \<and> length out = 5"
  using prfPlus_returns[of "\<lambda>x. [of_nat (length x), 7]" 2 "[1, 2, 3]" 5] by auto

lemma take_drop_step: "take n (drop m xs) @ drop (m + n) xs = drop m xs"
  by (metis add.commute append_take_drop_id drop_drop)

lemma prf_New_length: "crypto_ok cr \<Longrightarrow> length (prf_New cr p key x) = hash_len (pr_hash p)"
  by (simp add: crypto_ok_def prf_New_def)

lemma hash_len_pos: "0 < hash_len h"
  by (cases h) simp_all

text \<open>C35.  The key derivation of an IKE SA always succeeds, and the seven keys are consecutive pieces of prf+ over the nonces and
  SPIs, of the lengths the negotiated algorithms need; with a combined-mode cipher, which has no integrity algorithm, the
  two integrity keys are empty.\<close>

theorem deriveKeys_pieces:
  assumes "crypto_ok cr"
  shows "\<exists>k' keymat. deriveKeys cr k nonces dhShared spiI spiR = Some k' \<and>
    prfPlus (prf_New cr (sk_prf k) (prf_New cr (sk_prf k) nonces dhShared)) (nonces @ be64 spiI @ be64 spiR) (length keymat) = Some keymat \<and>
    SK_d k' @ SK_ai k' @ SK_ar k' @ SK_ei k' @ SK_er k' @ SK_pi k' @ SK_pr k' = keymat \<and>
    map length [SK_d k', SK_pi k', SK_pr k'] = replicate 3 (pr_keyLen (sk_prf k)) \<and>
    map length [SK_ai k', SK_ar k'] = replicate 2 (integKeyLen (sk_integ k)) \<and>
    map length [SK_ei k', SK_er k'] = replicate 2 (encr_KeyLen (sk_encr k))"
proof -
  let ?h = "prf_New cr (sk_prf k) (prf_New cr (sk_prf k) nonces dhShared)"
  define p i e where "p = pr_keyLen (sk_prf k)" and "i = integKeyLen (sk_integ k)" and "e = encr_KeyLen (sk_encr k)"
  define tot where "tot = p + i * 2 + e * 2 + p * 2"
  define keymat where "keymat = take tot (concat (map (prf_T ?h (nonces @ be64 spiI @ be64 spiR)) [1..<Suc tot]))"
  have pp: "prfPlus ?h (nonces @ be64 spiI @ be64 spiR) tot = Some keymat"
    unfolding keymat_def by (rule prfPlus_blocks[OF prf_New_length[OF assms] hash_len_pos])
  have "tot \<le> tot * hash_len (pr_hash (sk_prf k))" using hash_len_pos by (simp add: Suc_le_eq)
  then have len: "length keymat = tot"
    using length_prf_blocks[of ?h _ "nonces @ be64 spiI @ be64 spiR" tot] prf_New_length[OF assms] by (simp add: keymat_def)
  have cut: "take p keymat @ take i (drop p keymat) @ take i (drop (p + i) keymat) @ take e (drop (p + i + i) keymat) @
      take e (drop (p + i + i + e) keymat) @ take p (drop (p + i + i + e + e) keymat) @ take p (drop (p + i + i + e + e + p) keymat) = keymat"
    using len by (simp add: tot_def take_drop_step)
  show ?thesis
    by (rule exI[of _ "k\<lparr>SK_d := take p keymat, SK_ai := take i (drop p keymat), SK_ar := take i (drop (p + i) keymat),
          SK_ei := take e (drop (p + i + i) keymat), SK_er := take e (drop (p + i + i + e) keymat),
          SK_pi := take p (drop (p + i + i + e + e) keymat), SK_pr := take p (drop (p + i + i + e + e + p) keymat)\<rparr>"],
        rule exI[of _ keymat])
       (use pp len cut in \<open>simp add: deriveKeys_def Let_def p_def i_def e_def tot_def numeral_3_eq_3 numeral_2_eq_2\<close>)
qed

text \<open>Primitives for the witnesses: they satisfy the assumptions and compute.\<close>

definition demo_crypto :: crypto where
  "demo_crypto =
     \<lparr>cr_hmac = (\<lambda>h k d. replicate (hash_len h) (of_nat (length d))), cr_sha1 = (\<lambda>d. replicate 20 (of_nat (length d))),
      cr_cbc_enc = (\<lambda>k iv p. p), cr_cbc_dec = (\<lambda>k iv c. c), cr_gcm_seal = (\<lambda>k n p a. p @ replicate 16 0),
      cr_gcm_open = (\<lambda>k n c a. if length c < 16 then None else Some (take (length c - 16) c)),
      cr_ecdh_public = (\<lambda>c p. 4 # p), cr_ecdh = (\<lambda>c p q. Some q)\<rparr>"

lemma demo_crypto_ok: "crypto_ok demo_crypto"
  by (simp add: crypto_ok_def demo_crypto_def)

definition demo_keys :: ikeSAKey where
  "demo_keys = \<lparr>sk_dh = dhGroup14, sk_encr = encrAesCbc256, sk_integ = Some integSha256_128, sk_prf = prfSha256,
     SK_d = [], SK_ai = [], SK_ar = replicate 32 1, SK_ei = [], SK_er = replicate 32 2, SK_pi = [], SK_pr = []\<rparr>"

theorem deriveKeys_pieces_witness:
  "\<exists>k'. deriveKeys demo_crypto demo_keys [1, 2] [3] 4 5 = Some k' \<and> length (SK_ei k') = 32"
  using deriveKeys_pieces[OF demo_crypto_ok, of demo_keys "[1, 2]" "[3]" 4 5]
  by (auto simp: demo_keys_def encr_KeyLen_def encrAesCbc256_def numeral_2_eq_2)

section \<open>The peer opens what was sealed\<close>

text \<open>The keys as the other end holds them: what is outgoing here is incoming there.\<close>

definition mirror :: "ikeSAKey \<Rightarrow> ikeSAKey" where
  "mirror k = k\<lparr>SK_ai := SK_ar k, SK_ar := SK_ai k, SK_ei := SK_er k, SK_er := SK_ei k\<rparr>"

definition alg_ok :: "ikeSAKey \<Rightarrow> bool" where
  "alg_ok k \<longleftrightarrow> ea_saltLen (sk_encr k) \<le> 12 \<and>
     (case sk_integ k of None \<Rightarrow> True | Some a \<Rightarrow> ia_outputLen a \<le> hash_len (ia_hash a))"

definition iv_len :: "ikeSAKey \<Rightarrow> nat" where
  "iv_len k = (if IsAEAD (sk_encr k) then 12 - ea_saltLen (sk_encr k) else 16)"

lemma encr_pad_props:
  "length (encr_pad p) mod 16 = 0" "length (encr_pad p) = length p + (16 - length p mod 16)" "encr_pad p \<noteq> []"
  "unat (last (encr_pad p)) + 1 = 16 - length p mod 16" "take (length p) (encr_pad p) = p"
proof -
  define q where "q = length p mod 16"
  have q: "q < 16" by (simp add: q_def)
  have l: "length (encr_pad p) = length p + (16 - q)" using q by (simp add: encr_pad_def Let_def q_def)
  then show "length (encr_pad p) = length p + (16 - length p mod 16)" by (simp add: q_def)
  define d where "d = length p div 16"
  have "length p = 16 * d + q" by (simp add: q_def d_def)
  then have "length p + (16 - q) = 16 * (d + 1)" using q by simp
  then show "length (encr_pad p) mod 16 = 0" using l by simp
  show "encr_pad p \<noteq> []" "take (length p) (encr_pad p) = p" by (simp_all add: encr_pad_def Let_def)
  define r where "r = 16 - q - 1"
  have "last (encr_pad p) = of_nat r" by (simp add: encr_pad_def Let_def r_def q_def del: of_nat_diff)
  moreover have "unat (of_nat r :: byte) = r" by (rule unat_of_nat_byte) (simp add: r_def)
  ultimately show "unat (last (encr_pad p)) + 1 = 16 - length p mod 16" using q by (simp add: r_def flip: q_def)
qed

lemma encr_Decrypt_Encrypt:
  assumes "crypto_ok cr" "encr_Encrypt cr key p (Some iv) = Inr c" "length iv = 16"
  shows "encr_Decrypt cr key c = Inr p" "length c = 16 + length p + (16 - length p mod 16)"
proof -
  have c: "c = iv @ cr_cbc_enc cr key iv (encr_pad p)" "NewCipher key = None"
    using assms(2) by (auto simp: encr_Encrypt_def split: option.splits)
  note cbc = assms(1)[unfolded crypto_ok_def, THEN conjunct2, THEN conjunct1, rule_format, OF encr_pad_props(1), of key iv p]
  show l: "length c = 16 + length p + (16 - length p mod 16)" using c cbc assms(3) encr_pad_props(2)[of p] by simp
  define pl where "pl = 16 - length p mod 16"
  note pad = encr_pad_props[of p, folded pl_def]
  have "length c mod 16 = 0" "16 \<le> length c" using c(1) cbc assms(3) pad(1) by simp_all
  then show "encr_Decrypt cr key c = Inr p"
    using c cbc assms(3) pad(2-5) by (simp add: encr_Decrypt_def Let_def)
qed

lemma nth_28_sk: "length hdr = 28 \<Longrightarrow> (hdr @ sk_header t n @ r) ! 28 = t"
  by (simp add: nth_append sk_header_def)

lemma length_sk_header [simp]: "length (sk_header t n) = 4"
  by (simp add: sk_header_def)

lemma decryptSKAEAD_encryptSKAEAD:
  assumes "crypto_ok cr" "length hdr = 28" "encryptSKAEAD cr k t plain hdr (Some iv) = Inr msg" "IsAEAD (sk_encr k)"
    "length iv = 12 - ea_saltLen (sk_encr k)" "ea_saltLen (sk_encr k) \<le> 12"
  shows "decryptSKAEAD cr (mirror k) msg = Inr (t, plain) \<and> encryptedSKMessageLen k (length plain) = Inr (length msg)"
proof -
  obtain key salt where ks: "aeadCipher (SK_er k) (ea_saltLen (sk_encr k)) = Inr (key, salt)"
    using assms(3) by (auto simp: encryptSKAEAD_def split: sum.splits)
  then have salt: "length salt = ea_saltLen (sk_encr k)" by (auto simp: aeadCipher_def Let_def split: if_splits option.splits)
  define aad where "aad = hdr @ sk_header t (4 + length iv + length plain + 16)"
  have msg: "msg = aad @ iv @ cr_gcm_seal cr key (salt @ iv) plain aad"
    using assms(3) ks by (simp add: encryptSKAEAD_def Let_def aad_def)
  have aad: "length aad = 32" using assms(2) by (simp add: aad_def)
  note gcm = assms(1)[unfolded crypto_ok_def, THEN conjunct2, THEN conjunct2, rule_format, of key "salt @ iv" plain aad]
  have "msg ! 28 = t" using nth_28_sk[OF assms(2)] by (simp add: msg aad_def)
  then show ?thesis
    using ks salt aad gcm assms(4,5,6)
    by (simp add: decryptSKAEAD_def mirror_def Let_def msg encryptedSKMessageLen_def)
qed

text \<open>C34.  A message sealed with \<^verbatim>\<open>encryptSK\<close> has exactly the length \<^verbatim>\<open>encryptedSKMessageLen\<close> announces for its header, and the peer,
  holding the same keys with the directions exchanged, opens it with \<^verbatim>\<open>decryptSK\<close> to the same payload and the same inner payload type,
  for AES-CBC with HMAC as well as for AES-GCM.\<close>

theorem decryptSK_encryptSK:
  assumes "crypto_ok cr" "alg_ok k" "length hdr = 28" "length iv = iv_len k" "encryptSK cr k t plain hdr (Some iv) = Inr msg"
  shows "decryptSK cr (mirror k) msg = Inr (t, plain) \<and> encryptedSKMessageLen k (length plain) = Inr (length msg)"
proof (cases "IsAEAD (sk_encr k)")
  case True
  with decryptSKAEAD_encryptSKAEAD[OF assms(1,3)] assms(2,4,5) show ?thesis
    by (simp add: encryptSK_def decryptSK_def iv_len_def alg_ok_def mirror_def)
next
  case False
  obtain c a where c: "encr_Encrypt cr (SK_er k) plain (Some iv) = Inr c" and a: "sk_integ k = Some a"
    using assms(5) False by (auto simp: encryptSK_def split: sum.splits option.splits)
  note dec = encr_Decrypt_Encrypt[OF assms(1) c] 
  have iv: "length iv = 16" using assms(4) False by (simp add: iv_len_def)
  define m where "m = hdr @ sk_header t (4 + length c + ia_outputLen a) @ c"
  define mac where "mac = take (ia_outputLen a) (cr_hmac cr (ia_hash a) (SK_ar k) m)"
  have msg: "msg = m @ mac" using assms(5) False c a by (simp add: encryptSK_def Let_def m_def mac_def)
  have "length mac = ia_outputLen a"
    using assms(1,2) a by (simp add: mac_def crypto_ok_def alg_ok_def)
  moreover have m28: "m ! 28 = t" "length m = 32 + length c" using assms(3) nth_28_sk[OF assms(3)] by (simp_all add: m_def)
  moreover have "drop 32 m = c" using assms(3) by (simp add: m_def)
  moreover have "msg ! 28 = t" using m28 by (simp add: msg nth_append)
  ultimately have "decryptSK cr (mirror k) msg = Inr (t, plain)"
    using False a dec(1)[OF iv] unfolding msg by (simp add: decryptSK_def mirror_def Let_def mac_def)
  moreover define pl where "pl = 16 - length plain mod 16"
  have "encryptedSKMessageLen k (length plain) = Inr (length msg)"
    using False a dec(2)[OF iv] \<open>length mac = ia_outputLen a\<close> m28(2) unfolding msg pl_def[symmetric]
    by (simp add: encryptedSKMessageLen_def Let_def flip: pl_def)
  ultimately show ?thesis by simp
qed

theorem decryptSK_encryptSK_witness:
  "\<exists>msg. encryptSK demo_crypto demo_keys 35 [9, 8, 7] (replicate 28 0) (Some (replicate 16 5)) = Inr msg \<and>
         decryptSK demo_crypto (mirror demo_keys) msg = Inr (35, [9, 8, 7])"
proof -
  obtain msg where m: "encryptSK demo_crypto demo_keys 35 [9, 8, 7] (replicate 28 0) (Some (replicate 16 5)) = Inr msg"
    by (simp add: encryptSK_def demo_keys_def IsAEAD_def encrAesCbc256_def encr_Encrypt_def NewCipher_def Let_def)
  moreover have "alg_ok demo_keys" "length (replicate 16 (5 :: byte)) = iv_len demo_keys"
    by (simp_all add: alg_ok_def iv_len_def demo_keys_def encrAesCbc256_def integSha256_128_def IsAEAD_def)
  ultimately show ?thesis using decryptSK_encryptSK[OF demo_crypto_ok _ _ _ m] by simp
qed

end
