(* ===== verification/IkeProposal.thy ===== *)
theory IkeProposal
  imports IkeCrypto
begin

text \<open>
  Negotiation of the algorithms of IKE and ESP (\<^verbatim>\<open>internal/ikev2/proposal.go\<close> and the ESP helpers of \<^verbatim>\<open>auth.go\<close>).  The records
  \<open>Transform\<close> and \<open>Proposal\<close> are the structures of the message library, with the fields the code uses.

  Shown: what is selected was offered by the peer, is supported, and is the most preferred choice of the first
  proposal that has one; the answer built from it, read by the same rules, selects the same algorithms again;
  combined-mode ciphers never come with an integrity algorithm, so that the encrypted payload never dereferences nil.
\<close>

section \<open>Data\<close>

abbreviation (input) "TypeIKE \<equiv> (1 :: byte)"
abbreviation (input) "TypeESP \<equiv> (3 :: byte)"
abbreviation (input) "AttributeTypeKeyLength \<equiv> (14 :: u16)"
abbreviation (input) "ESN_DISABLE \<equiv> (0 :: u16)"

record Transform =
  tr_TransformID :: u16
  tr_AttributePresent :: bool
  tr_AttributeType :: u16
  tr_AttributeValue :: u16

record Proposal =
  pp_ProposalNumber :: byte
  pp_ProtocolID :: byte
  pp_SPI :: bytes
  pp_EncryptionAlgorithm :: "Transform list"
  pp_PseudorandomFunction :: "Transform list"
  pp_IntegrityAlgorithm :: "Transform list"
  pp_DiffieHellmanGroup :: "Transform list"
  pp_ExtendedSequenceNumbers :: "Transform list"

record negotiatedProposal =
  np_dh :: dhGroup
  np_encr :: encrAlg
  np_integ :: "integAlg option"
  np_prf :: prfAlg

record childProposal =
  ch_encr :: encrAlg
  ch_integ :: "integAlg option"
  ch_dh :: "dhGroup option"

definition ike_prop :: "dhGroup \<Rightarrow> encrAlg \<Rightarrow> integAlg option \<Rightarrow> prfAlg \<Rightarrow> negotiatedProposal" where
  "ike_prop d e i p = \<lparr>np_dh = d, np_encr = e, np_integ = i, np_prf = p\<rparr>"

definition esp_prop :: "encrAlg \<Rightarrow> integAlg option \<Rightarrow> dhGroup option \<Rightarrow> childProposal" where
  "esp_prop e i d = \<lparr>ch_encr = e, ch_integ = i, ch_dh = d\<rparr>"

definition supportedIKEProposals :: "negotiatedProposal list" where
  "supportedIKEProposals =
     [ike_prop ecdh384Group encrAesGcm16_256 None prfSha256,
      ike_prop ecdh256Group encrAesGcm16_256 None prfSha256,
      ike_prop dhGroup14 encrAesGcm16_256 None prfSha256,
      ike_prop ecdh384Group encrAesGcm16_128 None prfSha256,
      ike_prop ecdh256Group encrAesGcm16_128 None prfSha256,
      ike_prop dhGroup14 encrAesGcm16_128 None prfSha256,
      ike_prop ecdh384Group encrAesCbc256 (Some integSha256_128) prfSha256,
      ike_prop ecdh256Group encrAesCbc256 (Some integSha256_128) prfSha256,
      ike_prop ecdh384Group encrAesCbc256 (Some integSha512_256) prfSha512,
      ike_prop ecdh256Group encrAesCbc256 (Some integSha512_256) prfSha512,
      ike_prop dhGroup14 encrAesCbc256 (Some integSha256_128) prfSha256,
      ike_prop dhGroup15 encrAesCbc256 (Some integSha256_128) prfSha256,
      ike_prop dhGroup14 encrAesCbc256 (Some integSha512_256) prfSha512,
      ike_prop dhGroup15 encrAesCbc256 (Some integSha512_256) prfSha512,
      ike_prop dhGroup14 encrAesCbc128 (Some integSha1_96) prfSha1]"

definition supportedESPProposals :: "childProposal list" where
  "supportedESPProposals =
     [esp_prop encrAesGcm16_256 None (Some ecdh384Group),
      esp_prop encrAesGcm16_256 None (Some ecdh256Group),
      esp_prop encrAesGcm16_256 None (Some dhGroup14),
      esp_prop encrAesGcm16_128 None (Some ecdh384Group),
      esp_prop encrAesGcm16_128 None (Some ecdh256Group),
      esp_prop encrAesGcm16_128 None (Some dhGroup14),
      esp_prop encrAesGcm16_256 None None,
      esp_prop encrAesGcm16_128 None None,
      esp_prop encrAesCbc256 (Some integSha256_128) (Some ecdh384Group),
      esp_prop encrAesCbc256 (Some integSha256_128) (Some ecdh256Group),
      esp_prop encrAesCbc256 (Some integSha512_256) (Some ecdh384Group),
      esp_prop encrAesCbc256 (Some integSha512_256) (Some ecdh256Group),
      esp_prop encrAesCbc256 (Some integSha256_128) (Some dhGroup14),
      esp_prop encrAesCbc256 (Some integSha256_128) (Some dhGroup15),
      esp_prop encrAesCbc256 (Some integSha512_256) (Some dhGroup14),
      esp_prop encrAesCbc256 (Some integSha512_256) (Some dhGroup15),
      esp_prop encrAesCbc128 (Some integSha1_96) (Some dhGroup14),
      esp_prop encrAesCbc256 (Some integSha256_128) None,
      esp_prop encrAesCbc256 (Some integSha512_256) None,
      esp_prop encrAesCbc128 (Some integSha1_96) None]"

section \<open>Selection\<close>

definition has_transform :: "Transform list \<Rightarrow> u16 \<Rightarrow> bool" where
  "has_transform ts i = list_ex (\<lambda>t. tr_TransformID t = i) ts"

definition hasDH :: "Proposal \<Rightarrow> u16 \<Rightarrow> bool" where
  "hasDH prop i = has_transform (pp_DiffieHellmanGroup prop) i"

definition hasEncr :: "Proposal \<Rightarrow> u16 \<Rightarrow> nat \<Rightarrow> bool" where
  "hasEncr prop i keyBits =
     list_ex (\<lambda>t. tr_TransformID t = i \<and> tr_AttributePresent t \<and> tr_AttributeType t = AttributeTypeKeyLength \<and>
                  unat (tr_AttributeValue t) = keyBits) (pp_EncryptionAlgorithm prop)"

definition hasInteg :: "Proposal \<Rightarrow> u16 \<Rightarrow> bool" where
  "hasInteg prop i = has_transform (pp_IntegrityAlgorithm prop) i"

definition hasPRF :: "Proposal \<Rightarrow> u16 \<Rightarrow> bool" where
  "hasPRF prop i = has_transform (pp_PseudorandomFunction prop) i"

definition integ_offered :: "Proposal \<Rightarrow> integAlg option \<Rightarrow> bool" where
  "integ_offered prop integ = (case integ of None \<Rightarrow> pp_IntegrityAlgorithm prop = [] | Some a \<Rightarrow> hasInteg prop (ia_id a))"

definition ike_offered :: "Proposal \<Rightarrow> negotiatedProposal \<Rightarrow> bool" where
  "ike_offered prop s \<longleftrightarrow> hasDH prop (dh_TransformID (np_dh s)) \<and> hasEncr prop (ea_id (np_encr s)) (ea_keyBits (np_encr s)) \<and>
     integ_offered prop (np_integ s) \<and> hasPRF prop (pr_id (np_prf s))"

definition esp_offered :: "Proposal \<Rightarrow> childProposal \<Rightarrow> bool" where
  "esp_offered prop s \<longleftrightarrow> hasEncr prop (ea_id (ch_encr s)) (ea_keyBits (ch_encr s)) \<and> integ_offered prop (ch_integ s) \<and>
     (case ch_dh s of None \<Rightarrow> True | Some d \<Rightarrow> hasDH prop (dh_TransformID d))"

definition matchIKEProposal :: "Proposal \<Rightarrow> negotiatedProposal option" where
  "matchIKEProposal prop = find (ike_offered prop) supportedIKEProposals"

definition matchESPProposal :: "Proposal \<Rightarrow> childProposal option" where
  "matchESPProposal prop = find (esp_offered prop) supportedESPProposals"

text \<open>The loop over the proposals of an SA payload, shared by both protocols.\<close>

fun select_first :: "byte \<Rightarrow> (Proposal \<Rightarrow> 'p option) \<Rightarrow> Proposal list \<Rightarrow> ('p \<times> byte) option" where
  "select_first proto m [] = None"
| "select_first proto m (prop # props) =
     (if pp_ProtocolID prop \<noteq> proto then select_first proto m props
      else case m prop of
             Some selected \<Rightarrow> Some (selected, pp_ProposalNumber prop)
           | None \<Rightarrow> select_first proto m props)"

definition selectIKEProposal :: "Proposal list \<Rightarrow> (negotiatedProposal \<times> byte) option" where
  "selectIKEProposal sa = select_first TypeIKE matchIKEProposal sa"

definition selectESPProposal :: "Proposal list \<Rightarrow> (childProposal \<times> byte) option" where
  "selectESPProposal sa = select_first TypeESP matchESPProposal sa"

text \<open>The SPI of the peer is that of the first proposal with the selected number and an SPI of four bytes.\<close>

definition selectAndExtractESP :: "Proposal list \<Rightarrow> (childProposal \<times> byte \<times> u32) option" where
  "selectAndExtractESP sa =
     (case selectESPProposal sa of
        None \<Rightarrow> None
      | Some (prop, propNum) \<Rightarrow>
          (case find (\<lambda>p. pp_ProposalNumber p = propNum \<and> length (pp_SPI p) = 4) sa of
             Some p \<Rightarrow> Some (prop, propNum, uint32 (pp_SPI p))
           | None \<Rightarrow> Some (prop, propNum, 0)))"

section \<open>Answers\<close>

definition plain_transform :: "u16 \<Rightarrow> Transform" where
  "plain_transform i = \<lparr>tr_TransformID = i, tr_AttributePresent = False, tr_AttributeType = 0, tr_AttributeValue = 0\<rparr>"

definition encr_transform :: "encrAlg \<Rightarrow> Transform" where
  "encr_transform e = \<lparr>tr_TransformID = ea_id e, tr_AttributePresent = True, tr_AttributeType = AttributeTypeKeyLength,
     tr_AttributeValue = of_nat (ea_keyBits e)\<rparr>"

definition integ_transforms :: "integAlg option \<Rightarrow> Transform list" where
  "integ_transforms i = (case i of None \<Rightarrow> [] | Some a \<Rightarrow> [plain_transform (ia_id a)])"

definition buildIKESAPayload :: "negotiatedProposal \<Rightarrow> byte \<Rightarrow> bytes \<Rightarrow> Proposal list" where
  "buildIKESAPayload prop propNum spi =
     [\<lparr>pp_ProposalNumber = propNum, pp_ProtocolID = TypeIKE, pp_SPI = spi,
       pp_EncryptionAlgorithm = [encr_transform (np_encr prop)],
       pp_PseudorandomFunction = [plain_transform (pr_id (np_prf prop))],
       pp_IntegrityAlgorithm = integ_transforms (np_integ prop),
       pp_DiffieHellmanGroup = [plain_transform (dh_TransformID (np_dh prop))],
       pp_ExtendedSequenceNumbers = []\<rparr>]"

definition buildESPSAResponse :: "childProposal \<Rightarrow> byte \<Rightarrow> u32 \<Rightarrow> Proposal list" where
  "buildESPSAResponse prop propNum localSPI =
     [\<lparr>pp_ProposalNumber = propNum, pp_ProtocolID = TypeESP, pp_SPI = be32 localSPI,
       pp_EncryptionAlgorithm = [encr_transform (ch_encr prop)],
       pp_PseudorandomFunction = [],
       pp_IntegrityAlgorithm = integ_transforms (ch_integ prop),
       pp_DiffieHellmanGroup = (case ch_dh prop of None \<Rightarrow> [] | Some d \<Rightarrow> [plain_transform (dh_TransformID d)]),
       pp_ExtendedSequenceNumbers = [plain_transform ESN_DISABLE]\<rparr>]"

definition childAlgNames :: "childProposal \<Rightarrow> ike_crypto_error + string \<times> string \<times> int" where
  "childAlgNames prop =
     (if IsAEAD (ch_encr prop) then Inr (''rfc4106(gcm(aes))'', [], 0)
      else case ch_integ prop of
             None \<Rightarrow> Inl NilIntegPanic
           | Some a \<Rightarrow>
               if ia_id a = AUTH_HMAC_SHA1_96 then Inr (''cbc(aes)'', ''hmac(sha1)'', 96)
               else if ia_id a = AUTH_HMAC_SHA2_256_128 then Inr (''cbc(aes)'', ''hmac(sha256)'', 128)
               else if ia_id a = authHmacSha2512_256 then Inr (''cbc(aes)'', ''hmac(sha512)'', 256)
               else Inr (''cbc(aes)'', ''hmac(sha256)'', 128))"

section \<open>The best offered choice\<close>

lemmas ike_algs = prfSha1_def prfSha256_def prfSha512_def integSha1_96_def integSha256_128_def integSha512_256_def
  encrAesCbc128_def encrAesCbc256_def encrAesGcm16_128_def encrAesGcm16_256_def

lemma dh_ids:
  "dh_TransformID ecdh256Group = 19" "dh_TransformID ecdh384Group = 20" "dh_TransformID dhGroup14 = 14" "dh_TransformID dhGroup15 = 15"
  by (simp_all add: ecdh256Group_def ecdh384Group_def dhGroup14_def dhGroup15_def)

lemma find_SomeD: "find P xs = Some x \<Longrightarrow> \<exists>us vs. xs = us @ x # vs \<and> P x \<and> (\<forall>u \<in> set us. \<not> P u)"
proof (induction xs)
  case (Cons a xs)
  show ?case
  proof (cases "P a")
    case True
    with Cons.prems show ?thesis by (intro exI[of _ "[]"] exI[of _ xs]) simp
  next
    case False
    with Cons obtain us vs where "xs = us @ x # vs" "P x" "\<forall>u \<in> set us. \<not> P u" by auto
    with False show ?thesis by (intro exI[of _ "a # us"] exI[of _ vs]) simp
  qed
qed simp

lemma select_first_SomeD:
  "select_first proto m props = Some (s, num) \<Longrightarrow>
   \<exists>us prop vs. props = us @ prop # vs \<and> pp_ProtocolID prop = proto \<and> pp_ProposalNumber prop = num \<and> m prop = Some s \<and>
     (\<forall>u \<in> set us. pp_ProtocolID u = proto \<longrightarrow> m u = None)"
proof (induction props)
  case (Cons p props)
  show ?case
  proof (cases "pp_ProtocolID p = proto \<and> m p \<noteq> None")
    case True
    with Cons.prems show ?thesis by (intro exI[of _ "[]"]) auto
  next
    case False
    with Cons.prems have "select_first proto m props = Some (s, num)" by (auto split: if_splits option.splits)
    from Cons.IH[OF this] obtain us pr vs where "props = us @ pr # vs" "pp_ProtocolID pr = proto" "pp_ProposalNumber pr = num"
      "m pr = Some s" "\<forall>u \<in> set us. pp_ProtocolID u = proto \<longrightarrow> m u = None" by blast
    with False show ?thesis by (intro exI[of _ "p # us"] exI[of _ pr] exI[of _ vs]) auto
  qed
qed simp

text \<open>The algorithms of an IKE SA are chosen fairly: the selected set is one of the supported ones, every transform of it was
  offered in the proposal whose number is answered, no more preferred supported set was offered there, and no
  earlier IKE proposal of the peer was acceptable.\<close>

theorem selectIKEProposal_best:
  assumes "selectIKEProposal sa = Some (s, num)"
  shows "\<exists>earlier prop later better worse. sa = earlier @ prop # later \<and> pp_ProtocolID prop = TypeIKE \<and> pp_ProposalNumber prop = num \<and>
     supportedIKEProposals = better @ s # worse \<and> ike_offered prop s \<and> (\<forall>s' \<in> set better. \<not> ike_offered prop s') \<and>
     (\<forall>p \<in> set earlier. \<forall>s' \<in> set supportedIKEProposals. pp_ProtocolID p = TypeIKE \<longrightarrow> \<not> ike_offered p s')"
proof -
  obtain us pr vs where p: "sa = us @ pr # vs" "pp_ProtocolID pr = TypeIKE" "pp_ProposalNumber pr = num" "matchIKEProposal pr = Some s"
    "\<forall>u \<in> set us. pp_ProtocolID u = TypeIKE \<longrightarrow> matchIKEProposal u = None"
    using select_first_SomeD[OF assms[unfolded selectIKEProposal_def]] by blast
  obtain better worse where s: "supportedIKEProposals = better @ s # worse" "ike_offered pr s" "\<forall>s' \<in> set better. \<not> ike_offered pr s'"
    using find_SomeD[OF p(4)[unfolded matchIKEProposal_def]] by blast
  have "\<forall>u \<in> set us. \<forall>s' \<in> set supportedIKEProposals. pp_ProtocolID u = TypeIKE \<longrightarrow> \<not> ike_offered u s'"
    using p(5) by (auto simp: matchIKEProposal_def find_None_iff)
  with p(1-3) s show ?thesis by blast
qed

definition demo_offer :: "Proposal list" where
  "demo_offer = buildIKESAPayload (ike_prop dhGroup14 encrAesCbc128 (Some integSha1_96) prfSha1) 1 [] @
     buildIKESAPayload (ike_prop ecdh384Group encrAesGcm16_256 None prfSha256) 2 []"

theorem selectIKEProposal_best_witness:
  "selectIKEProposal demo_offer = Some (ike_prop dhGroup14 encrAesCbc128 (Some integSha1_96) prfSha1, 1) \<and>
   (\<exists>earlier pr later better worse. demo_offer = earlier @ pr # later \<and>
     supportedIKEProposals = better @ ike_prop dhGroup14 encrAesCbc128 (Some integSha1_96) prfSha1 # worse)"
proof -
  have "selectIKEProposal demo_offer = Some (ike_prop dhGroup14 encrAesCbc128 (Some integSha1_96) prfSha1, 1)"
    by (simp add: selectIKEProposal_def matchIKEProposal_def demo_offer_def supportedIKEProposals_def ike_prop_def ike_offered_def
        buildIKESAPayload_def hasDH_def hasEncr_def hasInteg_def hasPRF_def integ_offered_def has_transform_def integ_transforms_def
        plain_transform_def encr_transform_def dh_ids ike_algs)
  with selectIKEProposal_best[OF this] show ?thesis by blast
qed

section \<open>Answers select what they were built from\<close>

text \<open>A supported set is determined by the identifiers that travel on the wire.\<close>

definition ike_ids :: "negotiatedProposal \<Rightarrow> u16 \<times> u16 \<times> nat \<times> u16 option \<times> u16" where
  "ike_ids s = (dh_TransformID (np_dh s), ea_id (np_encr s), ea_keyBits (np_encr s), map_option ia_id (np_integ s), pr_id (np_prf s))"

definition esp_ids :: "childProposal \<Rightarrow> u16 \<times> nat \<times> u16 option" where
  "esp_ids s = (ea_id (ch_encr s), ea_keyBits (ch_encr s), map_option ia_id (ch_integ s))"

definition esp_dh_id :: "childProposal \<Rightarrow> u16 option" where
  "esp_dh_id s = map_option dh_TransformID (ch_dh s)"

lemma supported_ids_distinct: "distinct (map ike_ids supportedIKEProposals)"
  by (simp add: supportedIKEProposals_def ike_prop_def ike_ids_def dh_ids ike_algs)

lemma supported_esp_ids_distinct: "distinct (map (\<lambda>s. (esp_ids s, esp_dh_id s)) supportedESPProposals)"
  by (simp add: supportedESPProposals_def esp_prop_def esp_ids_def esp_dh_id_def dh_ids ike_algs)

lemma supported_key_bits:
  "s \<in> set supportedIKEProposals \<Longrightarrow> ea_keyBits (np_encr s) < 65536"
  "t \<in> set supportedESPProposals \<Longrightarrow> ea_keyBits (ch_encr t) < 65536"
  by (auto simp: supportedIKEProposals_def ike_prop_def supportedESPProposals_def esp_prop_def ike_algs)

lemma has_plain: "has_transform [plain_transform i] j \<longleftrightarrow> i = j"
  by (simp add: has_transform_def plain_transform_def)

lemma encr_offered:
  "pp_EncryptionAlgorithm prop = [encr_transform e] \<Longrightarrow> ea_keyBits e < 65536 \<Longrightarrow>
   hasEncr prop i bits \<longleftrightarrow> ea_id e = i \<and> ea_keyBits e = bits"
  by (auto simp: hasEncr_def encr_transform_def unat_of_nat take_bit_nat_eq_self)

lemma integ_offered_iff:
  "pp_IntegrityAlgorithm prop = integ_transforms i \<Longrightarrow> integ_offered prop j \<longleftrightarrow> map_option ia_id i = map_option ia_id j"
  by (auto simp: integ_offered_def integ_transforms_def hasInteg_def has_plain split: option.splits)
     (auto simp: has_transform_def)

lemma ike_answer_offers:
  "s \<in> set supportedIKEProposals \<Longrightarrow> ike_offered (hd (buildIKESAPayload s num spi)) s' \<longleftrightarrow> ike_ids s' = ike_ids s"
  by (auto simp: ike_offered_def buildIKESAPayload_def hasDH_def hasPRF_def has_plain ike_ids_def supported_key_bits
      encr_offered[where e = "np_encr s"] integ_offered_iff[where i = "np_integ s"])

lemma find_unique:
  "distinct (map f xs) \<Longrightarrow> x \<in> set xs \<Longrightarrow> (\<And>y. P y \<longleftrightarrow> f y = f x) \<Longrightarrow> find P xs = Some x"
  by (induction xs) (auto simp: image_iff)

text \<open>The answer to an ESP offer without a group is built from a set without a group, which every set with the same
  ciphers and a group precedes only if the answer carries its group.\<close>

lemma esp_answer_offers:
  "s \<in> set supportedESPProposals \<Longrightarrow> esp_offered (hd (buildESPSAResponse s num spi)) s' \<longleftrightarrow>
     esp_ids s' = esp_ids s \<and> (esp_dh_id s' = None \<or> esp_dh_id s' = esp_dh_id s)"
  by (cases "ch_dh s"; cases "ch_dh s'")
     (auto simp: esp_offered_def buildESPSAResponse_def hasDH_def has_plain esp_ids_def esp_dh_id_def supported_key_bits
      has_transform_def plain_transform_def encr_offered[where e = "ch_encr s"] integ_offered_iff[where i = "ch_integ s"])

text \<open>In the table, a set without a group comes after the sets with the same ciphers and a group.\<close>

lemma groups_first:
  "sorted_wrt (\<lambda>s t. esp_ids s = esp_ids t \<longrightarrow> esp_dh_id s \<noteq> None) supportedESPProposals"
  by (simp add: supportedESPProposals_def esp_prop_def esp_ids_def esp_dh_id_def dh_ids ike_algs)

lemma find_first:
  "distinct (map (\<lambda>s. (f s, g s)) xs) \<Longrightarrow> sorted_wrt (\<lambda>s t. f s = f t \<longrightarrow> g s \<noteq> None) xs \<Longrightarrow> x \<in> set xs \<Longrightarrow>
   (\<And>y. P y \<longleftrightarrow> f y = f x \<and> (g y = None \<or> g y = g x)) \<Longrightarrow> find P xs = Some x"
proof (induction xs)
  case (Cons a xs)
  show ?case
  proof (cases "a = x")
    case True
    with Cons.prems show ?thesis by simp
  next
    case False
    with Cons.prems have x: "x \<in> set xs" by simp
    with Cons.prems(1) have "(f a, g a) \<noteq> (f x, g x)" by (force simp: image_iff)
    moreover from Cons.prems(2) x have "f a = f x \<Longrightarrow> g a \<noteq> None" by (simp only: sorted_wrt.simps) blast
    ultimately have "\<not> P a" by (auto simp: Cons.prems(4))
    moreover from Cons.prems x have "find P xs = Some x" by (intro Cons.IH) auto
    ultimately show ?thesis by simp
  qed
qed simp

text \<open>Both ends of a negotiation agree: the peer that reads the answer by the same rules selects exactly the algorithms and the
  proposal number it was built from, for IKE and for ESP, and finds the SPI of the answering side.\<close>

theorem answer_selects_same:
  "(s \<in> set supportedIKEProposals \<longrightarrow> selectIKEProposal (buildIKESAPayload s num spi) = Some (s, num)) \<and>
   (t \<in> set supportedESPProposals \<longrightarrow> selectAndExtractESP (buildESPSAResponse t num localSPI) = Some (t, num, localSPI))"
proof (intro conjI impI)
  assume "s \<in> set supportedIKEProposals"
  then have "matchIKEProposal (hd (buildIKESAPayload s num spi)) = Some s"
    unfolding matchIKEProposal_def by (intro find_unique[OF supported_ids_distinct]) (auto simp: ike_answer_offers)
  then show "selectIKEProposal (buildIKESAPayload s num spi) = Some (s, num)"
    by (simp add: selectIKEProposal_def buildIKESAPayload_def)
next
  assume "t \<in> set supportedESPProposals"
  then have "matchESPProposal (hd (buildESPSAResponse t num localSPI)) = Some t"
    unfolding matchESPProposal_def
    by (intro find_first[OF supported_esp_ids_distinct groups_first]) (auto simp: esp_answer_offers)
  then show "selectAndExtractESP (buildESPSAResponse t num localSPI) = Some (t, num, localSPI)"
    by (simp add: selectAndExtractESP_def selectESPProposal_def buildESPSAResponse_def)
qed

theorem answer_selects_same_witness:
  "selectIKEProposal (buildIKESAPayload (ike_prop dhGroup14 encrAesCbc128 (Some integSha1_96) prfSha1) 3 [1]) =
     Some (ike_prop dhGroup14 encrAesCbc128 (Some integSha1_96) prfSha1, 3) \<and>
   selectAndExtractESP (buildESPSAResponse (esp_prop encrAesGcm16_256 None None) 3 77) = Some (esp_prop encrAesGcm16_256 None None, 3, 77)"
  using answer_selects_same[of "ike_prop dhGroup14 encrAesCbc128 (Some integSha1_96) prfSha1" 3 "[1]" "esp_prop encrAesGcm16_256 None None" 77]
  by (simp add: supportedIKEProposals_def supportedESPProposals_def)

section \<open>No missing integrity algorithm\<close>

lemma supported_integ:
  "s \<in> set supportedIKEProposals \<Longrightarrow> np_integ s = None \<longleftrightarrow> IsAEAD (np_encr s)"
  "t \<in> set supportedESPProposals \<Longrightarrow> ch_integ t = None \<longleftrightarrow> IsAEAD (ch_encr t)"
  by (auto simp: supportedIKEProposals_def ike_prop_def supportedESPProposals_def esp_prop_def ike_algs IsAEAD_def)

lemma select_first_in: "select_first proto m props = Some (s, num) \<Longrightarrow> \<exists>p. m p = Some s"
  using select_first_SomeD by fast

lemma selectIKEProposal_supported: "selectIKEProposal sa = Some (s, num) \<Longrightarrow> s \<in> set supportedIKEProposals"
  unfolding selectIKEProposal_def by (drule select_first_in) (auto simp: matchIKEProposal_def find_Some_iff)

lemma selectESPProposal_supported: "selectESPProposal sa = Some (s, num) \<Longrightarrow> s \<in> set supportedESPProposals"
  unfolding selectESPProposal_def by (drule select_first_in) (auto simp: matchESPProposal_def find_Some_iff)

lemma childAlgNames_returns:
  assumes "selectESPProposal sa = Some (s, num)"
  shows "\<exists>names. childAlgNames s = Inr names"
  using supported_integ(2)[OF selectESPProposal_supported[OF assms]]
  by (cases "ch_integ s") (auto simp: childAlgNames_def)

end
