(* ===== verification/IkeCookie.thy ===== *)
theory IkeCookie
  imports IkeCrypto
begin

text \<open>
  The COOKIE challenge of RFC 7296 section 2.6 (\<^verbatim>\<open>internal/ikev2/cookie.go\<close>) and the address hash of the NAT detection
  (\<^verbatim>\<open>natAddrBytes\<close>, \<^verbatim>\<open>natHash\<close>, \<^verbatim>\<open>detectNAT\<close>, \<^verbatim>\<open>findNotifyData\<close> of \<^verbatim>\<open>init.go\<close>).  Times are nanoseconds; \<open>secrets\<close> takes the two readings
  of the clock and the result of the random read: the contents of the buffer and whether the read succeeded.

  Shown: a cookie stays valid for the lifetime of a secret whatever other cookies are issued and verified meanwhile; a cookie that is
  accepted for another SPI or address is a collision of HMAC-SHA256.
\<close>

section \<open>Addresses under a hash\<close>

definition natAddrBytes :: "net_ip \<Rightarrow> bytes" where
  "natAddrBytes ip = (if To4 ip \<noteq> [] then To4 ip else To16 ip)"

definition natHash :: "crypto \<Rightarrow> u64 \<Rightarrow> u64 \<Rightarrow> net_ip \<Rightarrow> u16 \<Rightarrow> bytes" where
  "natHash cr spiI spiR ip port = cr_sha1 cr (be64 spiI @ be64 spiR @ natAddrBytes ip @ be16 port)"

record Notification =
  nt_NotifyMessageType :: u16
  nt_NotificationData :: bytes

abbreviation (input) "NAT_DETECTION_SOURCE_IP \<equiv> (16388 :: u16)"

text \<open>A missing notify and one without data are the same \<^verbatim>\<open>nil\<close> slice for the caller, which only compares with \<^verbatim>\<open>nil\<close> and hands the
  data to \<^verbatim>\<open>verify\<close>, which refuses the empty slice.\<close>

definition findNotifyData :: "Notification list \<Rightarrow> u16 \<Rightarrow> bytes option" where
  "findNotifyData notifies notifyType =
     map_option nt_NotificationData (find (\<lambda>n. nt_NotifyMessageType n = notifyType) notifies)"

text \<open>The comparison byte by byte after the comparison of the lengths is equality.\<close>

fun detectNAT :: "crypto \<Rightarrow> Notification list \<Rightarrow> udp_addr \<Rightarrow> u64 \<Rightarrow> u64 \<Rightarrow> bool" where
  "detectNAT cr [] remote spiI spiR = False"
| "detectNAT cr (n # ns) remote spiI spiR =
     (if nt_NotifyMessageType n \<noteq> NAT_DETECTION_SOURCE_IP then detectNAT cr ns remote spiI spiR
      else let expected = natHash cr spiI spiR (fst remote) (of_nat (snd remote)) in
           if length (nt_NotificationData n) \<noteq> length expected then True
           else if list_ex (\<lambda>(a, b). a \<noteq> b) (zip (nt_NotificationData n) expected) then True
           else detectNAT cr ns remote spiI spiR)"

section \<open>Cookies\<close>

definition cookieSecretLifetime :: int where
  "cookieSecretLifetime = 5 * 60 * 1000000000"

record cookieState =
  cs_secret :: bytes
  cs_prevSecret :: bytes
  cs_rotatedAt :: int

text \<open>A failed read of the first secret panics.\<close>

definition newCookieState :: "int \<Rightarrow> bytes option \<Rightarrow> cookieState option" where
  "newCookieState now rnd =
     (case rnd of None \<Rightarrow> None
      | Some b \<Rightarrow> Some \<lparr>cs_secret = b, cs_prevSecret = b, cs_rotatedAt = now\<rparr>)"

type_synonym rotation = "int \<times> int \<times> bytes \<times> bool"

definition secrets :: "cookieState \<Rightarrow> rotation \<Rightarrow> cookieState \<times> bytes \<times> bytes" where
  "secrets c = (\<lambda>(now, later, buf, ok).
     let c' = (if now - cs_rotatedAt c > cookieSecretLifetime
               then (let c1 = c\<lparr>cs_prevSecret := cs_secret c, cs_secret := buf\<rparr> in
                     if ok then c1\<lparr>cs_rotatedAt := later\<rparr> else c1)
               else c)
     in (c', cs_secret c', cs_prevSecret c'))"

definition cookie_msg :: "u64 \<Rightarrow> udp_addr \<Rightarrow> bytes" where
  "cookie_msg spiI remote = be64 spiI @ natAddrBytes (fst remote) @ be16 (of_nat (snd remote))"

definition cookieHMAC :: "crypto \<Rightarrow> bytes \<Rightarrow> u64 \<Rightarrow> udp_addr \<Rightarrow> bytes" where
  "cookieHMAC cr secret spiI remote = cr_hmac cr SHA256 secret (cookie_msg spiI remote)"

definition cookie_issue :: "crypto \<Rightarrow> cookieState \<Rightarrow> rotation \<Rightarrow> u64 \<Rightarrow> udp_addr \<Rightarrow> cookieState \<times> bytes" where
  "cookie_issue cr c r spiI remote = (case secrets c r of (c', cur, _) \<Rightarrow> (c', cookieHMAC cr cur spiI remote))"

definition cookie_verify :: "crypto \<Rightarrow> cookieState \<Rightarrow> rotation \<Rightarrow> bytes \<Rightarrow> u64 \<Rightarrow> udp_addr \<Rightarrow> cookieState \<times> bool" where
  "cookie_verify cr c r received spiI remote =
     (if received = [] then (c, False)
      else case secrets c r of (c', cur, prev) \<Rightarrow>
        (c', received = cookieHMAC cr cur spiI remote \<or> received = cookieHMAC cr prev spiI remote))"

text \<open>A history of calls; every call only reaches the state through \<^const>\<open>secrets\<close>.\<close>

datatype cookie_call = CIssue rotation u64 udp_addr | CVerify rotation bytes u64 udp_addr

fun cookie_call_state :: "crypto \<Rightarrow> cookieState \<Rightarrow> cookie_call \<Rightarrow> cookieState" where
  "cookie_call_state cr c (CIssue r spiI remote) = fst (cookie_issue cr c r spiI remote)"
| "cookie_call_state cr c (CVerify r b spiI remote) = fst (cookie_verify cr c r b spiI remote)"

fun call_rotation :: "cookie_call \<Rightarrow> rotation" where
  "call_rotation (CIssue r _ _) = r"
| "call_rotation (CVerify r _ _ _) = r"

section \<open>Validity of a cookie\<close>

text \<open>What a secret in use at time \<open>t\<close> is until \<open>t\<close> plus the lifetime: the current secret, or the previous one with the rotation after \<open>t\<close>.\<close>

definition secret_alive :: "bytes \<Rightarrow> int \<Rightarrow> cookieState \<Rightarrow> bool" where
  "secret_alive k t c \<longleftrightarrow> cs_secret c = k \<or> cs_prevSecret c = k \<and> t \<le> cs_rotatedAt c"

definition within :: "int \<Rightarrow> rotation \<Rightarrow> bool" where
  "within t r = (case r of (now, later, _, ok) \<Rightarrow> t \<le> now \<and> now \<le> later \<and> now \<le> t + cookieSecretLifetime \<and> ok)"

lemma secrets_alive:
  "secret_alive k t c \<Longrightarrow> within t r \<Longrightarrow> secret_alive k t (fst (secrets c r))"
  by (cases r) (auto simp: secret_alive_def within_def secrets_def Let_def)

lemma call_alive: "secret_alive k t c \<Longrightarrow> within t (call_rotation x) \<Longrightarrow> secret_alive k t (cookie_call_state cr c x)"
  using secrets_alive[of k t c "call_rotation x"]
  by (cases x) (auto simp: cookie_issue_def cookie_verify_def split: prod.splits)

lemma calls_alive:
  "secret_alive k t c \<Longrightarrow> list_all (\<lambda>x. within t (call_rotation x)) xs \<Longrightarrow> secret_alive k t (foldl (cookie_call_state cr) c xs)"
  by (induction xs arbitrary: c) (auto intro: call_alive)

lemma secrets_alive_pair: "secrets c r = (c', cur, prev) \<Longrightarrow> secret_alive k t c \<Longrightarrow> within t r \<Longrightarrow> k = cur \<or> k = prev"
  using secrets_alive[of k t c r] by (auto simp: secret_alive_def secrets_def Let_def split: prod.splits)

text \<open>C37.  A cookie issued at time \<open>t\<close> is accepted from the same SPI and address at every time up to five minutes later, whatever cookies were
  issued and verified in between and however often the secret was due for rotation (each random read of the history
  succeeding).\<close>

theorem cookie_accepted:
  assumes "crypto_ok cr" "cookie_issue cr c (t, t', buf, True) spiI remote = (c', cookie)"
    and "list_all (\<lambda>x. within t (call_rotation x)) history" "within t r"
  shows "snd (cookie_verify cr (foldl (cookie_call_state cr) c' history) r cookie spiI remote)"
proof -
  obtain cur prev where s: "secrets c (t, t', buf, True) = (c', cur, prev)" "cookie = cookieHMAC cr cur spiI remote"
    using assms(2) by (auto simp: cookie_issue_def split: prod.splits)
  then have "secret_alive cur t c'" by (auto simp: secrets_def secret_alive_def Let_def split: if_splits)
  then have "secret_alive cur t (foldl (cookie_call_state cr) c' history)" using assms(3) by (rule calls_alive)
  moreover obtain c'' cur' prev' where v: "secrets (foldl (cookie_call_state cr) c' history) r = (c'', cur', prev')" by (metis prod_cases3)
  ultimately have "cur = cur' \<or> cur = prev'" using secrets_alive_pair assms(4) by blast
  moreover have "length cookie = 32" using assms(1) by (simp add: s(2) cookieHMAC_def crypto_ok_def)
  ultimately show ?thesis using v s(2) by (auto simp: cookie_verify_def)
qed

theorem cookie_accepted_witness:
  "let c = \<lparr>cs_secret = [1], cs_prevSecret = [1], cs_rotatedAt = 0\<rparr>;
       (c', cookie) = cookie_issue demo_crypto c (300000000000, 300000000000, [2], True) 7 ([10, 0, 0, 1], 500);
       c'' = foldl (cookie_call_state demo_crypto) c' [CIssue (300000000001, 300000000002, [3], True) 8 ([10, 0, 0, 2], 500)]
   in cs_secret c'' = [3] \<and> snd (cookie_verify demo_crypto c'' (600000000000, 600000000000, [4], True) cookie 7 ([10, 0, 0, 1], 500))"
  using cookie_accepted[OF demo_crypto_ok, of "\<lparr>cs_secret = [1], cs_prevSecret = [1], cs_rotatedAt = 0\<rparr>" 300000000000 300000000000 "[2]" 7
      "([10, 0, 0, 1], 500)" _ _ "[CIssue (300000000001, 300000000002, [3], True) 8 ([10, 0, 0, 2], 500)]" "(600000000000, 600000000000, [4], True)"]
  by (simp add: within_def cookieSecretLifetime_def cookie_issue_def secrets_def Let_def)

section \<open>Binding of a cookie\<close>

lemma natAddrBytes_length: "length ip = 4 \<or> length ip = 16 \<Longrightarrow> length (natAddrBytes ip) = 4 \<or> length (natAddrBytes ip) = 16"
  using length_To4[of ip] by (auto simp: natAddrBytes_def To16_def)

lemma natAddrBytes_eq:
  assumes "length a = 4 \<or> length a = 16" "length b = 4 \<or> length b = 16"
  shows "natAddrBytes a = natAddrBytes b \<longleftrightarrow> IP_Equal a b"
  using assms length_To4[of a] length_To4[of b]
  by (auto simp: natAddrBytes_def IP_Equal_def To16_def To4_def split: if_splits) (metis append_take_drop_id)

lemma port_inj: "m < 65536 \<Longrightarrow> n < 65536 \<Longrightarrow> (of_nat m :: u16) = of_nat n \<Longrightarrow> m = n"
  by (drule arg_cong[of _ _ unat]) (simp add: unat_of_nat take_bit_nat_eq_self)

lemma cookie_msg_eq:
  assumes "length (fst a) = 4 \<or> length (fst a) = 16" "length (fst b) = 4 \<or> length (fst b) = 16" "snd a < 65536" "snd b < 65536"
  shows "cookie_msg i a = cookie_msg j b \<longleftrightarrow> i = j \<and> IP_Equal (fst a) (fst b) \<and> snd a = snd b"
proof -
  have "cookie_msg i a = cookie_msg j b \<longleftrightarrow>
      be64 i = be64 j \<and> natAddrBytes (fst a) = natAddrBytes (fst b) \<and> be16 (of_nat (snd a)) = be16 (of_nat (snd b))"
    by (auto simp: cookie_msg_def)
  moreover have "be64 i = be64 j \<longleftrightarrow> i = j" by (metis uint64_be64(2))
  moreover have "be16 (of_nat (snd a)) = be16 (of_nat (snd b)) \<longleftrightarrow> snd a = snd b"
    using assms(3,4) by (metis port_inj uint16_be16(2))
  ultimately show ?thesis using natAddrBytes_eq[OF assms(1,2)] by simp
qed

definition is_addr :: "udp_addr \<Rightarrow> bool" where
  "is_addr a \<longleftrightarrow> (length (fst a) = 4 \<or> length (fst a) = 16) \<and> snd a < 65536"

text \<open>A cookie proves the address: one made with the secret \<open>k\<close> for an initiator SPI and address is accepted with another SPI or from another
  address only if HMAC-SHA256 gives the same value for these two different messages.\<close>

lemma cookie_bound_to_address:
  assumes "is_addr a" "is_addr b" "\<not> (i = j \<and> IP_Equal (fst a) (fst b) \<and> snd a = snd b)"
    and "snd (cookie_verify cr c r (cookieHMAC cr k i a) j b)"
  shows "cookie_msg i a \<noteq> cookie_msg j b \<and> (\<exists>k' \<in> {fst (snd (secrets c r)), snd (snd (secrets c r))}.
    cr_hmac cr SHA256 k (cookie_msg i a) = cr_hmac cr SHA256 k' (cookie_msg j b))"
  using assms cookie_msg_eq[of a b i j]
  by (auto simp: is_addr_def cookie_verify_def cookieHMAC_def split: if_splits prod.splits)

section \<open>NAT detection\<close>

text \<open>The request of an initiator has a zero responder SPI, and that is what its address hash covers.  The check uses the SPI that was
  just generated: it reports a NAT for an initiator without one, unless SHA-1 gives the same value for these two different inputs.\<close>

lemma zip_differs: "length u = length v \<Longrightarrow> list_ex (\<lambda>(x, y). x \<noteq> y) (zip u v) \<longleftrightarrow> u \<noteq> v"
  by (induction u v rule: list_induct2) auto

lemma detectNAT_without_nat:
  "detectNAT cr [\<lparr>nt_NotifyMessageType = NAT_DETECTION_SOURCE_IP,
      nt_NotificationData = natHash cr spiI 0 (fst remote) (of_nat (snd remote))\<rparr>] remote spiI spiR \<longleftrightarrow>
   natHash cr spiI 0 (fst remote) (of_nat (snd remote)) \<noteq> natHash cr spiI spiR (fst remote) (of_nat (snd remote))"
  by (auto simp: Let_def zip_differs)

lemma nat_hash_input_differs:
  "spiR \<noteq> 0 \<Longrightarrow> be64 spiI @ be64 0 @ natAddrBytes ip @ be16 port \<noteq> be64 spiI @ be64 spiR @ natAddrBytes ip @ be16 port"
  using uint64_be64(2)[of spiR] uint64_be64(2)[of 0] by fastforce

end
