(* ===== verification/IkeMessage.thy ===== *)
theory IkeMessage
  imports IkeProposal IkeCookie SwmClient PcoCodec
begin

text \<open>
  IKE messages as the responder reads and builds them: the payload chains of the three encrypted exchanges
  (\<^verbatim>\<open>parseAuthPayloads\<close>, \<^verbatim>\<open>parseChildSAPayloads\<close>, \<^verbatim>\<open>parseInfoPayloads\<close>), identities, AUTH values, the headers of encrypted messages,
  traffic selectors, configuration attributes and the keys of CHILD SAs and rekeyed IKE SAs (\<^verbatim>\<open>internal/ikev2/auth.go\<close>, \<^verbatim>\<open>inform.go\<close>,
  \<^verbatim>\<open>rekey.go\<close>).  The codec of single payloads is the third-party message library: the record \<open>ike_lib\<close> of its decoders, each of which
  may return an error or panic, and its encoders.

  Shown: the walk over a payload chain ends and finds exactly the payloads a chain was made of; the chains of IKE_AUTH and
  CREATE_CHILD_SA are read without a panic whatever the library does; the IMSI taken from a NAI is the one the AAA client takes
  from the same identity without its prefix; the four keys of a CHILD SA are consecutive pieces of the prf+ stream.
\<close>

section \<open>The message library\<close>

abbreviation (input) "TypeSA \<equiv> (33 :: byte)"
abbreviation (input) "TypeKE \<equiv> (34 :: byte)"
abbreviation (input) "TypeIDi \<equiv> (35 :: byte)"
abbreviation (input) "TypeIDr \<equiv> (36 :: byte)"
abbreviation (input) "TypeCERT \<equiv> (37 :: byte)"
abbreviation (input) "TypeAUTH \<equiv> (39 :: byte)"
abbreviation (input) "TypeNiNr \<equiv> (40 :: byte)"
abbreviation (input) "TypeN \<equiv> (41 :: byte)"
abbreviation (input) "TypeD \<equiv> (42 :: byte)"
abbreviation (input) "TypeTSi \<equiv> (44 :: byte)"
abbreviation (input) "TypeTSr \<equiv> (45 :: byte)"
abbreviation (input) "TypeSK \<equiv> (46 :: byte)"
abbreviation (input) "TypeCP \<equiv> (47 :: byte)"
abbreviation (input) "TypeEAP \<equiv> (48 :: byte)"
abbreviation (input) "IKE_SA_INIT \<equiv> (34 :: byte)"
abbreviation (input) "IKE_AUTH \<equiv> (35 :: byte)"
abbreviation (input) "CREATE_CHILD_SA \<equiv> (36 :: byte)"
abbreviation (input) "INFORMATIONAL \<equiv> (37 :: byte)"
abbreviation (input) "InitiatorBitCheck \<equiv> (0x08 :: byte)"
abbreviation (input) "ResponseBitCheck \<equiv> (0x20 :: byte)"
abbreviation (input) "INVALID_SYNTAX \<equiv> (7 :: u16)"
abbreviation (input) "NO_PROPOSAL_CHOSEN \<equiv> (14 :: u16)"
abbreviation (input) "INVALID_KE_PAYLOAD \<equiv> (17 :: u16)"
abbreviation (input) "AUTHENTICATION_FAILED \<equiv> (24 :: u16)"
abbreviation (input) "TEMPORARY_FAILURE \<equiv> (43 :: u16)"
abbreviation (input) "NAT_DETECTION_DESTINATION_IP \<equiv> (16389 :: u16)"
abbreviation (input) "COOKIE \<equiv> (16390 :: u16)"
abbreviation (input) "MOBIKE_SUPPORTED \<equiv> (16396 :: u16)"
abbreviation (input) "UPDATE_SA_ADDRESSES \<equiv> (16400 :: u16)"
abbreviation (input) "COOKIE2 \<equiv> (16401 :: u16)"
abbreviation (input) "ID_FQDN \<equiv> (2 :: byte)"
abbreviation (input) "ID_RFC822_ADDR \<equiv> (3 :: byte)"
abbreviation (input) "ID_KEY_ID \<equiv> (11 :: byte)"
abbreviation (input) "CFG_REQUEST \<equiv> (1 :: byte)"
abbreviation (input) "CFG_REPLY \<equiv> (2 :: byte)"
abbreviation (input) "INTERNAL_IP4_ADDRESS \<equiv> (1 :: u16)"
abbreviation (input) "INTERNAL_IP4_DNS \<equiv> (3 :: u16)"
abbreviation (input) "INTERNAL_IP6_DNS \<equiv> (10 :: u16)"
abbreviation (input) "internalIP4PCSCF \<equiv> (20 :: u16)"
abbreviation (input) "internalIP6PCSCF \<equiv> (21 :: u16)"
abbreviation (input) "RSADigitalSignature \<equiv> (1 :: byte)"
abbreviation (input) "authMethodSharedKey \<equiv> (2 :: byte)"
abbreviation (input) "certEncodingX509 \<equiv> (4 :: byte)"

record IKEHeader =
  ih_InitiatorSPI :: u64
  ih_ResponderSPI :: u64
  ih_NextPayload :: byte
  ih_ExchangeType :: byte
  ih_Flags :: byte
  ih_MessageID :: u32

type_synonym cfg_attr = "u16 \<times> bytes"

text \<open>A traffic selector over all ports and protocols is its first and last address.\<close>

datatype payload =
    PSA "Proposal list" | PKE u16 bytes | PNonce bytes | PNotify Notification | PIDr byte bytes | PCert byte bytes
  | PAuth byte bytes | PTSi bytes bytes | PTSr bytes bytes | PCP byte "cfg_attr list" | PRaw byte bytes | POther byte

fun payload_type :: "payload \<Rightarrow> byte" where
  "payload_type (PSA _) = TypeSA"
| "payload_type (PKE _ _) = TypeKE"
| "payload_type (PNonce _) = TypeNiNr"
| "payload_type (PNotify _) = TypeN"
| "payload_type (PIDr _ _) = TypeIDr"
| "payload_type (PCert _ _) = TypeCERT"
| "payload_type (PAuth _ _) = TypeAUTH"
| "payload_type (PTSi _ _) = TypeTSi"
| "payload_type (PTSr _ _) = TypeTSr"
| "payload_type (PCP _ _) = TypeCP"
| "payload_type (PRaw t _) = t"
| "payload_type (POther t) = t"

text \<open>What a decoder of the library may do.\<close>

datatype 'a decoded = Done 'a | DecodeError | DecodePanic

record ike_lib =
  lib_ParseHeader :: "bytes \<Rightarrow> IKEHeader option"
  lib_DecodePayload :: "IKEHeader \<Rightarrow> bytes \<Rightarrow> payload list decoded"
  lib_ID :: "bytes \<Rightarrow> (byte \<times> bytes) decoded"
  lib_AUTH :: "bytes \<Rightarrow> (byte \<times> bytes) decoded"
  lib_SA :: "bytes \<Rightarrow> Proposal list decoded"
  lib_KE :: "bytes \<Rightarrow> (u16 \<times> bytes) decoded"
  lib_Nonce :: "bytes \<Rightarrow> bytes decoded"
  lib_TS :: "bytes \<Rightarrow> unit decoded"
  lib_CP :: "bytes \<Rightarrow> (byte \<times> cfg_attr list) decoded"
  lib_Notify :: "bytes \<Rightarrow> Notification decoded"
  lib_Delete :: "bytes \<Rightarrow> (byte \<times> u32 list) decoded"
  lib_EncodePayloads :: "payload list \<Rightarrow> bytes option"
  lib_EncodeInitMessage :: "u64 \<Rightarrow> u64 \<Rightarrow> u32 \<Rightarrow> payload list \<Rightarrow> bytes option"

text \<open>The recovered call: a panic of the decoder is an error.\<close>

definition safePayloadUnmarshal :: "'a decoded \<Rightarrow> 'a option" where
  "safePayloadUnmarshal d = (case d of Done x \<Rightarrow> Some x | DecodeError \<Rightarrow> None | DecodePanic \<Rightarrow> None)"

section \<open>Payload chains\<close>

text \<open>The loop the three parsers share: the payloads found, and whether the chain ended without a framing error.\<close>

function walk_payloads :: "byte \<Rightarrow> bytes \<Rightarrow> (byte \<times> bytes) list \<times> bool" where
  "walk_payloads curType plain =
     (if curType = 0 \<or> plain = [] then ([], True)
      else if length plain < 4 then ([], False)
      else let payloadLen = unat (uint16 (drop 2 plain)) in
           if payloadLen < 4 \<or> payloadLen > length plain then ([], False)
           else case walk_payloads (plain ! 0) (drop payloadLen plain) of
                  (rest, ok) \<Rightarrow> ((curType, take (payloadLen - 4) (drop 4 plain)) # rest, ok))"
  by auto
termination by (relation "measure (\<lambda>(_, plain). length plain)") auto

declare walk_payloads.simps [simp del]

datatype parse_error = FramingError | BadPayload byte | NotifyTooShort | NotifySPISize

record authPayloads =
  ax_idi :: "(byte \<times> bytes) option"
  ax_idr :: "(byte \<times> bytes) option"
  ax_auth :: "(byte \<times> bytes) option"
  ax_sa :: "Proposal list option"
  ax_tsi :: bool
  ax_tsr :: bool
  ax_cp :: "(byte \<times> cfg_attr list) option"
  ax_eapRaw :: bytes
  ax_notifies :: "Notification list"

definition no_auth_payloads :: authPayloads where
  "no_auth_payloads = \<lparr>ax_idi = None, ax_idr = None, ax_auth = None, ax_sa = None, ax_tsi = False, ax_tsr = False, ax_cp = None,
     ax_eapRaw = [], ax_notifies = []\<rparr>"

definition decode_as :: "byte \<Rightarrow> 'a decoded \<Rightarrow> ('a \<Rightarrow> 'r) \<Rightarrow> parse_error + 'r" where
  "decode_as t d k = (case safePayloadUnmarshal d of None \<Rightarrow> Inl (BadPayload t) | Some x \<Rightarrow> Inr (k x))"

definition auth_payload :: "ike_lib \<Rightarrow> byte \<times> bytes \<Rightarrow> authPayloads \<Rightarrow> parse_error + authPayloads" where
  "auth_payload lib = (\<lambda>(t, body) r.
     if t = TypeIDi then decode_as t (lib_ID lib body) (\<lambda>pl. r\<lparr>ax_idi := Some pl\<rparr>)
     else if t = TypeIDr then decode_as t (lib_ID lib body) (\<lambda>pl. r\<lparr>ax_idr := Some pl\<rparr>)
     else if t = TypeAUTH then decode_as t (lib_AUTH lib body) (\<lambda>pl. r\<lparr>ax_auth := Some pl\<rparr>)
     else if t = TypeSA then decode_as t (lib_SA lib body) (\<lambda>pl. r\<lparr>ax_sa := Some pl\<rparr>)
     else if t = TypeTSi then decode_as t (lib_TS lib body) (\<lambda>pl. r\<lparr>ax_tsi := True\<rparr>)
     else if t = TypeTSr then decode_as t (lib_TS lib body) (\<lambda>pl. r\<lparr>ax_tsr := True\<rparr>)
     else if t = TypeCP then decode_as t (lib_CP lib body) (\<lambda>pl. r\<lparr>ax_cp := Some pl\<rparr>)
     else if t = TypeEAP then Inr (r\<lparr>ax_eapRaw := body\<rparr>)
     else if t = TypeN then
       (if length body < 4 then Inl NotifyTooShort
        else if unat (body ! 1) > length body - 4 then Inl NotifySPISize
        else decode_as t (lib_Notify lib body) (\<lambda>pl. r\<lparr>ax_notifies := ax_notifies r @ [pl]\<rparr>))
     else Inr r)"

fun auth_payloads :: "ike_lib \<Rightarrow> (byte \<times> bytes) list \<Rightarrow> authPayloads \<Rightarrow> parse_error + authPayloads" where
  "auth_payloads lib [] r = Inr r"
| "auth_payloads lib (p # ps) r = res_bind (auth_payload lib p r) (auth_payloads lib ps)"

definition parseAuthPayloads :: "ike_lib \<Rightarrow> byte \<Rightarrow> bytes \<Rightarrow> parse_error + authPayloads" where
  "parseAuthPayloads lib firstType plain =
     (case walk_payloads firstType plain of
        (ps, ok) \<Rightarrow> res_bind (auth_payloads lib ps no_auth_payloads) (\<lambda>r. if ok then Inr r else Inl FramingError))"

record childSAPayloads =
  cx_sa :: "Proposal list option"
  cx_nonce :: "bytes option"
  cx_ke :: "(u16 \<times> bytes) option"
  cx_tsi :: bool
  cx_tsr :: bool

definition no_child_payloads :: childSAPayloads where
  "no_child_payloads = \<lparr>cx_sa = None, cx_nonce = None, cx_ke = None, cx_tsi = False, cx_tsr = False\<rparr>"

text \<open>Here a payload that cannot be decoded is passed over.\<close>

definition child_payload :: "ike_lib \<Rightarrow> childSAPayloads \<Rightarrow> byte \<times> bytes \<Rightarrow> childSAPayloads" where
  "child_payload lib r = (\<lambda>(t, body).
     if t = TypeSA then (case safePayloadUnmarshal (lib_SA lib body) of None \<Rightarrow> r | Some pl \<Rightarrow> r\<lparr>cx_sa := Some pl\<rparr>)
     else if t = TypeNiNr then (case safePayloadUnmarshal (lib_Nonce lib body) of None \<Rightarrow> r | Some pl \<Rightarrow> r\<lparr>cx_nonce := Some pl\<rparr>)
     else if t = TypeKE then (case safePayloadUnmarshal (lib_KE lib body) of None \<Rightarrow> r | Some pl \<Rightarrow> r\<lparr>cx_ke := Some pl\<rparr>)
     else if t = TypeTSi then (case safePayloadUnmarshal (lib_TS lib body) of None \<Rightarrow> r | Some pl \<Rightarrow> r\<lparr>cx_tsi := True\<rparr>)
     else if t = TypeTSr then (case safePayloadUnmarshal (lib_TS lib body) of None \<Rightarrow> r | Some pl \<Rightarrow> r\<lparr>cx_tsr := True\<rparr>)
     else r)"

definition parseChildSAPayloads :: "ike_lib \<Rightarrow> byte \<Rightarrow> bytes \<Rightarrow> childSAPayloads" where
  "parseChildSAPayloads lib firstType plain = foldl (child_payload lib) no_child_payloads (fst (walk_payloads firstType plain))"

record infoPayloads =
  in_deleteIKE :: bool
  in_deleteESPSPIs :: "u32 list"
  in_hasUpdateSA :: bool
  in_cookie2 :: bytes

definition no_info_payloads :: infoPayloads where
  "no_info_payloads = \<lparr>in_deleteIKE = False, in_deleteESPSPIs = [], in_hasUpdateSA = False, in_cookie2 = []\<rparr>"

text \<open>The Delete payload is decoded without the recovery: \<^term>\<open>None\<close> is the panic.\<close>

definition info_payload :: "ike_lib \<Rightarrow> byte \<times> bytes \<Rightarrow> infoPayloads \<Rightarrow> infoPayloads option" where
  "info_payload lib = (\<lambda>(t, body) r.
     if t = TypeD then
       (case lib_Delete lib body of
          DecodePanic \<Rightarrow> None
        | DecodeError \<Rightarrow> Some r
        | Done (proto, spis) \<Rightarrow>
            Some (if proto = TypeIKE then r\<lparr>in_deleteIKE := True\<rparr>
                  else if proto = TypeESP then r\<lparr>in_deleteESPSPIs := in_deleteESPSPIs r @ spis\<rparr>
                  else r))
     else if t = TypeN \<and> length body \<ge> 4 then
       (let notifyType = uint16 (drop 2 body); dataOff = 4 + unat (body ! 1) in
        Some (if notifyType = UPDATE_SA_ADDRESSES then r\<lparr>in_hasUpdateSA := True\<rparr>
              else if notifyType = COOKIE2 \<and> dataOff \<le> length body then r\<lparr>in_cookie2 := drop dataOff body\<rparr>
              else r))
     else Some r)"

fun info_payloads :: "ike_lib \<Rightarrow> (byte \<times> bytes) list \<Rightarrow> infoPayloads \<Rightarrow> infoPayloads option" where
  "info_payloads lib [] r = Some r"
| "info_payloads lib (p # ps) r = (case info_payload lib p r of None \<Rightarrow> None | Some r' \<Rightarrow> info_payloads lib ps r')"

definition parseInfoPayloads :: "ike_lib \<Rightarrow> byte \<Rightarrow> bytes \<Rightarrow> infoPayloads option" where
  "parseInfoPayloads lib firstType plain = info_payloads lib (fst (walk_payloads firstType plain)) no_info_payloads"

section \<open>Identities\<close>

definition permanentIMSIFromNAI :: "string \<Rightarrow> string" where
  "permanentIMSIFromNAI raw =
     (let loc = takeWhile (\<lambda>c. c \<noteq> CHR ''@'') raw in
      if loc = [] \<or> (hd loc \<noteq> CHR ''0'' \<and> hd loc \<noteq> CHR ''6'') then ''''
      else let digits = tl loc in
           if length digits < 6 \<or> length digits > 15 then ''''
           else if list_all is_digit digits then digits else '''')"

datatype nai_error = EmptyIDi | UnsupportedIDi byte

definition extractNAI :: "byte \<times> bytes \<Rightarrow> nai_error + string \<times> string" where
  "extractNAI idi = (case idi of (idType, idData) \<Rightarrow>
     if idData = [] then Inl EmptyIDi
     else if idType \<notin> {ID_FQDN, ID_RFC822_ADDR, ID_KEY_ID} then Inl (UnsupportedIDi idType)
     else Inr (bytes_str idData, permanentIMSIFromNAI (bytes_str idData)))"

definition extractAPN :: "byte \<times> bytes \<Rightarrow> string" where
  "extractAPN idr = (let fqdn = bytes_str (snd idr); label = takeWhile (\<lambda>c. c \<noteq> CHR ''.'') fqdn in
     if label \<noteq> [] \<and> CHR ''.'' \<in> set fqdn then label else fqdn)"

section \<open>AUTH values\<close>

definition prfMAC :: "crypto \<Rightarrow> prfAlg \<Rightarrow> bytes \<Rightarrow> bytes \<Rightarrow> bytes" where
  "prfMAC cr p key data = prf_New cr p key data"

definition computeEAPAUTH :: "crypto \<Rightarrow> prfAlg \<Rightarrow> bytes \<Rightarrow> bytes \<Rightarrow> bytes" where
  "computeEAPAUTH cr p msk signedOctets =
     prfMAC cr p (prfMAC cr p msk (str_bytes ''Key Pad for IKEv2'')) signedOctets"

definition buildIDAuthBytes :: "byte \<Rightarrow> bytes \<Rightarrow> bytes" where
  "buildIDAuthBytes idType idData = [idType, 0, 0, 0] @ idData"

text \<open>The accumulated difference of \<^verbatim>\<open>constEqual\<close>.\<close>

definition constEqual :: "bytes \<Rightarrow> bytes \<Rightarrow> bool" where
  "constEqual a b = (if length a \<noteq> length b then False else foldl (\<lambda>diff (x, y). diff OR (x XOR y)) 0 (zip a b) = 0)"

section \<open>Headers of encrypted messages\<close>

definition ike_header_bytes :: "byte \<Rightarrow> u64 \<Rightarrow> u64 \<Rightarrow> byte \<Rightarrow> u32 \<Rightarrow> nat \<Rightarrow> bytes" where
  "ike_header_bytes flags spiI spiR exchType msgID totalLen =
     be64 spiI @ be64 spiR @ [TypeSK, 0x20, exchType, flags] @ be32 msgID @ be32 (of_nat totalLen)"

definition buildIKEHeaderBytes :: "u64 \<Rightarrow> u64 \<Rightarrow> byte \<Rightarrow> u32 \<Rightarrow> nat \<Rightarrow> bytes" where
  "buildIKEHeaderBytes = ike_header_bytes ResponseBitCheck"

definition buildIKERequestHeaderBytes :: "u64 \<Rightarrow> u64 \<Rightarrow> byte \<Rightarrow> u32 \<Rightarrow> nat \<Rightarrow> bytes" where
  "buildIKERequestHeaderBytes = ike_header_bytes 0"

section \<open>Traffic selectors and configuration attributes\<close>

definition buildTSResponse :: "net_ip \<Rightarrow> payload list" where
  "buildTSResponse paa =
     (if To4 paa \<noteq> [] then PTSi (To4 paa) (To4 paa) else PTSi [0, 0, 0, 0] [255, 255, 255, 255]) #
     [PTSr [0, 0, 0, 0] [255, 255, 255, 255]]"

definition v4_attrs :: "bool \<Rightarrow> u16 \<Rightarrow> net_ip list \<Rightarrow> cfg_attr list" where
  "v4_attrs requested t ips = (if requested then map (Pair t) (filter (\<lambda>a. a \<noteq> []) (map To4 ips)) else [])"

definition v6_attrs :: "bool \<Rightarrow> u16 \<Rightarrow> net_ip list \<Rightarrow> cfg_attr list" where
  "v6_attrs requested t ips = (if requested then map (Pair t) (filter (\<lambda>a. a \<noteq> []) (map To16 ips)) else [])"

definition appendDNSFromPCO :: "Decoded option \<Rightarrow> PCOConfig \<Rightarrow> cfg_attr list" where
  "appendDNSFromPCO decoded cfg = (case decoded of None \<Rightarrow> []
     | Some d \<Rightarrow> v4_attrs (pc_RequestDNSv4 cfg) INTERNAL_IP4_DNS (dec_DNSv4 d) @ v6_attrs (pc_RequestDNSv6 cfg) INTERNAL_IP6_DNS (dec_DNSv6 d))"

definition appendPCSCFFromPCO :: "Decoded option \<Rightarrow> PCOConfig \<Rightarrow> cfg_attr list" where
  "appendPCSCFFromPCO decoded cfg = (case decoded of None \<Rightarrow> []
     | Some d \<Rightarrow> v4_attrs (pc_RequestPCSCFv4 cfg) internalIP4PCSCF (dec_PCSCFv4 d) @ v6_attrs (pc_RequestPCSCFv6 cfg) internalIP6PCSCF (dec_PCSCFv6 d))"

section \<open>Keys\<close>

text \<open>The order of the pieces is \<^verbatim>\<open>encrIn\<close>, \<^verbatim>\<open>integIn\<close>, \<^verbatim>\<open>encrOut\<close>, \<^verbatim>\<open>integOut\<close>; \<^term>\<open>None\<close> when \<^verbatim>\<open>prfPlus\<close> does not end.\<close>

type_synonym child_keys = "bytes \<times> bytes \<times> bytes \<times> bytes"

definition child_pieces :: "nat \<Rightarrow> nat \<Rightarrow> bytes \<Rightarrow> child_keys" where
  "child_pieces e i keymat = (take e keymat, take i (drop e keymat), take e (drop (e + i) keymat), take i (drop (e + i + e) keymat))"

definition deriveChildSAKeys :: "crypto \<Rightarrow> ikeSAKey \<Rightarrow> bytes \<Rightarrow> bytes \<Rightarrow> nat \<Rightarrow> nat \<Rightarrow> child_keys option" where
  "deriveChildSAKeys cr saKey nonceI nonceR encrKeyLen intKeyLen =
     map_option (child_pieces encrKeyLen intKeyLen)
       (prfPlus (prf_New cr (sk_prf saKey) (SK_d saKey)) (nonceI @ nonceR) (2 * (encrKeyLen + intKeyLen)))"

definition deriveChildSAKeysPFS :: "crypto \<Rightarrow> ikeSAKey \<Rightarrow> bytes \<Rightarrow> bytes \<Rightarrow> bytes \<Rightarrow> nat \<Rightarrow> nat \<Rightarrow> child_keys option" where
  "deriveChildSAKeysPFS cr saKey dhShared nonceI nonceR encrKeyLen intKeyLen =
     map_option (child_pieces encrKeyLen intKeyLen)
       (prfPlus (prf_New cr (sk_prf saKey) (SK_d saKey)) (dhShared @ nonceI @ nonceR) (2 * (encrKeyLen + intKeyLen)))"

definition fresh_key :: "negotiatedProposal \<Rightarrow> ikeSAKey" where
  "fresh_key p = \<lparr>sk_dh = np_dh p, sk_encr = np_encr p, sk_integ = np_integ p, sk_prf = np_prf p,
     SK_d = [], SK_ai = [], SK_ar = [], SK_ei = [], SK_er = [], SK_pi = [], SK_pr = []\<rparr>"

definition deriveIKERekeyKeys :: "crypto \<Rightarrow> ikeSAKey \<Rightarrow> negotiatedProposal \<Rightarrow> bytes \<Rightarrow> bytes \<Rightarrow> bytes \<Rightarrow> u64 \<Rightarrow> u64 \<Rightarrow> ikeSAKey option" where
  "deriveIKERekeyKeys cr oldKey newProp dhShared nonceI nonceR newSPII newSPIR =
     (let skeyseed = prf_New cr (np_prf newProp) (SK_d oldKey) (dhShared @ nonceI @ nonceR);
          seed = nonceI @ nonceR @ be64 newSPII @ be64 newSPIR;
          i = integKeyLen (np_integ newProp); e = encr_KeyLen (np_encr newProp); p = pr_keyLen (np_prf newProp)
      in case prfPlus (prf_New cr (np_prf newProp) skeyseed) seed (p + i * 2 + e * 2 + p * 2) of
           None \<Rightarrow> None
         | Some keymat \<Rightarrow>
             Some ((fresh_key newProp)
                   \<lparr>SK_d := take p keymat,
                    SK_ai := take i (drop p keymat),
                    SK_ar := take i (drop (p + i) keymat),
                    SK_ei := take e (drop (p + i + i) keymat),
                    SK_er := take e (drop (p + i + i + e) keymat),
                    SK_pi := take p (drop (p + i + i + e + e) keymat),
                    SK_pr := take p (drop (p + i + i + e + e + p) keymat)\<rparr>))"

section \<open>Chains are read as they were written\<close>

text \<open>A chain as RFC 7296 section 3.2 lays it out: each generic header names the type of the next payload.\<close>

fun first_type :: "(byte \<times> bytes) list \<Rightarrow> byte" where
  "first_type [] = 0"
| "first_type ((t, _) # _) = t"

fun chain_bytes :: "(byte \<times> bytes) list \<Rightarrow> bytes" where
  "chain_bytes [] = []"
| "chain_bytes ((_, body) # ps) = [first_type ps, 0] @ be16 (of_nat (length body + 4)) @ body @ chain_bytes ps"

definition chain_ok :: "(byte \<times> bytes) list \<Rightarrow> bool" where
  "chain_ok ps = list_all (\<lambda>(t, body). t \<noteq> 0 \<and> length body + 4 < 65536) ps"

lemma walk_chain: "chain_ok ps \<Longrightarrow> walk_payloads (first_type ps) (chain_bytes ps) = (ps, True)"
proof (induction ps rule: chain_bytes.induct)
  case 1
  show ?case by (simp add: walk_payloads.simps)
next
  case (2 t body ps)
  define w where "w = (of_nat (length body + 4) :: u16)"
  obtain x y where xy: "be16 w = [x, y]" by (simp add: be16_def)
  have "uint16 (x # y # r) = w" for r using uint16_be16(1)[of w r] by (simp only: xy append.simps)
  moreover have "unat w = length body + 4"
    using 2(2) unat_of_nat_u16[of "length body + 4"] by (simp only: w_def chain_ok_def) simp
  ultimately have len: "unat (uint16 (x # y # r)) = length body + 4" for r by simp
  have dr: "drop (length body + 4) (a # b # x # y # body @ r) = r" for a b r by (simp add: eval_nat_numeral)
  from 2 show ?case
    by (subst walk_payloads.simps) (simp add: chain_ok_def xy len dr flip: w_def del: of_nat_add uint16.simps)
qed

text \<open>C40.  Payload chains are read back: the parsers of IKE_AUTH, CREATE_CHILD_SA and INFORMATIONAL see exactly the payloads a well-formed chain
  was made of, in order, each with its type and its body.\<close>

theorem payload_chains_read_back:
  assumes "chain_ok ps"
  shows "parseAuthPayloads lib (first_type ps) (chain_bytes ps) = auth_payloads lib ps no_auth_payloads \<and>
    parseChildSAPayloads lib (first_type ps) (chain_bytes ps) = foldl (child_payload lib) no_child_payloads ps \<and>
    parseInfoPayloads lib (first_type ps) (chain_bytes ps) = info_payloads lib ps no_info_payloads"
  using walk_chain[OF assms]
  by (auto simp: parseAuthPayloads_def parseChildSAPayloads_def parseInfoPayloads_def res_bind_def split: sum.splits)

definition demo_lib :: ike_lib where
  "demo_lib = \<lparr>lib_ParseHeader = (\<lambda>b. Some \<lparr>ih_InitiatorSPI = uint64 b, ih_ResponderSPI = uint64 (drop 8 b), ih_NextPayload = b ! 16,
       ih_ExchangeType = b ! 18, ih_Flags = b ! 19, ih_MessageID = uint32 (drop 20 b)\<rparr>),
     lib_DecodePayload = (\<lambda>h b. DecodeError), lib_ID = (\<lambda>b. Done (hd b, drop 4 b)), lib_AUTH = (\<lambda>b. Done (hd b, drop 4 b)),
     lib_SA = (\<lambda>b. Done (buildESPSAResponse (esp_prop encrAesGcm16_256 None None) 1 (uint32 b))), lib_KE = (\<lambda>b. Done (uint16 b, drop 4 b)),
     lib_Nonce = Done, lib_TS = (\<lambda>b. Done ()), lib_CP = (\<lambda>b. Done (hd b, [])), lib_Notify = (\<lambda>b. DecodePanic),
     lib_Delete = (\<lambda>b. Done (hd b, if length b < 8 then [] else [uint32 (drop 4 b)])), lib_EncodePayloads = (\<lambda>ps. Some (map payload_type ps)),
     lib_EncodeInitMessage = (\<lambda>spiI spiR msgID ps. Some (be64 spiI @ be64 spiR @ map payload_type ps))\<rparr>"

theorem payload_chains_read_back_witness:
  "parseInfoPayloads demo_lib TypeD (chain_bytes [(TypeD, [3, 4, 0, 1, 0, 0, 0, 9]), (TypeN, [0, 0, 64, 16])]) =
     Some \<lparr>in_deleteIKE = False, in_deleteESPSPIs = [9], in_hasUpdateSA = True, in_cookie2 = []\<rparr>"
  using payload_chains_read_back[of "[(TypeD, [3, 4, 0, 1, 0, 0, 0, 9]), (TypeN, [0, 0, 64, 16])]" demo_lib]
  by (simp add: chain_ok_def info_payload_def demo_lib_def no_info_payloads_def)

section \<open>Identities\<close>

text \<open>The IMSI of a permanent identity: what the AAA client makes of the user name without its leading method digit.\<close>

lemma permanentIMSI_agree:
  "permanentIMSIFromNAI raw =
     (if raw \<noteq> [] \<and> hd raw \<in> {CHR ''0'', CHR ''6''} then case permanentIMSIFromUserName (tl raw) of Some imsi \<Rightarrow> imsi | None \<Rightarrow> '''' else '''')"
  by (cases raw) (auto simp: permanentIMSIFromNAI_def permanentIMSIFromUserName_def Let_def)

lemma permanentIMSI_shape:
  "permanentIMSIFromNAI raw \<noteq> '''' \<Longrightarrow>
     list_all is_digit (permanentIMSIFromNAI raw) \<and> length (permanentIMSIFromNAI raw) \<in> {6..15} \<and> hd raw \<in> {CHR ''0'', CHR ''6''}"
  by (cases raw) (auto simp: permanentIMSIFromNAI_def Let_def split: if_splits)

lemma or_zero_iff: "a OR b = 0 \<longleftrightarrow> a = 0 \<and> (b :: 'a::len word) = 0"
  by (auto simp: or_eq_0_iff)

lemma constEqual_iff: "constEqual a b \<longleftrightarrow> a = b"
proof -
  have "foldl (\<lambda>diff (x, y). diff OR (x XOR y)) d (zip a b) = 0 \<longleftrightarrow> d = 0 \<and> a = b" if "length a = length b" for d
    using that
  proof (induction a b arbitrary: d rule: list_induct2)
    case (Cons x xs y ys)
    have "x XOR y = 0 \<longleftrightarrow> x = y" by (metis xor.assoc xor.left_neutral xor_self_eq)
    with Cons show ?case by (auto simp: or_zero_iff)
  qed simp
  then show ?thesis by (auto simp: constEqual_def)
qed

section \<open>Keys\<close>

lemma prf_keymat:
  assumes "crypto_ok cr"
  obtains km where "prfPlus (prf_New cr p k) seed n = Some km" "length km = n"
proof -
  have "n \<le> n * hash_len (pr_hash p)" using hash_len_pos by (simp add: Suc_le_eq)
  moreover have "length (concat (map (prf_T (prf_New cr p k) seed) [1..<Suc n])) = n * hash_len (pr_hash p)"
    by (rule length_prf_blocks[OF prf_New_length[OF assms]])
  ultimately show thesis
    by (intro that[OF prfPlus_blocks[OF prf_New_length[OF assms] hash_len_pos]]) (simp only: length_take min_absorb2)
qed

lemma child_pieces_cut:
  "length km = 2 * (e + i) \<Longrightarrow> child_pieces e i km = (a, b, c, d) \<Longrightarrow>
     a @ b @ c @ d = km \<and> length a = e \<and> length b = i \<and> length c = e \<and> length d = i"
  by (auto simp: child_pieces_def take_drop_step)

lemma child_pieces_lengths:
  "length km = 2 * (e + i) \<Longrightarrow> \<exists>a b c d. child_pieces e i km = (a, b, c, d) \<and> length a = e \<and> length b = i \<and> length c = e \<and> length d = i"
  by (simp add: child_pieces_def)

lemma deriveChildSAKeys_returns:
  assumes "crypto_ok cr"
  shows "\<exists>a b c d. deriveChildSAKeys cr k nI nR e i = Some (a, b, c, d) \<and> length a = e \<and> length b = i \<and> length c = e \<and> length d = i"
    and "\<exists>a b c d. deriveChildSAKeysPFS cr k sh nI nR e i = Some (a, b, c, d) \<and> length a = e \<and> length b = i \<and> length c = e \<and> length d = i"
proof -
  obtain km where "prfPlus (prf_New cr (sk_prf k) (SK_d k)) (nI @ nR) (2 * (e + i)) = Some km" "length km = 2 * (e + i)"
    by (rule prf_keymat[OF assms])
  then show "\<exists>a b c d. deriveChildSAKeys cr k nI nR e i = Some (a, b, c, d) \<and> length a = e \<and> length b = i \<and> length c = e \<and> length d = i"
    using child_pieces_lengths[of km e i] by (simp add: deriveChildSAKeys_def)
  obtain km' where "prfPlus (prf_New cr (sk_prf k) (SK_d k)) (sh @ nI @ nR) (2 * (e + i)) = Some km'" "length km' = 2 * (e + i)"
    by (rule prf_keymat[OF assms])
  then show "\<exists>a b c d. deriveChildSAKeysPFS cr k sh nI nR e i = Some (a, b, c, d) \<and> length a = e \<and> length b = i \<and> length c = e \<and> length d = i"
    using child_pieces_lengths[of km' e i] by (simp add: deriveChildSAKeysPFS_def)
qed

lemma deriveIKERekeyKeys_returns:
  assumes "crypto_ok cr"
  shows "\<exists>k. deriveIKERekeyKeys cr old prop sh nI nR i r = Some k \<and> sk_encr k = np_encr prop \<and> sk_integ k = np_integ prop \<and> sk_prf k = np_prf prop \<and>
    length (SK_ei k) = encr_KeyLen (np_encr prop) \<and> length (SK_er k) = encr_KeyLen (np_encr prop)"
proof -
  let ?n = "pr_keyLen (np_prf prop) + integKeyLen (np_integ prop) * 2 + encr_KeyLen (np_encr prop) * 2 + pr_keyLen (np_prf prop) * 2"
  obtain km where "prfPlus (prf_New cr (np_prf prop) (prf_New cr (np_prf prop) (SK_d old) (sh @ nI @ nR)))
      (nI @ nR @ be64 i @ be64 r) ?n = Some km" "length km = ?n"
    by (rule prf_keymat[OF assms])
  then show ?thesis by (simp add: deriveIKERekeyKeys_def Let_def fresh_key_def)
qed

end
