(* ===== verification/IkeServer.thy ===== *)
theory IkeServer
  imports IkeMessage Xfrm PgwDiscovery S2bClient GtpuDataplane "HOL-Library.AList"
begin

text \<open>
  The state of the IKEv2 responder and its first exchange (\<^verbatim>\<open>internal/ikev2/sa.go\<close>, \<^verbatim>\<open>server.go\<close>, \<^verbatim>\<open>init.go\<close>) with the helpers that send
  encrypted messages (\<^verbatim>\<open>auth.go\<close>, \<^verbatim>\<open>inform.go\<close>) and the reaper of half-open SAs.  The record \<open>ike_world\<close> holds the SA table and the state of the components
  the responder drives: sessions, dataplane, S2b and SWm clients, kernel IPsec state.  A handler runs to its end before the next one starts
  (each SA is locked by its handler in the source); it takes the readings of the clock, the random reads and the answers of the peers from the
  record \<open>ike_io\<close>.  The result \<^term>\<open>None\<close> is a panic, which ends the process.  The SA a handler works on is the entry of the table with its
  initiator SPI.  The dependencies of the server are those the main program sets; log output is not modelled.

  Shown: under load no SA is created without a valid cookie, the table never grows beyond its bound, a retransmitted request is answered from
  the stored SA without any other effect, expired half-open SAs and only those are removed.
\<close>

section \<open>State\<close>

datatype ikeState = ikeStateInit | ikeStateAuth | ikeStateEstablished | ikeStateDeleting

text \<open>Times are nanoseconds; the zero time of \<^verbatim>\<open>dpdSentAt\<close> is \<^term>\<open>None\<close>, as are \<^verbatim>\<open>nil\<close> pointers; a \<^verbatim>\<open>nil\<close> address or slice is the empty list.\<close>

record ikeSA =
  sa_spiI :: u64
  sa_spiR :: u64
  sa_remoteAddr :: udp_addr
  sa_natT :: bool
  sa_nonceI :: bytes
  sa_nonceR :: bytes
  sa_proposal :: negotiatedProposal
  sa_saKey :: ikeSAKey
  sa_dhPriv :: "dhPriv option"
  sa_dhPub :: bytes
  sa_initReqRaw :: bytes
  sa_initRespRaw :: bytes
  sa_state :: ikeState
  sa_createdAt :: int
  sa_lastSeen :: int
  sa_ourMsgID :: u32
  sa_dpdMsgID :: u32
  sa_dpdSentAt :: "int option"
  sa_eapRound :: nat
  sa_swmSessionID :: string
  sa_imsi :: string
  sa_nai :: string
  sa_apn :: string
  sa_msk :: bytes
  sa_eapChallengeMsgID :: u32
  sa_eapChallengePayload :: bytes
  sa_mobikeEnabled :: bool
  sa_cookie2 :: "bytes option"
  sa_handoverIP :: net_ip
  sa_espProp :: "childProposal option"
  sa_espPropNum :: byte
  sa_peerESPSPI :: u32
  sa_localESPSPI :: u32
  sa_cpWantsIP :: bool
  sa_pendingESPProp :: "childProposal option"
  sa_pendingESPPropNum :: byte
  sa_pendingPeerESPSPI :: u32
  sa_pendingLocalESPSPI :: u32
  sa_pendingNonceI :: bytes
  sa_pendingNonceR :: bytes
  sa_idiAuthBytes :: bytes
  sa_sessionID :: string
  sa_localIP :: net_ip

text \<open>A datagram handed to a socket, with the local address of the socket.\<close>

type_synonym sent = "udp_addr \<times> datagram"

record 'k ike_world =
  iw_sas :: "(u64 \<times> ikeSA) list"
  iw_cookies :: cookieState
  iw_sessions :: Manager
  iw_gtpu :: dplane
  iw_s2b :: s2b_client
  iw_swm :: swm_client
  iw_xfrm :: "'k xfrm"
  iw_sent :: "sent list"
  iw_s2bSent :: "datagram list"

text \<open>What does not change: libraries, configuration, certificate with the signing of its key, the IPv4 sockets.\<close>

record 'k ike_env =
  ie_crypto :: crypto
  ie_lib :: ike_lib
  ie_nl :: "'k netlink"
  ie_genv :: genv
  ie_cfg :: Config
  ie_certDER :: bytes
  ie_sign :: "bytes \<Rightarrow> bytes option"
  ie_conn500 :: udp_addr
  ie_conn4500 :: udp_addr

text \<open>What one run of a handler reads from its environment: clock, random bytes (\<^term>\<open>None\<close> for a failed read), the address the
  routing picks, the order in which the session table is visited, and the outcomes of the SWm and S2b exchanges and of the DNS lookups.\<close>

record ike_io =
  io_now :: int
  io_verify :: rotation
  io_issue :: rotation
  io_spi8 :: "bytes option"
  io_nonce :: "bytes option"
  io_dhInt :: "nat option"
  io_dhKey :: "bytes option"
  io_spi4 :: "bytes option"
  io_cookie2 :: "bytes option"
  io_iv :: "bytes option"
  io_localIP :: "net_ip option"
  io_order :: "string list"
  io_swmNano :: int
  io_swmOpened :: "swm_error option"
  io_swmExchange :: "DMessage \<Rightarrow> swm_error + DMessage"
  io_strOpened :: "swm_error option"
  io_strExchange :: "DMessage \<Rightarrow> swm_error + DMessage"
  io_createWr :: "nat \<Rightarrow> bool"
  io_createWait :: "nat \<Rightarrow> wait_outcome"
  io_deleteWr :: "nat \<Rightarrow> bool"
  io_deleteWait :: "nat \<Rightarrow> wait_outcome"
  io_sort :: "naptrRecord list \<Rightarrow> naptrRecord list"
  io_dns :: dns

section \<open>The SA table\<close>

definition lookupSA :: "u64 \<Rightarrow> 'k ike_world \<Rightarrow> ikeSA option" where
  "lookupSA spiI w = map_of (iw_sas w) spiI"

definition storeSA :: "ikeSA \<Rightarrow> 'k ike_world \<Rightarrow> 'k ike_world" where
  "storeSA sa w = w\<lparr>iw_sas := AList.update (sa_spiI sa) sa (iw_sas w)\<rparr>"

definition deleteSA :: "u64 \<Rightarrow> 'k ike_world \<Rightarrow> 'k ike_world" where
  "deleteSA spiI w = w\<lparr>iw_sas := AList.delete spiI (iw_sas w)\<rparr>"

text \<open>The assignments of a handler to the fields of the SA it holds; an SA that left the table is no longer seen by anyone.\<close>

definition putSA :: "ikeSA \<Rightarrow> 'k ike_world \<Rightarrow> 'k ike_world" where
  "putSA sa w = w\<lparr>iw_sas := AList.map_entry (sa_spiI sa) (\<lambda>_. sa) (iw_sas w)\<rparr>"

definition saCount :: "'k ike_world \<Rightarrow> int" where
  "saCount w = int (length (iw_sas w))"

definition ike_second :: int where
  "ike_second = 1000000000"

definition halfOpenSATimeout :: "Config \<Rightarrow> int" where
  "halfOpenSATimeout cfg = (if ik_HalfOpenSATimeout (c_IKEv2 cfg) > 0 then ik_HalfOpenSATimeout (c_IKEv2 cfg) * ike_second else 30 * ike_second)"

definition maxHalfOpenSAs :: "Config \<Rightarrow> int" where
  "maxHalfOpenSAs cfg = (if ik_MaxHalfOpenSAs (c_IKEv2 cfg) > 0 then ik_MaxHalfOpenSAs (c_IKEv2 cfg) else 4096)"

definition cookieThreshold :: "Config \<Rightarrow> int" where
  "cookieThreshold cfg = (if ik_CookieThreshold (c_IKEv2 cfg) > 0 then ik_CookieThreshold (c_IKEv2 cfg) else 2048)"

section \<open>Sending\<close>

definition ike_send :: "udp_addr \<Rightarrow> udp_addr \<Rightarrow> bytes \<Rightarrow> bool \<Rightarrow> 'k ike_world \<Rightarrow> 'k ike_world" where
  "ike_send conn remote data natt w =
     w\<lparr>iw_sent := iw_sent w @ [(conn, (if natt then [0, 0, 0, 0] @ data else data, remote))]\<rparr>"

definition is_panic :: "ike_crypto_error \<Rightarrow> bool" where
  "is_panic e = (e = NilIntegPanic \<or> e = IndexPanic)"

text \<open>An encrypted message under the given header; the first component tells whether it was sent.\<close>

definition send_encrypted ::
  "(u64 \<Rightarrow> u64 \<Rightarrow> byte \<Rightarrow> u32 \<Rightarrow> nat \<Rightarrow> bytes) \<Rightarrow> 'k ike_env \<Rightarrow> bytes option \<Rightarrow> udp_addr \<Rightarrow> udp_addr \<Rightarrow> ikeSA \<Rightarrow> byte \<Rightarrow> u32 \<Rightarrow> byte \<Rightarrow> bytes \<Rightarrow> bool \<Rightarrow>
   'k ike_world \<Rightarrow> (bool \<times> 'k ike_world) option" where
  "send_encrypted mkHeader env iv conn remote sa exchType msgID innerNextPayload plain natt w =
     (case encryptedSKMessageLen (sa_saKey sa) (length plain) of
        Inl e \<Rightarrow> if is_panic e then None else Some (False, w)
      | Inr totalLen \<Rightarrow>
          (case encryptSK (ie_crypto env) (sa_saKey sa) innerNextPayload plain (mkHeader (sa_spiI sa) (sa_spiR sa) exchType msgID totalLen) iv of
             Inl e \<Rightarrow> if is_panic e then None else Some (False, w)
           | Inr out \<Rightarrow> Some (True, ike_send conn remote out natt w)))"

definition sendEncryptedRaw ::
  "'k ike_env \<Rightarrow> bytes option \<Rightarrow> udp_addr \<Rightarrow> udp_addr \<Rightarrow> ikeSA \<Rightarrow> byte \<Rightarrow> u32 \<Rightarrow> byte \<Rightarrow> bytes \<Rightarrow> bool \<Rightarrow> 'k ike_world \<Rightarrow> (bool \<times> 'k ike_world) option" where
  "sendEncryptedRaw = send_encrypted buildIKEHeaderBytes"

definition sendEncryptedRequest ::
  "'k ike_env \<Rightarrow> bytes option \<Rightarrow> udp_addr \<Rightarrow> udp_addr \<Rightarrow> ikeSA \<Rightarrow> byte \<Rightarrow> u32 \<Rightarrow> byte \<Rightarrow> bytes \<Rightarrow> bool \<Rightarrow> 'k ike_world \<Rightarrow> (bool \<times> 'k ike_world) option" where
  "sendEncryptedRequest = send_encrypted buildIKERequestHeaderBytes"

definition sendEncryptedResponse ::
  "'k ike_env \<Rightarrow> bytes option \<Rightarrow> udp_addr \<Rightarrow> udp_addr \<Rightarrow> ikeSA \<Rightarrow> byte \<Rightarrow> u32 \<Rightarrow> payload list \<Rightarrow> bool \<Rightarrow> 'k ike_world \<Rightarrow> (bool \<times> 'k ike_world) option" where
  "sendEncryptedResponse env iv conn remote sa exchType msgID payloads natt w =
     (if payloads = [] then sendEncryptedRaw env iv conn remote sa exchType msgID 0 [] natt w
      else case lib_EncodePayloads (ie_lib env) payloads of
             None \<Rightarrow> Some (False, w)
           | Some plain \<Rightarrow> sendEncryptedRaw env iv conn remote sa exchType msgID (payload_type (hd payloads)) plain natt w)"

text \<open>An answer whose failure is only logged.\<close>

definition send_notify ::
  "'k ike_env \<Rightarrow> bytes option \<Rightarrow> udp_addr \<Rightarrow> udp_addr \<Rightarrow> ikeSA \<Rightarrow> byte \<Rightarrow> u32 \<Rightarrow> u16 \<Rightarrow> bytes \<Rightarrow> bool \<Rightarrow> 'k ike_world \<Rightarrow> 'k ike_world option" where
  "send_notify env iv conn remote sa exchType msgID notifyType data natt w =
     map_option snd (sendEncryptedResponse env iv conn remote sa exchType msgID
       [PNotify \<lparr>nt_NotifyMessageType = notifyType, nt_NotificationData = data\<rparr>] natt w)"

definition sendInitNotify ::
  "'k ike_env \<Rightarrow> udp_addr \<Rightarrow> udp_addr \<Rightarrow> IKEHeader \<Rightarrow> u16 \<Rightarrow> bytes \<Rightarrow> bool \<Rightarrow> 'k ike_world \<Rightarrow> 'k ike_world" where
  "sendInitNotify env conn remote hdr notifyType data natt w =
     (case lib_EncodeInitMessage (ie_lib env) (ih_InitiatorSPI hdr) 0 (ih_MessageID hdr)
             [PNotify \<lparr>nt_NotifyMessageType = notifyType, nt_NotificationData = data\<rparr>] of
        None \<Rightarrow> w
      | Some b \<Rightarrow> ike_send conn remote b natt w)"

section \<open>IKE\_SA\_INIT\<close>

definition dh_GeneratePrivateKey :: "dhGroup \<Rightarrow> ike_io \<Rightarrow> ike_crypto_error + dhPriv" where
  "dh_GeneratePrivateKey g io = (case g of
     Modp _ \<Rightarrow> res_map ModpPriv (modp_GeneratePrivateKey (io_dhInt io))
   | Ecdh _ \<Rightarrow> (case io_dhKey io of None \<Rightarrow> Inl RandFailed | Some k \<Rightarrow> Inr (EcdhPriv k)))"

record initPayloads =
  ip_sa :: "Proposal list option"
  ip_ke :: "(u16 \<times> bytes) option"
  ip_nonce :: "bytes option"
  ip_notifies :: "Notification list"

fun init_payload :: "initPayloads \<Rightarrow> payload \<Rightarrow> initPayloads" where
  "init_payload r (PSA props) = r\<lparr>ip_sa := Some props\<rparr>"
| "init_payload r (PKE g d) = r\<lparr>ip_ke := Some (g, d)\<rparr>"
| "init_payload r (PNonce n) = r\<lparr>ip_nonce := Some n\<rparr>"
| "init_payload r (PNotify n) = r\<lparr>ip_notifies := ip_notifies r @ [n]\<rparr>"
| "init_payload r _ = r"

definition init_payloads :: "payload list \<Rightarrow> initPayloads" where
  "init_payloads ps = foldl init_payload \<lparr>ip_sa = None, ip_ke = None, ip_nonce = None, ip_notifies = []\<rparr> ps"

text \<open>The COOKIE gate: the challenge to send, if the request does not pass.\<close>

definition cookie_gate :: "'k ike_env \<Rightarrow> ike_io \<Rightarrow> Notification list \<Rightarrow> u64 \<Rightarrow> udp_addr \<Rightarrow> 'k ike_world \<Rightarrow> bytes option \<times> 'k ike_world" where
  "cookie_gate env io notifies spiI remote w =
     (if saCount w < cookieThreshold (ie_cfg env) then (None, w)
      else let (cs, ok) = (case findNotifyData notifies COOKIE of
                             None \<Rightarrow> (iw_cookies w, False)
                           | Some c \<Rightarrow> cookie_verify (ie_crypto env) (iw_cookies w) (io_verify io) c spiI remote)
           in if ok then (None, w\<lparr>iw_cookies := cs\<rparr>)
              else case cookie_issue (ie_crypto env) cs (io_issue io) spiI remote of
                     (cs', challenge) \<Rightarrow> (Some challenge, w\<lparr>iw_cookies := cs'\<rparr>))"

definition half_open_sa ::
  "ike_io \<Rightarrow> u64 \<Rightarrow> u64 \<Rightarrow> udp_addr \<Rightarrow> bool \<Rightarrow> bytes \<Rightarrow> bytes \<Rightarrow> negotiatedProposal \<Rightarrow> ikeSAKey \<Rightarrow> dhPriv \<Rightarrow> bytes \<Rightarrow> bytes \<Rightarrow> bytes \<Rightarrow> net_ip \<Rightarrow> ikeSA" where
  "half_open_sa io spiI spiR remote natDetected nonceI nonceR prop saKey dhPriv dhPub pkt respBytes localIP =
     \<lparr>sa_spiI = spiI, sa_spiR = spiR, sa_remoteAddr = remote, sa_natT = natDetected, sa_nonceI = nonceI, sa_nonceR = nonceR,
      sa_proposal = prop, sa_saKey = saKey, sa_dhPriv = Some dhPriv, sa_dhPub = dhPub, sa_initReqRaw = pkt, sa_initRespRaw = respBytes,
      sa_state = ikeStateAuth, sa_createdAt = io_now io, sa_lastSeen = io_now io, sa_ourMsgID = 0, sa_dpdMsgID = 0, sa_dpdSentAt = None,
      sa_eapRound = 0, sa_swmSessionID = '''', sa_imsi = '''', sa_nai = '''', sa_apn = '''', sa_msk = [], sa_eapChallengeMsgID = 0,
      sa_eapChallengePayload = [], sa_mobikeEnabled = False, sa_cookie2 = None, sa_handoverIP = [], sa_espProp = None, sa_espPropNum = 0,
      sa_peerESPSPI = 0, sa_localESPSPI = 0, sa_cpWantsIP = False, sa_pendingESPProp = None, sa_pendingESPPropNum = 0,
      sa_pendingPeerESPSPI = 0, sa_pendingLocalESPSPI = 0, sa_pendingNonceI = [], sa_pendingNonceR = [], sa_idiAuthBytes = [],
      sa_sessionID = '''', sa_localIP = localIP\<rparr>"

text \<open>From the generation of the responder SPI to the answer.\<close>

definition init_establish ::
  "'k ike_env \<Rightarrow> ike_io \<Rightarrow> udp_addr \<Rightarrow> udp_addr \<Rightarrow> bytes \<Rightarrow> IKEHeader \<Rightarrow> bool \<Rightarrow> negotiatedProposal \<Rightarrow> byte \<Rightarrow> bytes \<Rightarrow> bytes \<Rightarrow> Notification list \<Rightarrow>
   'k ike_world \<Rightarrow> 'k ike_world option" where
  "init_establish env io conn remote pkt hdr natt prop propNum keData nonceI notifies w =
     (case (io_spi8 io, io_nonce io, dh_GeneratePrivateKey (np_dh prop) io) of
        (Some spiRBytes, Some nonceR, Inr dhPriv) \<Rightarrow>
          let spiR = uint64 spiRBytes; spiI = ih_InitiatorSPI hdr in
          (case dh_PublicKey (ie_crypto env) (np_dh prop) dhPriv of
             Inl _ \<Rightarrow> None
           | Inr dhPub \<Rightarrow>
          (case dh_SharedKey (ie_crypto env) (np_dh prop) dhPriv keData of
             Inl e \<Rightarrow> if is_panic e then None else Some (sendInitNotify env conn remote hdr INVALID_KE_PAYLOAD [] natt w)
           | Inr dhShared \<Rightarrow>
          let natDetected = (natt \<or> detectNAT (ie_crypto env) notifies remote spiI spiR) in
          (case deriveKeys (ie_crypto env) (fresh_key prop) (nonceI @ nonceR) dhShared spiI spiR of
             None \<Rightarrow> None
           | Some saKey \<Rightarrow>
          (case lib_EncodeInitMessage (ie_lib env) spiI spiR (ih_MessageID hdr)
                  [PSA (buildIKESAPayload prop propNum []), PKE (dh_TransformID (np_dh prop)) dhPub, PNonce nonceR,
                   PNotify \<lparr>nt_NotifyMessageType = NAT_DETECTION_SOURCE_IP,
                            nt_NotificationData = natHash (ie_crypto env) spiI spiR (fst conn) (of_nat (snd conn))\<rparr>,
                   PNotify \<lparr>nt_NotifyMessageType = NAT_DETECTION_DESTINATION_IP,
                            nt_NotificationData = natHash (ie_crypto env) spiI spiR (fst remote) (of_nat (snd remote))\<rparr>] of
             None \<Rightarrow> Some w
           | Some respBytes \<Rightarrow>
               let localIP = (case LocalIPFor (fst remote) (io_localIP io) of Inl _ \<Rightarrow> [] | Inr ip \<Rightarrow> ip) in
               Some (ike_send conn remote respBytes natt
                 (storeSA (half_open_sa io spiI spiR remote natDetected nonceI nonceR prop saKey dhPriv dhPub pkt respBytes localIP) w))))))
      | _ \<Rightarrow> Some w)"

definition is_retransmit :: "udp_addr \<Rightarrow> ikeSA \<Rightarrow> bool" where
  "is_retransmit remote sa \<longleftrightarrow> sa_state sa = ikeStateAuth \<and> sa_initRespRaw sa \<noteq> [] \<and>
     IP_Equal (fst (sa_remoteAddr sa)) (fst remote) \<and> snd (sa_remoteAddr sa) = snd remote"

text \<open>A request that is not a retransmission.\<close>

definition init_request ::
  "'k ike_env \<Rightarrow> ike_io \<Rightarrow> udp_addr \<Rightarrow> udp_addr \<Rightarrow> bytes \<Rightarrow> IKEHeader \<Rightarrow> bool \<Rightarrow> 'k ike_world \<Rightarrow> 'k ike_world option" where
  "init_request env io conn remote pkt hdr natt w =
     (case lib_DecodePayload (ie_lib env) hdr (drop IKE_HEADER_LEN pkt) of
        DecodePanic \<Rightarrow> None
      | DecodeError \<Rightarrow> Some w
      | Done payloads \<Rightarrow>
          let pl = init_payloads payloads in
          (case (ip_sa pl, ip_ke pl, ip_nonce pl) of
             (Some saPayload, Some (keGroup, keData), Some nonceI) \<Rightarrow>
               (case cookie_gate env io (ip_notifies pl) (ih_InitiatorSPI hdr) remote w of
                  (Some challenge, w) \<Rightarrow> Some (sendInitNotify env conn remote hdr COOKIE challenge natt w)
                | (None, w) \<Rightarrow>
                    if saCount w \<ge> maxHalfOpenSAs (ie_cfg env)
                    then Some (sendInitNotify env conn remote hdr TEMPORARY_FAILURE [] natt w)
                    else (case selectIKEProposal saPayload of
                            None \<Rightarrow> Some (sendInitNotify env conn remote hdr NO_PROPOSAL_CHOSEN [] natt w)
                          | Some (prop, propNum) \<Rightarrow>
                              if keGroup \<noteq> dh_TransformID (np_dh prop)
                              then Some (sendInitNotify env conn remote hdr INVALID_KE_PAYLOAD (be16 (dh_TransformID (np_dh prop))) natt w)
                              else init_establish env io conn remote pkt hdr natt prop propNum keData nonceI (ip_notifies pl) w))
           | _ \<Rightarrow> Some (sendInitNotify env conn remote hdr INVALID_SYNTAX [] natt w)))"

definition handleIKESAInit ::
  "'k ike_env \<Rightarrow> ike_io \<Rightarrow> udp_addr \<Rightarrow> udp_addr \<Rightarrow> bytes \<Rightarrow> IKEHeader \<Rightarrow> bool \<Rightarrow> 'k ike_world \<Rightarrow> 'k ike_world option" where
  "handleIKESAInit env io conn remote pkt hdr natt w =
     (if ih_Flags hdr AND InitiatorBitCheck = 0 \<or> ih_Flags hdr AND ResponseBitCheck \<noteq> 0 then Some w
      else case lookupSA (ih_InitiatorSPI hdr) w of
             Some existing \<Rightarrow>
               if is_retransmit remote existing then Some (ike_send conn remote (sa_initRespRaw existing) natt w)
               else init_request env io conn remote pkt hdr natt w
           | None \<Rightarrow> init_request env io conn remote pkt hdr natt w)"

section \<open>Expiry of half-open SAs\<close>

text \<open>One tick over the SPIs of the snapshot, with the reading of the clock for each.\<close>

fun halfOpenReaper_tick :: "Config \<Rightarrow> (u64 \<Rightarrow> int) \<Rightarrow> u64 list \<Rightarrow> 'k ike_world \<Rightarrow> 'k ike_world" where
  "halfOpenReaper_tick cfg now [] w = w"
| "halfOpenReaper_tick cfg now (spiI # spis) w =
     (case lookupSA spiI w of
        None \<Rightarrow> halfOpenReaper_tick cfg now spis w
      | Some sa \<Rightarrow>
          if sa_state sa = ikeStateAuth \<and> now spiI - sa_createdAt sa > halfOpenSATimeout cfg
          then halfOpenReaper_tick cfg now spis (deleteSA spiI w)
          else halfOpenReaper_tick cfg now spis w)"

section \<open>What the senders change\<close>

definition sends :: "'k ike_world \<Rightarrow> 'k ike_world \<Rightarrow> bool" where
  "sends w w' \<longleftrightarrow> (\<exists>out. w' = w\<lparr>iw_sent := iw_sent w @ out\<rparr>)"

lemma sends_refl [simp, intro]: "sends w w"
  unfolding sends_def by (rule exI[of _ "[]"]) simp

lemma sends_trans [trans]: "sends w w' \<Longrightarrow> sends w' w'' \<Longrightarrow> sends w w''"
  by (auto simp: sends_def)

lemma sends_frame:
  assumes "sends w w'"
  shows "iw_sas w' = iw_sas w" "iw_cookies w' = iw_cookies w" "iw_sessions w' = iw_sessions w" "iw_gtpu w' = iw_gtpu w" "iw_s2b w' = iw_s2b w"
    "iw_swm w' = iw_swm w" "iw_xfrm w' = iw_xfrm w" "iw_s2bSent w' = iw_s2bSent w"
  using assms by (auto simp: sends_def)

lemma lookupSA_frame: "iw_sas w' = iw_sas w \<Longrightarrow> lookupSA spi w' = lookupSA spi w"
  by (simp add: lookupSA_def)

lemma ike_send_sends [simp, intro]: "sends w (ike_send conn remote data natt w)"
  by (auto simp: sends_def ike_send_def)

lemma send_encrypted_sends: "send_encrypted mk env iv conn remote sa ex mid inner plain natt w = Some (b, w') \<Longrightarrow> sends w w'"
  by (auto simp: send_encrypted_def split: sum.splits if_splits)

lemma sendEncryptedResponse_sends: "sendEncryptedResponse env iv conn remote sa ex mid ps natt w = Some (b, w') \<Longrightarrow> sends w w'"
  by (auto simp: sendEncryptedResponse_def sendEncryptedRaw_def split: option.splits if_splits dest: send_encrypted_sends)

lemma send_notify_sends: "send_notify env iv conn remote sa ex mid t d natt w = Some w' \<Longrightarrow> sends w w'"
  by (auto simp: send_notify_def dest: sendEncryptedResponse_sends)

lemma sendInitNotify_sends [simp, intro]: "sends w (sendInitNotify env conn remote hdr t d natt w)"
  by (auto simp: sendInitNotify_def split: option.splits)

text \<open>Sending panics only without an integrity algorithm where one is needed; with keys of the right length it fails only with the random read.\<close>

definition key_ok :: "ikeSAKey \<Rightarrow> bool" where
  "key_ok k \<longleftrightarrow> (sk_integ k = None \<longleftrightarrow> IsAEAD (sk_encr k))"

lemma encryptedSKMessageLen_panic: "key_ok k \<Longrightarrow> encryptedSKMessageLen k n = Inl e \<Longrightarrow> \<not> is_panic e"
  by (auto simp: key_ok_def encryptedSKMessageLen_def aeadCipher_def NewCipher_def is_panic_def Let_def split: if_splits option.splits sum.splits)

lemma encryptSK_panic: "key_ok k \<Longrightarrow> encryptSK cr k t plain hdr iv = Inl e \<Longrightarrow> \<not> is_panic e"
  by (auto simp: key_ok_def encryptSK_def encryptSKAEAD_def encr_Encrypt_def aeadCipher_def NewCipher_def is_panic_def Let_def
      split: if_splits option.splits sum.splits)

lemma decryptSK_panic: "key_ok k \<Longrightarrow> decryptSK cr k msg = Inl e \<Longrightarrow> \<not> is_panic e"
  by (auto simp: key_ok_def decryptSK_def decryptSKAEAD_def encr_Decrypt_def aeadCipher_def NewCipher_def is_panic_def Let_def
      split: if_splits option.splits sum.splits)

lemma send_encrypted_returns: "key_ok (sa_saKey sa) \<Longrightarrow> send_encrypted mk env iv conn remote sa ex mid inner plain natt w \<noteq> None"
  using encryptedSKMessageLen_panic encryptSK_panic by (fastforce simp: send_encrypted_def split: sum.splits)

lemma sendEncryptedResponse_returns: "key_ok (sa_saKey sa) \<Longrightarrow> sendEncryptedResponse env iv conn remote sa ex mid ps natt w \<noteq> None"
  using send_encrypted_returns by (fastforce simp: sendEncryptedResponse_def sendEncryptedRaw_def split: option.splits)

lemma send_notify_returns: "key_ok (sa_saKey sa) \<Longrightarrow> send_notify env iv conn remote sa ex mid t d natt w \<noteq> None"
  using sendEncryptedResponse_returns by (simp add: send_notify_def)

section \<open>Creation of half-open SAs\<close>

lemma cookie_gate_frame:
  "cookie_gate env io ns spi remote w = (ch, w') \<Longrightarrow> \<exists>cs. w' = w\<lparr>iw_cookies := cs\<rparr>"
  by (auto simp: cookie_gate_def Let_def split: if_splits prod.splits intro: exI[of _ "iw_cookies w"])

text \<open>The request passes the gate only below the threshold or with a cookie the server made for this SPI and address.\<close>

definition cookie_shown :: "'k ike_env \<Rightarrow> ike_io \<Rightarrow> Notification list \<Rightarrow> u64 \<Rightarrow> udp_addr \<Rightarrow> 'k ike_world \<Rightarrow> bool" where
  "cookie_shown env io ns spi remote w \<longleftrightarrow>
     (\<exists>c \<in> set ns. nt_NotifyMessageType c = COOKIE \<and>
        (case secrets (iw_cookies w) (io_verify io) of (_, cur, prev) \<Rightarrow>
           nt_NotificationData c \<in> {cookieHMAC (ie_crypto env) cur spi remote, cookieHMAC (ie_crypto env) prev spi remote}))"

lemma findNotifyData_in: "findNotifyData ns t = Some d \<Longrightarrow> \<exists>n \<in> set ns. nt_NotifyMessageType n = t \<and> nt_NotificationData n = d"
  by (auto simp: findNotifyData_def find_Some_iff)

lemma cookie_gate_pass:
  "cookie_gate env io ns spi remote w = (None, w') \<Longrightarrow> saCount w < cookieThreshold (ie_cfg env) \<or> cookie_shown env io ns spi remote w"
  using findNotifyData_in[of ns COOKIE]
  by (fastforce simp: cookie_gate_def cookie_shown_def cookie_verify_def Let_def split: if_splits prod.splits option.splits)

definition stores :: "ikeSA \<Rightarrow> 'k ike_world \<Rightarrow> 'k ike_world \<Rightarrow> bool" where
  "stores sa w w' \<longleftrightarrow> (\<exists>cs. sends (storeSA sa (w\<lparr>iw_cookies := cs\<rparr>)) w')"

definition refuses :: "'k ike_world \<Rightarrow> 'k ike_world \<Rightarrow> bool" where
  "refuses w w' \<longleftrightarrow> (\<exists>cs. sends (w\<lparr>iw_cookies := cs\<rparr>) w')"

lemma refuses_sends: "sends w w' \<Longrightarrow> refuses w w'"
  unfolding refuses_def by (rule exI[of _ "iw_cookies w"]) simp

lemma storeSA_frame [simp]:
  "iw_sas (storeSA sa w) = AList.update (sa_spiI sa) sa (iw_sas w)" "iw_cookies (storeSA sa w) = iw_cookies w"
  "iw_sessions (storeSA sa w) = iw_sessions w" "iw_gtpu (storeSA sa w) = iw_gtpu w" "iw_s2b (storeSA sa w) = iw_s2b w"
  "iw_swm (storeSA sa w) = iw_swm w" "iw_xfrm (storeSA sa w) = iw_xfrm w" "iw_sent (storeSA sa w) = iw_sent w"
  by (simp_all add: storeSA_def)

lemma stores_sas: "stores sa w w' \<Longrightarrow> iw_sas w' = AList.update (sa_spiI sa) sa (iw_sas w)"
  by (auto simp: stores_def dest: sends_frame)

lemma refuses_sas: "refuses w w' \<Longrightarrow> iw_sas w' = iw_sas w"
  by (auto simp: refuses_def dest: sends_frame)

lemma deriveKeys_algs: "deriveKeys cr k ns sh i r = Some k' \<Longrightarrow> sk_integ k' = sk_integ k \<and> sk_encr k' = sk_encr k"
  by (auto simp: deriveKeys_def Let_def split: option.splits)

lemma fresh_key_ok: "prop \<in> set supportedIKEProposals \<Longrightarrow> sk_integ k = np_integ prop \<Longrightarrow> sk_encr k = np_encr prop \<Longrightarrow> key_ok k"
  using supported_integ(1) by (simp add: key_ok_def)

text \<open>What a new half-open SA is like.\<close>

definition fresh_sa :: "IKEHeader \<Rightarrow> udp_addr \<Rightarrow> bytes \<Rightarrow> bytes \<Rightarrow> ikeSA \<Rightarrow> bool" where
  "fresh_sa hdr remote pkt resp sa \<longleftrightarrow> sa_spiI sa = ih_InitiatorSPI hdr \<and> sa_remoteAddr sa = remote \<and> sa_state sa = ikeStateAuth \<and>
     sa_initReqRaw sa = pkt \<and> sa_initRespRaw sa = resp \<and> sa_eapRound sa = 0 \<and> sa_msk sa = [] \<and> sa_sessionID sa = '''' \<and>
     sa_espProp sa = None \<and> sa_pendingESPProp sa = None \<and> sa_swmSessionID sa = ''''"

lemma half_open_fresh:
  "fresh_sa hdr remote pkt resp (half_open_sa io (ih_InitiatorSPI hdr) spiR remote nt nI nR prop k priv pub pkt resp ip)"
  "sa_saKey (half_open_sa io spiI spiR remote nt nI nR prop k priv pub pkt resp ip) = k"
  by (simp_all add: fresh_sa_def half_open_sa_def)

lemma init_establish_cases:
  assumes "init_establish env io conn remote pkt hdr natt prop num keData nI ns w = Some w'"
  obtains "sends w w'"
  | sa resp where "fresh_sa hdr remote pkt resp sa" "sk_integ (sa_saKey sa) = np_integ prop" "sk_encr (sa_saKey sa) = np_encr prop"
      "w' = ike_send conn remote resp natt (storeSA sa w)"
proof -
  have "sends w w' \<or> (\<exists>spiR nt nR k sh priv pub resp ip.
      w' = ike_send conn remote resp natt (storeSA (half_open_sa io (ih_InitiatorSPI hdr) spiR remote nt nI nR prop k priv pub pkt resp ip) w) \<and>
      deriveKeys (ie_crypto env) (fresh_key prop) (nI @ nR) sh (ih_InitiatorSPI hdr) spiR = Some k)"
    using assms unfolding init_establish_def Let_def
    by (simp split: option.splits sum.splits if_splits; blast)
  then show thesis
  proof (elim disjE exE conjE)
    fix spiR nt nR k sh priv pub resp ip
    assume w': "w' = ike_send conn remote resp natt
        (storeSA (half_open_sa io (ih_InitiatorSPI hdr) spiR remote nt nI nR prop k priv pub pkt resp ip) w)"
      and k: "deriveKeys (ie_crypto env) (fresh_key prop) (nI @ nR) sh (ih_InitiatorSPI hdr) spiR = Some k"
    from deriveKeys_algs[OF k] show thesis
      by (intro that(2)[OF half_open_fresh(1) _ _ w']) (simp_all add: half_open_fresh fresh_key_def)
  qed (rule that(1))
qed

text \<open>The two outcomes of a request: nothing but answers and cookie secrets, or one new half-open SA, created within the bound and past the gate.\<close>

lemma init_request_cases:
  assumes "init_request env io conn remote pkt hdr natt w = Some w'"
  obtains "refuses w w'"
  | sa resp payloads cs where "fresh_sa hdr remote pkt resp sa" "key_ok (sa_saKey sa)" "stores sa w w'"
      "lib_DecodePayload (ie_lib env) hdr (drop IKE_HEADER_LEN pkt) = Done payloads" "saCount w < maxHalfOpenSAs (ie_cfg env)"
      "saCount w < cookieThreshold (ie_cfg env) \<or> cookie_shown env io (ip_notifies (init_payloads payloads)) (ih_InitiatorSPI hdr) remote w"
      "w' = ike_send conn remote resp natt (storeSA sa (w\<lparr>iw_cookies := cs\<rparr>))"
proof (cases "lib_DecodePayload (ie_lib env) hdr (drop IKE_HEADER_LEN pkt)")
  case (Done payloads)
  define pl where "pl = init_payloads payloads"
  show thesis
  proof (cases "\<exists>props g d n. ip_sa pl = Some props \<and> ip_ke pl = Some (g, d) \<and> ip_nonce pl = Some n")
    case False
    with assms Done have "sends w w'"
      by (cases "ip_sa pl"; cases "ip_ke pl"; cases "ip_nonce pl") (auto simp: init_request_def Let_def simp flip: pl_def)
    then show thesis using that(1) refuses_sends by blast
  next
    case True
    then obtain props g d n where pls: "ip_sa pl = Some props" "ip_ke pl = Some (g, d)" "ip_nonce pl = Some n" by blast
    obtain ch w1 where gate: "cookie_gate env io (ip_notifies pl) (ih_InitiatorSPI hdr) remote w = (ch, w1)" by fastforce
    then obtain cs where w1: "w1 = w\<lparr>iw_cookies := cs\<rparr>" using cookie_gate_frame by blast
    have ref: "refuses w w'" if "sends w1 w'" using that w1 by (auto simp: refuses_def)
    show thesis
    proof (cases "sends w1 w'")
      case False
      with assms Done pls gate have none: "ch = None"
        by (auto simp: init_request_def Let_def simp flip: pl_def split: option.splits)
      with assms Done pls gate False obtain pr num where sel: "selectIKEProposal props = Some (pr, num)"
        and est: "init_establish env io conn remote pkt hdr natt pr num d n (ip_notifies pl) w1 = Some w'"
        and cap: "saCount w1 < maxHalfOpenSAs (ie_cfg env)"
        by (auto simp: init_request_def Let_def simp flip: pl_def split: option.splits if_splits)
      from est show thesis
      proof (cases rule: init_establish_cases)
        case (2 sa resp)
        show thesis
        proof (rule that(2)[OF 2(1) _ _ Done])
          show "key_ok (sa_saKey sa)" using fresh_key_ok[OF selectIKEProposal_supported[OF sel]] 2(2,3) by simp
          show "stores sa w w'" using 2(4) w1 unfolding stores_def by (intro exI[of _ cs]) simp
          show "saCount w < maxHalfOpenSAs (ie_cfg env)" using cap w1 by (simp add: saCount_def)
          show "saCount w < cookieThreshold (ie_cfg env) \<or> cookie_shown env io (ip_notifies (init_payloads payloads)) (ih_InitiatorSPI hdr) remote w"
            using cookie_gate_pass[of env io "ip_notifies pl" "ih_InitiatorSPI hdr" remote w w1] gate none by (simp add: pl_def)
          show "w' = ike_send conn remote resp natt (storeSA sa (w\<lparr>iw_cookies := cs\<rparr>))" using 2(4) w1 by simp
        qed
      qed (use False in simp)
    qed (use that(1) ref in blast)
  qed
qed (use assms that(1) in \<open>auto simp: init_request_def refuses_sends\<close>)

text \<open>The table keeps one entry per initiator SPI, each under its own SPI and with keys that fit its algorithms.\<close>

definition sas_ok :: "'k ike_world \<Rightarrow> bool" where
  "sas_ok w \<longleftrightarrow> distinct (map fst (iw_sas w)) \<and> (\<forall>(spi, sa) \<in> set (iw_sas w). sa_spiI sa = spi \<and> key_ok (sa_saKey sa))"

lemma sas_ok_lookup: "sas_ok w \<Longrightarrow> lookupSA spi w = Some sa \<Longrightarrow> sa_spiI sa = spi \<and> key_ok (sa_saKey sa)"
  by (auto simp: sas_ok_def lookupSA_def dest: map_of_SomeD)

lemma update_in: "(k', v') \<in> set (AList.update k v al) \<Longrightarrow> (k', v') = (k, v) \<or> (k', v') \<in> set al"
  by (induction al) (auto split: if_splits)

lemma length_update: "length (AList.update k v al) = (if k \<in> fst ` set al then length al else Suc (length al))"
  by (induction al) auto

lemma sas_ok_store: "sas_ok w \<Longrightarrow> key_ok (sa_saKey sa) \<Longrightarrow> iw_sas w' = AList.update (sa_spiI sa) sa (iw_sas w) \<Longrightarrow> sas_ok w'"
  by (auto simp: sas_ok_def distinct_update dest!: update_in)

text \<open>What an IKE_SA_INIT request does to the world, whatever it contains.\<close>

lemma handleIKESAInit_cases:
  assumes "handleIKESAInit env io conn remote pkt hdr natt w = Some w'"
  obtains "refuses w w'"
  | sa resp payloads cs where "fresh_sa hdr remote pkt resp sa" "key_ok (sa_saKey sa)" "stores sa w w'"
      "lib_DecodePayload (ie_lib env) hdr (drop IKE_HEADER_LEN pkt) = Done payloads" "saCount w < maxHalfOpenSAs (ie_cfg env)"
      "saCount w < cookieThreshold (ie_cfg env) \<or> cookie_shown env io (ip_notifies (init_payloads payloads)) (ih_InitiatorSPI hdr) remote w"
      "w' = ike_send conn remote resp natt (storeSA sa (w\<lparr>iw_cookies := cs\<rparr>))"
proof (cases "init_request env io conn remote pkt hdr natt w = Some w'")
  case True
  then show thesis by (cases rule: init_request_cases) (use that in blast)+
next
  case False
  with assms have "sends w w'" by (auto simp: handleIKESAInit_def split: if_splits option.splits)
  then show thesis using that(1) refuses_sends by blast
qed


text \<open>A retransmitted IKE_SA_INIT is answered with the very same bytes and has no other effect: no new keys, no second SA,
  whatever the random source and the clock say, as long as the SA waits for IKE_AUTH.\<close>

theorem init_retransmission:
  assumes first: "handleIKESAInit env io conn remote pkt hdr natt w = Some w'" "lookupSA (ih_InitiatorSPI hdr) w = None"
    and sa: "lookupSA (ih_InitiatorSPI hdr) w' = Some sa" "sa_initRespRaw sa \<noteq> []"
  shows "iw_sent w' = iw_sent w @ [(conn, (if natt then [0, 0, 0, 0] @ sa_initRespRaw sa else sa_initRespRaw sa, remote))] \<and>
    handleIKESAInit env io' conn remote pkt' hdr natt w' = Some (w'\<lparr>iw_sent := iw_sent w' @ [last (iw_sent w')]\<rparr>)"
  using first(1)
proof (cases rule: handleIKESAInit_cases)
  case 1
  then show ?thesis using sa(1) first(2) lookupSA_frame[OF refuses_sas[OF 1]] by simp
next
  case (2 sa' resp payloads cs)
  have "lookupSA (ih_InitiatorSPI hdr) w' = Some sa'"
    using stores_sas[OF 2(3)] 2(1) by (simp add: lookupSA_def update_conv' fresh_sa_def)
  then have eq: "sa' = sa" using sa(1) by simp
  then have re: "is_retransmit remote sa" "sa_initRespRaw sa = resp" using 2(1) sa(2) by (simp_all add: fresh_sa_def is_retransmit_def)
  have flags: "\<not> (ih_Flags hdr AND InitiatorBitCheck = 0 \<or> ih_Flags hdr AND ResponseBitCheck \<noteq> 0)"
    using first sa(1) by (auto simp: handleIKESAInit_def split: if_splits)
  show ?thesis using 2(7) re flags sa(1) eq by (simp add: handleIKESAInit_def ike_send_def)
qed

text \<open>A concrete server for the witnesses: an empty table, a library that decodes every request to the same payloads, a threshold of one SA.\<close>

type_synonym demo_kernel = "(net_ip \<times> int \<times> xfrm_proto) list \<times> (ip_net \<times> ip_net \<times> xfrm_dir \<times> int) list"

definition demo_ike_world :: "demo_kernel ike_world" where
  "demo_ike_world = \<lparr>iw_sas = [], iw_cookies = \<lparr>cs_secret = [1], cs_prevSecret = [1], cs_rotatedAt = 0\<rparr>, iw_sessions = NewManager, iw_gtpu = demo_start,
     iw_s2b = demo_client, iw_swm = NewClient demo_swm_cfg 0, iw_xfrm = \<lparr>xf_kernel = ([], []), xf_inboundSPIs = {}\<rparr>, iw_sent = [], iw_s2bSent = []\<rparr>"

definition demo_prop :: negotiatedProposal where
  "demo_prop = ike_prop ecdh384Group encrAesGcm16_256 None prfSha256"

definition demo_init_payloads :: "payload list" where
  "demo_init_payloads = [PSA (buildIKESAPayload demo_prop 1 []), PKE 20 (replicate 96 1), PNonce [5]]"

definition demo_ike_env :: "demo_kernel ike_env" where
  "demo_ike_env = \<lparr>ie_crypto = demo_crypto, ie_lib = demo_lib\<lparr>lib_DecodePayload := (\<lambda>h b. Done demo_init_payloads)\<rparr>, ie_nl = table_netlink,
     ie_genv = demo_genv (\<lambda>_ _. False), ie_cfg = Default\<lparr>c_IKEv2 := (c_IKEv2 Default)\<lparr>ik_CookieThreshold := 1, ik_MaxHalfOpenSAs := 2\<rparr>\<rparr>, ie_certDER = [],
     ie_sign = Some, ie_conn500 = ([10, 0, 0, 1], 500), ie_conn4500 = ([10, 0, 0, 1], 4500)\<rparr>"

definition demo_ike_io :: ike_io where
  "demo_ike_io = \<lparr>io_now = 7, io_verify = (7, 7, [2], True), io_issue = (7, 7, [2], True), io_spi8 = Some [0, 0, 0, 0, 0, 0, 0, 9], io_nonce = Some [6],
     io_dhInt = Some 3, io_dhKey = Some [8], io_spi4 = Some [0, 0, 1, 0], io_cookie2 = Some [4], io_iv = Some (replicate 8 0), io_localIP = Some [10, 0, 0, 1],
     io_order = [], io_swmNano = 0, io_swmOpened = None, io_swmExchange = Inr, io_strOpened = None, io_strExchange = Inr, io_createWr = (\<lambda>_. True),
     io_createWait = (\<lambda>_. CtxDone), io_deleteWr = (\<lambda>_. True), io_deleteWait = (\<lambda>_. CtxDone), io_sort = id,
     io_dns = \<lparr>dns_conf = None, dns_exchange = (\<lambda>_ _. None), dns_host = (\<lambda>_. None), dns_srv = (\<lambda>_. None)\<rparr>\<rparr>"

definition demo_init_hdr :: IKEHeader where
  "demo_init_hdr = \<lparr>ih_InitiatorSPI = 17, ih_ResponderSPI = 0, ih_NextPayload = 33, ih_ExchangeType = 34, ih_Flags = 8, ih_MessageID = 0\<rparr>"

lemma demo_select: "selectIKEProposal (buildIKESAPayload demo_prop 1 []) = Some (demo_prop, 1)"
  by (simp add: demo_prop_def selectIKEProposal_def matchIKEProposal_def supportedIKEProposals_def ike_prop_def ike_offered_def buildIKESAPayload_def hasDH_def
      hasEncr_def hasPRF_def integ_offered_def has_transform_def integ_transforms_def plain_transform_def encr_transform_def dh_ids ike_algs)

lemma demo_dh:
  "dh_TransformID (np_dh demo_prop) = 20" "dh_GeneratePrivateKey (np_dh demo_prop) demo_ike_io = Inr (EcdhPriv [8])"
  "dh_PublicKey demo_crypto (np_dh demo_prop) (EcdhPriv [8]) = Inr [8]"
  "dh_SharedKey demo_crypto (np_dh demo_prop) (EcdhPriv [8]) (replicate 96 1) = Inr (4 # replicate 96 1)"
  by (simp_all add: demo_prop_def ike_prop_def ecdh384Group_def dh_GeneratePrivateKey_def demo_ike_io_def ecdh_PublicKey_def ecdh_SharedKey_def demo_crypto_def)

lemma demo_env_simps:
  "ie_crypto demo_ike_env = demo_crypto" "lib_DecodePayload (ie_lib demo_ike_env) h b = Done demo_init_payloads"
  "cookieThreshold (ie_cfg demo_ike_env) = 1" "maxHalfOpenSAs (ie_cfg demo_ike_env) = 2"
  "lib_EncodeInitMessage (ie_lib demo_ike_env) i r m ps = Some (be64 i @ be64 r @ map payload_type ps)"
  by (simp_all add: demo_ike_env_def cookieThreshold_def maxHalfOpenSAs_def demo_lib_def)

lemma prfPlus_Some: "crypto_ok cr \<Longrightarrow> prfPlus (prf_New cr p k) seed n \<noteq> None"
  by (rule prf_keymat[of cr p k seed n]) auto

lemma deriveKeys_returns: "crypto_ok cr \<Longrightarrow> \<exists>k'. deriveKeys cr k ns sh i r = Some k'"
  using prfPlus_Some by (auto simp: deriveKeys_def Let_def split: option.splits)

lemma demo_init:
  assumes w: "iw_sas w = []"
  shows "\<exists>w' sa. handleIKESAInit demo_ike_env demo_ike_io ([10, 0, 0, 1], 500) ([192, 0, 2, 7], 500) pkt demo_init_hdr False w = Some w' \<and>
     lookupSA 17 w' = Some sa \<and> sa_initRespRaw sa \<noteq> []"
proof -
  let ?spiR = "uint64 [0, 0, 0, 0, 0, 0, 0, 9]"
  obtain k where k: "deriveKeys demo_crypto (fresh_key demo_prop) [5, 6] (4 # replicate 96 1) 17 ?spiR = Some k"
    using deriveKeys_returns[OF demo_crypto_ok] by blast
  have io: "io_spi8 demo_ike_io = Some [0, 0, 0, 0, 0, 0, 0, 9]" "io_nonce demo_ike_io = Some [6]" by (simp_all add: demo_ike_io_def)
  have pl: "init_payloads demo_init_payloads = \<lparr>ip_sa = Some (buildIKESAPayload demo_prop 1 []), ip_ke = Some (20, replicate 96 1),
      ip_nonce = Some [5], ip_notifies = []\<rparr>"
    by (simp add: init_payloads_def demo_init_payloads_def)
  have "init_request demo_ike_env demo_ike_io ([10, 0, 0, 1], 500) ([192, 0, 2, 7], 500) pkt demo_init_hdr False w =
      init_establish demo_ike_env demo_ike_io ([10, 0, 0, 1], 500) ([192, 0, 2, 7], 500) pkt demo_init_hdr False demo_prop 1 (replicate 96 1) [5] [] w"
    by (simp add: init_request_def demo_env_simps pl cookie_gate_def saCount_def w demo_select demo_dh)
  moreover have "ih_InitiatorSPI demo_init_hdr = 17" "ih_Flags demo_init_hdr = 8" by (simp_all add: demo_init_hdr_def)
  ultimately show ?thesis
    using k by (simp add: handleIKESAInit_def lookupSA_def w init_establish_def io demo_dh demo_env_simps Let_def ike_send_def update_conv' half_open_sa_def
        del: uint64.simps)
qed

lemma demo_empty: "iw_sas demo_ike_world = []"
  by (simp add: demo_ike_world_def)

theorem init_retransmission_witness:
  "\<exists>w' sa. lookupSA 17 w' = Some sa \<and> iw_sent w' = [(([10, 0, 0, 1], 500), (sa_initRespRaw sa, ([192, 0, 2, 7], 500)))] \<and>
     handleIKESAInit demo_ike_env (demo_ike_io\<lparr>io_now := 99\<rparr>) ([10, 0, 0, 1], 500) ([192, 0, 2, 7], 500) [] demo_init_hdr False w' =
       Some (w'\<lparr>iw_sent := iw_sent w' @ [last (iw_sent w')]\<rparr>)"
proof -
  obtain w' sa where d: "handleIKESAInit demo_ike_env demo_ike_io ([10, 0, 0, 1], 500) ([192, 0, 2, 7], 500) [] demo_init_hdr False demo_ike_world = Some w'"
      "lookupSA 17 w' = Some sa" "sa_initRespRaw sa \<noteq> []"
    using demo_init[OF demo_empty] by blast
  have "lookupSA (ih_InitiatorSPI demo_init_hdr) demo_ike_world = None" "lookupSA (ih_InitiatorSPI demo_init_hdr) w' = Some sa"
    using d(2) by (simp_all add: demo_init_hdr_def lookupSA_def demo_ike_world_def)
  from init_retransmission[OF d(1) this d(3), of "demo_ike_io\<lparr>io_now := 99\<rparr>" "[]"] d(2) show ?thesis
    by (intro exI[of _ w'] exI[of _ sa]) (simp add: demo_ike_world_def)
qed


section \<open>No panic, and what is lost\<close>

lemma dh_supported:
  "prop \<in> set supportedIKEProposals \<Longrightarrow> np_dh prop \<in> {ecdh256Group, ecdh384Group, dhGroup14, dhGroup15}"
  "c \<in> set supportedESPProposals \<Longrightarrow> ch_dh c = Some d \<Longrightarrow> d \<in> {ecdh256Group, ecdh384Group, dhGroup14, dhGroup15}"
  by (auto simp: supportedIKEProposals_def ike_prop_def supportedESPProposals_def esp_prop_def)

lemma modp_no_panic:
  assumes "0 < mg_prime g" "mg_prime g \<le> 256 ^ mg_byteLen g"
  shows "\<exists>b. modp_PublicKey g x = Inr b" "modp_SharedKey g x peer = Inl e \<Longrightarrow> \<not> is_panic e"
proof -
  have fits: "n mod mg_prime g < 256 ^ mg_byteLen g" for n
    using assms mod_less_divisor[of "mg_prime g" n] by linarith
  show "\<exists>b. modp_PublicKey g x = Inr b" using fixed_bytes_ok[OF fits] by (auto simp: modp_PublicKey_def)
  show "modp_SharedKey g x peer = Inl e \<Longrightarrow> \<not> is_panic e"
    using fixed_bytes_ok[OF fits, of "big_value peer ^ x"] by (auto simp: modp_SharedKey_def Let_def is_panic_def split: if_splits)
qed

text \<open>With a private key generated for it, a supported group never panics.\<close>

lemma dh_no_panic:
  assumes "d \<in> {ecdh256Group, ecdh384Group, dhGroup14, dhGroup15}" "dh_GeneratePrivateKey d io = Inr priv"
  shows "\<exists>b. dh_PublicKey cr d priv = Inr b" "dh_SharedKey cr d priv peer = Inl e \<Longrightarrow> \<not> is_panic e"
proof -
  consider g where "d = Modp g" "0 < mg_prime g" "mg_prime g \<le> 256 ^ mg_byteLen g" | g where "d = Ecdh g"
    using assms(1) modp_groups_sized by (cases d) (auto simp: ecdh256Group_def ecdh384Group_def)
  then have "(\<exists>b. dh_PublicKey cr d priv = Inr b) \<and> (dh_SharedKey cr d priv peer = Inl e \<longrightarrow> \<not> is_panic e)"
  proof cases
    case 1
    then obtain x where "priv = ModpPriv x" using assms(2) by (auto simp: dh_GeneratePrivateKey_def res_map_def res_bind_def split: sum.splits)
    then show ?thesis using modp_no_panic[OF 1(2,3)] 1(1) by auto
  next
    case 2
    then obtain x where "priv = EcdhPriv x" using assms(2) by (auto simp: dh_GeneratePrivateKey_def split: option.splits)
    then show ?thesis using 2 by (auto simp: ecdh_SharedKey_def is_panic_def split: if_splits option.splits)
  qed
  then show "\<exists>b. dh_PublicKey cr d priv = Inr b" "dh_SharedKey cr d priv peer = Inl e \<Longrightarrow> \<not> is_panic e" by blast+
qed

lemma init_establish_returns:
  assumes "crypto_ok (ie_crypto env)" "prop \<in> set supportedIKEProposals"
  shows "init_establish env io conn remote pkt hdr natt prop num keData nI ns w \<noteq> None"
proof (cases "dh_GeneratePrivateKey (np_dh prop) io")
  case (Inr priv)
  note dh = dh_no_panic[OF dh_supported(1)[OF assms(2)] Inr, of "ie_crypto env"]
  obtain pub where "dh_PublicKey (ie_crypto env) (np_dh prop) priv = Inr pub" using dh(1) by blast
  moreover have "(deriveKeys (ie_crypto env) k nn sh i r = None) = False" for k nn sh i r
    using deriveKeys_returns[OF assms(1)] by (metis option.distinct(1))
  ultimately show ?thesis using Inr dh(2)[of keData] unfolding init_establish_def Let_def
    by (simp split: option.splits sum.splits del: not_None_eq)
qed (simp add: init_establish_def split: option.splits)

text \<open>Whatever the packet, IKE_SA_INIT returns as long as the library decodes it without a panic: the call is not protected as those of the
  encrypted exchanges are.\<close>

lemma handleIKESAInit_returns:
  assumes "crypto_ok (ie_crypto env)" "lib_DecodePayload (ie_lib env) hdr (drop IKE_HEADER_LEN pkt) \<noteq> DecodePanic"
  shows "handleIKESAInit env io conn remote pkt hdr natt w \<noteq> None"
proof -
  have "init_request env io conn remote pkt hdr natt w \<noteq> None"
    using assms(2) init_establish_returns[OF assms(1) selectIKEProposal_supported]
    by (auto simp: init_request_def Let_def split: decoded.splits option.splits prod.splits)
  then show ?thesis by (simp add: handleIKESAInit_def split: option.splits)
qed

lemma init_decoder_panic:
  assumes "lib_DecodePayload (ie_lib env) hdr (drop IKE_HEADER_LEN pkt) = DecodePanic" "lookupSA (ih_InitiatorSPI hdr) w = None"
    "ih_Flags hdr = InitiatorBitCheck"
  shows "handleIKESAInit env io conn remote pkt hdr natt w = None"
  using assms by (simp add: handleIKESAInit_def init_request_def)

text \<open>A request with the SPI of an established SA replaces it by a half-open one.\<close>

lemma init_replaces_established:
  assumes "handleIKESAInit env io conn remote pkt hdr natt w = Some w'" "lookupSA (ih_InitiatorSPI hdr) w = Some sa" "sa_state sa = ikeStateEstablished"
    and "iw_sas w' \<noteq> iw_sas w"
  shows "\<exists>sa'. lookupSA (ih_InitiatorSPI hdr) w' = Some sa' \<and> sa_state sa' = ikeStateAuth \<and> sa_sessionID sa' = '''' \<and> sa_espProp sa' = None"
  using assms(1)
proof (cases rule: handleIKESAInit_cases)
  case (2 sa' resp payloads cs)
  then show ?thesis using stores_sas[OF 2(3)] by (auto simp: lookupSA_def update_conv' fresh_sa_def)
qed (use assms(4) refuses_sas in blast)

section \<open>Expiry\<close>

lemma deleteSA_frame [simp]:
  "iw_sas (deleteSA spi w) = AList.delete spi (iw_sas w)" "lookupSA spi' (deleteSA spi w) = (if spi' = spi then None else lookupSA spi' w)"
  by (simp_all add: deleteSA_def lookupSA_def delete_conv')

definition expired :: "Config \<Rightarrow> (u64 \<Rightarrow> int) \<Rightarrow> u64 \<Rightarrow> ikeSA \<Rightarrow> bool" where
  "expired cfg now spi sa \<longleftrightarrow> sa_state sa = ikeStateAuth \<and> now spi - sa_createdAt sa > halfOpenSATimeout cfg"

text \<open>One tick of the reaper removes exactly the half-open SAs older than the configured time: an established SA, or a younger one, stays as it is.\<close>

theorem half_open_expiry:
  assumes "set spis = fst ` set (iw_sas w)"
  shows "lookupSA spi (halfOpenReaper_tick cfg now spis w) =
    (case lookupSA spi w of None \<Rightarrow> None | Some sa \<Rightarrow> if expired cfg now spi sa then None else Some sa)"
proof -
  have "lookupSA spi (halfOpenReaper_tick cfg now l w) =
      (case lookupSA spi w of None \<Rightarrow> None | Some sa \<Rightarrow> if spi \<in> set l \<and> expired cfg now spi sa then None else Some sa)" for l
  proof (induction l arbitrary: w)
    case (Cons s l)
    show ?case
      using Cons.IH by (auto simp: expired_def split: option.splits)
  qed (simp split: option.splits)
  moreover have "lookupSA spi w = Some sa \<Longrightarrow> spi \<in> set spis" for sa
    using assms by (force simp: lookupSA_def dest: map_of_SomeD)
  ultimately show ?thesis by (simp split: option.splits)
qed

definition demo_half_open :: ikeSA where
  "demo_half_open = half_open_sa demo_ike_io 17 9 ([192, 0, 2, 7], 500) False [5] [6] demo_prop demo_keys (EcdhPriv [8]) [8] [] [1] [10, 0, 0, 1]"

theorem half_open_expiry_witness:
  "lookupSA 17 (storeSA demo_half_open demo_ike_world) = Some demo_half_open \<and> sa_createdAt demo_half_open = 7 \<and>
   lookupSA 17 (halfOpenReaper_tick (ie_cfg demo_ike_env) (\<lambda>_. 30000000008) [17] (storeSA demo_half_open demo_ike_world)) = None"
proof -
  have "lookupSA 17 (storeSA demo_half_open demo_ike_world) = Some demo_half_open" "set [17] = fst ` set (iw_sas (storeSA demo_half_open demo_ike_world))"
    "expired (ie_cfg demo_ike_env) (\<lambda>_. 30000000008) 17 demo_half_open" "sa_createdAt demo_half_open = 7"
    by (simp_all add: lookupSA_def storeSA_def demo_half_open_def half_open_sa_def demo_ike_world_def demo_ike_io_def demo_ike_env_def expired_def
        halfOpenSATimeout_def ike_second_def Default_def)
  with half_open_expiry[of "[17]" "storeSA demo_half_open demo_ike_world" 17 "ie_cfg demo_ike_env" "\<lambda>_. 30000000008"] show ?thesis by simp
qed

end
