(* ===== verification/IkeInform.thy ===== *)
theory IkeInform
  imports IkeServer
begin

text \<open>
  Teardown of an IKE SA, the INFORMATIONAL exchange with CHILD SA deletion and MOBIKE, and dead peer detection
  (\<^verbatim>\<open>internal/ikev2/inform.go\<close>).

  Shown: a teardown removes the SA, its session, the dataplane session and the kernel states and policies of its CHILD SA and nothing else; a
  message that does not decrypt only refreshes the liveness of its SA; the address of an SA moves only on the echo of the pending challenge;
  a peer that stays silent is probed and then torn down.
\<close>

section \<open>CHILD SA parameters\<close>

abbreviation (input) "nattPort \<equiv> (4500 :: int)"

type_synonym alg_names = "string \<times> string \<times> int"

definition child_params ::
  "net_ip \<Rightarrow> udp_addr \<Rightarrow> u32 \<Rightarrow> u32 \<Rightarrow> child_keys \<Rightarrow> alg_names \<Rightarrow> bool \<Rightarrow> ip_net \<Rightarrow> ip_net \<Rightarrow> ChildSAParams" where
  "child_params localIP remote inSPI outSPI keys names natT localTS remoteTS =
     (case keys of (encrIn, integIn, encrOut, integOut) \<Rightarrow> case names of (encrName, integName, integTrunc) \<Rightarrow>
      \<lparr>cp_LocalIP = localIP, cp_RemoteIP = fst remote, cp_InboundSPI = inSPI, cp_OutboundSPI = outSPI, cp_EncKeyIn = encrIn, cp_IntKeyIn = integIn,
       cp_EncKeyOut = encrOut, cp_IntKeyOut = integOut, cp_EncAlgName = encrName, cp_IntAlgName = integName, cp_IntTruncBits = integTrunc,
       cp_NATT = natT, cp_NATTSrcPort = nattPort, cp_NATTDstPort = int (snd remote), cp_LocalTS = localTS, cp_RemoteTS = remoteTS, cp_IfID = IfID\<rparr>)"

text \<open>The parameters of a removal of the states alone, with the zero values for what it does not set.\<close>

definition bare_params :: "ikeSA \<Rightarrow> u32 \<Rightarrow> u32 \<Rightarrow> ChildSAParams" where
  "bare_params sa inSPI outSPI = child_params (sa_localIP sa) (sa_remoteAddr sa) inSPI outSPI ([], [], [], []) ([], [], 0) (sa_natT sa) ([], []) ([], [])"

definition any_ts :: ip_net where
  "any_ts = (IPv4 0 0 0 0, [0, 0, 0, 0])"

definition local_ts :: ip_net where
  "local_ts = ([0, 0, 0, 0], [0, 0, 0, 0])"

definition paa_ts :: "net_ip \<Rightarrow> ip_net" where
  "paa_ts paa = (if To4 paa \<noteq> [] then (To4 paa, [255, 255, 255, 255]) else any_ts)"

definition session_of :: "ikeSA \<Rightarrow> 'k ike_world \<Rightarrow> Session option" where
  "session_of sa w = (if sa_sessionID sa = '''' then None else Get (iw_sessions w) (sa_sessionID sa))"

text \<open>The remote traffic selector, reconstructed from the address of the session.\<close>

definition session_ts :: "ikeSA \<Rightarrow> 'k ike_world \<Rightarrow> ip_net" where
  "session_ts sa w = (case session_of sa w of
     None \<Rightarrow> any_ts
   | Some sess \<Rightarrow> paa_ts (ParseIP (case s_S2B sess of None \<Rightarrow> '''' | Some b \<Rightarrow> sc_PAA b)))"

text \<open>The parameters of the current CHILD SA towards an address; \<^term>\<open>None\<close> for a panic.\<close>

definition current_params :: "'k ike_env \<Rightarrow> ikeSA \<Rightarrow> childProposal \<Rightarrow> udp_addr \<Rightarrow> 'k ike_world \<Rightarrow> ChildSAParams option" where
  "current_params env sa prop remote w =
     (case childAlgNames prop of
        Inl _ \<Rightarrow> None
      | Inr names \<Rightarrow>
          (case deriveChildSAKeys (ie_crypto env) (sa_saKey sa) (sa_nonceI sa) (sa_nonceR sa) (encr_KeyLen (ch_encr prop)) (integKeyLen (ch_integ prop)) of
             None \<Rightarrow> None
           | Some keys \<Rightarrow>
               Some (child_params (sa_localIP sa) remote (sa_localESPSPI sa) (sa_peerESPSPI sa) keys names (sa_natT sa) local_ts (session_ts sa w))))"

definition set_xfrm :: "'e \<times> 'k xfrm \<Rightarrow> 'k ike_world \<Rightarrow> 'k ike_world" where
  "set_xfrm r w = w\<lparr>iw_xfrm := snd r\<rparr>"

definition upd_session :: "string \<Rightarrow> (Session \<Rightarrow> Session) \<Rightarrow> 'k ike_world \<Rightarrow> 'k ike_world" where
  "upd_session sid f w = w\<lparr>iw_sessions := update_session (iw_sessions w) sid f\<rparr>"

section \<open>Teardown\<close>

definition removeXFRMChildSA :: "'k ike_env \<Rightarrow> ikeSA \<Rightarrow> 'k ike_world \<Rightarrow> 'k ike_world option" where
  "removeXFRMChildSA env sa w =
     (case sa_espProp sa of
        None \<Rightarrow> Some w
      | Some prop \<Rightarrow>
          if sa_localIP sa = [] \<or> sa_localESPSPI sa = 0 then Some w
          else (case current_params env sa prop (sa_remoteAddr sa) w of
                  None \<Rightarrow> None
                | Some p \<Rightarrow> Some (set_xfrm (RemoveChildSA (ie_nl env) p (iw_xfrm w)) w)))"

text \<open>The session part of the teardown; the first component is \<^verbatim>\<open>handoverComplete\<close>.\<close>

definition teardown_session :: "'k ike_env \<Rightarrow> ike_io \<Rightarrow> ikeSA \<Rightarrow> 'k ike_world \<Rightarrow> bool \<times> 'k ike_world" where
  "teardown_session env io sa w =
     (case session_of sa w of
        None \<Rightarrow> (False, w)
      | Some sess \<Rightarrow>
          let w = upd_session (sa_sessionID sa) (\<lambda>s. snd (Transition s StateCleaningUp)) w;
              w = (case s_S2B sess of
                     None \<Rightarrow> w
                   | Some b \<Rightarrow>
                       let w = w\<lparr>iw_gtpu := RemoveSession (ie_genv env) (iw_gtpu w) (Some sess)\<rparr> in
                       if sc_PGWControlTEID b \<noteq> 0 \<and> sc_EBI b \<noteq> 0
                       then (case s2b_DeleteSession (io_deleteWr io) (io_deleteWait io) (sc_PGWControlIP b) (sc_PGWControlTEID b)
                                    (sc_LocalControlTEID b) (sc_LocalUserTEID b) (sc_EBI b) (iw_s2b w) of
                               (_, out, c) \<Rightarrow> w\<lparr>iw_s2b := c, iw_s2bSent := iw_s2bSent w @ out\<rparr>)
                       else w);
              w = upd_session (sa_sessionID sa) (\<lambda>s. snd (Transition s StateDeleted)) w
          in (s_HandoverComplete sess, w\<lparr>iw_sessions := Delete (iw_sessions w) (s_ID sess)\<rparr>))"

definition fullTeardown :: "'k ike_env \<Rightarrow> ike_io \<Rightarrow> ikeSA \<Rightarrow> 'k ike_world \<Rightarrow> 'k ike_world option" where
  "fullTeardown env io sa w =
     (case removeXFRMChildSA env sa w of
        None \<Rightarrow> None
      | Some w \<Rightarrow>
          let w = (if sa_pendingESPProp sa \<noteq> None \<and> sa_localIP sa \<noteq> []
                   then set_xfrm (RemoveChildSAStates (ie_nl env) (bare_params sa (sa_pendingLocalESPSPI sa) (sa_pendingPeerESPSPI sa)) (iw_xfrm w)) w
                   else w)
          in (case teardown_session env io sa w of
                (handoverComplete, w) \<Rightarrow>
                  let w = (if sa_swmSessionID sa = '''' then w
                           else w\<lparr>iw_swm := snd ((if handoverComplete then TerminateSessionHandover else TerminateSession)
                                   (sa_swmSessionID sa) (io_strOpened io) (io_strExchange io) (iw_swm w))\<rparr>)
                  in Some (deleteSA (sa_spiI sa) w)))"

section \<open>MOBIKE\<close>

text \<open>The result tells whether the migration succeeded.\<close>

definition migrateMobikeXFRM :: "'k ike_env \<Rightarrow> ikeSA \<Rightarrow> childProposal \<Rightarrow> udp_addr \<Rightarrow> 'k ike_world \<Rightarrow> (bool \<times> 'k ike_world) option" where
  "migrateMobikeXFRM env sa prop newRemote w =
     (case (current_params env sa prop (sa_remoteAddr sa) w, current_params env sa prop newRemote w) of
        (Some oldParams, Some newParams) \<Rightarrow>
          if (To4 (fst (sa_remoteAddr sa)) = []) \<noteq> (To4 (fst newRemote) = []) then Some (False, w)
          else (case MigrateChildSA (ie_nl env) oldParams newParams (iw_xfrm w) of
                  (err, x) \<Rightarrow> Some (err = None, w\<lparr>iw_xfrm := x\<rparr>))
      | _ \<Rightarrow> None)"

definition handleUpdateSA ::
  "'k ike_env \<Rightarrow> ike_io \<Rightarrow> udp_addr \<Rightarrow> udp_addr \<Rightarrow> ikeSA \<Rightarrow> u32 \<Rightarrow> bytes \<Rightarrow> bool \<Rightarrow> 'k ike_world \<Rightarrow> 'k ike_world option" where
  "handleUpdateSA env io conn remote sa msgID incomingCookie2 natt w =
     (let ack = (\<lambda>sa w. map_option snd (sendEncryptedRaw env (io_iv io) conn remote sa INFORMATIONAL msgID 0 [] natt w)) in
      case sa_espProp sa of
        None \<Rightarrow> ack sa w
      | Some prop \<Rightarrow>
          if sa_localIP sa = [] then ack sa w
          else if incomingCookie2 = [] \<or> sa_cookie2 sa = None then
            (case io_cookie2 io of
               None \<Rightarrow> ack sa w
             | Some c2 \<Rightarrow>
                 let sa = sa\<lparr>sa_cookie2 := Some c2\<rparr> in
                 send_notify env (io_iv io) conn remote sa INFORMATIONAL msgID COOKIE2 c2 natt (putSA sa w))
          else if \<not> constEqual incomingCookie2 (the (sa_cookie2 sa)) then ack sa w
          else (case migrateMobikeXFRM env sa prop remote w of
                  None \<Rightarrow> None
                | Some (False, w) \<Rightarrow> ack sa w
                | Some (True, w) \<Rightarrow>
                    let sa = sa\<lparr>sa_remoteAddr := remote, sa_cookie2 := None\<rparr>;
                        w = putSA sa w;
                        w = (if sa_sessionID sa = '''' then w else upd_session (sa_sessionID sa) (\<lambda>s. s\<lparr>s_OuterIP := UDP_String remote\<rparr>) w)
                    in ack sa w))"

section \<open>INFORMATIONAL\<close>

definition clear_pending :: "ikeSA \<Rightarrow> ikeSA" where
  "clear_pending sa = sa\<lparr>sa_pendingESPProp := None, sa_pendingESPPropNum := 0, sa_pendingPeerESPSPI := 0, sa_pendingLocalESPSPI := 0,
     sa_pendingNonceI := [], sa_pendingNonceR := []\<rparr>"

definition promote_pending :: "ikeSA \<Rightarrow> ikeSA" where
  "promote_pending sa = clear_pending (sa\<lparr>sa_espProp := sa_pendingESPProp sa, sa_espPropNum := sa_pendingESPPropNum sa,
     sa_peerESPSPI := sa_pendingPeerESPSPI sa, sa_localESPSPI := sa_pendingLocalESPSPI sa, sa_nonceI := sa_pendingNonceI sa,
     sa_nonceR := sa_pendingNonceR sa\<rparr>)"

text \<open>One SPI of a CHILD SA deletion: the old CHILD SA of a rekey in progress, the only one, or the new one.\<close>

definition delete_child :: "'k ike_env \<Rightarrow> u32 \<Rightarrow> ikeSA \<Rightarrow> 'k ike_world \<Rightarrow> (ikeSA \<times> 'k ike_world) option" where
  "delete_child env spi sa w =
     (if sa_espProp sa \<noteq> None \<and> (spi = sa_localESPSPI sa \<or> spi = sa_peerESPSPI sa) then
        (if sa_pendingESPProp sa \<noteq> None then
           let w = set_xfrm (RemoveChildSAStates (ie_nl env) (bare_params sa (sa_localESPSPI sa) (sa_peerESPSPI sa)) (iw_xfrm w)) w;
               sa = promote_pending sa;
               w = putSA sa w;
               w = (if sa_sessionID sa = '''' then w
                    else upd_session (sa_sessionID sa) (\<lambda>s. s\<lparr>s_ESPInboundSPI := sa_localESPSPI sa, s_ESPOutboundSPI := sa_peerESPSPI sa\<rparr>) w)
           in Some (sa, w)
         else map_option (Pair sa) (removeXFRMChildSA env sa w))
      else if sa_pendingESPProp sa \<noteq> None \<and> (spi = sa_pendingLocalESPSPI sa \<or> spi = sa_pendingPeerESPSPI sa) then
        let w = set_xfrm (RemoveChildSAStates (ie_nl env) (bare_params sa (sa_pendingLocalESPSPI sa) (sa_pendingPeerESPSPI sa)) (iw_xfrm w)) w;
            sa = clear_pending sa
        in Some (sa, putSA sa w)
      else Some (sa, w))"

fun delete_children :: "'k ike_env \<Rightarrow> u32 list \<Rightarrow> ikeSA \<Rightarrow> 'k ike_world \<Rightarrow> 'k ike_world option" where
  "delete_children env [] sa w = Some w"
| "delete_children env (spi # spis) sa w = (case delete_child env spi sa w of None \<Rightarrow> None | Some (sa, w) \<Rightarrow> delete_children env spis sa w)"

definition seen :: "int \<Rightarrow> ikeSA \<Rightarrow> ikeSA" where
  "seen now sa = sa\<lparr>sa_lastSeen := now, sa_dpdSentAt := None, sa_dpdMsgID := (if sa_dpdSentAt sa \<noteq> None then 0 else sa_dpdMsgID sa)\<rparr>"

definition inform_request ::
  "'k ike_env \<Rightarrow> ike_io \<Rightarrow> udp_addr \<Rightarrow> udp_addr \<Rightarrow> bytes \<Rightarrow> IKEHeader \<Rightarrow> ikeSA \<Rightarrow> 'k ike_world \<Rightarrow> 'k ike_world option" where
  "inform_request env io conn remote pkt hdr sa w =
     (case decryptSK (ie_crypto env) (sa_saKey sa) pkt of
        Inl e \<Rightarrow> if is_panic e then None else Some w
      | Inr (innerType, plain) \<Rightarrow>
          (case parseInfoPayloads (ie_lib env) innerType plain of
             None \<Rightarrow> None
           | Some pl \<Rightarrow>
               if in_hasUpdateSA pl \<and> sa_mobikeEnabled sa
               then handleUpdateSA env io conn remote sa (ih_MessageID hdr) (in_cookie2 pl) (sa_natT sa) w
               else (case sendEncryptedRaw env (io_iv io) conn remote sa INFORMATIONAL (ih_MessageID hdr) 0 [] (sa_natT sa) w of
                       None \<Rightarrow> None
                     | Some (_, w) \<Rightarrow>
                         if in_deleteIKE pl
                         then (let sa = sa\<lparr>sa_state := ikeStateDeleting\<rparr> in fullTeardown env io sa (putSA sa w))
                         else if in_deleteESPSPIs pl \<noteq> [] then delete_children env (in_deleteESPSPIs pl) sa w
                         else Some w)))"

definition handleInformational ::
  "'k ike_env \<Rightarrow> ike_io \<Rightarrow> udp_addr \<Rightarrow> udp_addr \<Rightarrow> bytes \<Rightarrow> IKEHeader \<Rightarrow> 'k ike_world \<Rightarrow> 'k ike_world option" where
  "handleInformational env io conn remote pkt hdr w =
     (let isRequest = (ih_Flags hdr AND ResponseBitCheck = 0);
          isUEResponse = (ih_Flags hdr AND ResponseBitCheck \<noteq> 0 \<and> ih_Flags hdr AND InitiatorBitCheck \<noteq> 0)
      in if \<not> isRequest \<and> \<not> isUEResponse then Some w
         else case lookupSA (ih_InitiatorSPI hdr) w of
                None \<Rightarrow> Some w
              | Some sa \<Rightarrow>
                  if isUEResponse then
                    Some (if sa_dpdSentAt sa \<noteq> None \<and> ih_MessageID hdr = sa_dpdMsgID sa
                          then putSA (sa\<lparr>sa_lastSeen := io_now io, sa_dpdSentAt := None, sa_dpdMsgID := 0\<rparr>) w else w)
                  else if sa_state sa = ikeStateDeleting then Some w
                  else (let sa = seen (io_now io) sa in inform_request env io conn remote pkt hdr sa (putSA sa w)))"

section \<open>Dead peer detection\<close>

definition dpd_delay :: "Config \<Rightarrow> int" where
  "dpd_delay cfg = (if ik_DPDDelay (c_IKEv2 cfg) > 0 then ik_DPDDelay (c_IKEv2 cfg) * ike_second else 30 * ike_second)"

definition dpd_timeout :: "Config \<Rightarrow> int" where
  "dpd_timeout cfg = (if ik_DPDTimeout (c_IKEv2 cfg) > 0 then ik_DPDTimeout (c_IKEv2 cfg) * ike_second else 120 * ike_second)"

definition sendDPDProbe :: "'k ike_env \<Rightarrow> ike_io \<Rightarrow> ikeSA \<Rightarrow> 'k ike_world \<Rightarrow> 'k ike_world option" where
  "sendDPDProbe env io sa w =
     (let msgID = sa_ourMsgID sa;
          sa = sa\<lparr>sa_ourMsgID := sa_ourMsgID sa + 1\<rparr>;
          w = putSA sa w;
          conn = (if sa_natT sa then ie_conn4500 env else ie_conn500 env)
      in case sendEncryptedRequest env (io_iv io) conn (sa_remoteAddr sa) sa INFORMATIONAL msgID 0 [] (sa_natT sa) w of
           None \<Rightarrow> None
         | Some (False, w) \<Rightarrow> Some w
         | Some (True, w) \<Rightarrow> Some (putSA (sa\<lparr>sa_dpdMsgID := msgID, sa_dpdSentAt := Some (io_now io)\<rparr>) w))"

text \<open>One SA of the snapshot of \<^verbatim>\<open>reaperLoop\<close>, and one tick over all of them, each with what it reads from the environment.\<close>

definition reap_sa :: "'k ike_env \<Rightarrow> ike_io \<Rightarrow> u64 \<Rightarrow> 'k ike_world \<Rightarrow> 'k ike_world option" where
  "reap_sa env io spiI w =
     (case lookupSA spiI w of
        None \<Rightarrow> Some w
      | Some sa \<Rightarrow>
          if sa_state sa \<noteq> ikeStateEstablished then Some w
          else (case sa_dpdSentAt sa of
                  None \<Rightarrow> if io_now io - sa_lastSeen sa > dpd_delay (ie_cfg env) then sendDPDProbe env io sa w else Some w
                | Some t \<Rightarrow>
                    if io_now io - t > dpd_timeout (ie_cfg env)
                    then (let sa = sa\<lparr>sa_state := ikeStateDeleting\<rparr> in fullTeardown env io sa (putSA sa w))
                    else Some w))"

fun reaper_tick :: "'k ike_env \<Rightarrow> (u64 \<Rightarrow> ike_io) \<Rightarrow> u64 list \<Rightarrow> 'k ike_world \<Rightarrow> 'k ike_world option" where
  "reaper_tick env io [] w = Some w"
| "reaper_tick env io (spiI # spis) w = (case reap_sa env (io spiI) spiI w of None \<Rightarrow> None | Some w \<Rightarrow> reaper_tick env io spis w)"

definition reaperLoop_tick :: "'k ike_env \<Rightarrow> (u64 \<Rightarrow> ike_io) \<Rightarrow> u64 list \<Rightarrow> 'k ike_world \<Rightarrow> 'k ike_world option" where
  "reaperLoop_tick env io spis w = (if ik_DPDEnabled (c_IKEv2 (ie_cfg env)) then reaper_tick env io spis w else Some w)"

section \<open>Identities of states and policies\<close>

definition child_states :: "net_ip \<Rightarrow> net_ip \<Rightarrow> u32 \<Rightarrow> u32 \<Rightarrow> (net_ip \<times> int \<times> xfrm_proto) set" where
  "child_states l r inSPI outSPI = {(l, uint inSPI, XFRM_PROTO_ESP), (r, uint outSPI, XFRM_PROTO_ESP)}"

definition child_policies :: "ip_net \<Rightarrow> (ip_net \<times> ip_net \<times> xfrm_dir \<times> int) set" where
  "child_policies ts = {(ts, local_ts, XFRM_DIR_IN, uint IfID), (ts, local_ts, XFRM_DIR_FWD, uint IfID), (local_ts, ts, XFRM_DIR_OUT, uint IfID)}"

lemma child_params_simps [simp]:
  "cp_LocalIP (child_params l rm i out ks nm nt lts rts) = l" "cp_RemoteIP (child_params l rm i out ks nm nt lts rts) = fst rm"
  "cp_InboundSPI (child_params l rm i out ks nm nt lts rts) = i" "cp_OutboundSPI (child_params l rm i out ks nm nt lts rts) = out"
  "cp_LocalTS (child_params l rm i out ks nm nt lts rts) = lts" "cp_RemoteTS (child_params l rm i out ks nm nt lts rts) = rts"
  "cp_IfID (child_params l rm i out ks nm nt lts rts) = IfID"
  by (simp_all add: child_params_def split: prod.splits)

lemma buildSAs_keys:
  "buildSAs p l r = (inb, outb) \<Longrightarrow> {state_key inb, state_key outb} = child_states l r (cp_InboundSPI p) (cp_OutboundSPI p)"
  by (auto simp: buildSAs_def state_key_def child_states_def split: prod.splits)

lemma buildPolicies_keys:
  "buildPolicies p l r = (p1, p2, p3) \<Longrightarrow> cp_LocalTS p = local_ts \<Longrightarrow> cp_IfID p = IfID \<Longrightarrow>
   {policy_key p1, policy_key p2, policy_key p3} = child_policies (cp_RemoteTS p)"
  unfolding buildPolicies_def Let_def by (elim Pair_inject, hypsubst) (simp add: policy_key_def child_policies_def)

lemma RemoveChildSA_keys:
  assumes spec: "kernel_spec nl sts pols" and lr: "resolveXFRMIPs (cp_LocalIP p) (cp_RemoteIP p) = Inr (l, r)"
    and p: "cp_LocalTS p = local_ts" "cp_IfID p = IfID"
  shows "sts (xf_kernel (snd (RemoveChildSA nl p s))) = sts (xf_kernel s) - child_states l r (cp_InboundSPI p) (cp_OutboundSPI p) \<and>
    pols (xf_kernel (snd (RemoveChildSA nl p s))) = pols (xf_kernel s) - child_policies (cp_RemoteTS p) \<and>
    xf_inboundSPIs (snd (RemoveChildSA nl p s)) = xf_inboundSPIs s - {cp_InboundSPI p}"
proof -
  obtain inb outb where sas: "buildSAs p l r = (inb, outb)" by fastforce
  obtain p1 p2 p3 where ps: "buildPolicies p l r = (p1, p2, p3)" by (metis prod_cases3)
  obtain e s2 where del: "delete_all [XfrmPolicyDel nl p3, XfrmPolicyDel nl p2, XfrmPolicyDel nl p1, XfrmStateDel nl outb, XfrmStateDel nl inb] None s = (e, s2)"
    by fastforce
  have "snd (RemoveChildSA nl p s) = unmarkInbound (cp_InboundSPI p) s2" using del by (simp add: RemoveChildSA_def lr sas ps)
  with delete_all_effect[OF spec del] show ?thesis
    by (auto simp: buildSAs_keys[OF sas, symmetric] buildPolicies_keys[OF ps p, symmetric])
qed

lemma RemoveChildSAStates_keys:
  assumes spec: "kernel_spec nl sts pols" and lr: "resolveXFRMIPs (cp_LocalIP p) (cp_RemoteIP p) = Inr (l, r)"
  shows "sts (xf_kernel (snd (RemoveChildSAStates nl p s))) = sts (xf_kernel s) - child_states l r (cp_InboundSPI p) (cp_OutboundSPI p) \<and>
    pols (xf_kernel (snd (RemoveChildSAStates nl p s))) = pols (xf_kernel s) \<and>
    xf_inboundSPIs (snd (RemoveChildSAStates nl p s)) = xf_inboundSPIs s - {cp_InboundSPI p}"
proof -
  let ?o = "bare_state l r (cp_OutboundSPI p) (cp_IfID p)" and ?i = "bare_state r l (cp_InboundSPI p) (cp_IfID p)"
  obtain e1 s1 where c1: "call (XfrmStateDel nl ?o) s = (e1, s1)" by fastforce
  obtain e2 s2 where c2: "call (XfrmStateDel nl ?i) s1 = (e2, s2)" by fastforce
  have "snd (RemoveChildSAStates nl p s) = unmarkInbound (cp_InboundSPI p) s2" using c1 c2 by (simp add: RemoveChildSAStates_def lr)
  moreover have "child_states l r (cp_InboundSPI p) (cp_OutboundSPI p) = {state_key ?i, state_key ?o}"
    by (simp add: child_states_def state_key_def bare_state_def)
  ultimately show ?thesis using kernel_spec_del(1)[OF spec c1] kernel_spec_del(1)[OF spec c2] by auto
qed

lemma InstallChildSA_keys:
  assumes spec: "kernel_spec nl sts pols" and new: "cp_InboundSPI p \<notin> xf_inboundSPIs s"
    and p: "cp_LocalTS p = local_ts" "cp_IfID p = IfID" and ins: "InstallChildSA nl p s = (None, s')"
  obtains l r where "resolveXFRMIPs (cp_LocalIP p) (cp_RemoteIP p) = Inr (l, r)"
    "sts (xf_kernel s') = child_states l r (cp_InboundSPI p) (cp_OutboundSPI p) \<union> sts (xf_kernel s)"
    "pols (xf_kernel s') = child_policies (cp_RemoteTS p) \<union> pols (xf_kernel s)"
    "child_states l r (cp_InboundSPI p) (cp_OutboundSPI p) \<inter> sts (xf_kernel s) = {}"
    "child_policies (cp_RemoteTS p) \<inter> pols (xf_kernel s) = {}"
    "xf_inboundSPIs s' = insert (cp_InboundSPI p) (xf_inboundSPIs s)"
proof -
  from InstallChildSA_effect[OF spec new ins] obtain l r inb outb p1 p2 p3 where
    d: "resolveXFRMIPs (cp_LocalIP p) (cp_RemoteIP p) = Inr (l, r)" "buildSAs p l r = (inb, outb)" "buildPolicies p l r = (p1, p2, p3)"
    and k: "sts (xf_kernel s') = {state_key inb, state_key outb} \<union> sts (xf_kernel s)"
      "pols (xf_kernel s') = {policy_key p1, policy_key p2, policy_key p3} \<union> pols (xf_kernel s)"
      "{state_key inb, state_key outb} \<inter> sts (xf_kernel s) = {}" "{policy_key p1, policy_key p2, policy_key p3} \<inter> pols (xf_kernel s) = {}"
      "xf_inboundSPIs s' = insert (cp_InboundSPI p) (xf_inboundSPIs s)" by auto
  from k show thesis unfolding buildSAs_keys[OF d(2)] buildPolicies_keys[OF d(3) p] by (rule that[OF d(1)])
qed

section \<open>Teardown is complete\<close>

text \<open>A CHILD SA without a combined-mode cipher has an integrity algorithm, as every supported proposal does.\<close>

definition child_ok :: "childProposal \<Rightarrow> bool" where
  "child_ok prop \<longleftrightarrow> IsAEAD (ch_encr prop) \<or> ch_integ prop \<noteq> None"

lemma child_ok_names: "child_ok prop \<Longrightarrow> \<exists>names. childAlgNames prop = Inr names"
  by (auto simp: child_ok_def childAlgNames_def)

lemma current_params_returns:
  assumes "crypto_ok (ie_crypto env)" "child_ok prop"
  obtains keys names where
    "current_params env sa prop remote w =
       Some (child_params (sa_localIP sa) remote (sa_localESPSPI sa) (sa_peerESPSPI sa) keys names (sa_natT sa) local_ts (session_ts sa w))"
proof -
  obtain names where "childAlgNames prop = Inr names" using child_ok_names[OF assms(2)] by blast
  moreover obtain keys where "deriveChildSAKeys (ie_crypto env) (sa_saKey sa) (sa_nonceI sa) (sa_nonceR sa) (encr_KeyLen (ch_encr prop)) (integKeyLen (ch_integ prop)) = Some keys"
    using deriveChildSAKeys_returns(1)[OF assms(1)] by blast
  ultimately show thesis using that by (simp add: current_params_def)
qed

definition xfrm_only :: "'k ike_world \<Rightarrow> 'k ike_world \<Rightarrow> bool" where
  "xfrm_only w w' \<longleftrightarrow> (\<exists>x. w' = w\<lparr>iw_xfrm := x\<rparr>)"

lemma xfrm_only_refl [simp, intro]: "xfrm_only w w"
  unfolding xfrm_only_def by (rule exI[of _ "iw_xfrm w"]) simp

lemma xfrm_only_set [simp, intro]: "xfrm_only w (set_xfrm r w)" "xfrm_only w (w\<lparr>iw_xfrm := x\<rparr>)"
  by (auto simp: xfrm_only_def set_xfrm_def)

lemma xfrm_only_trans: "xfrm_only w w' \<Longrightarrow> xfrm_only w' w'' \<Longrightarrow> xfrm_only w w''"
  by (auto simp: xfrm_only_def)

lemma xfrm_only_frame:
  "xfrm_only w w' \<Longrightarrow> iw_sas w' = iw_sas w \<and> iw_cookies w' = iw_cookies w \<and> iw_sessions w' = iw_sessions w \<and> iw_gtpu w' = iw_gtpu w \<and>
    iw_s2b w' = iw_s2b w \<and> iw_swm w' = iw_swm w \<and> iw_sent w' = iw_sent w \<and> iw_s2bSent w' = iw_s2bSent w"
  by (auto simp: xfrm_only_def)

lemma removeXFRMChildSA_frame: "removeXFRMChildSA env sa w = Some w' \<Longrightarrow> xfrm_only w w'"
  by (auto simp: removeXFRMChildSA_def split: option.splits if_splits)

definition sa_ok :: "ikeSA \<Rightarrow> bool" where
  "sa_ok sa \<longleftrightarrow> key_ok (sa_saKey sa) \<and> (\<forall>pr. sa_espProp sa = Some pr \<longrightarrow> child_ok pr) \<and> (\<forall>pr. sa_pendingESPProp sa = Some pr \<longrightarrow> child_ok pr)"

lemma removeXFRMChildSA_returns:
  assumes "crypto_ok (ie_crypto env)" "sa_ok sa"
  shows "\<exists>w'. removeXFRMChildSA env sa w = Some w'"
proof (cases "sa_espProp sa")
  case (Some pr)
  then have "child_ok pr" using assms(2) by (simp add: sa_ok_def)
  then obtain p where "current_params env sa pr (sa_remoteAddr sa) w = Some p" by (rule current_params_returns[OF assms(1)])
  with Some show ?thesis by (simp add: removeXFRMChildSA_def)
qed (simp add: removeXFRMChildSA_def)

lemma teardown_session_frame:
  assumes "teardown_session env io sa w = (h, w')"
  shows "iw_sas w' = iw_sas w \<and> iw_xfrm w' = iw_xfrm w \<and> iw_sent w' = iw_sent w \<and> iw_cookies w' = iw_cookies w \<and> iw_swm w' = iw_swm w"
  using assms by (auto simp: teardown_session_def upd_session_def Let_def split: option.splits prod.splits if_splits)

lemma teardown_session_sessions:
  assumes "teardown_session env io sa w = (h, w')" "mgr_inv (iw_sessions w)"
  shows "mgr_sessions (iw_sessions w') =
    (if session_of sa w = None then mgr_sessions (iw_sessions w) else (mgr_sessions (iw_sessions w))(sa_sessionID sa := None))"
proof (cases "session_of sa w")
  case None
  then show ?thesis using assms(1) by (auto simp: teardown_session_def)
next
  case (Some sess)
  then have "s_ID sess = sa_sessionID sa" using assms(2) by (auto simp: session_of_def Get_def mgr_inv_def split: if_splits)
  with Some assms(1) show ?thesis
    by (auto simp: teardown_session_def upd_session_def update_session_def Delete_def Let_def split: option.splits prod.splits if_splits)
qed

lemma teardown_session_gtpu:
  assumes "teardown_session env io sa w = (h, w')"
  shows "iw_gtpu w' = (case session_of sa w of None \<Rightarrow> iw_gtpu w
    | Some sess \<Rightarrow> if s_S2B sess = None then iw_gtpu w else RemoveSession (ie_genv env) (iw_gtpu w) (Some sess))"
  using assms by (auto simp: teardown_session_def upd_session_def Let_def split: option.splits prod.splits if_splits)

definition sa_states :: "net_ip \<Rightarrow> net_ip \<Rightarrow> ikeSA \<Rightarrow> (net_ip \<times> int \<times> xfrm_proto) set" where
  "sa_states l r sa = child_states l r (sa_localESPSPI sa) (sa_peerESPSPI sa) \<union>
     (if sa_pendingESPProp sa = None then {} else child_states l r (sa_pendingLocalESPSPI sa) (sa_pendingPeerESPSPI sa))"

lemma resolve_local: "resolveXFRMIPs l r = Inr lr \<Longrightarrow> l \<noteq> []"
  by (auto simp: resolveXFRMIPs_def To4_def To16_def)

text \<open>The four steps of a teardown that returns.\<close>

lemma fullTeardown_steps:
  assumes "fullTeardown env io sa w = Some w'"
  obtains w1 w2 h w3 where "removeXFRMChildSA env sa w = Some w1"
    "w2 = (if sa_pendingESPProp sa \<noteq> None \<and> sa_localIP sa \<noteq> []
           then set_xfrm (RemoveChildSAStates (ie_nl env) (bare_params sa (sa_pendingLocalESPSPI sa) (sa_pendingPeerESPSPI sa)) (iw_xfrm w1)) w1 else w1)"
    "teardown_session env io sa w2 = (h, w3)"
    "\<exists>s. w' = deleteSA (sa_spiI sa) (w3\<lparr>iw_swm := s\<rparr>)"
proof -
  have self: "\<exists>s. deleteSA i w3 = deleteSA i (w3\<lparr>iw_swm := s\<rparr>)" for i and w3 :: "'a ike_world" by (rule exI[of _ "iw_swm w3"]) simp
  from assms obtain w1 where w1: "removeXFRMChildSA env sa w = Some w1" by (auto simp: fullTeardown_def split: option.splits)
  define w2 where "w2 = (if sa_pendingESPProp sa \<noteq> None \<and> sa_localIP sa \<noteq> []
           then set_xfrm (RemoveChildSAStates (ie_nl env) (bare_params sa (sa_pendingLocalESPSPI sa) (sa_pendingPeerESPSPI sa)) (iw_xfrm w1)) w1 else w1)"
  obtain h w3 where w3: "teardown_session env io sa w2 = (h, w3)" by fastforce
  have "\<exists>s. w' = deleteSA (sa_spiI sa) (w3\<lparr>iw_swm := s\<rparr>)"
    using assms w1 w3 self[of _ w3] unfolding fullTeardown_def w2_def[symmetric] Let_def by (cases "sa_swmSessionID sa = ''''") (auto simp: w2_def)
  with that w1 w2_def w3 show thesis by blast
qed

lemma deleteSA_simps [simp]:
  "iw_sas (deleteSA i w) = AList.delete i (iw_sas w)" "iw_sessions (deleteSA i w) = iw_sessions w" "iw_gtpu (deleteSA i w) = iw_gtpu w"
  "iw_xfrm (deleteSA i w) = iw_xfrm w" "iw_sent (deleteSA i w) = iw_sent w" "iw_cookies (deleteSA i w) = iw_cookies w"
  by (simp_all add: deleteSA_def)

lemma set_xfrm_simps [simp]:
  "iw_sas (set_xfrm r w) = iw_sas w" "iw_sessions (set_xfrm r w) = iw_sessions w" "iw_gtpu (set_xfrm r w) = iw_gtpu w"
  "iw_xfrm (set_xfrm r w) = snd r" "iw_sent (set_xfrm r w) = iw_sent w" "iw_cookies (set_xfrm r w) = iw_cookies w"
  by (simp_all add: set_xfrm_def)

lemma session_of_frame: "iw_sessions w' = iw_sessions w \<Longrightarrow> session_of sa w' = session_of sa w"
  by (simp add: session_of_def)

lemma fullTeardown_returns:
  assumes "crypto_ok (ie_crypto env)" "sa_ok sa"
  shows "\<exists>w'. fullTeardown env io sa w = Some w'"
  using removeXFRMChildSA_returns[OF assms, of w] by (auto simp: fullTeardown_def Let_def split: prod.splits)

text \<open>Table, sessions and dataplane after a teardown, whatever the SA owned.\<close>

lemma fullTeardown_tables:
  assumes t: "fullTeardown env io sa w = Some w'" and m: "mgr_inv (iw_sessions w)"
  shows "iw_sas w' = AList.delete (sa_spiI sa) (iw_sas w)" "iw_sent w' = iw_sent w" "iw_cookies w' = iw_cookies w"
    "mgr_sessions (iw_sessions w') =
       (if session_of sa w = None then mgr_sessions (iw_sessions w) else (mgr_sessions (iw_sessions w))(sa_sessionID sa := None))"
    "iw_gtpu w' = (case session_of sa w of None \<Rightarrow> iw_gtpu w
       | Some sess \<Rightarrow> if s_S2B sess = None then iw_gtpu w else RemoveSession (ie_genv env) (iw_gtpu w) (Some sess))"
proof -
  from t obtain w1 w2 h w3 where w1: "removeXFRMChildSA env sa w = Some w1"
    and w2: "w2 = (if sa_pendingESPProp sa \<noteq> None \<and> sa_localIP sa \<noteq> []
           then set_xfrm (RemoveChildSAStates (ie_nl env) (bare_params sa (sa_pendingLocalESPSPI sa) (sa_pendingPeerESPSPI sa)) (iw_xfrm w1)) w1 else w1)"
    and w3: "teardown_session env io sa w2 = (h, w3)" and w': "\<exists>s. w' = deleteSA (sa_spiI sa) (w3\<lparr>iw_swm := s\<rparr>)"
    by (rule fullTeardown_steps)
  have "xfrm_only w1 w2" by (simp add: w2)
  note fr = xfrm_only_frame[OF xfrm_only_trans[OF removeXFRMChildSA_frame[OF w1] this]]
  have so: "session_of sa w2 = session_of sa w" using fr session_of_frame by blast
  note ts = teardown_session_frame[OF w3] teardown_session_sessions[OF w3] teardown_session_gtpu[OF w3]
  show "iw_sas w' = AList.delete (sa_spiI sa) (iw_sas w)" "iw_sent w' = iw_sent w" "iw_cookies w' = iw_cookies w"
    using w' fr ts(1) by auto
  show "mgr_sessions (iw_sessions w') =
       (if session_of sa w = None then mgr_sessions (iw_sessions w) else (mgr_sessions (iw_sessions w))(sa_sessionID sa := None))"
    using w' fr ts(2) m so by auto
  show "iw_gtpu w' = (case session_of sa w of None \<Rightarrow> iw_gtpu w
       | Some sess \<Rightarrow> if s_S2B sess = None then iw_gtpu w else RemoveSession (ie_genv env) (iw_gtpu w) (Some sess))"
    using w' fr ts(3) so by (auto split: option.splits)
qed

text \<open>The kernel after a teardown.\<close>

lemma fullTeardown_kernel:
  assumes t: "fullTeardown env io sa w = Some w'" and cr: "crypto_ok (ie_crypto env)" and spec: "kernel_spec (ie_nl env) sts pols"
    and sa: "sa_espProp sa = Some pr" "child_ok pr" "sa_localESPSPI sa \<noteq> 0"
    and lr: "resolveXFRMIPs (sa_localIP sa) (fst (sa_remoteAddr sa)) = Inr (l, r)"
  shows "sts (xf_kernel (iw_xfrm w')) = sts (xf_kernel (iw_xfrm w)) - sa_states l r sa \<and>
    pols (xf_kernel (iw_xfrm w')) = pols (xf_kernel (iw_xfrm w)) - child_policies (session_ts sa w)"
proof -
  from t obtain w1 w2 h w3 where w1: "removeXFRMChildSA env sa w = Some w1"
    and w2: "w2 = (if sa_pendingESPProp sa \<noteq> None \<and> sa_localIP sa \<noteq> []
           then set_xfrm (RemoveChildSAStates (ie_nl env) (bare_params sa (sa_pendingLocalESPSPI sa) (sa_pendingPeerESPSPI sa)) (iw_xfrm w1)) w1 else w1)"
    and w3: "teardown_session env io sa w2 = (h, w3)" and w': "\<exists>s. w' = deleteSA (sa_spiI sa) (w3\<lparr>iw_swm := s\<rparr>)"
    by (rule fullTeardown_steps)
  obtain keys names where cp: "current_params env sa pr (sa_remoteAddr sa) w =
       Some (child_params (sa_localIP sa) (sa_remoteAddr sa) (sa_localESPSPI sa) (sa_peerESPSPI sa) keys names (sa_natT sa) local_ts (session_ts sa w))"
    by (rule current_params_returns[OF cr sa(2)])
  have l: "sa_localIP sa \<noteq> []" by (rule resolve_local[OF lr])
  have x1: "iw_xfrm w1 = snd (RemoveChildSA (ie_nl env)
      (child_params (sa_localIP sa) (sa_remoteAddr sa) (sa_localESPSPI sa) (sa_peerESPSPI sa) keys names (sa_natT sa) local_ts (session_ts sa w)) (iw_xfrm w))"
    using w1 sa l cp by (auto simp: removeXFRMChildSA_def)
  have "iw_xfrm w' = iw_xfrm w2" using w' teardown_session_frame[OF w3] by auto
  moreover have "resolveXFRMIPs (cp_LocalIP (bare_params sa i ou)) (cp_RemoteIP (bare_params sa i ou)) = Inr (l, r)" for i ou
    by (simp add: bare_params_def lr)
  note RemoveChildSAStates_keys[OF spec this, of _ _ "iw_xfrm w1"]
  moreover note RemoveChildSA_keys[OF spec, of "child_params (sa_localIP sa) (sa_remoteAddr sa) (sa_localESPSPI sa) (sa_peerESPSPI sa) keys names (sa_natT sa) local_ts (session_ts sa w)"
      l r "iw_xfrm w", folded x1]
  ultimately show ?thesis by (auto simp: w2 sa_states_def lr l bare_params_def)
qed


text \<open>An established SA with its session, its kernel states and those of another SA, for the witnesses.\<close>

definition demo_sa :: ikeSA where
  "demo_sa = demo_half_open\<lparr>sa_state := ikeStateEstablished, sa_espProp := Some (esp_prop encrAesGcm16_256 None None), sa_localESPSPI := 256,
     sa_peerESPSPI := 512, sa_sessionID := ''s'', sa_mobikeEnabled := True\<rparr>"

definition demo_up :: "demo_kernel ike_world" where
  "demo_up = demo_ike_world\<lparr>iw_sas := [(17, demo_sa), (18, demo_half_open\<lparr>sa_spiI := 18\<rparr>)],
     iw_sessions := NewManager\<lparr>mgr_sessions := [''s'' \<mapsto> demo_session]\<rparr>, iw_gtpu := demo_installed,
     iw_xfrm := \<lparr>xf_kernel = ([([10, 0, 0, 1], 256, XFRM_PROTO_ESP), ([192, 0, 2, 7], 512, XFRM_PROTO_ESP), ([10, 0, 0, 1], 300, XFRM_PROTO_ESP)], []),
       xf_inboundSPIs = {256, 300}\<rparr>\<rparr>"

lemma demo_sa_simps [simp]:
  "sa_spiI demo_sa = 17" "sa_state demo_sa = ikeStateEstablished" "sa_localIP demo_sa = [10, 0, 0, 1]" "sa_remoteAddr demo_sa = ([192, 0, 2, 7], 500)"
  "sa_localESPSPI demo_sa = 256" "sa_peerESPSPI demo_sa = 512" "sa_sessionID demo_sa = ''s''" "sa_espProp demo_sa = Some (esp_prop encrAesGcm16_256 None None)"
  "sa_pendingESPProp demo_sa = None" "sa_saKey demo_sa = demo_keys" "sa_dpdSentAt demo_sa = None" "sa_lastSeen demo_sa = 7" "sa_natT demo_sa = False"
  "sa_mobikeEnabled demo_sa = True" "sa_cookie2 demo_sa = None" "sa_ourMsgID demo_sa = 0"
  by (simp_all add: demo_sa_def demo_half_open_def half_open_sa_def demo_ike_io_def)

lemma demo_up_simps:
  "iw_sas demo_up = [(17, demo_sa), (18, demo_half_open\<lparr>sa_spiI := 18\<rparr>)]" "session_of demo_sa demo_up = Some demo_session"
  "mgr_inv (iw_sessions demo_up)" "s_S2B demo_session \<noteq> None" "ie_nl demo_ike_env = table_netlink"
  "crypto_ok (ie_crypto demo_ike_env)" "range_ok (ie_genv demo_ike_env)" "resolveXFRMIPs [10, 0, 0, 1] [192, 0, 2, 7] = Inr ([10, 0, 0, 1], [192, 0, 2, 7])"
  by (simp_all add: demo_up_def session_of_def Get_def mgr_inv_def demo_session_def New_def demo_ike_env_def demo_crypto_ok demo_range_ok resolveXFRMIPs_def To4_def)

lemma demo_sa_ok: "sa_ok demo_sa"
  by (simp add: sa_ok_def key_ok_def child_ok_def demo_keys_def esp_prop_def ike_algs IsAEAD_def)


section \<open>Message handling keeps the other SAs\<close>

lemma map_entry_keys: "map fst (AList.map_entry k f al) = map fst al"
  by (induction al) auto

lemma lookup_putSA [simp]:
  "lookupSA spi (putSA sa w) = (if spi = sa_spiI sa then map_option (\<lambda>_. sa) (lookupSA spi w) else lookupSA spi w)"
  by (simp add: lookupSA_def putSA_def map_of_map_entry split: option.splits)

lemma putSA_simps [simp]:
  "iw_sessions (putSA sa w) = iw_sessions w" "iw_gtpu (putSA sa w) = iw_gtpu w" "iw_xfrm (putSA sa w) = iw_xfrm w" "iw_cookies (putSA sa w) = iw_cookies w"
  "iw_s2b (putSA sa w) = iw_s2b w" "iw_swm (putSA sa w) = iw_swm w" "iw_sent (putSA sa w) = iw_sent w" "iw_s2bSent (putSA sa w) = iw_s2bSent w"
  "map fst (iw_sas (putSA sa w)) = map fst (iw_sas w)"
  by (simp_all add: putSA_def map_entry_keys)

lemma upd_session_simps [simp]:
  "iw_sas (upd_session i f w) = iw_sas w" "iw_gtpu (upd_session i f w) = iw_gtpu w" "iw_xfrm (upd_session i f w) = iw_xfrm w"
  "iw_cookies (upd_session i f w) = iw_cookies w" "iw_s2b (upd_session i f w) = iw_s2b w" "iw_swm (upd_session i f w) = iw_swm w"
  "iw_sent (upd_session i f w) = iw_sent w"
  by (simp_all add: upd_session_def)

lemma lookup_frames [simp]: "lookupSA spi (upd_session i f w) = lookupSA spi w" "lookupSA spi (set_xfrm r w) = lookupSA spi w"
  "lookupSA spi (w\<lparr>iw_xfrm := x\<rparr>) = lookupSA spi w"
  by (simp_all add: lookupSA_def)

lemma lookup_sends: "sends w w' \<Longrightarrow> lookupSA spi w' = lookupSA spi w"
  by (auto simp: sends_def lookupSA_def)

lemma lookup_xfrm_only: "xfrm_only w w' \<Longrightarrow> lookupSA spi w' = lookupSA spi w"
  by (auto simp: xfrm_only_def)

text \<open>What the deletion of CHILD SAs leaves alone of the SA.\<close>

definition same_peer :: "ikeSA \<Rightarrow> ikeSA \<Rightarrow> bool" where
  "same_peer sa sa' \<longleftrightarrow> sa_spiI sa' = sa_spiI sa \<and> sa_spiR sa' = sa_spiR sa \<and> sa_remoteAddr sa' = sa_remoteAddr sa \<and> sa_natT sa' = sa_natT sa \<and>
     sa_saKey sa' = sa_saKey sa \<and> sa_state sa' = sa_state sa \<and> sa_sessionID sa' = sa_sessionID sa \<and> sa_localIP sa' = sa_localIP sa \<and>
     sa_swmSessionID sa' = sa_swmSessionID sa \<and> sa_cookie2 sa' = sa_cookie2 sa \<and> sa_mobikeEnabled sa' = sa_mobikeEnabled sa"

lemma same_peer_steps [simp]: "same_peer sa sa" "same_peer sa (clear_pending sa)" "same_peer sa (promote_pending sa)"
  by (simp_all add: same_peer_def clear_pending_def promote_pending_def)

lemma same_peer_trans: "same_peer sa sa' \<Longrightarrow> same_peer sa' sa'' \<Longrightarrow> same_peer sa sa''"
  by (simp add: same_peer_def)

lemma sa_ok_steps [simp]: "sa_ok sa \<Longrightarrow> sa_ok (clear_pending sa)" "sa_ok sa \<Longrightarrow> sa_ok (promote_pending sa)"
  by (simp_all add: sa_ok_def clear_pending_def promote_pending_def)

text \<open>Only the SA itself changes in the table.\<close>

definition only_sa :: "u64 \<Rightarrow> 'k ike_world \<Rightarrow> 'k ike_world \<Rightarrow> bool" where
  "only_sa spi w w' \<longleftrightarrow> (\<forall>spi'. spi' \<noteq> spi \<longrightarrow> lookupSA spi' w' = lookupSA spi' w)"

lemma only_sa_simps [simp]: "only_sa spi w w" "only_sa (sa_spiI sa) w (putSA sa w)" "only_sa spi w (upd_session i f w)" "only_sa spi w (set_xfrm r w)"
  by (simp_all add: only_sa_def)

lemma only_sa_trans: "only_sa spi w w' \<Longrightarrow> only_sa spi w' w'' \<Longrightarrow> only_sa spi w w''"
  by (simp add: only_sa_def)

lemma delete_child_sa:
  assumes "delete_child env spi sa w = Some (sa', w')" "lookupSA (sa_spiI sa) w = Some sa"
  shows "only_sa (sa_spiI sa) w w' \<and> lookupSA (sa_spiI sa) w' = Some sa' \<and> same_peer sa sa' \<and> (sa_ok sa \<longrightarrow> sa_ok sa')"
proof -
  have put: "sa_spiI (promote_pending sa) = sa_spiI sa" "sa_spiI (clear_pending sa) = sa_spiI sa" by (simp_all add: promote_pending_def clear_pending_def)
  show ?thesis
    using assms by (auto simp: delete_child_def Let_def put only_sa_def xfrm_only_def split: if_splits dest!: removeXFRMChildSA_frame)
qed

lemma delete_children_sa:
  assumes "delete_children env spis sa w = Some w'" "lookupSA (sa_spiI sa) w = Some sa"
  shows "only_sa (sa_spiI sa) w w' \<and> (\<exists>sa'. lookupSA (sa_spiI sa) w' = Some sa' \<and> same_peer sa sa' \<and> (sa_ok sa \<longrightarrow> sa_ok sa'))"
  using assms
proof (induction spis arbitrary: sa w)
  case (Cons spi spis)
  from Cons.prems(1) obtain sa1 w1 where d: "delete_child env spi sa w = Some (sa1, w1)" "delete_children env spis sa1 w1 = Some w'"
    by (auto split: option.splits)
  note one = delete_child_sa[OF d(1) Cons.prems(2)]
  then have s: "sa_spiI sa1 = sa_spiI sa" by (simp add: same_peer_def)
  then have "lookupSA (sa_spiI sa1) w1 = Some sa1" using one by simp
  from Cons.IH[OF d(2) this] one show ?case unfolding s using only_sa_trans same_peer_trans by blast
qed auto

lemma delete_children_returns:
  assumes "crypto_ok (ie_crypto env)" "sa_ok sa"
  shows "\<exists>w'. delete_children env spis sa w = Some w'"
  using assms(2)
proof (induction spis arbitrary: sa w)
  case (Cons spi spis)
  have "\<exists>sa1 w1. delete_child env spi sa w = Some (sa1, w1) \<and> sa_ok sa1"
    using removeXFRMChildSA_returns[OF assms(1) Cons.prems, of w] Cons.prems by (auto simp: delete_child_def Let_def)
  then show ?case using Cons.IH by fastforce
qed simp

section \<open>MOBIKE\<close>

lemma raw_sends:
  "sendEncryptedRaw env iv conn remote sa ex mid inner plain natt w = Some (b, w') \<Longrightarrow> sends w w'"
  "map_option snd (sendEncryptedRaw env iv conn remote sa ex mid inner plain natt w) = Some w' \<Longrightarrow> sends w w'"
  by (auto simp: sendEncryptedRaw_def dest: send_encrypted_sends)

lemma raw_returns: "key_ok (sa_saKey sa) \<Longrightarrow> \<exists>b w'. sendEncryptedRaw env iv conn remote sa ex mid inner plain natt w = Some (b, w')"
  using send_encrypted_returns[of sa] by (fastforce simp: sendEncryptedRaw_def)

lemma migrateMobikeXFRM_frame: "migrateMobikeXFRM env sa pr remote w = Some (b, w') \<Longrightarrow> xfrm_only w w'"
  by (auto simp: migrateMobikeXFRM_def split: option.splits if_splits prod.splits)

lemma migrateMobikeXFRM_family:
  "migrateMobikeXFRM env sa pr remote w = Some (True, w') \<Longrightarrow> (To4 (fst (sa_remoteAddr sa)) = []) = (To4 (fst remote) = [])"
  by (auto simp: migrateMobikeXFRM_def split: option.splits if_splits prod.splits)

lemma migrateMobikeXFRM_returns:
  assumes "crypto_ok (ie_crypto env)" "child_ok pr"
  shows "migrateMobikeXFRM env sa pr remote w \<noteq> None"
proof -
  obtain p where "current_params env sa pr (sa_remoteAddr sa) w = Some p" by (rule current_params_returns[OF assms])
  moreover obtain p' where "current_params env sa pr remote w = Some p'" by (rule current_params_returns[OF assms])
  ultimately show ?thesis by (simp add: migrateMobikeXFRM_def del: not_None_eq split: prod.splits)
qed

text \<open>The SA is moved to the address of the message.\<close>

definition moved :: "udp_addr \<Rightarrow> ikeSA \<Rightarrow> ikeSA" where
  "moved remote sa = sa\<lparr>sa_remoteAddr := remote, sa_cookie2 := None\<rparr>"

text \<open>Either the address stays and at most a challenge is stored, or the pending challenge was echoed and the SA moves.\<close>

lemma handleUpdateSA_cases:
  assumes h: "handleUpdateSA env io conn remote sa mid c2 natt w = Some w'"
  obtains (stays) w1 where "xfrm_only w w1" "sends w1 w'"
  | (challenge) c where "io_cookie2 io = Some c" "sends (putSA (sa\<lparr>sa_cookie2 := Some c\<rparr>) w) w'"
  | (moves) pr w1 where "sa_espProp sa = Some pr" "sa_cookie2 sa = Some c2" "c2 \<noteq> []" "migrateMobikeXFRM env sa pr remote w = Some (True, w1)"
      "sends (if sa_sessionID sa = '''' then putSA (moved remote sa) w1
              else upd_session (sa_sessionID sa) (\<lambda>s. s\<lparr>s_OuterIP := UDP_String remote\<rparr>) (putSA (moved remote sa) w1)) w'"
proof (cases "sa_espProp sa")
  case None
  then have "sends w w'" using h by (auto simp: handleUpdateSA_def dest: raw_sends(1))
  then show thesis using stays by blast
next
  case (Some pr)
  consider "sa_localIP sa = [] \<or> ((c2 = [] \<or> sa_cookie2 sa = None) \<and> io_cookie2 io = None)"
    | c where "sa_localIP sa \<noteq> []" "c2 = [] \<or> sa_cookie2 sa = None" "io_cookie2 io = Some c"
    | c where "sa_localIP sa \<noteq> []" "c2 \<noteq> []" "sa_cookie2 sa = Some c" by (cases "io_cookie2 io"; cases "sa_cookie2 sa"; cases "sa_localIP sa = []"; cases "c2 = []") auto
  then show thesis
  proof cases
    case 1
    then have "sends w w'" using h Some by (auto simp: handleUpdateSA_def Let_def split: if_splits dest: raw_sends(1))
    then show thesis using stays by blast
  next
    case (2 c)
    then have "send_notify env (io_iv io) conn remote (sa\<lparr>sa_cookie2 := Some c\<rparr>) INFORMATIONAL mid COOKIE2 c natt (putSA (sa\<lparr>sa_cookie2 := Some c\<rparr>) w) = Some w'"
      using h Some by (auto simp: handleUpdateSA_def Let_def split: if_splits)
    then show thesis using challenge[OF 2(3)] send_notify_sends by blast
  next
    case (3 c)
    show thesis
    proof (cases "c2 = c")
      case False
      then have "sends w w'" using h Some 3 by (auto simp: handleUpdateSA_def Let_def constEqual_iff split: if_splits dest: raw_sends(1))
      then show thesis using stays by blast
    next
      case True
      with h Some 3 obtain b w1 where m: "migrateMobikeXFRM env sa pr remote w = Some (b, w1)"
        by (auto simp: handleUpdateSA_def Let_def constEqual_iff split: if_splits option.splits)
      show thesis
      proof (cases b)
        case False
        then have "sends w1 w'" using h Some 3 True m by (auto simp: handleUpdateSA_def Let_def constEqual_iff split: if_splits dest: raw_sends(1))
        then show thesis using stays migrateMobikeXFRM_frame[OF m] by blast
      next
        case b: True
        have m': "migrateMobikeXFRM env sa pr remote w = Some (True, w1)" using m b by simp
        then show thesis
          using h Some 3 True by (intro moves[OF Some _ _ m']) (auto simp: handleUpdateSA_def Let_def constEqual_iff moved_def split: if_splits dest: raw_sends(1))
      qed
    qed
  qed
qed

lemma inform_request_cases:
  assumes h: "inform_request env io conn remote pkt hdr sa w = Some w'"
  obtains (ignored) e where "decryptSK (ie_crypto env) (sa_saKey sa) pkt = Inl e" "w' = w"
  | (update) innerType plain pl where "decryptSK (ie_crypto env) (sa_saKey sa) pkt = Inr (innerType, plain)"
      "parseInfoPayloads (ie_lib env) innerType plain = Some pl" "in_hasUpdateSA pl" "sa_mobikeEnabled sa"
      "handleUpdateSA env io conn remote sa (ih_MessageID hdr) (in_cookie2 pl) (sa_natT sa) w = Some w'"
  | (delete) innerType plain pl w1 where "decryptSK (ie_crypto env) (sa_saKey sa) pkt = Inr (innerType, plain)"
      "parseInfoPayloads (ie_lib env) innerType plain = Some pl" "in_deleteIKE pl" "sends w w1"
      "fullTeardown env io (sa\<lparr>sa_state := ikeStateDeleting\<rparr>) (putSA (sa\<lparr>sa_state := ikeStateDeleting\<rparr>) w1) = Some w'"
  | (children) innerType plain pl w1 where "decryptSK (ie_crypto env) (sa_saKey sa) pkt = Inr (innerType, plain)"
      "parseInfoPayloads (ie_lib env) innerType plain = Some pl" "sends w w1" "delete_children env (in_deleteESPSPIs pl) sa w1 = Some w'"
proof (cases "decryptSK (ie_crypto env) (sa_saKey sa) pkt")
  case (Inl e)
  then show thesis using h ignored by (auto simp: inform_request_def split: if_splits)
next
  case (Inr tp)
  obtain innerType plain where tp: "tp = (innerType, plain)" by fastforce
  from h Inr tp obtain pl where pl: "parseInfoPayloads (ie_lib env) innerType plain = Some pl" by (auto simp: inform_request_def split: option.splits)
  show thesis
  proof (cases "in_hasUpdateSA pl \<and> sa_mobikeEnabled sa")
    case True
    then show thesis using h Inr tp pl update by (simp add: inform_request_def)
  next
    case False
    with h Inr tp pl obtain b w1 where s: "sendEncryptedRaw env (io_iv io) conn remote sa INFORMATIONAL (ih_MessageID hdr) 0 [] (sa_natT sa) w = Some (b, w1)"
      by (auto simp: inform_request_def split: option.splits if_splits)
    note d = Inr[unfolded tp] pl
    show thesis
    proof (cases "in_deleteIKE pl")
      case True
      then show thesis using h Inr tp pl False s by (intro delete[OF d True raw_sends(1)[OF s]]) (simp add: inform_request_def Let_def)
    next
      case nodel: False
      then show thesis using h Inr tp pl False s
        by (intro children[OF d raw_sends(1)[OF s]]) (cases "in_deleteESPSPIs pl"; auto simp: inform_request_def)
    qed
  qed
qed

lemma handleInformational_cases:
  assumes h: "handleInformational env io conn remote pkt hdr w = Some w'"
  obtains (nothing) "w' = w"
  | (alive) sa where "lookupSA (ih_InitiatorSPI hdr) w = Some sa" "ih_Flags hdr AND ResponseBitCheck \<noteq> 0" "sa_dpdSentAt sa \<noteq> None" "ih_MessageID hdr = sa_dpdMsgID sa"
      "w' = putSA (sa\<lparr>sa_lastSeen := io_now io, sa_dpdSentAt := None, sa_dpdMsgID := 0\<rparr>) w"
  | (request) sa where "lookupSA (ih_InitiatorSPI hdr) w = Some sa" "ih_Flags hdr AND ResponseBitCheck = 0" "sa_state sa \<noteq> ikeStateDeleting"
      "inform_request env io conn remote pkt hdr (seen (io_now io) sa) (putSA (seen (io_now io) sa) w) = Some w'"
  using h that by (fastforce simp: handleInformational_def Let_def split: if_splits option.splits)

lemma seen_simps [simp]:
  "sa_spiI (seen t sa) = sa_spiI sa" "sa_remoteAddr (seen t sa) = sa_remoteAddr sa" "sa_cookie2 (seen t sa) = sa_cookie2 sa" "sa_saKey (seen t sa) = sa_saKey sa"
  "sa_mobikeEnabled (seen t sa) = sa_mobikeEnabled sa" "sa_state (seen t sa) = sa_state sa" "sa_sessionID (seen t sa) = sa_sessionID sa" "sa_natT (seen t sa) = sa_natT sa"
  "sa_espProp (seen t sa) = sa_espProp sa" "sa_pendingESPProp (seen t sa) = sa_pendingESPProp sa" "sa_localIP (seen t sa) = sa_localIP sa" "sa_localESPSPI (seen t sa) = sa_localESPSPI sa"
  "sa_peerESPSPI (seen t sa) = sa_peerESPSPI sa"
  by (simp_all add: seen_def)

lemma moved_simps [simp]: "sa_spiI (moved remote sa) = sa_spiI sa" "sa_remoteAddr (moved remote sa) = remote" "sa_cookie2 (moved remote sa) = None"
  "sa_sessionID (moved remote sa) = sa_sessionID sa"
  by (simp_all add: moved_def)

lemma fullTeardown_sas: "fullTeardown env io sa w = Some w' \<Longrightarrow> iw_sas w' = AList.delete (sa_spiI sa) (iw_sas w) \<and> iw_sent w' = iw_sent w"
  by (erule fullTeardown_steps) (auto dest!: removeXFRMChildSA_frame xfrm_only_frame teardown_session_frame)

lemma fullTeardown_lookup: "fullTeardown env io sa w = Some w' \<Longrightarrow> lookupSA spi w' = (if spi = sa_spiI sa then None else lookupSA spi w)"
  by (simp add: lookupSA_def fullTeardown_sas delete_conv')

text \<open>What an INFORMATIONAL request does to the table: the other SAs stay; the SA itself is torn down, moved, or keeps its peer.\<close>

lemma inform_request_sa:
  assumes h: "inform_request env io conn remote pkt hdr sa w = Some w'" and sa: "lookupSA (sa_spiI sa) w = Some sa"
  shows "only_sa (sa_spiI sa) w w' \<and> (\<forall>sa'. lookupSA (sa_spiI sa) w' = Some sa' \<longrightarrow>
    same_peer sa (sa'\<lparr>sa_cookie2 := sa_cookie2 sa\<rparr>) \<or>
    (sa_remoteAddr sa' = remote \<and> sa_cookie2 sa' = None \<and> (To4 (fst (sa_remoteAddr sa)) = []) = (To4 (fst remote) = []) \<and>
     (\<exists>innerType plain pl c. decryptSK (ie_crypto env) (sa_saKey sa) pkt = Inr (innerType, plain) \<and>
        parseInfoPayloads (ie_lib env) innerType plain = Some pl \<and> in_hasUpdateSA pl \<and> sa_mobikeEnabled sa \<and> c \<noteq> [] \<and> sa_cookie2 sa = Some c \<and> in_cookie2 pl = c)))"
  using h
proof (cases rule: inform_request_cases)
  case ignored
  then show ?thesis using sa by (simp add: same_peer_def)
next
  case (update innerType plain pl)
  note d = update
  from d(5) show ?thesis
  proof (cases rule: handleUpdateSA_cases)
    case (stays w1)
    then show ?thesis using sa by (simp add: only_sa_def lookup_sends lookup_xfrm_only same_peer_def)
  next
    case (challenge c)
    then show ?thesis using sa by (auto simp: only_sa_def lookup_sends same_peer_def)
  next
    case (moves pr w1)
    note fr = lookup_xfrm_only[OF migrateMobikeXFRM_frame[OF moves(4)]]
    have "lookupSA spi w' = (if spi = sa_spiI sa then Some (moved remote sa) else lookupSA spi w)" for spi
      using lookup_sends[OF moves(5)] sa fr by (simp split: if_splits)
    then show ?thesis using d moves migrateMobikeXFRM_family[OF moves(4)] by (auto simp: only_sa_def)
  qed
next
  case (delete innerType plain pl w1)
  then show ?thesis by (simp add: only_sa_def fullTeardown_lookup[OF delete(5)] lookup_sends[OF delete(4)])
next
  case (children innerType plain pl w1)
  have "lookupSA (sa_spiI sa) w1 = Some sa" using sa by (simp add: lookup_sends[OF children(3)])
  from delete_children_sa[OF children(4) this] show ?thesis by (auto simp: only_sa_def lookup_sends[OF children(3)] same_peer_def)
qed


text \<open>A peer that echoes the challenge \<^term>\<open>[4]\<close> from a new address.\<close>

definition demo_gcm :: ikeSAKey where
  "demo_gcm = demo_keys\<lparr>sk_encr := encrAesGcm16_256, sk_integ := None, SK_ei := replicate 36 2, SK_er := replicate 36 3\<rparr>"

definition demo_msg :: "byte \<Rightarrow> bytes \<Rightarrow> bytes" where
  "demo_msg t plain = replicate 28 0 @ [t, 0, 0, 0] @ replicate 8 0 @ plain @ replicate 16 0"

lemma demo_decrypt: "decryptSK demo_crypto demo_gcm (demo_msg t plain) = Inr (t, plain)"
  by (simp add: decryptSK_def decryptSKAEAD_def demo_gcm_def IsAEAD_def encrAesGcm16_256_def aeadCipher_def NewCipher_def demo_crypto_def demo_msg_def nth_append Let_def)

lemma demo_gcm_ok: "key_ok demo_gcm"
  by (simp add: key_ok_def demo_gcm_def IsAEAD_def encrAesGcm16_256_def)

definition demo_roaming :: ikeSA where
  "demo_roaming = demo_sa\<lparr>sa_saKey := demo_gcm, sa_cookie2 := Some [4]\<rparr>"

definition demo_hdr :: IKEHeader where
  "demo_hdr = \<lparr>ih_InitiatorSPI = 17, ih_ResponderSPI = 9, ih_NextPayload = 46, ih_ExchangeType = 37, ih_Flags = 8, ih_MessageID = 3\<rparr>"

lemma demo_roaming_simps [simp]:
  "sa_spiI demo_roaming = 17" "sa_state demo_roaming = ikeStateEstablished" "sa_localIP demo_roaming = [10, 0, 0, 1]" "sa_remoteAddr demo_roaming = ([192, 0, 2, 7], 500)"
  "sa_espProp demo_roaming = Some (esp_prop encrAesGcm16_256 None None)" "sa_saKey demo_roaming = demo_gcm" "sa_mobikeEnabled demo_roaming = True" "sa_cookie2 demo_roaming = Some [4]"
  "sa_localESPSPI demo_roaming = 256" "sa_peerESPSPI demo_roaming = 512" "sa_natT demo_roaming = False" "sa_sessionID demo_roaming = ''s''"
  by (simp_all add: demo_roaming_def)

text \<open>The demonstration kernel accepts a CHILD SA whose identities are free.\<close>

lemma table_install:
  assumes lr: "resolveXFRMIPs (cp_LocalIP p) (cp_RemoteIP p) = Inr (l, r)" and p: "cp_LocalTS p = local_ts" "cp_IfID p = IfID"
    and ne: "l \<noteq> r \<or> cp_InboundSPI p \<noteq> cp_OutboundSPI p"
    and free: "child_states l r (cp_InboundSPI p) (cp_OutboundSPI p) \<inter> set (fst (xf_kernel s)) = {}" "child_policies (cp_RemoteTS p) \<inter> set (snd (xf_kernel s)) = {}"
  shows "fst (InstallChildSA table_netlink p s) = None"
proof -
  obtain ss ps where k: "xf_kernel s = (ss, ps)" by fastforce
  obtain inb outb where sas: "buildSAs p l r = (inb, outb)" by fastforce
  have keys: "state_key inb = (l, uint (cp_InboundSPI p), XFRM_PROTO_ESP)" "state_key outb = (r, uint (cp_OutboundSPI p), XFRM_PROTO_ESP)"
    using sas by (auto simp: buildSAs_def state_key_def split: prod.splits)
  show ?thesis unfolding InstallChildSA_def lr sum.case prod.case sas
    using free ne by (auto simp: add_states_def call_def k table_netlink_def table_add_def keys buildPolicies_def policy_key_def p child_states_def child_policies_def
        markInbound_def Let_def dest: unsigned_word_eqI)
qed

lemma demo_migrate:
  "\<exists>w'. migrateMobikeXFRM demo_ike_env (seen t demo_roaming) (esp_prop encrAesGcm16_256 None None) ([192, 0, 2, 9], 500) (demo_up\<lparr>iw_sas := s\<rparr>) = Some (True, w')"
proof -
  have ok: "crypto_ok (ie_crypto demo_ike_env)" "child_ok (esp_prop encrAesGcm16_256 None None)"
    by (simp_all add: demo_up_simps child_ok_def esp_prop_def encrAesGcm16_256_def IsAEAD_def)
  let ?w = "demo_up\<lparr>iw_sas := s\<rparr>" and ?sa = "seen t demo_roaming"
  obtain k n where o: "current_params demo_ike_env ?sa (esp_prop encrAesGcm16_256 None None) (sa_remoteAddr ?sa) ?w =
      Some (child_params (sa_localIP ?sa) (sa_remoteAddr ?sa) (sa_localESPSPI ?sa) (sa_peerESPSPI ?sa) k n (sa_natT ?sa) local_ts (session_ts ?sa ?w))"
    by (rule current_params_returns[OF ok])
  obtain k' n' where n: "current_params demo_ike_env ?sa (esp_prop encrAesGcm16_256 None None) ([192, 0, 2, 9], 500) ?w =
      Some (child_params (sa_localIP ?sa) ([192, 0, 2, 9], 500) (sa_localESPSPI ?sa) (sa_peerESPSPI ?sa) k' n' (sa_natT ?sa) local_ts (session_ts ?sa ?w))"
    by (rule current_params_returns[OF ok])
  have s: "sa_localIP ?sa = [10, 0, 0, 1]" "sa_localESPSPI ?sa = 256" "sa_peerESPSPI ?sa = 512" by (simp_all add: seen_def)
  let ?old = "child_params [10, 0, 0, 1] ([192, 0, 2, 7], 500) 256 512 k n False local_ts (session_ts ?sa ?w)"
  have "resolveXFRMIPs [10, 0, 0, 1] [192, 0, 2, 9] = Inr ([10, 0, 0, 1], [192, 0, 2, 9])" by (simp add: resolveXFRMIPs_def To4_def)
  moreover have "sts (xf_kernel (snd (RemoveChildSA table_netlink ?old (iw_xfrm demo_up)))) = sts (xf_kernel (iw_xfrm demo_up)) - child_states [10, 0, 0, 1] [192, 0, 2, 7] 256 512"
    "pols (xf_kernel (snd (RemoveChildSA table_netlink ?old (iw_xfrm demo_up)))) = pols (xf_kernel (iw_xfrm demo_up)) - child_policies (session_ts ?sa ?w)"
    if "sts = (\<lambda>k. set (fst k))" "pols = (\<lambda>k. set (snd k))" for sts pols
    using RemoveChildSA_keys[OF table_netlink_spec, of ?old "[10, 0, 0, 1]" "[192, 0, 2, 7]" "iw_xfrm demo_up"] that by (simp_all add: demo_up_simps)
  ultimately have "fst (MigrateChildSA table_netlink ?old
     (child_params [10, 0, 0, 1] ([192, 0, 2, 9], 500) 256 512 k' n' False local_ts (session_ts ?sa ?w)) (iw_xfrm demo_up)) = None"
    unfolding MigrateChildSA_def by (intro table_install[of _ "[10, 0, 0, 1]" "[192, 0, 2, 9]"]) (auto simp: child_states_def demo_up_def)
  then show ?thesis unfolding migrateMobikeXFRM_def o n by (auto simp: To4_def s demo_up_simps split: prod.splits)
qed

lemma demo_parse:
  "parseInfoPayloads (ie_lib demo_ike_env) TypeN (chain_bytes [(TypeN, [0, 0, 64, 16]), (TypeN, [0, 0, 64, 17, 4])]) =
     Some \<lparr>in_deleteIKE = False, in_deleteESPSPIs = [], in_hasUpdateSA = True, in_cookie2 = [4]\<rparr>"
  using walk_chain[of "[(TypeN, [0, 0, 64, 16]), (TypeN, [0, 0, 64, 17, 4])]"]
  by (simp add: chain_ok_def parseInfoPayloads_def info_payload_def no_info_payloads_def)

lemma demo_echo:
  "\<exists>w' sa'. handleInformational demo_ike_env demo_ike_io ([10, 0, 0, 1], 500) ([192, 0, 2, 9], 500)
      (demo_msg TypeN (chain_bytes [(TypeN, [0, 0, 64, 16]), (TypeN, [0, 0, 64, 17, 4])])) demo_hdr (demo_up\<lparr>iw_sas := [(17, demo_roaming)]\<rparr>) = Some w' \<and>
    lookupSA 17 w' = Some sa' \<and> sa_remoteAddr sa' = ([192, 0, 2, 9], 500)"
proof -
  let ?chain = "chain_bytes [(TypeN, [0, 0, 64, 16]), (TypeN, [0, 0, 64, 17, 4])]" and ?new = "([192, 0, 2, 9], 500)" and ?conn = "([10, 0, 0, 1], 500)"
  let ?w = "demo_up\<lparr>iw_sas := [(17, demo_roaming)]\<rparr>" and ?sa = "seen (io_now demo_ike_io) demo_roaming"
  let ?v = "demo_up\<lparr>iw_sas := [(17, ?sa)]\<rparr>"
  have a: "handleInformational demo_ike_env demo_ike_io ?conn ?new (demo_msg TypeN ?chain) demo_hdr ?w =
      inform_request demo_ike_env demo_ike_io ?conn ?new (demo_msg TypeN ?chain) demo_hdr ?sa ?v"
    unfolding handleInformational_def Let_def by (simp add: demo_hdr_def lookupSA_def putSA_def del: chain_bytes.simps)
  have b: "\<dots> = handleUpdateSA demo_ike_env demo_ike_io ?conn ?new ?sa 3 [4] False ?v"
    by (simp add: inform_request_def demo_decrypt demo_parse demo_env_simps del: chain_bytes.simps) (simp add: demo_hdr_def)
  obtain w1 where m: "migrateMobikeXFRM demo_ike_env ?sa (esp_prop encrAesGcm16_256 None None) ?new ?v = Some (True, w1)" using demo_migrate by blast
  let ?u = "if sa_sessionID ?sa = '''' then putSA (moved ?new ?sa) w1
              else upd_session (sa_sessionID ?sa) (\<lambda>s. s\<lparr>s_OuterIP := UDP_String ?new\<rparr>) (putSA (moved ?new ?sa) w1)"
  have "key_ok (sa_saKey (moved ?new ?sa))" by (simp add: moved_def demo_gcm_ok)
  from raw_returns[OF this, of demo_ike_env "io_iv demo_ike_io" ?conn ?new INFORMATIONAL 3 0 "[]" False ?u] obtain f w3 where
    s: "sendEncryptedRaw demo_ike_env (io_iv demo_ike_io) ?conn ?new (moved ?new ?sa) INFORMATIONAL 3 0 [] False ?u = Some (f, w3)" by blast
  have "handleUpdateSA demo_ike_env demo_ike_io ?conn ?new ?sa 3 [4] False ?v = Some w3"
    using m s by (simp add: handleUpdateSA_def Let_def constEqual_iff flip: moved_def)
  moreover have "lookupSA 17 w3 = Some (moved ?new ?sa)"
    using lookup_sends[OF raw_sends(1)[OF s]] lookup_xfrm_only[OF migrateMobikeXFRM_frame[OF m], of 17] by (simp add: lookupSA_def[of _ ?v])
  ultimately show ?thesis using a b by simp
qed


section \<open>The state of the server stays well-formed\<close>

text \<open>Every SA lies under its own SPI, with keys and CHILD SAs that fit their algorithms, and the session manager keeps sessions under their names.\<close>

definition ike_inv :: "'k ike_world \<Rightarrow> bool" where
  "ike_inv w \<longleftrightarrow> sas_ok w \<and> (\<forall>spi sa. lookupSA spi w = Some sa \<longrightarrow> sa_ok sa) \<and> mgr_inv (iw_sessions w)"

lemma ike_invD: "ike_inv w \<Longrightarrow> sas_ok w" "ike_inv w \<Longrightarrow> lookupSA spi w = Some sa \<Longrightarrow> sa_ok sa \<and> sa_spiI sa = spi \<and> key_ok (sa_saKey sa)"
  "ike_inv w \<Longrightarrow> mgr_inv (iw_sessions w)"
  by (auto simp: ike_inv_def sas_ok_lookup)

lemma map_entry_in: "(k', v') \<in> set (AList.map_entry k f al) \<Longrightarrow> (\<exists>v. v' = f v \<and> k' = k) \<or> (k', v') \<in> set al"
  by (induction al) (auto split: if_splits)

lemma sas_ok_put: "sas_ok w \<Longrightarrow> key_ok (sa_saKey sa) \<Longrightarrow> sas_ok (putSA sa w)"
  unfolding sas_ok_def by (auto simp: map_entry_keys putSA_def dest!: map_entry_in)

lemma ike_inv_put: "ike_inv w \<Longrightarrow> sa_ok sa \<Longrightarrow> ike_inv (putSA sa w)"
  by (auto simp: ike_inv_def sas_ok_put sa_ok_def split: if_splits)

lemma ike_inv_frame: "ike_inv w \<Longrightarrow> iw_sas w' = iw_sas w \<Longrightarrow> iw_sessions w' = iw_sessions w \<Longrightarrow> ike_inv w'"
  by (simp add: ike_inv_def sas_ok_def lookupSA_def)

lemma ike_inv_sends: "sends w w' \<Longrightarrow> ike_inv w \<Longrightarrow> ike_inv w'"
  by (erule ike_inv_frame) (auto simp: sends_def)

lemma ike_inv_xfrm: "xfrm_only w w' \<Longrightarrow> ike_inv w \<Longrightarrow> ike_inv w'" "ike_inv w \<Longrightarrow> ike_inv (set_xfrm r w)"
  by (auto simp: xfrm_only_def elim: ike_inv_frame)

lemma ike_inv_upd: "ike_inv w \<Longrightarrow> (\<And>s. s_ID (f s) = s_ID s) \<Longrightarrow> ike_inv (upd_session i f w)"
  by (simp add: ike_inv_def sas_ok_def upd_session_def mgr_inv_update lookupSA_def)

lemma sas_ok_delete: "sas_ok w \<Longrightarrow> iw_sas w' = AList.delete i (iw_sas w) \<Longrightarrow> sas_ok w'"
  by (auto simp: sas_ok_def AList.delete_eq distinct_map_filter)

lemma Transition_ID [simp]: "s_ID (snd (Transition s st)) = s_ID s"
  by (simp add: Transition_def)

lemma mgr_inv_teardown: "teardown_session env io sa w = (h, w') \<Longrightarrow> mgr_inv (iw_sessions w) \<Longrightarrow> mgr_inv (iw_sessions w')"
  by (auto simp: teardown_session_def upd_session_def Let_def mgr_inv_update mgr_inv_Delete split: option.splits prod.splits if_splits)

lemma ike_inv_teardown:
  assumes t: "fullTeardown env io sa w = Some w'" and inv: "ike_inv w"
  shows "ike_inv w'"
  using t
proof (rule fullTeardown_steps)
  fix w1 w2 h w3
  assume w1: "removeXFRMChildSA env sa w = Some w1" and w3: "teardown_session env io sa w2 = (h, w3)" and w': "\<exists>s. w' = deleteSA (sa_spiI sa) (w3\<lparr>iw_swm := s\<rparr>)"
    and w2: "w2 = (if sa_pendingESPProp sa \<noteq> None \<and> sa_localIP sa \<noteq> []
           then set_xfrm (RemoveChildSAStates (ie_nl env) (bare_params sa (sa_pendingLocalESPSPI sa) (sa_pendingPeerESPSPI sa)) (iw_xfrm w1)) w1 else w1)"
  have "iw_sessions w2 = iw_sessions w" using xfrm_only_frame[OF removeXFRMChildSA_frame[OF w1]] by (simp add: w2)
  then have "mgr_inv (iw_sessions w')" using w' mgr_inv_teardown[OF w3] ike_invD(3)[OF inv] by auto
  moreover have "sas_ok w'" using fullTeardown_sas[OF t] sas_ok_delete[OF ike_invD(1)[OF inv]] by blast
  ultimately show ?thesis using inv fullTeardown_lookup[OF t] by (auto simp: ike_inv_def split: if_splits)
qed

lemma sa_ok_seen [simp]: "sa_ok (seen t sa) = sa_ok sa" "sa_ok (moved r sa) = sa_ok sa" "sa_ok (sa\<lparr>sa_cookie2 := c\<rparr>) = sa_ok sa" "sa_ok (sa\<lparr>sa_state := st\<rparr>) = sa_ok sa"
  by (simp_all add: sa_ok_def moved_def seen_def)

lemma ike_inv_delete_children:
  assumes "delete_children env spis sa w = Some w'" "ike_inv w" "sa_ok sa"
  shows "ike_inv w'"
  using assms
proof (induction spis arbitrary: sa w)
  case (Cons spi spis)
  from Cons.prems(1) obtain sa1 w1 where d: "delete_child env spi sa w = Some (sa1, w1)" "delete_children env spis sa1 w1 = Some w'"
    by (auto split: option.splits)
  have "ike_inv w1 \<and> sa_ok sa1"
    using d(1) Cons.prems(2,3) by (auto simp: delete_child_def Let_def ike_inv_put ike_inv_xfrm ike_inv_upd split: if_splits dest!: removeXFRMChildSA_frame)
  then show ?case using Cons.IH[OF d(2)] by simp
qed simp

lemma ike_inv_update:
  assumes "handleUpdateSA env io conn remote sa mid c2 natt w = Some w'" "ike_inv w" "sa_ok sa"
  shows "ike_inv w'"
  using assms(1)
proof (cases rule: handleUpdateSA_cases)
  case (moves pr w1)
  then show ?thesis
    by (intro ike_inv_sends[OF moves(5)]) (simp add: ike_inv_put ike_inv_upd ike_inv_xfrm(1)[OF migrateMobikeXFRM_frame[OF moves(4)]] assms)
next
  case (challenge c)
  then show ?thesis using assms(2,3) by (intro ike_inv_sends[OF challenge(2)] ike_inv_put) simp_all
qed (use assms ike_inv_sends ike_inv_xfrm in blast)

lemma ike_inv_informational:
  assumes h: "handleInformational env io conn remote pkt hdr w = Some w'" and inv: "ike_inv w"
  shows "ike_inv w'"
  using h
proof (cases rule: handleInformational_cases)
  case (alive sa)
  then show ?thesis using inv ike_invD(2)[OF inv alive(1)] by (auto simp: sa_ok_def intro!: ike_inv_put)
next
  case (request sa)
  have ok: "sa_ok (seen (io_now io) sa)" using ike_invD(2)[OF inv request(1)] by simp
  note inv1 = ike_inv_put[OF inv ok]
  from request(4) show ?thesis
  proof (cases rule: inform_request_cases)
    case (update innerType plain pl)
    then show ?thesis using ike_inv_update inv1 ok by blast
  next
    case (delete innerType plain pl w1)
    then show ?thesis using ike_inv_teardown[OF delete(5)] ike_inv_put[OF ike_inv_sends[OF delete(4) inv1]] ok by simp
  next
    case (children innerType plain pl w1)
    then show ?thesis using ike_inv_delete_children ike_inv_sends inv1 ok by blast
  qed (use inv1 in simp)
qed (use inv in simp)

section \<open>No panic\<close>

text \<open>The Delete decoder of the message library is called without recovery; when it does not panic, neither does an INFORMATIONAL message.\<close>

definition delete_safe :: "ike_lib \<Rightarrow> bool" where
  "delete_safe lib \<longleftrightarrow> (\<forall>b. lib_Delete lib b \<noteq> DecodePanic)"

lemma parseInfoPayloads_returns: "delete_safe lib \<Longrightarrow> \<exists>pl. parseInfoPayloads lib t plain = Some pl"
proof -
  assume safe: "delete_safe lib"
  have one: "\<exists>r'. info_payload lib p r = Some r'" for p r
    using safe by (cases p) (auto simp: info_payload_def delete_safe_def Let_def split: decoded.splits)
  have "\<exists>pl. info_payloads lib ps r = Some pl" for ps r
    by (induction ps arbitrary: r) (use one in \<open>fastforce split: option.splits\<close>)+
  then show ?thesis by (simp add: parseInfoPayloads_def)
qed

lemma handleUpdateSA_returns:
  assumes "crypto_ok (ie_crypto env)" "sa_ok sa"
  shows "handleUpdateSA env io conn remote sa mid c2 natt w \<noteq> None"
proof -
  have k: "key_ok (sa_saKey sa)" using assms(2) by (simp add: sa_ok_def)
  have raw: "sendEncryptedRaw env iv conn remote (sa\<lparr>sa_remoteAddr := r, sa_cookie2 := c\<rparr>) ex mid inner plain natt w \<noteq> None"
      "sendEncryptedRaw env iv conn remote sa ex mid inner plain natt w \<noteq> None"
      "send_notify env iv conn remote (sa\<lparr>sa_cookie2 := c\<rparr>) ex mid t d natt w \<noteq> None" for iv r c ex mid inner plain w t d
    using send_encrypted_returns[of "sa\<lparr>sa_remoteAddr := r, sa_cookie2 := c\<rparr>"] send_encrypted_returns[of sa] send_notify_returns[of "sa\<lparr>sa_cookie2 := c\<rparr>"] k
    by (simp_all add: sendEncryptedRaw_def del: not_None_eq)
  have "migrateMobikeXFRM env sa pr remote w \<noteq> None" if "sa_espProp sa = Some pr" for pr
    using migrateMobikeXFRM_returns[OF assms(1)] assms(2) that by (simp add: sa_ok_def del: not_None_eq)
  with raw show ?thesis unfolding handleUpdateSA_def Let_def
    by (auto simp del: not_None_eq split: option.splits if_splits bool.splits)
qed

lemma handleInformational_returns:
  assumes lib: "crypto_ok (ie_crypto env)" "delete_safe (ie_lib env)" and inv: "ike_inv w"
  shows "handleInformational env io conn remote pkt hdr w \<noteq> None"
proof (cases "lookupSA (ih_InitiatorSPI hdr) w")
  case (Some sa)
  have ok: "sa_ok (seen (io_now io) sa)" and k: "key_ok (sa_saKey (seen (io_now io) sa))" using ike_invD(2)[OF inv Some] by simp_all
  have "inform_request env io conn remote pkt hdr (seen (io_now io) sa) w' \<noteq> None" for w'
  proof (cases "decryptSK (ie_crypto env) (sa_saKey (seen (io_now io) sa)) pkt")
    case (Inl e)
    then show ?thesis using decryptSK_panic[OF k Inl] by (simp add: inform_request_def)
  next
    case (Inr tp)
    obtain t plain where tp: "tp = (t, plain)" by fastforce
    obtain pl where pl: "parseInfoPayloads (ie_lib env) t plain = Some pl" using parseInfoPayloads_returns[OF lib(2)] by blast
    obtain b w1 where s: "sendEncryptedRaw env (io_iv io) conn remote (seen (io_now io) sa) INFORMATIONAL (ih_MessageID hdr) 0 [] (sa_natT (seen (io_now io) sa)) w' = Some (b, w1)"
      using raw_returns[OF k] by blast
    show ?thesis
      using handleUpdateSA_returns[OF lib(1) ok] fullTeardown_returns[OF lib(1), of "seen (io_now io) sa\<lparr>sa_state := ikeStateDeleting\<rparr>" io] delete_children_returns[OF lib(1) ok] ok
      unfolding inform_request_def Inr tp sum.case prod.case pl option.case s Let_def by auto
  qed
  then show ?thesis using Some by (simp add: handleInformational_def Let_def del: not_None_eq)
qed (simp add: handleInformational_def Let_def)

section \<open>Dead peers\<close>

text \<open>Whether a message can be encrypted: the random read worked and the key fits the cipher.\<close>

definition can_encrypt :: "'k ike_env \<Rightarrow> ike_io \<Rightarrow> ikeSA \<Rightarrow> bool" where
  "can_encrypt env io sa \<longleftrightarrow> (case encryptSK (ie_crypto env) (sa_saKey sa) 0 [] [] (io_iv io) of Inl _ \<Rightarrow> False | Inr _ \<Rightarrow> True)"

text \<open>What one tick is to make of an SA: a silent one is probed, a probed one that stays silent is given up.\<close>

definition dpd_next :: "'k ike_env \<Rightarrow> ike_io \<Rightarrow> ikeSA \<Rightarrow> ikeSA option" where
  "dpd_next env io sa =
     (if sa_state sa \<noteq> ikeStateEstablished then Some sa
      else case sa_dpdSentAt sa of
             None \<Rightarrow>
               if io_now io - sa_lastSeen sa \<le> dpd_delay (ie_cfg env) then Some sa
               else if can_encrypt env io sa
               then Some (sa\<lparr>sa_ourMsgID := sa_ourMsgID sa + 1, sa_dpdMsgID := sa_ourMsgID sa, sa_dpdSentAt := Some (io_now io)\<rparr>)
               else Some (sa\<lparr>sa_ourMsgID := sa_ourMsgID sa + 1\<rparr>)
           | Some t \<Rightarrow> if io_now io - t \<le> dpd_timeout (ie_cfg env) then Some sa else None)"

lemma can_encrypt_send:
  assumes "key_ok (sa_saKey sa)" "sa_saKey sa' = sa_saKey sa"
  shows "\<exists>w1. sendEncryptedRequest env (io_iv io) conn remote sa' ex mid 0 [] natt w = Some (can_encrypt env io sa, w1) \<and> sends w w1"
proof -
  obtain b w1 where s: "sendEncryptedRequest env (io_iv io) conn remote sa' ex mid 0 [] natt w = Some (b, w1)"
    using send_encrypted_returns[of sa' buildIKERequestHeaderBytes env "io_iv io" conn remote ex mid 0 "[]" natt w] assms by (auto simp: sendEncryptedRequest_def)
  moreover have "b = can_encrypt env io sa"
    using s assms by (auto simp: can_encrypt_def sendEncryptedRequest_def send_encrypted_def encryptedSKMessageLen_def encryptSK_def encryptSKAEAD_def encr_Encrypt_def Let_def
        split: if_splits sum.splits option.splits)
  ultimately show ?thesis using send_encrypted_sends by (fastforce simp: sendEncryptedRequest_def)
qed

lemma sendDPDProbe_lookup:
  assumes "key_ok (sa_saKey sa)" "lookupSA (sa_spiI sa) w = Some sa"
  shows "\<exists>w'. sendDPDProbe env io sa w = Some w' \<and> iw_sessions w' = iw_sessions w \<and> (\<forall>spi. lookupSA spi w' = (if spi = sa_spiI sa then
    Some (if can_encrypt env io sa then sa\<lparr>sa_ourMsgID := sa_ourMsgID sa + 1, sa_dpdMsgID := sa_ourMsgID sa, sa_dpdSentAt := Some (io_now io)\<rparr>
          else sa\<lparr>sa_ourMsgID := sa_ourMsgID sa + 1\<rparr>) else lookupSA spi w))"
proof -
  let ?sa = "sa\<lparr>sa_ourMsgID := sa_ourMsgID sa + 1\<rparr>" and ?c = "if sa_natT sa then ie_conn4500 env else ie_conn500 env"
  obtain w1 where w1: "sendEncryptedRequest env (io_iv io) ?c (sa_remoteAddr sa) ?sa INFORMATIONAL (sa_ourMsgID sa) 0 [] (sa_natT sa) (putSA ?sa w) =
      Some (can_encrypt env io sa, w1)" "sends (putSA ?sa w) w1"
    using can_encrypt_send[OF assms(1), of ?sa] by fastforce
  have l: "lookupSA spi w1 = (if spi = sa_spiI sa then Some ?sa else lookupSA spi w)" for spi
    using lookup_sends[OF w1(2)] assms(2) by simp
  have f: "iw_sessions w1 = iw_sessions w" using w1(2) by (auto simp: sends_def)
  show ?thesis using w1(1) l f by (cases "can_encrypt env io sa") (simp_all add: sendDPDProbe_def Let_def)
qed

lemma ike_inv_probe:
  assumes "sendDPDProbe env io sa w = Some w'" "ike_inv w" "sa_ok sa"
  shows "ike_inv w'"
proof -
  let ?sa = "sa\<lparr>sa_ourMsgID := sa_ourMsgID sa + 1\<rparr>"
  have ok: "sa_ok ?sa" "sa_ok (?sa\<lparr>sa_dpdMsgID := m, sa_dpdSentAt := t\<rparr>)" for m t using assms(3) by (simp_all add: sa_ok_def)
  from assms(1) obtain w1 where "sends (putSA ?sa w) w1" "w' = w1 \<or> w' = putSA (?sa\<lparr>sa_dpdMsgID := sa_ourMsgID sa, sa_dpdSentAt := Some (io_now io)\<rparr>) w1"
    by (fastforce simp: sendDPDProbe_def sendEncryptedRequest_def Let_def split: option.splits bool.splits dest!: send_encrypted_sends)
  then show ?thesis using ike_inv_sends[OF _ ike_inv_put[OF assms(2) ok(1)]] ike_inv_put[OF _ ok(2)] by blast
qed

lemma reap_sa_spec:
  assumes cr: "crypto_ok (ie_crypto env)" and inv: "ike_inv w"
  shows "\<exists>w'. reap_sa env io spi w = Some w' \<and> ike_inv w' \<and>
    (\<forall>i. lookupSA i w' = (if i = spi then Option.bind (lookupSA i w) (dpd_next env io) else lookupSA i w))"
proof (cases "lookupSA spi w")
  case None
  then show ?thesis using inv by (auto simp: reap_sa_def)
next
  case (Some sa)
  have ok: "sa_ok sa" "sa_spiI sa = spi" "key_ok (sa_saKey sa)" using ike_invD(2)[OF inv Some] by simp_all
  let ?del = "sa\<lparr>sa_state := ikeStateDeleting\<rparr>"
  obtain w1 where p: "sendDPDProbe env io sa w = Some w1" "\<forall>i. lookupSA i w1 = (if i = spi then
      Some (if can_encrypt env io sa then sa\<lparr>sa_ourMsgID := sa_ourMsgID sa + 1, sa_dpdMsgID := sa_ourMsgID sa, sa_dpdSentAt := Some (io_now io)\<rparr>
            else sa\<lparr>sa_ourMsgID := sa_ourMsgID sa + 1\<rparr>) else lookupSA i w)"
    using sendDPDProbe_lookup[OF ok(3), of w env io] Some ok(2) by auto
  obtain w2 where t: "fullTeardown env io ?del (putSA ?del w) = Some w2" using fullTeardown_returns[OF cr, of ?del io "putSA ?del w"] ok(1) by auto
  have inv2: "ike_inv w2" using ike_inv_teardown[OF t ike_inv_put[OF inv]] ok(1) by simp
  note l2 = fullTeardown_lookup[OF t]
  consider "sa_state sa \<noteq> ikeStateEstablished" | "sa_state sa = ikeStateEstablished" "sa_dpdSentAt sa = None" | s where "sa_state sa = ikeStateEstablished" "sa_dpdSentAt sa = Some s"
    by fastforce
  then show ?thesis
  proof cases
    case 1
    then show ?thesis using Some inv by (auto simp: reap_sa_def dpd_next_def)
  next
    case 2
    then show ?thesis using Some inv p ike_inv_probe[OF p(1) inv ok(1)] by (auto simp: reap_sa_def dpd_next_def)
  next
    case (3 s)
    then show ?thesis using Some inv t inv2 l2 ok(2) by (auto simp: reap_sa_def dpd_next_def)
  qed
qed


lemma demo_dpd:
  "ike_inv demo_up" "ik_DPDEnabled (c_IKEv2 (ie_cfg demo_ike_env))" "dpd_delay (ie_cfg demo_ike_env) = 30000000000" "dpd_timeout (ie_cfg demo_ike_env) = 120000000000"
proof -
  have "sa_ok demo_half_open" by (simp add: sa_ok_def demo_half_open_def half_open_sa_def key_ok_def demo_keys_def encrAesCbc256_def IsAEAD_def)
  then have "sa_ok (demo_half_open\<lparr>sa_spiI := 18\<rparr>)" by (simp add: sa_ok_def)
  then show "ike_inv demo_up" using demo_sa_ok by (auto simp: ike_inv_def sas_ok_def demo_up_simps lookupSA_def sa_ok_def split: if_splits)
qed (simp_all add: demo_ike_env_def Default_def dpd_delay_def dpd_timeout_def ike_second_def)


end
