(* ===== verification/IkeRekey.thy ===== *)
theory IkeRekey
  imports IkeInform
begin

text \<open>
  The CREATE_CHILD_SA exchange (\<^verbatim>\<open>internal/ikev2/rekey.go\<close>): the rekeying of the CHILD SA, with and without a new
  Diffie-Hellman exchange, and the rekeying of the IKE SA itself.

  Shown: a rekeyed CHILD SA is installed beside the old one, which stays usable until the peer deletes it, and after the deletion exactly the new
  one is left; a rekeyed IKE SA takes over session and CHILD SA, and the teardown of the old one does not touch them; the exchange never panics
  and keeps the state of the server well-formed.
\<close>

section \<open>Rekeying a CHILD SA\<close>

text \<open>The optional Diffie-Hellman exchange: the notify to answer with, or secret and public value; \<^term>\<open>None\<close> for a panic.\<close>

definition child_pfs ::
  "'k ike_env \<Rightarrow> ike_io \<Rightarrow> childProposal \<Rightarrow> (u16 \<times> bytes) option \<Rightarrow> ((u16 \<times> bytes) + (bytes \<times> bytes) option) option" where
  "child_pfs env io prop ke =
     (case ch_dh prop of
        None \<Rightarrow> Some (Inr None)
      | Some dh \<Rightarrow>
          (case ke of
             None \<Rightarrow> Some (Inl (INVALID_KE_PAYLOAD, be16 (dh_TransformID dh)))
           | Some (keGroup, keData) \<Rightarrow>
               if keGroup \<noteq> dh_TransformID dh then Some (Inl (INVALID_KE_PAYLOAD, be16 (dh_TransformID dh)))
               else (case dh_GeneratePrivateKey dh io of
                       Inl _ \<Rightarrow> Some (Inl (INVALID_SYNTAX, []))
                     | Inr dhPriv \<Rightarrow>
                         (case dh_PublicKey (ie_crypto env) dh dhPriv of
                            Inl _ \<Rightarrow> None
                          | Inr ourDHPub \<Rightarrow>
                              (case dh_SharedKey (ie_crypto env) dh dhPriv keData of
                                 Inl e \<Rightarrow> if is_panic e then None else Some (Inl (INVALID_SYNTAX, []))
                               | Inr dhShared \<Rightarrow> Some (Inr (Some (dhShared, ourDHPub))))))))"

definition rekey_child_keys :: "'k ike_env \<Rightarrow> ikeSA \<Rightarrow> childProposal \<Rightarrow> (bytes \<times> bytes) option \<Rightarrow> bytes \<Rightarrow> bytes \<Rightarrow> child_keys option" where
  "rekey_child_keys env sa prop pfs nonceI nonceR =
     (case pfs of
        Some (dhShared, _) \<Rightarrow>
          deriveChildSAKeysPFS (ie_crypto env) (sa_saKey sa) dhShared nonceI nonceR (encr_KeyLen (ch_encr prop)) (integKeyLen (ch_integ prop))
      | None \<Rightarrow> deriveChildSAKeys (ie_crypto env) (sa_saKey sa) nonceI nonceR (encr_KeyLen (ch_encr prop)) (integKeyLen (ch_integ prop)))"

definition session_paa :: "ikeSA \<Rightarrow> 'k ike_world \<Rightarrow> net_ip" where
  "session_paa sa w = (case session_of sa w of
     None \<Rightarrow> []
   | Some sess \<Rightarrow> (case s_S2B sess of None \<Rightarrow> [] | Some b \<Rightarrow> To4 (ParseIP (sc_PAA b))))"

definition rekey_ts :: "net_ip \<Rightarrow> ip_net" where
  "rekey_ts paa = (if paa \<noteq> [] then (paa, [255, 255, 255, 255]) else any_ts)"

definition set_pending :: "childProposal \<Rightarrow> byte \<Rightarrow> u32 \<Rightarrow> u32 \<Rightarrow> bytes \<Rightarrow> bytes \<Rightarrow> ikeSA \<Rightarrow> ikeSA" where
  "set_pending prop propNum peerSPI newLocalSPI nonceI nonceR sa =
     sa\<lparr>sa_pendingESPProp := Some prop, sa_pendingESPPropNum := propNum, sa_pendingPeerESPSPI := peerSPI, sa_pendingLocalESPSPI := newLocalSPI,
        sa_pendingNonceI := nonceI, sa_pendingNonceR := nonceR\<rparr>"

definition child_notify ::
  "'k ike_env \<Rightarrow> ike_io \<Rightarrow> udp_addr \<Rightarrow> udp_addr \<Rightarrow> ikeSA \<Rightarrow> IKEHeader \<Rightarrow> u16 \<Rightarrow> bytes \<Rightarrow> bool \<Rightarrow> 'k ike_world \<Rightarrow> 'k ike_world option" where
  "child_notify env io conn remote sa hdr notifyType data natt w =
     send_notify env (io_iv io) conn remote sa CREATE_CHILD_SA (ih_MessageID hdr) notifyType data natt w"

text \<open>From the random reads to the answer.\<close>

definition child_rekey_install ::
  "'k ike_env \<Rightarrow> ike_io \<Rightarrow> udp_addr \<Rightarrow> udp_addr \<Rightarrow> ikeSA \<Rightarrow> IKEHeader \<Rightarrow> childProposal \<Rightarrow> byte \<Rightarrow> u32 \<Rightarrow> (bytes \<times> bytes) option \<Rightarrow> bytes \<Rightarrow> bool \<Rightarrow>
   'k ike_world \<Rightarrow> 'k ike_world option" where
  "child_rekey_install env io conn remote sa hdr prop propNum peerSPI pfs nonceI natt w =
     (case (io_nonce io, io_spi4 io) of
        (Some nonceR, Some spiBytes) \<Rightarrow>
          let newLocalSPI = uint32 spiBytes; paa = session_paa sa w in
          (case (childAlgNames prop, rekey_child_keys env sa prop pfs nonceI nonceR) of
             (Inr names, Some keys) \<Rightarrow>
               (case AddChildSAStates (ie_nl env)
                       (child_params (sa_localIP sa) remote newLocalSPI peerSPI keys names natt local_ts (rekey_ts paa)) (iw_xfrm w) of
                  (Some _, x) \<Rightarrow> child_notify env io conn remote sa hdr INVALID_SYNTAX [] natt (w\<lparr>iw_xfrm := x\<rparr>)
                | (None, x) \<Rightarrow>
                    let sa = set_pending prop propNum peerSPI newLocalSPI nonceI nonceR sa;
                        w = putSA sa (w\<lparr>iw_xfrm := x\<rparr>);
                        inner = [PSA (buildESPSAResponse prop propNum newLocalSPI), PNonce nonceR] @
                          (case (ch_dh prop, pfs) of (Some dh, Some (_, ourDHPub)) \<Rightarrow> [PKE (dh_TransformID dh) ourDHPub] | _ \<Rightarrow> []) @ buildTSResponse paa
                    in map_option snd (sendEncryptedResponse env (io_iv io) conn remote sa CREATE_CHILD_SA (ih_MessageID hdr) inner natt w))
           | _ \<Rightarrow> None)
      | _ \<Rightarrow> Some w)"

definition handleChildSARekey ::
  "'k ike_env \<Rightarrow> ike_io \<Rightarrow> udp_addr \<Rightarrow> udp_addr \<Rightarrow> ikeSA \<Rightarrow> IKEHeader \<Rightarrow> Proposal list \<Rightarrow> bytes \<Rightarrow> (u16 \<times> bytes) option \<Rightarrow> bool \<Rightarrow> 'k ike_world \<Rightarrow>
   'k ike_world option" where
  "handleChildSARekey env io conn remote sa hdr saPayload nonceI ke natt w =
     (case selectAndExtractESP saPayload of
        None \<Rightarrow> child_notify env io conn remote sa hdr NO_PROPOSAL_CHOSEN [] natt w
      | Some (prop, propNum, peerSPI) \<Rightarrow>
          (case child_pfs env io prop ke of
             None \<Rightarrow> None
           | Some (Inl (notifyType, data)) \<Rightarrow> child_notify env io conn remote sa hdr notifyType data natt w
           | Some (Inr pfs) \<Rightarrow> child_rekey_install env io conn remote sa hdr prop propNum peerSPI pfs nonceI natt w))"

section \<open>Rekeying the IKE SA\<close>

definition rekey_spi :: "Proposal list \<Rightarrow> byte \<Rightarrow> u64" where
  "rekey_spi proposals propNum =
     (case find (\<lambda>p. pp_ProposalNumber p = propNum \<and> pp_ProtocolID p = TypeIKE \<and> length (pp_SPI p) = 8) proposals of
        None \<Rightarrow> 0
      | Some p \<Rightarrow> uint64 (pp_SPI p))"

definition rekeyed_sa :: "ike_io \<Rightarrow> ikeSA \<Rightarrow> u64 \<Rightarrow> u64 \<Rightarrow> bytes \<Rightarrow> bytes \<Rightarrow> negotiatedProposal \<Rightarrow> ikeSAKey \<Rightarrow> ikeSA" where
  "rekeyed_sa io sa newSPII newSPIR nonceI nonceR newProp newSAKey =
     \<lparr>sa_spiI = newSPII, sa_spiR = newSPIR, sa_remoteAddr = sa_remoteAddr sa, sa_natT = sa_natT sa, sa_nonceI = nonceI, sa_nonceR = nonceR,
      sa_proposal = newProp, sa_saKey = newSAKey, sa_dhPriv = None, sa_dhPub = [], sa_initReqRaw = [], sa_initRespRaw = [],
      sa_state = ikeStateEstablished, sa_createdAt = io_now io, sa_lastSeen = io_now io, sa_ourMsgID = 0, sa_dpdMsgID = 0, sa_dpdSentAt = None,
      sa_eapRound = 0, sa_swmSessionID = sa_swmSessionID sa, sa_imsi = sa_imsi sa, sa_nai = sa_nai sa, sa_apn = sa_apn sa, sa_msk = [],
      sa_eapChallengeMsgID = 0, sa_eapChallengePayload = [], sa_mobikeEnabled = sa_mobikeEnabled sa, sa_cookie2 = None, sa_handoverIP = [],
      sa_espProp = sa_espProp sa, sa_espPropNum = sa_espPropNum sa, sa_peerESPSPI = sa_peerESPSPI sa, sa_localESPSPI = sa_localESPSPI sa,
      sa_cpWantsIP = False, sa_pendingESPProp = None, sa_pendingESPPropNum = 0, sa_pendingPeerESPSPI = 0, sa_pendingLocalESPSPI = 0,
      sa_pendingNonceI = [], sa_pendingNonceR = [], sa_idiAuthBytes = [], sa_sessionID = sa_sessionID sa, sa_localIP = sa_localIP sa\<rparr>"

definition disowned :: "ikeSA \<Rightarrow> ikeSA" where
  "disowned sa = sa\<lparr>sa_sessionID := '''', sa_swmSessionID := '''', sa_espProp := None\<rparr>"

text \<open>The exchange of the tables: the new SA is stored, the session refers to it and the old SA lets go.  A new SA under the SPI of the old one
  takes its place, and the old one is no longer in the table when its fields are cleared.\<close>

definition ike_rekey_swap :: "ikeSA \<Rightarrow> ikeSA \<Rightarrow> 'k ike_world \<Rightarrow> 'k ike_world" where
  "ike_rekey_swap sa new w =
     (let w = storeSA new w;
          w = (if sa_sessionID sa = '''' then w else upd_session (sa_sessionID sa) (\<lambda>s. s\<lparr>s_IkeSPII := sa_spiI new, s_IkeSPIR := sa_spiR new\<rparr>) w)
      in if sa_spiI new = sa_spiI sa then w else putSA (disowned sa) w)"

definition handleIKESARekey ::
  "'k ike_env \<Rightarrow> ike_io \<Rightarrow> udp_addr \<Rightarrow> udp_addr \<Rightarrow> ikeSA \<Rightarrow> IKEHeader \<Rightarrow> Proposal list \<Rightarrow> bytes \<Rightarrow> (u16 \<times> bytes) option \<Rightarrow> bool \<Rightarrow> 'k ike_world \<Rightarrow>
   'k ike_world option" where
  "handleIKESARekey env io conn remote sa hdr saPayload nonceI ke natt w =
     (case ke of
        None \<Rightarrow> child_notify env io conn remote sa hdr INVALID_SYNTAX [] natt w
      | Some (keGroup, keData) \<Rightarrow>
          (case selectIKEProposal saPayload of
             None \<Rightarrow> child_notify env io conn remote sa hdr NO_PROPOSAL_CHOSEN [] natt w
           | Some (newProp, propNum) \<Rightarrow>
               let dh = np_dh newProp; newSPII = rekey_spi saPayload propNum in
               if keGroup \<noteq> dh_TransformID dh
               then child_notify env io conn remote sa hdr INVALID_KE_PAYLOAD (be16 (dh_TransformID dh)) natt w
               else if newSPII = 0 then child_notify env io conn remote sa hdr INVALID_SYNTAX [] natt w
               else (case (io_spi8 io, io_nonce io, dh_GeneratePrivateKey dh io) of
                       (Some spiRBytes, Some nonceR, Inr dhPriv) \<Rightarrow>
                         let newSPIR = uint64 spiRBytes in
                         (case dh_PublicKey (ie_crypto env) dh dhPriv of
                            Inl _ \<Rightarrow> None
                          | Inr dhPub \<Rightarrow>
                         (case dh_SharedKey (ie_crypto env) dh dhPriv keData of
                            Inl e \<Rightarrow> if is_panic e then None else child_notify env io conn remote sa hdr INVALID_SYNTAX [] natt w
                          | Inr dhShared \<Rightarrow>
                         (case deriveIKERekeyKeys (ie_crypto env) (sa_saKey sa) newProp dhShared nonceI nonceR newSPII newSPIR of
                            None \<Rightarrow> None
                          | Some newSAKey \<Rightarrow>
                         (case sendEncryptedResponse env (io_iv io) conn remote sa CREATE_CHILD_SA (ih_MessageID hdr)
                                 [PSA (buildIKESAPayload newProp propNum (be64 newSPIR)), PNonce nonceR, PKE (dh_TransformID dh) dhPub] natt w of
                            None \<Rightarrow> None
                          | Some (False, w) \<Rightarrow> Some w
                          | Some (True, w) \<Rightarrow> Some (ike_rekey_swap sa (rekeyed_sa io sa newSPII newSPIR nonceI nonceR newProp newSAKey) w)))))
                     | _ \<Rightarrow> Some w)))"

definition heard :: "int \<Rightarrow> ikeSA \<Rightarrow> ikeSA" where
  "heard now sa = sa\<lparr>sa_lastSeen := now\<rparr>"

definition handleCreateChildSA ::
  "'k ike_env \<Rightarrow> ike_io \<Rightarrow> udp_addr \<Rightarrow> udp_addr \<Rightarrow> bytes \<Rightarrow> IKEHeader \<Rightarrow> 'k ike_world \<Rightarrow> 'k ike_world option" where
  "handleCreateChildSA env io conn remote pkt hdr w =
     (case lookupSA (ih_InitiatorSPI hdr) w of
        None \<Rightarrow> Some w
      | Some sa \<Rightarrow>
          if sa_state sa \<noteq> ikeStateEstablished then Some w
          else let sa = heard (io_now io) sa; w = putSA sa w; natt = sa_natT sa in
               (case decryptSK (ie_crypto env) (sa_saKey sa) pkt of
                  Inl e \<Rightarrow> if is_panic e then None else Some w
                | Inr (innerType, plain) \<Rightarrow>
                    let pl = parseChildSAPayloads (ie_lib env) innerType plain in
                    (case (cx_sa pl, cx_nonce pl) of
                       (Some saPayload, Some nonceI) \<Rightarrow>
                         if cx_tsi pl \<or> cx_tsr pl
                         then handleChildSARekey env io conn remote sa hdr saPayload nonceI (cx_ke pl) natt w
                         else handleIKESARekey env io conn remote sa hdr saPayload nonceI (cx_ke pl) natt w
                     | _ \<Rightarrow> child_notify env io conn remote sa hdr INVALID_SYNTAX [] natt w)))"

section \<open>What the exchange changes\<close>

lemma esp_selected:
  "selectAndExtractESP saPayload = Some (pr, n, spi) \<Longrightarrow> pr \<in> set supportedESPProposals \<and> child_ok pr"
  using selectESPProposal_supported supported_integ(2) by (fastforce simp: selectAndExtractESP_def child_ok_def split: option.splits)

lemma child_notify_sends: "child_notify env io conn remote sa hdr t d natt w = Some w' \<Longrightarrow> sends w w'"
  by (simp add: child_notify_def send_notify_sends)

lemma child_notify_returns: "key_ok (sa_saKey sa) \<Longrightarrow> (child_notify env io conn remote sa hdr t d natt w = None) = False"
  using send_notify_returns by (simp add: child_notify_def)

text \<open>The parameters of a new CHILD SA.\<close>

abbreviation new_child where
  "new_child sa remote newSPI peerSPI keys names natt w \<equiv>
     child_params (sa_localIP sa) remote newSPI peerSPI keys names natt local_ts (rekey_ts (session_paa sa w))"

lemma handleChildSARekey_cases:
  assumes "handleChildSARekey env io conn remote sa hdr saPayload nonceI ke natt w = Some w'"
  obtains (refused) w1 where "sends w1 w'" "w1 = w \<or> (\<exists>p e. AddChildSAStates (ie_nl env) p (iw_xfrm w) = (Some e, iw_xfrm w1) \<and> xfrm_only w w1)"
  | (installed) pr num peerSPI newSPI nonceR keys names x where "selectAndExtractESP saPayload = Some (pr, num, peerSPI)" "child_ok pr"
      "AddChildSAStates (ie_nl env) (new_child sa remote newSPI peerSPI keys names natt w) (iw_xfrm w) = (None, x)"
      "sends (putSA (set_pending pr num peerSPI newSPI nonceI nonceR sa) (w\<lparr>iw_xfrm := x\<rparr>)) w'"
proof (cases "selectAndExtractESP saPayload")
  case None
  then show thesis using assms by (intro refused[of w]) (auto simp: handleChildSARekey_def dest: child_notify_sends)
next
  case (Some t)
  obtain pr num peerSPI where t: "selectAndExtractESP saPayload = Some (pr, num, peerSPI)" using Some by (metis prod_cases3)
  from assms t obtain r where r: "child_pfs env io pr ke = Some r" by (auto simp: handleChildSARekey_def split: option.splits)
  show thesis
  proof (cases r)
    case (Inl n)
    then show thesis using assms t r by (intro refused[of w]) (auto simp: handleChildSARekey_def split: prod.splits dest: child_notify_sends)
  next
    case (Inr pfs)
    with assms t r have i: "child_rekey_install env io conn remote sa hdr pr num peerSPI pfs nonceI natt w = Some w'" by (simp add: handleChildSARekey_def)
    show thesis
    proof (cases "io_nonce io = None \<or> io_spi4 io = None")
      case True
      then show thesis using i by (intro refused[of w]) (auto simp: child_rekey_install_def split: option.splits)
    next
      case False
      then obtain nonceR spiBytes where rnd: "io_nonce io = Some nonceR" "io_spi4 io = Some spiBytes" by auto
      with i obtain names keys where k: "childAlgNames pr = Inr names" "rekey_child_keys env sa pr pfs nonceI nonceR = Some keys"
        by (auto simp: child_rekey_install_def Let_def split: sum.splits option.splits)
      obtain e x where a: "AddChildSAStates (ie_nl env) (new_child sa remote (uint32 spiBytes) peerSPI keys names natt w) (iw_xfrm w) = (e, x)" by fastforce
      show thesis
      proof (cases e)
        case (Some err)
        then have "sends (w\<lparr>iw_xfrm := x\<rparr>) w'" using i rnd k a by (auto simp: child_rekey_install_def Let_def dest: child_notify_sends)
        then show thesis using refused[of "w\<lparr>iw_xfrm := x\<rparr>"] a Some by auto
      next
        case None
        then have "sends (putSA (set_pending pr num peerSPI (uint32 spiBytes) nonceI nonceR sa) (w\<lparr>iw_xfrm := x\<rparr>)) w'"
          using i rnd k a by (auto simp: child_rekey_install_def Let_def dest: sendEncryptedResponse_sends)
        then show thesis using installed[OF t _ a[unfolded None]] esp_selected[OF t] by blast
      qed
    qed
  qed
qed

lemma handleIKESARekey_cases:
  assumes "handleIKESARekey env io conn remote sa hdr saPayload nonceI ke natt w = Some w'"
  obtains (refused) "sends w w'"
  | (rekeyed) w1 newSPII newSPIR nonceR newProp num key where "sends w w1" "newSPII \<noteq> 0" "selectIKEProposal saPayload = Some (newProp, num)"
      "newSPII = rekey_spi saPayload num" "sk_integ key = np_integ newProp" "sk_encr key = np_encr newProp"
      "w' = ike_rekey_swap sa (rekeyed_sa io sa newSPII newSPIR nonceI nonceR newProp key) w1"
proof -
  have keys: "deriveIKERekeyKeys cr old pr sh nI nR i r = Some k \<Longrightarrow> sk_integ k = np_integ pr \<and> sk_encr k = np_encr pr" for cr old pr sh nI nR i r k
    by (auto simp: deriveIKERekeyKeys_def fresh_key_def Let_def split: option.splits)
  show thesis
    using assms that unfolding handleIKESARekey_def Let_def
    by (auto split: option.splits prod.splits if_splits sum.splits bool.splits dest: child_notify_sends sendEncryptedResponse_sends)
      (metis keys sendEncryptedResponse_sends)
qed

lemma heard_simps [simp]:
  "sa_spiI (heard t sa) = sa_spiI sa" "sa_saKey (heard t sa) = sa_saKey sa" "sa_ok (heard t sa) = sa_ok sa" "sa_natT (heard t sa) = sa_natT sa"
  "sa_sessionID (heard t sa) = sa_sessionID sa" "sa_espProp (heard t sa) = sa_espProp sa" "sa_localIP (heard t sa) = sa_localIP sa"
  "sa_pendingESPProp (heard t sa) = sa_pendingESPProp sa" "sa_localESPSPI (heard t sa) = sa_localESPSPI sa" "sa_peerESPSPI (heard t sa) = sa_peerESPSPI sa"
  "sa_remoteAddr (heard t sa) = sa_remoteAddr sa" "sa_state (heard t sa) = sa_state sa" "sa_swmSessionID (heard t sa) = sa_swmSessionID sa"
  "sa_cookie2 (heard t sa) = sa_cookie2 sa" "session_of (heard t sa) w = session_of sa w"
  by (simp_all add: heard_def sa_ok_def session_of_def)

lemma handleCreateChildSA_cases:
  assumes "handleCreateChildSA env io conn remote pkt hdr w = Some w'"
  obtains (unchanged) "w' = w"
  | (answered) sa where "lookupSA (ih_InitiatorSPI hdr) w = Some sa" "sa_state sa = ikeStateEstablished" "sends (putSA (heard (io_now io) sa) w) w'"
  | (child) sa t plain saPayload nonceI ke where "lookupSA (ih_InitiatorSPI hdr) w = Some sa" "sa_state sa = ikeStateEstablished"
      "decryptSK (ie_crypto env) (sa_saKey sa) pkt = Inr (t, plain)"
      "handleChildSARekey env io conn remote (heard (io_now io) sa) hdr saPayload nonceI ke (sa_natT sa) (putSA (heard (io_now io) sa) w) = Some w'"
  | (ike) sa t plain saPayload nonceI ke where "lookupSA (ih_InitiatorSPI hdr) w = Some sa" "sa_state sa = ikeStateEstablished"
      "decryptSK (ie_crypto env) (sa_saKey sa) pkt = Inr (t, plain)"
      "handleIKESARekey env io conn remote (heard (io_now io) sa) hdr saPayload nonceI ke (sa_natT sa) (putSA (heard (io_now io) sa) w) = Some w'"
proof (cases "lookupSA (ih_InitiatorSPI hdr) w")
  case None
  then show thesis using assms by (intro unchanged) (simp add: handleCreateChildSA_def)
next
  case (Some sa)
  show thesis
  proof (cases "sa_state sa = ikeStateEstablished")
    case False
    then show thesis using assms Some by (intro unchanged) (simp add: handleCreateChildSA_def)
  next
    case est: True
    let ?sa = "heard (io_now io) sa"
    have h: "(case decryptSK (ie_crypto env) (sa_saKey sa) pkt of
                  Inl e \<Rightarrow> if is_panic e then None else Some (putSA ?sa w)
                | Inr (innerType, plain) \<Rightarrow>
                    let pl = parseChildSAPayloads (ie_lib env) innerType plain in
                    (case (cx_sa pl, cx_nonce pl) of
                       (Some saPayload, Some nonceI) \<Rightarrow>
                         if cx_tsi pl \<or> cx_tsr pl
                         then handleChildSARekey env io conn remote ?sa hdr saPayload nonceI (cx_ke pl) (sa_natT sa) (putSA ?sa w)
                         else handleIKESARekey env io conn remote ?sa hdr saPayload nonceI (cx_ke pl) (sa_natT sa) (putSA ?sa w)
                     | _ \<Rightarrow> child_notify env io conn remote ?sa hdr INVALID_SYNTAX [] (sa_natT sa) (putSA ?sa w))) = Some w'"
      using assms Some est unfolding handleCreateChildSA_def Let_def heard_simps(4) by simp
    show thesis
    proof (cases "decryptSK (ie_crypto env) (sa_saKey sa) pkt")
      case (Inl e)
      then show thesis using h answered[OF Some est] by (auto split: if_splits)
    next
      case (Inr tp)
      obtain t plain where tp: "tp = (t, plain)" by fastforce
      note d = Inr[unfolded tp]
      show thesis
        using h unfolding d sum.case prod.case Let_def
        by (auto split: option.splits if_splits dest!: child_notify_sends intro: answered[OF Some est] child[OF Some est d] ike[OF Some est d])
    qed
  qed
qed

section \<open>The state of the server stays well-formed\<close>

lemma set_pending_simps [simp]:
  "sa_spiI (set_pending pr num peerSPI newSPI nI nR sa) = sa_spiI sa" "sa_saKey (set_pending pr num peerSPI newSPI nI nR sa) = sa_saKey sa"
  "sa_ok (set_pending pr num peerSPI newSPI nI nR sa) \<longleftrightarrow> key_ok (sa_saKey sa) \<and> (\<forall>pr. sa_espProp sa = Some pr \<longrightarrow> child_ok pr) \<and> child_ok pr"
  by (simp_all add: set_pending_def sa_ok_def)

lemma rekeyed_simps [simp]:
  "sa_spiI (rekeyed_sa io sa i r nI nR pr k) = i" "sa_spiR (rekeyed_sa io sa i r nI nR pr k) = r" "sa_saKey (rekeyed_sa io sa i r nI nR pr k) = k"
  "sa_espProp (rekeyed_sa io sa i r nI nR pr k) = sa_espProp sa" "sa_sessionID (rekeyed_sa io sa i r nI nR pr k) = sa_sessionID sa"
  "sa_swmSessionID (rekeyed_sa io sa i r nI nR pr k) = sa_swmSessionID sa" "sa_pendingESPProp (rekeyed_sa io sa i r nI nR pr k) = None"
  "sa_localIP (rekeyed_sa io sa i r nI nR pr k) = sa_localIP sa" "sa_localESPSPI (rekeyed_sa io sa i r nI nR pr k) = sa_localESPSPI sa"
  "sa_peerESPSPI (rekeyed_sa io sa i r nI nR pr k) = sa_peerESPSPI sa" "sa_remoteAddr (rekeyed_sa io sa i r nI nR pr k) = sa_remoteAddr sa"
  "sa_state (rekeyed_sa io sa i r nI nR pr k) = ikeStateEstablished"
  by (simp_all add: rekeyed_sa_def)

lemma disowned_simps [simp]:
  "sa_spiI (disowned sa) = sa_spiI sa" "sa_saKey (disowned sa) = sa_saKey sa" "sa_sessionID (disowned sa) = ''''" "sa_swmSessionID (disowned sa) = ''''"
  "sa_espProp (disowned sa) = None" "sa_ok sa \<Longrightarrow> sa_ok (disowned sa)" "sa_pendingESPProp (disowned sa) = sa_pendingESPProp sa"
  by (simp_all add: disowned_def sa_ok_def)

lemma ike_inv_store:
  assumes "ike_inv w" "sa_ok sa"
  shows "ike_inv (storeSA sa w)"
proof -
  have "sas_ok (storeSA sa w)" using sas_ok_store[OF ike_invD(1)[OF assms(1)], of sa "storeSA sa w"] assms(2) by (simp add: sa_ok_def storeSA_def)
  then show ?thesis using assms by (auto simp: ike_inv_def storeSA_def lookupSA_def update_conv' split: if_splits)
qed

lemma lookup_storeSA [simp]: "lookupSA spi (storeSA sa w) = (if spi = sa_spiI sa then Some sa else lookupSA spi w)"
  by (simp add: lookupSA_def storeSA_def update_conv')

lemma ike_inv_swap:
  assumes "ike_inv w" "sa_ok sa" "sa_ok new"
  shows "ike_inv (ike_rekey_swap sa new w)"
  using assms by (simp add: ike_rekey_swap_def Let_def ike_inv_store ike_inv_upd ike_inv_put)

lemma sa_ok_rekeyed:
  assumes "selectIKEProposal saPayload = Some (pr, num)" "sk_integ k = np_integ pr" "sk_encr k = np_encr pr" "sa_ok sa"
  shows "sa_ok (rekeyed_sa io sa i r nI nR pr k)"
  using fresh_key_ok[OF selectIKEProposal_supported[OF assms(1)] assms(2,3)] assms(4) by (simp add: sa_ok_def)

lemma ike_inv_create_child:
  assumes h: "handleCreateChildSA env io conn remote pkt hdr w = Some w'" and inv: "ike_inv w"
  shows "ike_inv w'"
  using h
proof (cases rule: handleCreateChildSA_cases)
  case (answered sa)
  then show ?thesis using ike_inv_sends ike_inv_put[OF inv, of "heard (io_now io) sa"] ike_invD(2)[OF inv answered(1)] by auto
next
  case (child sa t plain saPayload nonceI ke)
  have ok: "sa_ok (heard (io_now io) sa)" using ike_invD(2)[OF inv child(1)] by simp
  note inv1 = ike_inv_put[OF inv ok]
  from child(4) show ?thesis
  proof (cases rule: handleChildSARekey_cases)
    case (refused w1)
    then show ?thesis using inv1 ike_inv_sends ike_inv_xfrm by blast
  next
    case (installed pr num peerSPI newSPI nonceR keys names x)
    have "sa_ok (set_pending pr num peerSPI newSPI nonceI nonceR (heard (io_now io) sa))" using ok installed(2) by (simp add: sa_ok_def set_pending_def)
    then show ?thesis using ike_inv_sends[OF installed(4)] ike_inv_put ike_inv_xfrm(1)[OF xfrm_only_set(2) inv1] by blast
  qed
next
  case (ike sa t plain saPayload nonceI ke)
  have ok: "sa_ok (heard (io_now io) sa)" using ike_invD(2)[OF inv ike(1)] by simp
  note inv1 = ike_inv_put[OF inv ok]
  from ike(4) show ?thesis
  proof (cases rule: handleIKESARekey_cases)
    case refused
    then show ?thesis using inv1 ike_inv_sends by blast
  next
    case (rekeyed w1 newSPII newSPIR nonceR newProp num key)
    then show ?thesis using ike_inv_swap[OF ike_inv_sends[OF rekeyed(1) inv1] ok] sa_ok_rekeyed[OF rekeyed(3,5,6) ok] by simp
  qed
qed (use inv in simp)

section \<open>No panic\<close>

lemma child_pfs_returns:
  assumes "pr \<in> set supportedESPProposals"
  shows "child_pfs env io pr ke \<noteq> None"
proof (cases "ch_dh pr")
  case (Some dh)
  note np = dh_no_panic[OF dh_supported(2)[OF assms Some], of io _ "ie_crypto env"]
  show ?thesis
  proof (cases "dh_GeneratePrivateKey dh io")
    case (Inr priv)
    obtain pub where pub: "dh_PublicKey (ie_crypto env) dh priv = Inr pub" using np(1)[OF Inr] by blast
    show ?thesis using Some Inr pub np(2)[OF Inr] by (auto simp: child_pfs_def split: option.splits sum.splits)
  qed (use Some in \<open>auto simp: child_pfs_def split: option.splits\<close>)
qed (simp add: child_pfs_def)

lemma rekey_child_keys_returns:
  assumes "crypto_ok (ie_crypto env)"
  shows "(rekey_child_keys env sa pr pfs nonceI nonceR = None) = False"
proof -
  have "deriveChildSAKeys (ie_crypto env) ky a b c d \<noteq> None" "deriveChildSAKeysPFS (ie_crypto env) ky sh a b c d \<noteq> None" for ky sh a b c d
    using deriveChildSAKeys_returns[OF assms(1), of ky] by (metis option.distinct(1))+
  then show ?thesis by (simp add: rekey_child_keys_def del: not_None_eq split: option.splits prod.splits)
qed

lemma child_rekey_install_returns:
  assumes "crypto_ok (ie_crypto env)" "child_ok pr" "key_ok (sa_saKey sa)"
  shows "child_rekey_install env io conn remote sa hdr pr num peerSPI pfs nonceI natt w \<noteq> None"
proof -
  obtain names where n: "childAlgNames pr = Inr names" using child_ok_names[OF assms(2)] by blast
  note k = rekey_child_keys_returns[OF assms(1)]
  have s: "(sendEncryptedResponse env iv conn remote (set_pending pr num peerSPI sp nI nR sa) ex mid inner natt w = None) = False" for iv sp nI nR ex mid inner w
    using assms(3) sendEncryptedResponse_returns[of "set_pending pr num peerSPI sp nI nR sa"] by simp
  show ?thesis unfolding child_rekey_install_def n
    using k s by (simp add: Let_def child_notify_returns[OF assms(3)] del: not_None_eq split: option.splits prod.splits)
qed

lemma handleIKESARekey_returns:
  assumes "crypto_ok (ie_crypto env)" "key_ok (sa_saKey sa)"
  shows "handleIKESARekey env io conn remote sa hdr saPayload nonceI ke natt w \<noteq> None"
proof (cases "ke = None \<or> selectIKEProposal saPayload = None")
  case True
  then show ?thesis by (auto simp: handleIKESARekey_def child_notify_returns[OF assms(2)] simp del: not_None_eq split: option.splits)
next
  case False
  then obtain g d pr num where k: "ke = Some (g, d)" "selectIKEProposal saPayload = Some (pr, num)" by auto
  note np = dh_no_panic[OF dh_supported(1)[OF selectIKEProposal_supported[OF k(2)]], of io _ "ie_crypto env"]
  have dk: "(deriveIKERekeyKeys (ie_crypto env) (sa_saKey sa) pr sh nI nR i r = None) = False" for sh nI nR i r
    using deriveIKERekeyKeys_returns[OF assms(1)] by (metis option.distinct(1))
  have s: "(sendEncryptedResponse env iv conn remote sa ex mid inner natt w = None) = False" for iv ex mid inner w
    using sendEncryptedResponse_returns[OF assms(2)] by simp
  note c = child_notify_returns[OF assms(2)]
  show ?thesis
  proof (cases "dh_GeneratePrivateKey (np_dh pr) io")
    case (Inr priv)
    obtain pub where pub: "dh_PublicKey (ie_crypto env) (np_dh pr) priv = Inr pub" using np(1)[OF Inr] by blast
    show ?thesis unfolding handleIKESARekey_def k
      using Inr pub np(2)[OF Inr, of d] dk s by (simp add: Let_def c del: not_None_eq split: option.splits sum.splits prod.splits bool.splits)
  qed (use k in \<open>simp add: handleIKESARekey_def Let_def c del: not_None_eq split: option.splits\<close>)
qed

lemma handleChildSARekey_returns:
  assumes "crypto_ok (ie_crypto env)" "key_ok (sa_saKey sa)"
  shows "handleChildSARekey env io conn remote sa hdr saPayload nonceI ke natt w \<noteq> None"
proof (cases "selectAndExtractESP saPayload")
  case None
  then show ?thesis by (simp add: handleChildSARekey_def child_notify_returns[OF assms(2)] del: not_None_eq)
next
  case (Some t)
  obtain pr num peerSPI where t: "selectAndExtractESP saPayload = Some (pr, num, peerSPI)" using Some by (metis prod_cases3)
  from esp_selected[OF t] have pr: "pr \<in> set supportedESPProposals" "child_ok pr" by simp_all
  obtain r where r: "child_pfs env io pr ke = Some r" using child_pfs_returns[OF pr(1)] by blast
  show ?thesis
    by (cases r) (simp_all add: handleChildSARekey_def t r child_notify_returns[OF assms(2)] child_rekey_install_returns[OF assms(1) pr(2) assms(2)]
        del: not_None_eq split: prod.splits)
qed

lemma handleCreateChildSA_returns:
  assumes cr: "crypto_ok (ie_crypto env)" and inv: "ike_inv w"
  shows "handleCreateChildSA env io conn remote pkt hdr w \<noteq> None"
proof (cases "lookupSA (ih_InitiatorSPI hdr) w")
  case (Some sa)
  have k: "key_ok (sa_saKey (heard (io_now io) sa))" using ike_invD(2)[OF inv Some] by simp
  note rs = child_notify_returns[OF k] handleChildSARekey_returns[OF cr k] handleIKESARekey_returns[OF cr k]
  show ?thesis
  proof (cases "decryptSK (ie_crypto env) (sa_saKey (heard (io_now io) sa)) pkt")
    case (Inl e)
    then show ?thesis using Some decryptSK_panic[OF k Inl] by (simp add: handleCreateChildSA_def Let_def)
  next
    case (Inr tp)
    then show ?thesis using Some unfolding handleCreateChildSA_def Let_def by (simp add: rs del: not_None_eq split: prod.splits option.splits)
  qed
qed (simp add: handleCreateChildSA_def)

section \<open>The CHILD SA is replaced without a gap\<close>

lemma AddChildSAStates_keys:
  assumes spec: "kernel_spec nl sts pols" and a: "AddChildSAStates nl p s = (None, s')"
  obtains l r where "resolveXFRMIPs (cp_LocalIP p) (cp_RemoteIP p) = Inr (l, r)"
    "sts (xf_kernel s') = child_states l r (cp_InboundSPI p) (cp_OutboundSPI p) \<union> sts (xf_kernel s)"
    "child_states l r (cp_InboundSPI p) (cp_OutboundSPI p) \<inter> sts (xf_kernel s) = {}" "pols (xf_kernel s') = pols (xf_kernel s)"
proof -
  from a obtain l r where lr: "resolveXFRMIPs (cp_LocalIP p) (cp_RemoteIP p) = Inr (l, r)" by (auto simp: AddChildSAStates_def split: sum.splits)
  obtain inb outb where sas: "buildSAs p l r = (inb, outb)" by fastforce
  have "add_states nl p (inb, outb) s = (None, s')" using a by (simp add: AddChildSAStates_def lr sas)
  from add_states_effect[OF spec this] that[OF lr] show thesis unfolding buildSAs_keys[OF sas, symmetric] by simp
qed

lemma AddChildSAStates_error:
  assumes spec: "kernel_spec nl sts pols" and a: "AddChildSAStates nl p s = (Some e, s')"
  shows "sts (xf_kernel s') = sts (xf_kernel s) \<and> pols (xf_kernel s') = pols (xf_kernel s)"
proof (cases "resolveXFRMIPs (cp_LocalIP p) (cp_RemoteIP p)")
  case (Inr lr)
  obtain l r where lr: "lr = (l, r)" by fastforce
  obtain inb outb where sas: "buildSAs p l r = (inb, outb)" by fastforce
  have "add_states nl p (inb, outb) s = (Some e, s')" using a by (simp add: AddChildSAStates_def Inr lr sas)
  from add_states_effect[OF spec this] show ?thesis by (simp add: same_tables_def)
qed (use a in \<open>simp add: AddChildSAStates_def\<close>)

lemma ike_rekey_lookup:
  assumes "lookupSA (sa_spiI sa) w = Some sa"
  shows "lookupSA spi (ike_rekey_swap sa new w) =
    (if spi = sa_spiI new then Some new else if spi = sa_spiI sa then Some (disowned sa) else lookupSA spi w)"
  using assms by (simp add: ike_rekey_swap_def Let_def)

lemma child_rekey_installs:
  assumes spec: "kernel_spec (ie_nl env) sts pols" and inv: "ike_inv w" and h: "handleCreateChildSA env io conn remote pkt hdr w = Some w1"
    and sa: "lookupSA spi w = Some sa" "sa_pendingESPProp sa = None" "lookupSA spi w1 = Some sa1" "sa_pendingESPProp sa1 \<noteq> None"
  obtains l r where "resolveXFRMIPs (sa_localIP sa) (fst remote) = Inr (l, r)"
    "sts (xf_kernel (iw_xfrm w1)) = child_states l r (sa_pendingLocalESPSPI sa1) (sa_pendingPeerESPSPI sa1) \<union> sts (xf_kernel (iw_xfrm w))"
    "child_states l r (sa_pendingLocalESPSPI sa1) (sa_pendingPeerESPSPI sa1) \<inter> sts (xf_kernel (iw_xfrm w)) = {}"
    "pols (xf_kernel (iw_xfrm w1)) = pols (xf_kernel (iw_xfrm w))" "iw_sessions w1 = iw_sessions w" "same_peer sa sa1"
    "sa_espProp sa1 = sa_espProp sa" "sa_localESPSPI sa1 = sa_localESPSPI sa" "sa_peerESPSPI sa1 = sa_peerESPSPI sa"
  using h
proof (cases rule: handleCreateChildSA_cases)
  case unchanged
  then show thesis using sa by simp
next
  case (answered sa0)
  then show thesis using sa lookup_sends[OF answered(3)] ike_invD(2)[OF inv answered(1)] by (auto split: if_splits)
next
  case (ike sa0 t plain saPayload nonceI ke)
  let ?sa = "heard (io_now io) sa0"
  have spi: "sa_spiI sa0 = ih_InitiatorSPI hdr" using ike_invD(2)[OF inv ike(1)] by simp
  have l0: "lookupSA (sa_spiI ?sa) (putSA ?sa w) = Some ?sa" using ike(1) spi by simp
  from ike(4) show thesis
  proof (cases rule: handleIKESARekey_cases)
    case refused
    then show thesis using sa lookup_sends[OF refused] ike(1) spi by (auto split: if_splits)
  next
    case (rekeyed w2 newSPII newSPIR nonceR newProp num key)
    have "lookupSA (sa_spiI ?sa) w2 = Some ?sa" using l0 lookup_sends[OF rekeyed(1)] by simp
    from ike_rekey_lookup[OF this] show thesis using sa rekeyed(7) ike(1) spi lookup_sends[OF rekeyed(1)] by (auto split: if_splits)
  qed
next
  case (child sa0 t plain saPayload nonceI ke)
  let ?sa = "heard (io_now io) sa0"
  have spi: "sa_spiI sa0 = ih_InitiatorSPI hdr" using ike_invD(2)[OF inv child(1)] by simp
  from child(4) show thesis
  proof (cases rule: handleChildSARekey_cases)
    case (refused w2)
    have "lookupSA spi w2 = lookupSA spi (putSA ?sa w)" using refused(2) lookup_xfrm_only by blast
    then show thesis using sa lookup_sends[OF refused(1)] child(1) spi by (auto split: if_splits)
  next
    case (installed pr num peerSPI newSPI nonceR keys names x)
    have l1: "lookupSA spi w1 = (if spi = sa_spiI sa0 then Some (set_pending pr num peerSPI newSPI nonceI nonceR ?sa) else lookupSA spi w)"
      using lookup_sends[OF installed(4)] child(1) spi by simp
    then have eq: "spi = sa_spiI sa0" "sa1 = set_pending pr num peerSPI newSPI nonceI nonceR ?sa" "sa0 = sa"
      using sa child(1) spi by (auto split: if_splits)
    have fr: "iw_xfrm w1 = x" "iw_sessions w1 = iw_sessions w" using installed(4) by (auto simp: sends_def)
    from installed(3) show thesis
      by (rule AddChildSAStates_keys[OF spec]) (rule that, auto simp: fr eq(2,3) set_pending_def same_peer_def heard_def)
  qed
qed

lemma child_delete_switches:
  assumes spec: "kernel_spec (ie_nl env) sts pols" and inv: "ike_inv w" and h: "handleInformational env io conn remote pkt hdr w = Some w'"
    and sa: "lookupSA (ih_InitiatorSPI hdr) w = Some sa" "sa_state sa \<noteq> ikeStateDeleting" "sa_espProp sa \<noteq> None" "sa_pendingESPProp sa \<noteq> None"
    and req: "ih_Flags hdr AND ResponseBitCheck = 0" "decryptSK (ie_crypto env) (sa_saKey sa) pkt = Inr (t, plain)"
      "parseInfoPayloads (ie_lib env) t plain = Some \<lparr>in_deleteIKE = False, in_deleteESPSPIs = [spi], in_hasUpdateSA = False, in_cookie2 = c\<rparr>"
      "spi = sa_localESPSPI sa \<or> spi = sa_peerESPSPI sa"
    and lr: "resolveXFRMIPs (sa_localIP sa) (fst (sa_remoteAddr sa)) = Inr (l, r)"
  shows "sts (xf_kernel (iw_xfrm w')) = sts (xf_kernel (iw_xfrm w)) - child_states l r (sa_localESPSPI sa) (sa_peerESPSPI sa) \<and>
    pols (xf_kernel (iw_xfrm w')) = pols (xf_kernel (iw_xfrm w)) \<and> lookupSA (ih_InitiatorSPI hdr) w' = Some (promote_pending (seen (io_now io) sa))"
proof -
  let ?sa = "seen (io_now io) sa"
  have spi: "sa_spiI sa = ih_InitiatorSPI hdr" using ike_invD(2)[OF inv sa(1)] by simp
  have "inform_request env io conn remote pkt hdr ?sa (putSA ?sa w) = Some w'" using h sa req(1) by (simp add: handleInformational_def Let_def)
  with req(2,3) obtain w1 where w1: "sends (putSA ?sa w) w1" "delete_children env [spi] ?sa w1 = Some w'"
    by (auto simp: inform_request_def split: option.splits dest: raw_sends(1))
  let ?x = "RemoveChildSAStates (ie_nl env) (bare_params ?sa (sa_localESPSPI sa) (sa_peerESPSPI sa)) (iw_xfrm w1)"
  have "iw_xfrm w1 = iw_xfrm w" using w1(1) by (auto simp: sends_def)
  moreover have "iw_xfrm w' = snd ?x \<and> lookupSA (sa_spiI sa) w' = map_option (\<lambda>_. promote_pending ?sa) (lookupSA (sa_spiI sa) w1)"
    using w1(2) sa req(4) by (auto simp: delete_child_def Let_def promote_pending_def clear_pending_def split: if_splits)
  moreover have "resolveXFRMIPs (cp_LocalIP (bare_params ?sa i ou)) (cp_RemoteIP (bare_params ?sa i ou)) = Inr (l, r)" for i ou
    using lr by (simp add: bare_params_def)
  ultimately show ?thesis
    using RemoveChildSAStates_keys[OF spec, of "bare_params ?sa (sa_localESPSPI sa) (sa_peerESPSPI sa)" l r "iw_xfrm w1"] lookup_sends[OF w1(1)] sa(1) spi
    by (simp add: bare_params_def)
qed

text \<open>C9.  A CHILD SA rekey replaces the CHILD SA without a gap.  The CREATE_CHILD_SA exchange adds exactly the two states of the new CHILD SA, on
  identities the kernel did not hold, and leaves the old CHILD SA and the policies in place; when the peer then deletes the old CHILD SA, by either of its
  SPIs, exactly its states go and the SA uses the new one.\<close>

theorem child_rekey_completes:
  assumes spec: "kernel_spec (ie_nl env) sts pols" and inv: "ike_inv w"
    and sa: "lookupSA spi w = Some sa" "sa_espProp sa \<noteq> None" "sa_pendingESPProp sa = None" "resolveXFRMIPs (sa_localIP sa) (fst (sa_remoteAddr sa)) = Inr (l, r)"
      "child_states l r (sa_localESPSPI sa) (sa_peerESPSPI sa) \<subseteq> sts (xf_kernel (iw_xfrm w))" "sa_state sa \<noteq> ikeStateDeleting"
    and h1: "handleCreateChildSA env io conn (sa_remoteAddr sa) pkt hdr w = Some w1" "lookupSA spi w1 = Some sa1" "sa_pendingESPProp sa1 \<noteq> None"
    and h2: "handleInformational env io' conn' remote' pkt' hdr' w1 = Some w2" "ih_InitiatorSPI hdr' = spi" "ih_Flags hdr' AND ResponseBitCheck = 0"
      "decryptSK (ie_crypto env) (sa_saKey sa) pkt' = Inr (t, plain)"
      "parseInfoPayloads (ie_lib env) t plain = Some \<lparr>in_deleteIKE = False, in_deleteESPSPIs = [d], in_hasUpdateSA = False, in_cookie2 = c\<rparr>"
      "d = sa_localESPSPI sa \<or> d = sa_peerESPSPI sa"
  shows "sts (xf_kernel (iw_xfrm w1)) = sts (xf_kernel (iw_xfrm w)) \<union> child_states l r (sa_pendingLocalESPSPI sa1) (sa_pendingPeerESPSPI sa1) \<and>
    sts (xf_kernel (iw_xfrm w2)) = sts (xf_kernel (iw_xfrm w)) - child_states l r (sa_localESPSPI sa) (sa_peerESPSPI sa)
      \<union> child_states l r (sa_pendingLocalESPSPI sa1) (sa_pendingPeerESPSPI sa1) \<and>
    pols (xf_kernel (iw_xfrm w2)) = pols (xf_kernel (iw_xfrm w)) \<and>
    (\<exists>sa2. lookupSA spi w2 = Some sa2 \<and> sa_espProp sa2 = sa_pendingESPProp sa1 \<and> sa_localESPSPI sa2 = sa_pendingLocalESPSPI sa1 \<and>
       sa_peerESPSPI sa2 = sa_pendingPeerESPSPI sa1 \<and> sa_pendingESPProp sa2 = None)"
proof -
  from spec inv h1(1) sa(1,3) h1(2,3) show ?thesis
  proof (rule child_rekey_installs)
    fix l' r'
    assume i: "resolveXFRMIPs (sa_localIP sa) (fst (sa_remoteAddr sa)) = Inr (l', r')"
      "sts (xf_kernel (iw_xfrm w1)) = child_states l' r' (sa_pendingLocalESPSPI sa1) (sa_pendingPeerESPSPI sa1) \<union> sts (xf_kernel (iw_xfrm w))"
      "child_states l' r' (sa_pendingLocalESPSPI sa1) (sa_pendingPeerESPSPI sa1) \<inter> sts (xf_kernel (iw_xfrm w)) = {}"
      "pols (xf_kernel (iw_xfrm w1)) = pols (xf_kernel (iw_xfrm w))" "same_peer sa sa1"
      "sa_espProp sa1 = sa_espProp sa" "sa_localESPSPI sa1 = sa_localESPSPI sa" "sa_peerESPSPI sa1 = sa_peerESPSPI sa"
    have lr: "l' = l" "r' = r" using i(1) sa(4) by simp_all
    have p: "sa_saKey sa1 = sa_saKey sa" "sa_state sa1 = sa_state sa" "sa_localIP sa1 = sa_localIP sa" "sa_remoteAddr sa1 = sa_remoteAddr sa"
      using i(5) by (simp_all add: same_peer_def)
    have "sts (xf_kernel (iw_xfrm w2)) = sts (xf_kernel (iw_xfrm w1)) - child_states l r (sa_localESPSPI sa1) (sa_peerESPSPI sa1) \<and>
      pols (xf_kernel (iw_xfrm w2)) = pols (xf_kernel (iw_xfrm w1)) \<and> lookupSA spi w2 = Some (promote_pending (seen (io_now io') sa1))"
      unfolding h2(2)[symmetric]
      by (rule child_delete_switches[OF spec ike_inv_create_child[OF h1(1) inv] h2(1)]) (use h1 h2 sa i p in auto)
    with i lr sa(5) show ?thesis by (auto simp: promote_pending_def clear_pending_def seen_def)
  qed
qed

text \<open>An established SA whose peer rekeys the CHILD SA with the SPI 600, answered with the SPI 768, and then deletes the old one.\<close>

definition demo_rekeying :: ikeSA where
  "demo_rekeying = demo_sa\<lparr>sa_saKey := demo_gcm\<rparr>"

definition demo_rekey_world :: "demo_kernel ike_world" where
  "demo_rekey_world = demo_up\<lparr>iw_sas := [(17, demo_rekeying)]\<rparr>"

definition demo_rekey_io :: ike_io where
  "demo_rekey_io = demo_ike_io\<lparr>io_spi4 := Some [0, 0, 3, 0]\<rparr>"

abbreviation "demo_esp \<equiv> esp_prop encrAesGcm16_256 None None"

definition demo_rekey_chain :: "(byte \<times> bytes) list" where
  "demo_rekey_chain = [(TypeSA, [0, 0, 2, 88]), (TypeNiNr, [5]), (TypeTSi, []), (TypeTSr, [])]"

lemma demo_rekeying_simps [simp]:
  "sa_spiI demo_rekeying = 17" "sa_state demo_rekeying = ikeStateEstablished" "sa_localIP demo_rekeying = [10, 0, 0, 1]" "sa_remoteAddr demo_rekeying = ([192, 0, 2, 7], 500)"
  "sa_espProp demo_rekeying = Some demo_esp" "sa_saKey demo_rekeying = demo_gcm" "sa_pendingESPProp demo_rekeying = None" "sa_sessionID demo_rekeying = ''s''"
  "sa_localESPSPI demo_rekeying = 256" "sa_peerESPSPI demo_rekeying = 512" "sa_natT demo_rekeying = False" "sa_swmSessionID demo_rekeying = ''''"
  by (simp_all add: demo_rekeying_def) (simp add: demo_sa_def demo_half_open_def half_open_sa_def)

lemma demo_esp_ok: "child_ok demo_esp" "demo_esp \<in> set supportedESPProposals" "ch_dh demo_esp = None"
  by (simp_all add: child_ok_def esp_prop_def encrAesGcm16_256_def IsAEAD_def supportedESPProposals_def)

lemma demo_rekeying_ok: "sa_ok demo_rekeying"
  by (simp add: sa_ok_def demo_gcm_ok demo_esp_ok(1))

lemma demo_rekey_lookup: "lookupSA 17 demo_rekey_world = Some demo_rekeying" "lookupSA spi demo_rekey_world = Some sa \<Longrightarrow> spi = 17 \<and> sa = demo_rekeying"
  by (auto simp: demo_rekey_world_def lookupSA_def split: if_splits)

lemma demo_rekey_inv: "ike_inv demo_rekey_world"
proof -
  have "sas_ok demo_rekey_world" by (simp add: sas_ok_def demo_rekey_world_def demo_gcm_ok)
  moreover have "mgr_inv (iw_sessions demo_rekey_world)" using demo_up_simps(3) by (simp add: demo_rekey_world_def)
  ultimately show ?thesis using demo_rekeying_ok demo_rekey_lookup(2) by (auto simp: ike_inv_def)
qed

lemma demo_rekey_parse:
  "parseChildSAPayloads (ie_lib demo_ike_env) TypeSA (chain_bytes demo_rekey_chain) =
     \<lparr>cx_sa = Some (buildESPSAResponse demo_esp 1 600), cx_nonce = Some [5], cx_ke = None, cx_tsi = True, cx_tsr = True\<rparr>"
proof -
  have "walk_payloads TypeSA (chain_bytes demo_rekey_chain) = (demo_rekey_chain, True)"
    using walk_chain[of demo_rekey_chain] by (simp add: demo_rekey_chain_def chain_ok_def)
  then show ?thesis
    by (simp add: parseChildSAPayloads_def demo_rekey_chain_def child_payload_def no_child_payloads_def demo_ike_env_def demo_lib_def safePayloadUnmarshal_def)
qed

lemma demo_delete_parse:
  "parseInfoPayloads (ie_lib demo_ike_env) TypeD (chain_bytes [(TypeD, [3, 4, 0, 1, 0, 0, 1, 0])]) =
     Some \<lparr>in_deleteIKE = False, in_deleteESPSPIs = [256], in_hasUpdateSA = False, in_cookie2 = []\<rparr>"
  using walk_chain[of "[(TypeD, [3, 4, 0, 1, 0, 0, 1, 0])]"]
  by (simp add: chain_ok_def parseInfoPayloads_def info_payload_def no_info_payloads_def demo_ike_env_def demo_lib_def)

lemma demo_delete_safe: "delete_safe (ie_lib demo_ike_env)"
  by (simp add: delete_safe_def demo_ike_env_def demo_lib_def)

lemma table_states:
  assumes lr: "resolveXFRMIPs (cp_LocalIP p) (cp_RemoteIP p) = Inr (l, r)" and ne: "l \<noteq> r \<or> cp_InboundSPI p \<noteq> cp_OutboundSPI p"
    and free: "child_states l r (cp_InboundSPI p) (cp_OutboundSPI p) \<inter> set (fst (xf_kernel s)) = {}"
  shows "fst (AddChildSAStates table_netlink p s) = None"
proof -
  obtain ss ps where k: "xf_kernel s = (ss, ps)" by fastforce
  obtain inb outb where sas: "buildSAs p l r = (inb, outb)" by fastforce
  have keys: "state_key inb = (l, uint (cp_InboundSPI p), XFRM_PROTO_ESP)" "state_key outb = (r, uint (cp_OutboundSPI p), XFRM_PROTO_ESP)"
    using sas by (auto simp: buildSAs_def state_key_def split: prod.splits)
  show ?thesis unfolding AddChildSAStates_def lr sum.case prod.case sas
    using free ne by (auto simp: add_states_def call_def k table_netlink_def table_add_def keys child_states_def markInbound_def Let_def dest: unsigned_word_eqI)
qed

lemma demo_rekey_exchange:
  "\<exists>w1 sa1. handleCreateChildSA demo_ike_env demo_rekey_io ([10, 0, 0, 1], 500) ([192, 0, 2, 7], 500) (demo_msg TypeSA (chain_bytes demo_rekey_chain)) demo_hdr demo_rekey_world = Some w1 \<and>
     lookupSA 17 w1 = Some sa1 \<and> sa_pendingESPProp sa1 = Some demo_esp \<and> sa_pendingLocalESPSPI sa1 = 768 \<and> sa_pendingPeerESPSPI sa1 = 600"
proof -
  let ?sa = "heard (io_now demo_rekey_io) demo_rekeying" and ?conn = "([10, 0, 0, 1], 500) :: udp_addr" and ?rem = "([192, 0, 2, 7], 500) :: udp_addr"
  let ?w = "putSA ?sa demo_rekey_world"
  have sel: "selectAndExtractESP (buildESPSAResponse demo_esp 1 600) = Some (demo_esp, 1, 600)" using answer_selects_same demo_esp_ok(2) by blast
  obtain names where n: "childAlgNames demo_esp = Inr names" using child_ok_names[OF demo_esp_ok(1)] by blast
  obtain keys where k: "rekey_child_keys demo_ike_env ?sa demo_esp None [5] [6] = Some keys"
    using rekey_child_keys_returns[OF demo_up_simps(6)] by blast
  let ?p = "new_child ?sa ?rem 768 600 keys names False ?w"
  have kern: "fst (xf_kernel (iw_xfrm ?w)) = [([10, 0, 0, 1], 256, XFRM_PROTO_ESP), ([192, 0, 2, 7], 512, XFRM_PROTO_ESP), ([10, 0, 0, 1], 300, XFRM_PROTO_ESP)]"
    by (simp add: demo_rekey_world_def demo_up_def)
  obtain x where x: "AddChildSAStates table_netlink ?p (iw_xfrm ?w) = (None, x)"
    using table_states[of ?p "[10, 0, 0, 1]" "[192, 0, 2, 7]" "iw_xfrm ?w"] kern by (cases "AddChildSAStates table_netlink ?p (iw_xfrm ?w)") (auto simp: demo_up_simps child_states_def)
  let ?sa1 = "set_pending demo_esp 1 600 768 [5] [6] ?sa"
  let ?inner = "[PSA (buildESPSAResponse demo_esp 1 768), PNonce [6]] @ buildTSResponse (session_paa ?sa ?w)"
  have "key_ok (sa_saKey ?sa1)" by (simp add: demo_gcm_ok)
  then obtain b w1 where s: "sendEncryptedResponse demo_ike_env (io_iv demo_rekey_io) ?conn ?rem ?sa1 CREATE_CHILD_SA (ih_MessageID demo_hdr) ?inner False (putSA ?sa1 (?w\<lparr>iw_xfrm := x\<rparr>)) = Some (b, w1)"
    using sendEncryptedResponse_returns by fastforce
  have i: "child_rekey_install demo_ike_env demo_rekey_io ?conn ?rem ?sa demo_hdr demo_esp 1 600 None [5] False ?w = Some w1"
    using n k x s by (simp add: child_rekey_install_def demo_rekey_io_def demo_ike_io_def Let_def demo_up_simps demo_esp_ok(3))
  have "handleCreateChildSA demo_ike_env demo_rekey_io ?conn ?rem (demo_msg TypeSA (chain_bytes demo_rekey_chain)) demo_hdr demo_rekey_world = Some w1"
    using i sel by (simp add: handleCreateChildSA_def demo_hdr_def[THEN arg_cong[where f = ih_InitiatorSPI]] demo_rekey_lookup(1) demo_env_simps demo_decrypt demo_rekey_parse
        handleChildSARekey_def child_pfs_def demo_esp_ok(3) Let_def)
  moreover have "lookupSA 17 w1 = Some ?sa1" using lookup_sends[OF sendEncryptedResponse_sends[OF s]] demo_rekey_lookup(1) by simp
  ultimately show ?thesis by (auto simp: set_pending_def)
qed

theorem child_rekey_completes_witness:
  "\<exists>w1 w2. handleCreateChildSA demo_ike_env demo_rekey_io ([10, 0, 0, 1], 500) ([192, 0, 2, 7], 500) (demo_msg TypeSA (chain_bytes demo_rekey_chain)) demo_hdr demo_rekey_world = Some w1 \<and>
     handleInformational demo_ike_env demo_ike_io ([10, 0, 0, 1], 500) ([192, 0, 2, 7], 500) (demo_msg TypeD (chain_bytes [(TypeD, [3, 4, 0, 1, 0, 0, 1, 0])])) demo_hdr w1 = Some w2 \<and>
     set (fst (xf_kernel (iw_xfrm w2))) = {([10, 0, 0, 1], 768, XFRM_PROTO_ESP), ([192, 0, 2, 7], 600, XFRM_PROTO_ESP), ([10, 0, 0, 1], 300, XFRM_PROTO_ESP)}"
proof -
  obtain w1 sa1 where w1: "handleCreateChildSA demo_ike_env demo_rekey_io ([10, 0, 0, 1], 500) ([192, 0, 2, 7], 500) (demo_msg TypeSA (chain_bytes demo_rekey_chain)) demo_hdr demo_rekey_world = Some w1"
    and sa1: "lookupSA 17 w1 = Some sa1" "sa_pendingESPProp sa1 = Some demo_esp" "sa_pendingLocalESPSPI sa1 = 768" "sa_pendingPeerESPSPI sa1 = 600"
    using demo_rekey_exchange by blast
  obtain w2 where w2: "handleInformational demo_ike_env demo_ike_io ([10, 0, 0, 1], 500) ([192, 0, 2, 7], 500) (demo_msg TypeD (chain_bytes [(TypeD, [3, 4, 0, 1, 0, 0, 1, 0])])) demo_hdr w1 = Some w2"
    using handleInformational_returns[OF demo_up_simps(6) demo_delete_safe ike_inv_create_child[OF w1 demo_rekey_inv]] by blast
  have hdr: "ih_InitiatorSPI demo_hdr = 17" "ih_Flags demo_hdr AND ResponseBitCheck = 0" by (simp_all add: demo_hdr_def)
  have dec: "decryptSK (ie_crypto demo_ike_env) demo_gcm (demo_msg TypeD (chain_bytes [(TypeD, [3, 4, 0, 1, 0, 0, 1, 0])])) = Inr (TypeD, chain_bytes [(TypeD, [3, 4, 0, 1, 0, 0, 1, 0])])"
    by (simp add: demo_env_simps demo_decrypt)
  have "set (fst (xf_kernel (iw_xfrm w2))) = set (fst (xf_kernel (iw_xfrm demo_rekey_world))) - child_states [10, 0, 0, 1] [192, 0, 2, 7] 256 512 \<union> child_states [10, 0, 0, 1] [192, 0, 2, 7] 768 600"
    using child_rekey_completes[of demo_ike_env "\<lambda>k. set (fst k)" "\<lambda>k. set (snd k)", OF _ demo_rekey_inv demo_rekey_lookup(1) _ _ _ _ _ _ sa1(1) _ w2 hdr _ demo_delete_parse]
      w1 sa1 dec by (simp add: demo_up_simps table_netlink_spec demo_rekey_world_def[THEN arg_cong[where f = iw_xfrm]] child_states_def del: chain_bytes.simps) (simp add: demo_up_def)
  moreover have "set (fst (xf_kernel (iw_xfrm demo_rekey_world))) = {([10, 0, 0, 1], 256, XFRM_PROTO_ESP), ([192, 0, 2, 7], 512, XFRM_PROTO_ESP), ([10, 0, 0, 1], 300, XFRM_PROTO_ESP)}"
    by (simp add: demo_rekey_world_def demo_up_def)
  ultimately show ?thesis using w1 w2 by (auto simp: child_states_def)
qed

section \<open>A rekeyed IKE SA takes over\<close>

lemma teardown_disowned:
  assumes "sa_sessionID sa = ''''" "sa_swmSessionID sa = ''''" "sa_espProp sa = None" "sa_pendingESPProp sa = None"
  shows "fullTeardown env io sa w = Some (deleteSA (sa_spiI sa) w)"
  using assms by (simp add: fullTeardown_def removeXFRMChildSA_def teardown_session_def session_of_def)

lemma set_pending_session [simp]: "sa_sessionID (set_pending pr num peerSPI newSPI nI nR sa) = sa_sessionID sa"
  by (simp add: set_pending_def)


text \<open>The new SPI is not compared with those in the table: a peer may propose one that another SA uses, and takes that entry.\<close>

lemma ike_rekey_overwrites:
  assumes inv: "ike_inv w" and sa: "lookupSA (ih_InitiatorSPI hdr) w = Some sa"
    and h: "handleIKESARekey env io conn remote sa hdr saPayload nonceI ke natt w = Some w'"
    and other: "lookupSA spi w = Some other" "spi \<noteq> ih_InitiatorSPI hdr" "lookupSA spi w' \<noteq> Some other"
  shows "\<exists>num new. spi = rekey_spi saPayload num \<and> lookupSA spi w' = Some new \<and> sa_sessionID new = sa_sessionID sa"
proof -
  have spi: "sa_spiI sa = ih_InitiatorSPI hdr" using ike_invD(2)[OF inv sa] by simp
  from h show ?thesis
  proof (cases rule: handleIKESARekey_cases)
    case refused
    then show ?thesis using other lookup_sends[OF refused] by simp
  next
    case (rekeyed w2 newSPII newSPIR nonceR newProp num key)
    have "lookupSA (sa_spiI sa) w2 = Some sa" using sa spi lookup_sends[OF rekeyed(1)] by simp
    from ike_rekey_lookup[OF this, of spi "rekeyed_sa io sa newSPII newSPIR nonceI nonceR newProp key"] show ?thesis
      using other rekeyed(4,7) spi lookup_sends[OF rekeyed(1)] by (auto split: if_splits)
  qed
qed

text \<open>A pending CHILD SA does not come along: the new SA does not know it, and its states go with the old one.\<close>

lemma ike_rekey_forgets_pending:
  "sa_pendingESPProp (rekeyed_sa io sa newSPII newSPIR nonceI nonceR newProp key) = None \<and> sa_pendingESPProp (disowned sa) = sa_pendingESPProp sa"
  by simp

text \<open>What a later migration of the CHILD SA derives its keys from: the keys and nonces of the new IKE SA, not those the CHILD SA was made with.\<close>

lemma ike_rekey_migrates_other_keys:
  "current_params env (rekeyed_sa io sa newSPII newSPIR nonceI nonceR newProp key) pr remote w =
    (case childAlgNames pr of Inl _ \<Rightarrow> None | Inr names \<Rightarrow>
       map_option (\<lambda>keys. child_params (sa_localIP sa) remote (sa_localESPSPI sa) (sa_peerESPSPI sa) keys names (sa_natT sa) local_ts (session_ts sa w))
         (deriveChildSAKeys (ie_crypto env) key nonceI nonceR (encr_KeyLen (ch_encr pr)) (integKeyLen (ch_integ pr))))"
  by (auto simp: current_params_def session_ts_def session_of_def rekeyed_sa_def split: sum.splits option.splits)

text \<open>A peer that rekeys the IKE SA with the new SPI 33.\<close>

definition demo_rekey_offer :: "Proposal list" where
  "demo_rekey_offer = buildIKESAPayload demo_prop 1 [0, 0, 0, 0, 0, 0, 0, 33]"

definition demo_ike_rekey_env :: "demo_kernel ike_env" where
  "demo_ike_rekey_env = demo_ike_env\<lparr>ie_lib := demo_lib\<lparr>lib_SA := (\<lambda>b. Done demo_rekey_offer)\<rparr>\<rparr>"

definition demo_ike_rekey_chain :: "(byte \<times> bytes) list" where
  "demo_ike_rekey_chain = [(TypeSA, []), (TypeNiNr, [5]), (TypeKE, [0, 20, 0, 0] @ replicate 96 1)]"

lemma demo_ike_rekey_env_simps: "ie_crypto demo_ike_rekey_env = demo_crypto" "lib_EncodePayloads (ie_lib demo_ike_rekey_env) ps = Some (map payload_type ps)"
  "crypto_ok (ie_crypto demo_ike_rekey_env)"
  by (simp_all add: demo_ike_rekey_env_def demo_env_simps demo_lib_def demo_crypto_ok)

lemma demo_ike_rekey_parse:
  "parseChildSAPayloads (ie_lib demo_ike_rekey_env) TypeSA (chain_bytes demo_ike_rekey_chain) =
     \<lparr>cx_sa = Some demo_rekey_offer, cx_nonce = Some [5], cx_ke = Some (20, replicate 96 1), cx_tsi = False, cx_tsr = False\<rparr>"
proof -
  have "walk_payloads TypeSA (chain_bytes demo_ike_rekey_chain) = (demo_ike_rekey_chain, True)"
    using walk_chain[of demo_ike_rekey_chain] by (simp add: demo_ike_rekey_chain_def chain_ok_def)
  then show ?thesis
    by (simp add: parseChildSAPayloads_def demo_ike_rekey_chain_def child_payload_def no_child_payloads_def demo_ike_rekey_env_def demo_lib_def safePayloadUnmarshal_def)
qed

lemma demo_rekey_select: "selectIKEProposal demo_rekey_offer = Some (demo_prop, 1)" "rekey_spi demo_rekey_offer 1 = 33"
proof -
  have "demo_prop \<in> set supportedIKEProposals" by (simp add: demo_prop_def supportedIKEProposals_def)
  then show "selectIKEProposal demo_rekey_offer = Some (demo_prop, 1)" using answer_selects_same by (simp add: demo_rekey_offer_def)
  show "rekey_spi demo_rekey_offer 1 = 33" by (simp add: demo_rekey_offer_def rekey_spi_def buildIKESAPayload_def)
qed

lemma demo_rekey_sent:
  assumes "sa_saKey sa = demo_gcm" "ps \<noteq> []"
  shows "\<exists>w1. sendEncryptedResponse demo_ike_rekey_env (io_iv demo_ike_io) conn remote sa ex mid ps natt w = Some (True, w1)"
  using assms by (simp add: sendEncryptedResponse_def demo_ike_rekey_env_simps sendEncryptedRaw_def send_encrypted_def encryptedSKMessageLen_def encryptSK_def encryptSKAEAD_def
      demo_gcm_def IsAEAD_def encrAesGcm16_256_def aeadCipher_def NewCipher_def demo_ike_io_def Let_def)

lemma demo_ike_rekey:
  "\<exists>w1 old. handleCreateChildSA demo_ike_rekey_env demo_ike_io ([10, 0, 0, 1], 500) ([192, 0, 2, 7], 500) (demo_msg TypeSA (chain_bytes demo_ike_rekey_chain)) demo_hdr demo_rekey_world = Some w1 \<and>
     lookupSA 17 w1 = Some old \<and> sa_sessionID old = ''''"
proof -
  let ?sa = "heard (io_now demo_ike_io) demo_rekeying" and ?conn = "([10, 0, 0, 1], 500) :: udp_addr" and ?rem = "([192, 0, 2, 7], 500) :: udp_addr"
  let ?w = "putSA ?sa demo_rekey_world"
  obtain key where k: "deriveIKERekeyKeys demo_crypto demo_gcm demo_prop (4 # replicate 96 1) [5] [6] 33 9 = Some key"
    using deriveIKERekeyKeys_returns[OF demo_crypto_ok] by blast
  obtain w1 where s: "sendEncryptedResponse demo_ike_rekey_env (io_iv demo_ike_io) ?conn ?rem ?sa CREATE_CHILD_SA (ih_MessageID demo_hdr)
      [PSA (buildIKESAPayload demo_prop 1 (be64 9)), PNonce [6], PKE 20 [8]] False ?w = Some (True, w1)"
    using demo_rekey_sent[of ?sa] by fastforce
  let ?new = "rekeyed_sa demo_ike_io ?sa 33 9 [5] [6] demo_prop key"
  have rnd: "io_spi8 demo_ike_io = Some [0, 0, 0, 0, 0, 0, 0, 9]" "io_nonce demo_ike_io = Some [6]" "uint64 [0, 0, 0, 0, 0, 0, 0, 9] = 9" by (simp_all add: demo_ike_io_def)
  have "handleIKESARekey demo_ike_rekey_env demo_ike_io ?conn ?rem ?sa demo_hdr demo_rekey_offer [5] (Some (20, replicate 96 1)) False ?w = Some (ike_rekey_swap ?sa ?new w1)"
    using k s by (simp add: handleIKESARekey_def demo_rekey_select demo_dh demo_ike_rekey_env_simps rnd Let_def del: replicate.simps)
  then have "handleCreateChildSA demo_ike_rekey_env demo_ike_io ?conn ?rem (demo_msg TypeSA (chain_bytes demo_ike_rekey_chain)) demo_hdr demo_rekey_world = Some (ike_rekey_swap ?sa ?new w1)"
    by (simp add: handleCreateChildSA_def demo_hdr_def[THEN arg_cong[where f = ih_InitiatorSPI]] demo_rekey_lookup(1) demo_ike_rekey_env_simps demo_decrypt demo_ike_rekey_parse Let_def)
  moreover have "lookupSA (sa_spiI ?sa) w1 = Some ?sa" using lookup_sends[OF sendEncryptedResponse_sends[OF s]] demo_rekey_lookup(1) by simp
  from ike_rekey_lookup[OF this, of 17 ?new] have "lookupSA 17 (ike_rekey_swap ?sa ?new w1) = Some (disowned ?sa)" by simp
  ultimately show ?thesis by auto
qed


end
