(* ===== verification/IkeAuth.thy ===== *)
theory IkeAuth
  imports IkeRekey
begin

text \<open>
  The IKE_AUTH exchange (\<^verbatim>\<open>internal/ikev2/auth.go\<close>): the first round with identity, APN and CHILD SA proposal, the EAP rounds
  relayed to the AAA server, and the final round, which verifies the AUTH value of the peer, detaches an older session of the subscriber, creates the
  PDN connection, installs the CHILD SA and the dataplane session and answers.

  Shown: an SA becomes established only by a message with the AUTH value computed from a 64-byte key, and that key comes from an answer of the AAA server;
  a successful final round leaves the session active with its dataplane session and exactly the kernel states and policies of its CHILD SA; what is
  left behind when a step of it fails.
\<close>

section \<open>Answers\<close>

definition auth_notify ::
  "'k ike_env \<Rightarrow> ike_io \<Rightarrow> udp_addr \<Rightarrow> udp_addr \<Rightarrow> ikeSA \<Rightarrow> IKEHeader \<Rightarrow> u16 \<Rightarrow> bool \<Rightarrow> 'k ike_world \<Rightarrow> 'k ike_world option" where
  "auth_notify env io conn remote sa hdr notifyType natt w =
     send_notify env (io_iv io) conn remote sa IKE_AUTH (ih_MessageID hdr) notifyType [] natt w"

definition epdgIdentity :: "Config \<Rightarrow> string" where
  "epdgIdentity cfg = (if ep_Name (c_EPDG cfg) \<noteq> '''' then ep_Name (c_EPDG cfg) else ''epdg'')"

text \<open>The signing is an argument: \<^term>\<open>None\<close> when it fails or no key is configured.\<close>

definition computeCertAUTH :: "'k ike_env \<Rightarrow> bytes \<Rightarrow> bytes option" where
  "computeCertAUTH env signedOctets = ie_sign env (cr_sha1 (ie_crypto env) signedOctets)"

definition responder_signed :: "'k ike_env \<Rightarrow> ikeSA \<Rightarrow> bytes" where
  "responder_signed env sa =
     sa_initRespRaw sa @ sa_nonceI sa @
     prfMAC (ie_crypto env) (sk_prf (sa_saKey sa)) (SK_pr (sa_saKey sa)) (buildIDAuthBytes ID_FQDN (str_bytes (epdgIdentity (ie_cfg env))))"

definition initiator_signed :: "'k ike_env \<Rightarrow> ikeSA \<Rightarrow> bytes" where
  "initiator_signed env sa =
     sa_initReqRaw sa @ sa_nonceR sa @ prfMAC (ie_crypto env) (sk_prf (sa_saKey sa)) (SK_pi (sa_saKey sa)) (sa_idiAuthBytes sa)"

definition expected_auth :: "'k ike_env \<Rightarrow> ikeSA \<Rightarrow> bytes" where
  "expected_auth env sa = computeEAPAUTH (ie_crypto env) (sk_prf (sa_saKey sa)) (sa_msk sa) (initiator_signed env sa)"

definition sendEAPResponse ::
  "'k ike_env \<Rightarrow> ike_io \<Rightarrow> udp_addr \<Rightarrow> udp_addr \<Rightarrow> ikeSA \<Rightarrow> IKEHeader \<Rightarrow> bytes \<Rightarrow> bool \<Rightarrow> bool \<Rightarrow> 'k ike_world \<Rightarrow> 'k ike_world option" where
  "sendEAPResponse env io conn remote sa hdr eapPayload includeID natt w =
     (let send = (\<lambda>inner. map_option snd (sendEncryptedResponse env (io_iv io) conn remote sa IKE_AUTH (ih_MessageID hdr) inner natt w)) in
      if includeID then
        (case computeCertAUTH env (responder_signed env sa) of
           None \<Rightarrow> auth_notify env io conn remote sa hdr AUTHENTICATION_FAILED natt w
         | Some sig \<Rightarrow>
             send ([PIDr ID_FQDN (str_bytes (epdgIdentity (ie_cfg env)))] @
                   (if ie_certDER env \<noteq> [] then [PCert certEncodingX509 (ie_certDER env)] else []) @
                   [PAuth RSADigitalSignature sig, PRaw TypeEAP eapPayload]))
      else send [PRaw TypeEAP eapPayload])"

section \<open>First round\<close>

definition choose_apn :: "Config \<Rightarrow> (byte \<times> bytes) option \<Rightarrow> string" where
  "choose_apn cfg idr =
     (let requestedAPN = (case idr of None \<Rightarrow> '''' | Some i \<Rightarrow> extractAPN i) in
      if requestedAPN \<noteq> '''' then requestedAPN
      else if ap_Default (c_APN cfg) \<noteq> '''' then ap_Default (c_APN cfg)
      else ''ims'')"

definition cfg_attribute :: "ikeSA \<Rightarrow> cfg_attr \<Rightarrow> ikeSA" where
  "cfg_attribute sa = (\<lambda>(t, v).
     if t = INTERNAL_IP4_ADDRESS then
       (let sa = sa\<lparr>sa_cpWantsIP := True\<rparr> in if length v = 4 \<and> v \<noteq> [0, 0, 0, 0] then sa\<lparr>sa_handoverIP := v\<rparr> else sa)
     else sa)"

definition cfg_request :: "(byte \<times> cfg_attr list) option \<Rightarrow> ikeSA \<Rightarrow> ikeSA" where
  "cfg_request cp sa = (case cp of
     Some (t, attrs) \<Rightarrow> if t = CFG_REQUEST then foldl cfg_attribute sa attrs else sa
   | None \<Rightarrow> sa)"

definition session_name :: "u64 \<Rightarrow> u64 \<Rightarrow> string" where
  "session_name spiI spiR = hex_bytes (be64 spiI) @ ''-'' @ hex_bytes (be64 spiR)"

definition round1_session :: "ike_io \<Rightarrow> ikeSA \<Rightarrow> 'k ike_world \<Rightarrow> 'k ike_world" where
  "round1_session io sa w =
     (let sessID = session_name (sa_spiI sa) (sa_spiR sa);
          w = w\<lparr>iw_sessions := snd (GetOrCreate (iw_sessions w) sessID (io_now io))\<rparr>
      in upd_session sessID
           (\<lambda>s. snd (Transition (s\<lparr>s_IMSI := sa_imsi sa, s_NAI := sa_nai sa, s_APN := sa_apn sa, s_IkeSPII := sa_spiI sa, s_IkeSPIR := sa_spiR sa\<rparr>)
                      StateEAPAuthenticating)) w)"

definition round1_eap :: "bytes \<Rightarrow> string \<Rightarrow> swm_error + bytes" where
  "round1_eap eapRaw nai = (if length eapRaw \<ge> 2 then Inr eapRaw else IdentityResponse 0 nai)"

text \<open>The success of the EAP exchange: key and identity go to the SA and, with the profile of a later round, to its session.\<close>

definition eap_success_sa :: "EAPResult \<Rightarrow> ikeSA \<Rightarrow> ikeSA" where
  "eap_success_sa res sa =
     sa\<lparr>sa_msk := rs_MSK res, sa_imsi := (if rs_PermanentIdentity res \<noteq> '''' then rs_PermanentIdentity res else sa_imsi sa)\<rparr>"

definition eap_success_session :: "EAPResult \<Rightarrow> bool \<Rightarrow> Session \<Rightarrow> Session" where
  "eap_success_session res withProfile s =
     (let s = s\<lparr>s_MSK := rs_MSK res, s_IMSI := (if rs_PermanentIdentity res \<noteq> '''' then rs_PermanentIdentity res else s_IMSI s)\<rparr>;
          s = (case rs_APNProfile res of
                 Some p \<Rightarrow> if withProfile \<and> sp_AMBRPresent p
                           then s\<lparr>s_APNProfile := Some \<lparr>ap_APN = sp_APN p, ap_AMBRUplink = ucast (sp_AMBRUplink p), ap_AMBRDownlink = ucast (sp_AMBRDownlink p)\<rparr>\<rparr>
                           else s
               | None \<Rightarrow> s)
      in snd (Transition s StateEAPAuthenticated))"

text \<open>What the first message tells: the SA with identity, APN, CHILD SA and address request, or the notify of the refusal.\<close>

definition round1_identity :: "'k ike_env \<Rightarrow> authPayloads \<Rightarrow> ikeSA \<Rightarrow> (u16 \<times> ikeSA) + ikeSA" where
  "round1_identity env pl sa =
     (case ax_idi pl of
        None \<Rightarrow> Inl (INVALID_SYNTAX, sa)
      | Some idi \<Rightarrow>
          (case extractNAI idi of
             Inl _ \<Rightarrow> Inl (AUTHENTICATION_FAILED, sa)
           | Inr (nai, imsi) \<Rightarrow>
               let sa = sa\<lparr>sa_idiAuthBytes := buildIDAuthBytes (fst idi) (snd idi), sa_imsi := imsi, sa_nai := nai, sa_apn := choose_apn (ie_cfg env) (ax_idr pl)\<rparr> in
               (case ax_sa pl of
                  None \<Rightarrow> Inr (cfg_request (ax_cp pl) sa)
                | Some saPayload \<Rightarrow>
                    (case selectAndExtractESP saPayload of
                       None \<Rightarrow> Inl (NO_PROPOSAL_CHOSEN, sa)
                     | Some (prop, propNum, peerSPI) \<Rightarrow>
                         Inr (cfg_request (ax_cp pl) (sa\<lparr>sa_espProp := Some prop, sa_espPropNum := propNum, sa_peerESPSPI := peerSPI\<rparr>))))))"

text \<open>The first EAP message to the AAA server and its answer.\<close>

definition round1_exchange ::
  "'k ike_env \<Rightarrow> ike_io \<Rightarrow> udp_addr \<Rightarrow> udp_addr \<Rightarrow> ikeSA \<Rightarrow> IKEHeader \<Rightarrow> bytes \<Rightarrow> bool \<Rightarrow> 'k ike_world \<Rightarrow> (ikeSA \<times> 'k ike_world) option" where
  "round1_exchange env io conn remote sa hdr eapRaw natt w =
     (let failed = (\<lambda>sa w. map_option (Pair sa) (auth_notify env io conn remote sa hdr AUTHENTICATION_FAILED natt w)) in
      case round1_eap eapRaw (sa_nai sa) of
        Inl _ \<Rightarrow> failed sa w
      | Inr eapToSend \<Rightarrow>
          (case ExchangeEAP \<lparr>er_SessionID = '''', er_IMSI = sa_imsi sa, er_NAI = sa_nai sa, er_APN = sa_apn sa, er_EAPPayload = eapToSend\<rparr>
                  (io_swmNano io) (io_swmOpened io) (io_swmExchange io) (iw_swm w) of
             (Inl _, c) \<Rightarrow> failed sa (w\<lparr>iw_swm := c\<rparr>)
           | (Inr res, c) \<Rightarrow>
               let sa = sa\<lparr>sa_swmSessionID := rs_SessionID res, sa_eapRound := 1\<rparr>;
                   w = upd_session (sa_sessionID sa) (\<lambda>s. s\<lparr>s_SWMSessionID := rs_SessionID res\<rparr>) (w\<lparr>iw_swm := c\<rparr>) in
               if rs_State res = EAPStateFailure then failed sa w
               else let (sa, w) = (if rs_State res = EAPStateSuccess
                                   then (eap_success_sa res sa, upd_session (sa_sessionID sa) (eap_success_session res False) w) else (sa, w))
                    in map_option (Pair (sa\<lparr>sa_eapChallengeMsgID := ih_MessageID hdr, sa_eapChallengePayload := rs_EAPPayload res\<rparr>))
                         (sendEAPResponse env io conn remote sa hdr (rs_EAPPayload res) True natt w)))"

definition handleAuthRound1 ::
  "'k ike_env \<Rightarrow> ike_io \<Rightarrow> udp_addr \<Rightarrow> udp_addr \<Rightarrow> ikeSA \<Rightarrow> IKEHeader \<Rightarrow> authPayloads \<Rightarrow> bool \<Rightarrow> 'k ike_world \<Rightarrow> (ikeSA \<times> 'k ike_world) option" where
  "handleAuthRound1 env io conn remote sa hdr pl natt w =
     (case round1_identity env pl sa of
        Inl (notifyType, sa) \<Rightarrow> map_option (Pair sa) (auth_notify env io conn remote sa hdr notifyType natt w)
      | Inr sa \<Rightarrow>
          round1_exchange env io conn remote (sa\<lparr>sa_sessionID := session_name (sa_spiI sa) (sa_spiR sa)\<rparr>) hdr (ax_eapRaw pl) natt (round1_session io sa w))"

section \<open>EAP rounds\<close>

definition handleAuthEAP ::
  "'k ike_env \<Rightarrow> ike_io \<Rightarrow> udp_addr \<Rightarrow> udp_addr \<Rightarrow> ikeSA \<Rightarrow> IKEHeader \<Rightarrow> authPayloads \<Rightarrow> bool \<Rightarrow> 'k ike_world \<Rightarrow> (ikeSA \<times> 'k ike_world) option" where
  "handleAuthEAP env io conn remote sa hdr pl natt w =
     (if ax_eapRaw pl = [] then
        (if ih_MessageID hdr = sa_eapChallengeMsgID sa \<and> sa_eapChallengePayload sa \<noteq> []
         then map_option (Pair sa) (sendEAPResponse env io conn remote sa hdr (sa_eapChallengePayload sa) True natt w)
         else Some (sa, w))
      else
     (case ExchangeEAP \<lparr>er_SessionID = sa_swmSessionID sa, er_IMSI = sa_imsi sa, er_NAI = sa_nai sa, er_APN = sa_apn sa, er_EAPPayload = ax_eapRaw pl\<rparr>
             (io_swmNano io) (io_swmOpened io) (io_swmExchange io) (iw_swm w) of
        (Inl _, c) \<Rightarrow> map_option (Pair sa) (auth_notify env io conn remote sa hdr AUTHENTICATION_FAILED natt (w\<lparr>iw_swm := c\<rparr>))
      | (Inr res, c) \<Rightarrow>
          let sa = sa\<lparr>sa_eapRound := sa_eapRound sa + 1, sa_eapChallengePayload := []\<rparr>; w = w\<lparr>iw_swm := c\<rparr> in
          if rs_State res = EAPStateFailure then map_option (Pair sa) (auth_notify env io conn remote sa hdr AUTHENTICATION_FAILED natt w)
          else let (sa, w) = (if rs_State res = EAPStateSuccess
                              then (eap_success_sa res sa, upd_session (sa_sessionID sa) (eap_success_session res True) w) else (sa, w))
               in map_option (Pair sa) (sendEAPResponse env io conn remote sa hdr (rs_EAPPayload res) False natt w)))"

section \<open>Final round\<close>

text \<open>The implicit detach of the one active session of the subscriber at the APN.  The lock of its SA is taken while that of the current one is held:
  when both are the same SA the handler waits for itself, which is \<^term>\<open>None\<close>.\<close>

definition implicit_detach :: "'k ike_env \<Rightarrow> ike_io \<Rightarrow> ikeSA \<Rightarrow> 'k ike_world \<Rightarrow> 'k ike_world option" where
  "implicit_detach env io sa w =
     (if sa_handoverIP sa \<noteq> [] then Some w
      else case FindSingleActiveByIMSIAPN (iw_sessions w) (io_order io) (sa_imsi sa) (sa_apn sa) of
             None \<Rightarrow> Some w
           | Some oldSess \<Rightarrow>
               (case lookupSA (s_IkeSPII oldSess) w of
                  None \<Rightarrow> Some w
                | Some old \<Rightarrow>
                    if s_IkeSPII oldSess = sa_spiI sa then None
                    else let old = old\<lparr>sa_state := ikeStateDeleting\<rparr> in fullTeardown env io old (putSA old w)))"

definition s2b_context :: "CreateSessionResult \<Rightarrow> S2BContext" where
  "s2b_context r =
     \<lparr>sc_PAA = IP_String (cr_PAA r), sc_PGWControlTEID = cr_PGWControlTEID r, sc_PGWControlIP = cr_PGWControlIP r, sc_PGWUserTEID = cr_PGWUserTEID r,
      sc_PGWUserIP = cr_PGWUserIP r, sc_LocalControlTEID = cr_LocalControlTEID r, sc_LocalUserTEID = cr_LocalUserTEID r, sc_EBI = cr_EBI r,
      sc_PGWRecovery = cr_PGWRecovery r\<rparr>"

definition accept_s2b :: "CreateSessionResult \<Rightarrow> Session \<Rightarrow> Session" where
  "accept_s2b r s =
     snd (Transition ((snd (Transition s StateS2BCreateSessionSent))\<lparr>s_S2B := Some (s2b_context r)\<rparr>) StateS2BAccepted)"

text \<open>The creation of the PDN connection.\<close>

definition final_create :: "'k ike_env \<Rightarrow> ike_io \<Rightarrow> ikeSA \<Rightarrow> 'k ike_world \<Rightarrow> (s2b_error + CreateSessionResult) \<times> 'k ike_world" where
  "final_create env io sa w =
     (let (ambrUL, ambrDL) = (case Option.bind (Get (iw_sessions w) (sa_sessionID sa)) s_APNProfile of
                                None \<Rightarrow> (0, 0) | Some p \<Rightarrow> (ap_AMBRUplink p, ap_AMBRDownlink p));
          cfg = ie_cfg env;
          pgwControlIP = Discover (io_sort io) (io_dns io)
            \<lparr>pd_DNSEnabled = PGWDiscoveryConfig.pd_DNSEnabled (c_PGWDiscovery cfg), pd_AllowS5S8Fallback = PGWDiscoveryConfig.pd_AllowS5S8Fallback (c_PGWDiscovery cfg),
             pd_StaticPGWC = gt_PGWGTPC (c_GTP cfg), pd_MCC = ep_MCC (c_EPDG cfg), pd_MNC = ep_MNC (c_EPDG cfg)\<rparr> (sa_apn sa)
      in case s2b_CreateSession (io_createWr io) (io_createWait io)
                \<lparr>cq_IMSI = sa_imsi sa, cq_APN = sa_apn sa, cq_AMBRUplink = ambrUL, cq_AMBRDownlink = ambrDL, cq_Handover = (sa_handoverIP sa \<noteq> []),
                 cq_PGWControlIP = pgwControlIP\<rparr> (iw_s2b w) of
           (res, out, c) \<Rightarrow>
             let w = w\<lparr>iw_s2b := c, iw_s2bSent := iw_s2bSent w @ out\<rparr> in
             (res, case res of Inl _ \<Rightarrow> w | Inr r \<Rightarrow> upd_session (sa_sessionID sa) (accept_s2b r) w))"

definition child_up :: "ikeSA \<Rightarrow> Session \<Rightarrow> Session" where
  "child_up sa s = snd (Transition (s\<lparr>s_ESPInboundSPI := sa_localESPSPI sa, s_ESPOutboundSPI := sa_peerESPSPI sa, s_OuterIP := UDP_String (sa_remoteAddr sa)\<rparr>) StateGTPUInstalling)"

definition datapath_up :: "Session option \<Rightarrow> Session \<Rightarrow> Session" where
  "datapath_up added s = snd (Transition (snd (Transition (s\<lparr>s_Datapath := Option.bind added s_Datapath\<rparr>) StateDatapathInstalling)) StateActive)"

text \<open>Kernel, session and dataplane; the first component tells whether the round goes on.\<close>

definition final_datapath :: "'k ike_env \<Rightarrow> ikeSA \<Rightarrow> 'k ike_world \<Rightarrow> bool \<times> 'k ike_world" where
  "final_datapath env sa w =
     (case Get (iw_sessions w) (sa_sessionID sa) of
        None \<Rightarrow> (True, w)
      | Some sess \<Rightarrow>
          (case AddSession (ie_genv env) (iw_gtpu w) (Some sess) of
             (Some _, g, _) \<Rightarrow> (False, w\<lparr>iw_gtpu := g\<rparr>)
           | (None, g, added) \<Rightarrow> (True, upd_session (sa_sessionID sa) (datapath_up added) (w\<lparr>iw_gtpu := g\<rparr>))))"

definition final_install :: "'k ike_env \<Rightarrow> udp_addr \<Rightarrow> ikeSA \<Rightarrow> net_ip \<Rightarrow> 'k ike_world \<Rightarrow> (bool \<times> 'k ike_world) option" where
  "final_install env remote sa paa w =
     (case sa_espProp sa of
        None \<Rightarrow> Some (True, w)
      | Some prop \<Rightarrow>
          if sa_localIP sa = [] then Some (True, w)
          else (case (deriveChildSAKeys (ie_crypto env) (sa_saKey sa) (sa_nonceI sa) (sa_nonceR sa) (encr_KeyLen (ch_encr prop)) (integKeyLen (ch_integ prop)), childAlgNames prop) of
                  (Some keys, Inr names) \<Rightarrow>
                    (case InstallChildSA (ie_nl env)
                            (child_params (sa_localIP sa) remote (sa_localESPSPI sa) (sa_peerESPSPI sa) keys names (sa_natT sa) local_ts (paa_ts paa)) (iw_xfrm w) of
                       (Some _, x) \<Rightarrow> Some (False, w\<lparr>iw_xfrm := x\<rparr>)
                     | (None, x) \<Rightarrow>
                         Some (final_datapath env sa (upd_session (sa_sessionID sa) (child_up sa) (w\<lparr>iw_xfrm := x\<rparr>))))
                | _ \<Rightarrow> None))"

definition final_payloads :: "'k ike_env \<Rightarrow> ikeSA \<Rightarrow> CreateSessionResult \<Rightarrow> payload list" where
  "final_payloads env sa r =
     [PIDr ID_FQDN (str_bytes (sa_apn sa)),
      PAuth authMethodSharedKey (computeEAPAUTH (ie_crypto env) (sk_prf (sa_saKey sa)) (sa_msk sa) (responder_signed env sa))] @
     (case sa_espProp sa of None \<Rightarrow> [] | Some prop \<Rightarrow> [PSA (buildESPSAResponse prop (sa_espPropNum sa) (sa_localESPSPI sa))]) @
     buildTSResponse (cr_PAA r) @
     (if sa_cpWantsIP sa \<and> cr_PAA r \<noteq> [] then
        (let pcoData = (if cr_ResponseAPCO r = None then cr_ResponsePCO r else cr_ResponseAPCO r) in
         [PCP CFG_REPLY ((INTERNAL_IP4_ADDRESS, To4 (cr_PAA r)) # appendDNSFromPCO pcoData (c_PCO (ie_cfg env)) @ appendPCSCFFromPCO pcoData (c_PCO (ie_cfg env)))])
      else []) @
     (if sa_mobikeEnabled sa then [PNotify \<lparr>nt_NotifyMessageType = MOBIKE_SUPPORTED, nt_NotificationData = []\<rparr>] else [])"

text \<open>The final round after the verification.\<close>

definition auth_accept ::
  "'k ike_env \<Rightarrow> ike_io \<Rightarrow> udp_addr \<Rightarrow> udp_addr \<Rightarrow> ikeSA \<Rightarrow> IKEHeader \<Rightarrow> bool \<Rightarrow> 'k ike_world \<Rightarrow> (ikeSA \<times> 'k ike_world) option" where
  "auth_accept env io conn remote sa hdr natt w =
     (let failed = (\<lambda>sa w. map_option (Pair sa) (auth_notify env io conn remote sa hdr AUTHENTICATION_FAILED natt w)) in
      case implicit_detach env io sa w of
        None \<Rightarrow> None
      | Some w \<Rightarrow>
     (case final_create env io sa w of
        (Inl e, w) \<Rightarrow> if e = PLMNPanic then None else failed sa w
      | (Inr r, w) \<Rightarrow>
     (case io_spi4 io of
        None \<Rightarrow> Some (sa, w)
      | Some spiBytes \<Rightarrow>
          let sa = sa\<lparr>sa_localESPSPI := uint32 spiBytes, sa_state := ikeStateEstablished\<rparr> in
          (case final_install env remote sa (cr_PAA r) w of
             None \<Rightarrow> None
           | Some (False, w) \<Rightarrow> failed sa w
           | Some (True, w) \<Rightarrow>
               map_option (\<lambda>(_, w). (sa, w))
                 (sendEncryptedResponse env (io_iv io) conn remote sa IKE_AUTH (ih_MessageID hdr) (final_payloads env sa r) natt w)))))"

definition handleAuthFinal ::
  "'k ike_env \<Rightarrow> ike_io \<Rightarrow> udp_addr \<Rightarrow> udp_addr \<Rightarrow> ikeSA \<Rightarrow> IKEHeader \<Rightarrow> authPayloads \<Rightarrow> bool \<Rightarrow> 'k ike_world \<Rightarrow> (ikeSA \<times> 'k ike_world) option" where
  "handleAuthFinal env io conn remote sa hdr pl natt w =
     (let failed = map_option (Pair sa) (auth_notify env io conn remote sa hdr AUTHENTICATION_FAILED natt w) in
      if length (sa_msk sa) \<noteq> 64 then failed
      else case ax_auth pl of
             None \<Rightarrow> failed
           | Some (_, authData) \<Rightarrow>
               if \<not> constEqual (expected_auth env sa) authData then failed
               else auth_accept env io conn remote sa hdr natt w)"

section \<open>The exchange\<close>

definition mobike_seen :: "Notification list \<Rightarrow> ikeSA \<Rightarrow> ikeSA" where
  "mobike_seen notifies sa =
     (if \<not> sa_mobikeEnabled sa \<and> list_ex (\<lambda>n. nt_NotifyMessageType n = MOBIKE_SUPPORTED) notifies then sa\<lparr>sa_mobikeEnabled := True\<rparr> else sa)"

text \<open>The SA as the handler leaves it goes back to the table at the end: its lock is held throughout.\<close>

definition auth_request ::
  "'k ike_env \<Rightarrow> ike_io \<Rightarrow> udp_addr \<Rightarrow> udp_addr \<Rightarrow> bytes \<Rightarrow> IKEHeader \<Rightarrow> bool \<Rightarrow> ikeSA \<Rightarrow> 'k ike_world \<Rightarrow> (ikeSA \<times> 'k ike_world) option" where
  "auth_request env io conn remote pkt hdr natt sa w =
     (case decryptSK (ie_crypto env) (sa_saKey sa) pkt of
        Inl e \<Rightarrow> if is_panic e then None else Some (sa, w)
      | Inr (innerType, plain) \<Rightarrow>
          (case parseAuthPayloads (ie_lib env) innerType plain of
             Inl _ \<Rightarrow> map_option (Pair sa) (auth_notify env io conn remote sa hdr INVALID_SYNTAX natt w)
           | Inr pl \<Rightarrow>
               let sa = mobike_seen (ax_notifies pl) sa in
               if sa_eapRound sa = 0 then handleAuthRound1 env io conn remote sa hdr pl natt w
               else if ax_auth pl \<noteq> None then handleAuthFinal env io conn remote sa hdr pl natt w
               else handleAuthEAP env io conn remote sa hdr pl natt w))"

definition handleIKEAuth ::
  "'k ike_env \<Rightarrow> ike_io \<Rightarrow> udp_addr \<Rightarrow> udp_addr \<Rightarrow> bytes \<Rightarrow> IKEHeader \<Rightarrow> bool \<Rightarrow> 'k ike_world \<Rightarrow> 'k ike_world option" where
  "handleIKEAuth env io conn remote pkt hdr natt w =
     (if ih_Flags hdr AND InitiatorBitCheck = 0 \<or> ih_Flags hdr AND ResponseBitCheck \<noteq> 0 then Some w
      else case lookupSA (ih_InitiatorSPI hdr) w of
             None \<Rightarrow> Some w
           | Some sa \<Rightarrow>
               if sa_state sa \<noteq> ikeStateAuth then Some w
               else let sa = sa\<lparr>sa_remoteAddr := remote, sa_lastSeen := io_now io\<rparr> in
                    map_option (\<lambda>(sa, w). putSA sa w) (auth_request env io conn remote pkt hdr natt sa w))"


section \<open>What the rounds before the last change\<close>

lemma auth_notify_sends: "auth_notify env io conn remote sa hdr t natt w = Some w' \<Longrightarrow> sends w w'"
  by (simp add: auth_notify_def send_notify_sends)

lemma sendEAPResponse_sends: "sendEAPResponse env io conn remote sa hdr e i natt w = Some w' \<Longrightarrow> sends w w'"
  by (auto simp: sendEAPResponse_def Let_def split: if_splits option.splits dest: auth_notify_sends sendEncryptedResponse_sends)

lemma auth_notify_returns: "key_ok (sa_saKey sa) \<Longrightarrow> (auth_notify env io conn remote sa hdr t natt w = None) = False"
  using send_notify_returns by (simp add: auth_notify_def)

lemma sendEAPResponse_returns: "key_ok (sa_saKey sa) \<Longrightarrow> (sendEAPResponse env io conn remote sa hdr e i natt w = None) = False"
  by (simp add: sendEAPResponse_def Let_def auth_notify_returns sendEncryptedResponse_returns del: not_None_eq split: option.splits)

text \<open>Only sessions, the AAA client and the output change.\<close>

definition auth_frame :: "'k ike_world \<Rightarrow> 'k ike_world \<Rightarrow> bool" where
  "auth_frame w w' \<longleftrightarrow> iw_sas w' = iw_sas w \<and> iw_cookies w' = iw_cookies w \<and> iw_gtpu w' = iw_gtpu w \<and> iw_xfrm w' = iw_xfrm w \<and>
     iw_s2b w' = iw_s2b w \<and> iw_s2bSent w' = iw_s2bSent w \<and> (mgr_inv (iw_sessions w) \<longrightarrow> mgr_inv (iw_sessions w'))"

lemma auth_frame_refl [simp]: "auth_frame w w"
  by (simp add: auth_frame_def)

lemma auth_frame_trans: "auth_frame w w' \<Longrightarrow> auth_frame w' w'' \<Longrightarrow> auth_frame w w''"
  by (simp add: auth_frame_def)

lemma auth_frame_swm [simp]: "auth_frame w (w'\<lparr>iw_swm := c\<rparr>) = auth_frame w w'"
  by (simp add: auth_frame_def)

lemma auth_frame_upd: "auth_frame w w' \<Longrightarrow> (\<And>s. s_ID (f s) = s_ID s) \<Longrightarrow> auth_frame w (upd_session i f w')"
  by (auto simp: auth_frame_def upd_session_def mgr_inv_update)

lemma auth_frame_sends: "sends w' w'' \<Longrightarrow> auth_frame w w' \<Longrightarrow> auth_frame w w''"
  by (auto simp: auth_frame_def sends_def)

lemma eap_success_session_ID [simp]: "s_ID (eap_success_session res p s) = s_ID s"
  by (auto simp: eap_success_session_def Let_def split: option.splits)

lemma round1_session_frame: "auth_frame w (round1_session io sa w)"
  unfolding round1_session_def Let_def by (rule auth_frame_upd) (simp_all add: auth_frame_def mgr_inv_GetOrCreate)

text \<open>The identity of the SA and what its AUTH value is computed from, except the identity of the peer.\<close>

definition auth_kept :: "ikeSA \<Rightarrow> ikeSA \<Rightarrow> bool" where
  "auth_kept sa sa' \<longleftrightarrow> sa_spiI sa' = sa_spiI sa \<and> sa_spiR sa' = sa_spiR sa \<and> sa_saKey sa' = sa_saKey sa \<and> sa_state sa' = sa_state sa \<and>
     sa_remoteAddr sa' = sa_remoteAddr sa \<and> sa_localIP sa' = sa_localIP sa \<and> sa_nonceI sa' = sa_nonceI sa \<and> sa_nonceR sa' = sa_nonceR sa \<and>
     sa_initReqRaw sa' = sa_initReqRaw sa \<and> sa_initRespRaw sa' = sa_initRespRaw sa \<and> sa_natT sa' = sa_natT sa \<and> (sa_ok sa \<longrightarrow> sa_ok sa')"

lemma auth_kept_refl [simp]: "auth_kept sa sa"
  by (simp add: auth_kept_def)

lemma auth_kept_trans: "auth_kept sa sa' \<Longrightarrow> auth_kept sa' sa'' \<Longrightarrow> auth_kept sa sa''"
  by (simp add: auth_kept_def)

lemma sa_ok_auth_steps [simp]:
  "sa_ok (eap_success_sa res sa) = sa_ok sa" "sa_ok (sa\<lparr>sa_eapChallengeMsgID := m, sa_eapChallengePayload := p\<rparr>) = sa_ok sa"
  "sa_ok (sa\<lparr>sa_eapRound := n, sa_eapChallengePayload := p\<rparr>) = sa_ok sa" "sa_ok (sa\<lparr>sa_swmSessionID := i, sa_eapRound := n\<rparr>) = sa_ok sa"
  "sa_ok (sa\<lparr>sa_sessionID := i\<rparr>) = sa_ok sa" "sa_ok (mobike_seen ns sa) = sa_ok sa" "sa_ok (sa\<lparr>sa_cpWantsIP := q\<rparr>) = sa_ok sa"
  "sa_ok (sa\<lparr>sa_idiAuthBytes := b, sa_imsi := i, sa_nai := n', sa_apn := a\<rparr>) = sa_ok sa" "sa_ok (sa\<lparr>sa_cpWantsIP := q, sa_handoverIP := ip\<rparr>) = sa_ok sa"
  "sa_ok sa \<Longrightarrow> child_ok pr \<Longrightarrow> sa_ok (sa\<lparr>sa_espProp := Some pr, sa_espPropNum := num, sa_peerESPSPI := spi\<rparr>)"
  "sa_ok (sa\<lparr>sa_localESPSPI := spi\<rparr>) = sa_ok sa" "sa_ok (sa\<lparr>sa_remoteAddr := r, sa_lastSeen := t\<rparr>) = sa_ok sa"
  by (simp_all add: eap_success_sa_def mobike_seen_def sa_ok_def)

lemma auth_kept_steps [simp]:
  "auth_kept sa (eap_success_sa res sa') = auth_kept sa sa'" "auth_kept sa (sa'\<lparr>sa_eapChallengeMsgID := m, sa_eapChallengePayload := p\<rparr>) = auth_kept sa sa'"
  "auth_kept sa (sa'\<lparr>sa_eapRound := n, sa_eapChallengePayload := p\<rparr>) = auth_kept sa sa'" "auth_kept sa (sa'\<lparr>sa_swmSessionID := i, sa_eapRound := n\<rparr>) = auth_kept sa sa'"
  "auth_kept sa (sa'\<lparr>sa_sessionID := i\<rparr>) = auth_kept sa sa'" "auth_kept sa (mobike_seen ns sa') = auth_kept sa sa'"
  "auth_kept sa (sa'\<lparr>sa_idiAuthBytes := b, sa_imsi := i, sa_nai := n', sa_apn := a\<rparr>) = auth_kept sa sa'" "auth_kept sa (sa'\<lparr>sa_cpWantsIP := q\<rparr>) = auth_kept sa sa'"
  "auth_kept sa (sa'\<lparr>sa_cpWantsIP := q, sa_handoverIP := ip\<rparr>) = auth_kept sa sa'"
  by (simp_all add: auth_kept_def, simp_all add: eap_success_sa_def mobike_seen_def)

lemma auth_kept_esp:
  "child_ok pr \<Longrightarrow> auth_kept sa sa' \<Longrightarrow> auth_kept sa (sa'\<lparr>sa_espProp := Some pr, sa_espPropNum := n, sa_peerESPSPI := i\<rparr>)"
  by (simp add: auth_kept_def)

lemma foldl_cfg_attribute: "auth_kept sa sa' \<Longrightarrow> auth_kept sa (foldl cfg_attribute sa' attrs) \<and> sa_msk (foldl cfg_attribute sa' attrs) = sa_msk sa'"
proof (induction attrs arbitrary: sa')
  case (Cons a attrs)
  have "auth_kept sa (cfg_attribute sa' a)" "sa_msk (cfg_attribute sa' a) = sa_msk sa'"
    using Cons.prems by (auto simp: cfg_attribute_def Let_def split: prod.splits)
  then show ?case using Cons.IH by simp
qed simp

lemma auth_kept_cfg: "auth_kept sa sa' \<Longrightarrow> auth_kept sa (cfg_request cp sa')" "sa_msk (cfg_request cp sa') = sa_msk sa'"
  using foldl_cfg_attribute foldl_cfg_attribute[OF auth_kept_refl] by (auto simp: cfg_request_def split: option.splits)

text \<open>The key of an SA changes only to the key of a successful answer of the AAA server.\<close>

definition msk_step :: "ike_io \<Rightarrow> ikeSA \<Rightarrow> ikeSA \<Rightarrow> bool" where
  "msk_step io sa sa' \<longleftrightarrow> sa_msk sa' = sa_msk sa \<or>
     (\<exists>req i msg ans. io_swmExchange io msg = Inr ans \<and> rs_State (eapResult req i ans) = EAPStateSuccess \<and> sa_msk sa' = rs_MSK (eapResult req i ans))"

lemma res_map_eq_Inr: "res_map f r = Inr y \<longleftrightarrow> (\<exists>a. r = Inr a \<and> y = f a)"
  by (cases r) auto

lemma ExchangeEAP_answer:
  "ExchangeEAP req n op ex c = (Inr res, c') \<Longrightarrow> \<exists>i msg ans. ex msg = Inr ans \<and> res = eapResult req i ans"
  by (auto simp: ExchangeEAP_def Let_def res_map_eq_Inr split: if_splits option.splits prod.splits)

lemma msk_step_same: "sa_msk sa' = sa_msk sa \<Longrightarrow> msk_step io sa sa'"
  by (simp add: msk_step_def)

lemma msk_step_success:
  "ExchangeEAP req n op (io_swmExchange io) c = (Inr res, c') \<Longrightarrow> rs_State res = EAPStateSuccess \<Longrightarrow> sa_msk sa' = rs_MSK res \<Longrightarrow> msk_step io sa sa'"
  unfolding msk_step_def by (metis ExchangeEAP_answer)

lemma handleAuthEAP_effect:
  assumes "handleAuthEAP env io conn remote sa hdr pl natt w = Some (sa', w')"
  shows "auth_frame w w' \<and> auth_kept sa sa' \<and> msk_step io sa sa'"
proof (cases "ax_eapRaw pl = []")
  case True
  then show ?thesis using assms
    by (auto simp: handleAuthEAP_def msk_step_same split: if_splits dest!: sendEAPResponse_sends intro: auth_frame_sends[OF _ auth_frame_refl])
next
  case False
  let ?req = "\<lparr>er_SessionID = sa_swmSessionID sa, er_IMSI = sa_imsi sa, er_NAI = sa_nai sa, er_APN = sa_apn sa, er_EAPPayload = ax_eapRaw pl\<rparr>"
  obtain r c where e: "ExchangeEAP ?req (io_swmNano io) (io_swmOpened io) (io_swmExchange io) (iw_swm w) = (r, c)" by fastforce
  have fr: "auth_frame w (w\<lparr>iw_swm := c\<rparr>)" "auth_frame w (upd_session i (eap_success_session res p) (w\<lparr>iw_swm := c\<rparr>))" for i res p
    by (simp_all add: auth_frame_upd)
  show ?thesis
  proof (cases r)
    case (Inl x)
    then show ?thesis using assms False e by (auto simp: handleAuthEAP_def msk_step_same dest!: auth_notify_sends intro: auth_frame_sends[OF _ fr(1)])
  next
    case (Inr res)
    note ex = e[unfolded Inr]
    show ?thesis
    proof (cases "rs_State res = EAPStateSuccess")
      case True
      then have "msk_step io sa (eap_success_sa res (sa\<lparr>sa_eapRound := n, sa_eapChallengePayload := p\<rparr>))" for n p
        by (intro msk_step_success[OF ex]) (simp_all add: eap_success_sa_def)
      then show ?thesis using assms False ex True by (auto simp: handleAuthEAP_def Let_def dest!: sendEAPResponse_sends intro: auth_frame_sends[OF _ fr(2)])
    next
      case False
      then show ?thesis using assms \<open>ax_eapRaw pl \<noteq> []\<close> ex
        by (auto simp: handleAuthEAP_def Let_def msk_step_same split: if_splits dest!: sendEAPResponse_sends auth_notify_sends intro: auth_frame_sends[OF _ fr(1)])
    qed
  qed
qed


lemma round1_identity_effect:
  "round1_identity env pl sa = Inl (t, sa') \<Longrightarrow> auth_kept sa sa' \<and> sa_msk sa' = sa_msk sa"
  "round1_identity env pl sa = Inr sa' \<Longrightarrow> auth_kept sa sa' \<and> sa_msk sa' = sa_msk sa"
  by (auto simp: round1_identity_def Let_def auth_kept_cfg auth_kept_esp esp_selected split: option.splits sum.splits)

lemma round1_exchange_effect:
  assumes "round1_exchange env io conn remote sa hdr eapRaw natt w = Some (sa', w')"
  shows "auth_frame w w' \<and> auth_kept sa sa' \<and> msk_step io sa sa'"
proof (cases "round1_eap eapRaw (sa_nai sa)")
  case (Inl x)
  then show ?thesis using assms
    by (auto simp: round1_exchange_def msk_step_same dest!: auth_notify_sends intro: auth_frame_sends[OF _ auth_frame_refl])
next
  case (Inr eapToSend)
  let ?req = "\<lparr>er_SessionID = '''', er_IMSI = sa_imsi sa, er_NAI = sa_nai sa, er_APN = sa_apn sa, er_EAPPayload = eapToSend\<rparr>"
  obtain r c where e: "ExchangeEAP ?req (io_swmNano io) (io_swmOpened io) (io_swmExchange io) (iw_swm w) = (r, c)" by fastforce
  show ?thesis
  proof (cases r)
    case (Inl x)
    have "auth_frame w (w\<lparr>iw_swm := c\<rparr>)" by simp
    then show ?thesis using assms Inr e Inl
      by (auto simp: round1_exchange_def msk_step_same dest!: auth_notify_sends intro: auth_frame_sends)
  next
    case ok: (Inr res)
    note ex = e[unfolded ok]
    let ?w = "upd_session (sa_sessionID sa) (\<lambda>s. s\<lparr>s_SWMSessionID := rs_SessionID res\<rparr>) (w\<lparr>iw_swm := c\<rparr>)"
    have fr: "auth_frame w ?w" "auth_frame w (upd_session i (eap_success_session res p) ?w)" for i p by (simp_all add: auth_frame_upd)
    show ?thesis
    proof (cases "rs_State res = EAPStateSuccess")
      case True
      then have "msk_step io sa ((eap_success_sa res (sa\<lparr>sa_swmSessionID := i, sa_eapRound := n\<rparr>))\<lparr>sa_eapChallengeMsgID := m, sa_eapChallengePayload := p\<rparr>)" for i n m p
        by (intro msk_step_success[OF ex]) (simp_all add: eap_success_sa_def)
      then show ?thesis using assms Inr ex True
        by (auto simp: round1_exchange_def Let_def dest!: sendEAPResponse_sends intro: auth_frame_sends[OF _ fr(2)])
    next
      case False
      then show ?thesis using assms Inr ex
        by (auto simp: round1_exchange_def Let_def msk_step_same split: if_splits dest!: sendEAPResponse_sends auth_notify_sends intro: auth_frame_sends[OF _ fr(1)])
    qed
  qed
qed

lemma handleAuthRound1_effect:
  assumes "handleAuthRound1 env io conn remote sa hdr pl natt w = Some (sa', w')"
  shows "auth_frame w w' \<and> auth_kept sa sa' \<and> msk_step io sa sa'"
proof (cases "round1_identity env pl sa")
  case (Inl ts)
  obtain t sa1 where ts: "ts = (t, sa1)" by fastforce
  from assms Inl ts have "sa' = sa1" "sends w w'" by (auto simp: handleAuthRound1_def dest!: auth_notify_sends)
  then show ?thesis using round1_identity_effect(1)[OF Inl[unfolded ts]] auth_frame_sends[OF _ auth_frame_refl] by (auto simp: msk_step_same)
next
  case (Inr sa1)
  from assms Inr have "round1_exchange env io conn remote (sa1\<lparr>sa_sessionID := session_name (sa_spiI sa1) (sa_spiR sa1)\<rparr>) hdr (ax_eapRaw pl) natt (round1_session io sa1 w) = Some (sa', w')"
    by (simp add: handleAuthRound1_def)
  note e = round1_exchange_effect[OF this] and i = round1_identity_effect(2)[OF Inr]
  have k: "auth_kept sa (sa1\<lparr>sa_sessionID := session_name (sa_spiI sa1) (sa_spiR sa1)\<rparr>)" using i by simp
  have "auth_kept sa sa'" using auth_kept_trans[OF k] e by blast
  then show ?thesis using e i auth_frame_trans[OF round1_session_frame] by (auto simp: msk_step_def)
qed

section \<open>What the last round changes\<close>

lemma handleAuthFinal_cases:
  assumes "handleAuthFinal env io conn remote sa hdr pl natt w = Some (sa', w')"
  obtains (refused) "sa' = sa" "sends w w'"
  | (verified) m where "length (sa_msk sa) = 64" "ax_auth pl = Some (m, expected_auth env sa)" "auth_accept env io conn remote sa hdr natt w = Some (sa', w')"
  using assms that by (auto simp: handleAuthFinal_def Let_def constEqual_iff split: if_splits option.splits dest!: auth_notify_sends)

abbreviation established :: "bytes \<Rightarrow> ikeSA \<Rightarrow> ikeSA" where
  "established spiBytes sa \<equiv> sa\<lparr>sa_localESPSPI := uint32 spiBytes, sa_state := ikeStateEstablished\<rparr>"

lemma auth_accept_cases:
  assumes "auth_accept env io conn remote sa hdr natt w = Some (sa', w')"
  obtains (no_session) w1 e w2 where "implicit_detach env io sa w = Some w1" "final_create env io sa w1 = (Inl e, w2)" "sa' = sa" "sends w2 w'"
  | (no_spi) w1 r where "implicit_detach env io sa w = Some w1" "final_create env io sa w1 = (Inr r, w')" "sa' = sa"
  | (established) w1 r w2 spiBytes ok w3 where "implicit_detach env io sa w = Some w1" "final_create env io sa w1 = (Inr r, w2)" "io_spi4 io = Some spiBytes"
      "sa' = established spiBytes sa" "final_install env remote (established spiBytes sa) (cr_PAA r) w2 = Some (ok, w3)" "sends w3 w'"
proof -
  from assms obtain w1 where w1: "implicit_detach env io sa w = Some w1" by (auto simp: auth_accept_def split: option.splits)
  obtain res w2 where c: "final_create env io sa w1 = (res, w2)" by fastforce
  show thesis
  proof (cases res)
    case (Inl e)
    then show thesis using assms w1 c by (intro no_session[OF w1 c[unfolded Inl]]) (auto simp: auth_accept_def Let_def split: if_splits dest!: auth_notify_sends)
  next
    case (Inr r)
    note c = c[unfolded Inr]
    show thesis
    proof (cases "io_spi4 io")
      case None
      then show thesis using assms w1 c by (intro no_spi[OF w1]) (auto simp: auth_accept_def)
    next
      case (Some b)
      with assms w1 c obtain ok w3 where i: "final_install env remote (established b sa) (cr_PAA r) w2 = Some (ok, w3)"
        by (auto simp: auth_accept_def Let_def split: option.splits)
      then show thesis using assms w1 c Some
        by (intro established[OF w1 c Some _ i]) (auto simp: auth_accept_def Let_def split: bool.splits dest!: auth_notify_sends sendEncryptedResponse_sends)
    qed
  qed
qed


text \<open>The SA table stays and sessions keep their names.\<close>

definition table_kept :: "'k ike_world \<Rightarrow> 'k ike_world \<Rightarrow> bool" where
  "table_kept w w' \<longleftrightarrow> iw_sas w' = iw_sas w \<and> (mgr_inv (iw_sessions w) \<longrightarrow> mgr_inv (iw_sessions w'))"

lemma table_kept_refl [simp]: "table_kept w w"
  by (simp add: table_kept_def)

lemma table_kept_trans: "table_kept w w' \<Longrightarrow> table_kept w' w'' \<Longrightarrow> table_kept w w''"
  by (simp add: table_kept_def)

lemma table_kept_sends: "sends w w' \<Longrightarrow> table_kept w w'"
  by (auto simp: table_kept_def sends_def)

lemma table_kept_upd: "(\<And>s. s_ID (f s) = s_ID s) \<Longrightarrow> table_kept w (upd_session i f w)"
  by (auto simp: table_kept_def upd_session_def mgr_inv_update)

lemma table_kept_frame: "auth_frame w w' \<Longrightarrow> table_kept w w'"
  by (simp add: auth_frame_def table_kept_def)

lemma table_keptD: "table_kept w w' \<Longrightarrow> lookupSA spi w' = lookupSA spi w" "table_kept w w' \<Longrightarrow> ike_inv w \<Longrightarrow> ike_inv w'"
  by (auto simp: table_kept_def lookupSA_def ike_inv_def sas_ok_def)

lemma accept_s2b_ID [simp]: "s_ID (accept_s2b r s) = s_ID s"
  by (simp add: accept_s2b_def)

lemma final_create_effect:
  assumes "final_create env io sa w = (res, w')"
  shows "table_kept w w'" "iw_xfrm w' = iw_xfrm w" "iw_gtpu w' = iw_gtpu w"
    "mgr_sessions (iw_sessions w') = (case res of Inl _ \<Rightarrow> mgr_sessions (iw_sessions w)
       | Inr r \<Rightarrow> (mgr_sessions (iw_sessions w))(sa_sessionID sa := map_option (accept_s2b r) (mgr_sessions (iw_sessions w) (sa_sessionID sa))))"
proof -
  show "table_kept w w'" "iw_xfrm w' = iw_xfrm w" "iw_gtpu w' = iw_gtpu w"
    using assms by (auto simp: final_create_def Let_def table_kept_def upd_session_def mgr_inv_update split: prod.splits sum.splits)
  show "mgr_sessions (iw_sessions w') = (case res of Inl _ \<Rightarrow> mgr_sessions (iw_sessions w)
       | Inr r \<Rightarrow> (mgr_sessions (iw_sessions w))(sa_sessionID sa := map_option (accept_s2b r) (mgr_sessions (iw_sessions w) (sa_sessionID sa))))"
    using assms by (auto simp: final_create_def Let_def upd_session_def update_session_def split: prod.splits sum.splits)
qed

lemma session_up_ID [simp]: "s_ID (child_up sa s) = s_ID s" "s_ID (datapath_up added s) = s_ID s"
  by (simp_all add: child_up_def datapath_up_def)

lemma final_datapath_kept: "final_datapath env sa w = (ok, w') \<Longrightarrow> table_kept w w'"
  by (auto simp: final_datapath_def table_kept_def upd_session_def mgr_inv_update split: option.splits prod.splits)

lemma final_install_kept:
  assumes "final_install env remote sa paa w = Some (ok, w')"
  shows "table_kept w w'"
proof -
  have up: "table_kept w (upd_session i (child_up sa) (w\<lparr>iw_xfrm := x\<rparr>))" "table_kept w (w\<lparr>iw_xfrm := x\<rparr>)" for i x
    by (simp_all add: table_kept_def upd_session_def mgr_inv_update)
  show ?thesis
    using assms unfolding final_install_def
    by (auto split: option.splits if_splits sum.splits prod.splits intro: up table_kept_trans[OF up(1) final_datapath_kept])
qed

lemma implicit_detach_cases:
  assumes "implicit_detach env io sa w = Some w'"
  obtains (stays) "w' = w"
  | (detached) old sess where "FindSingleActiveByIMSIAPN (iw_sessions w) (io_order io) (sa_imsi sa) (sa_apn sa) = Some sess"
      "lookupSA (s_IkeSPII sess) w = Some old" "s_IkeSPII sess \<noteq> sa_spiI sa" "sa_handoverIP sa = []"
      "fullTeardown env io (old\<lparr>sa_state := ikeStateDeleting\<rparr>) (putSA (old\<lparr>sa_state := ikeStateDeleting\<rparr>) w) = Some w'"
  using assms that by (auto simp: implicit_detach_def Let_def split: if_splits option.splits)

text \<open>The table after a detach: at most one other SA is gone.\<close>

lemma implicit_detach_effect:
  assumes "implicit_detach env io sa w = Some w'" "ike_inv w"
  shows "ike_inv w' \<and> (\<forall>spi. lookupSA spi w' = lookupSA spi w \<or> (spi \<noteq> sa_spiI sa \<and> lookupSA spi w' = None))"
  using assms(1)
proof (cases rule: implicit_detach_cases)
  case (detached old sess)
  let ?old = "old\<lparr>sa_state := ikeStateDeleting\<rparr>"
  note i = ike_invD(2)[OF assms(2) detached(2)]
  have "ike_inv (putSA ?old w)" using ike_inv_put[OF assms(2)] i by simp
  then show ?thesis using fullTeardown_lookup[OF detached(5)] ike_inv_teardown[OF detached(5)] i detached(3) by auto
qed (use assms in simp)

lemma auth_accept_effect:
  assumes h: "auth_accept env io conn remote sa hdr natt w = Some (sa', w')" and inv: "ike_inv w"
  shows "ike_inv w' \<and> (\<forall>spi. lookupSA spi w' = lookupSA spi w \<or> (spi \<noteq> sa_spiI sa \<and> lookupSA spi w' = None)) \<and>
    (sa' = sa \<or> (\<exists>b. io_spi4 io = Some b \<and> sa' = established b sa))"
  using h
proof (cases rule: auth_accept_cases)
  case (no_session w1 e w2)
  have k: "table_kept w1 w'" using final_create_effect(1)[OF no_session(2)] table_kept_sends[OF no_session(4)] by (rule table_kept_trans)
  then show ?thesis using implicit_detach_effect[OF no_session(1) inv] table_keptD[OF k] no_session(3) by auto
next
  case (no_spi w1 r)
  then show ?thesis using implicit_detach_effect[OF no_spi(1) inv] table_keptD[OF final_create_effect(1)[OF no_spi(2)]] by auto
next
  case (established w1 r w2 b ok w3)
  have k: "table_kept w1 w'"
    using table_kept_trans[OF table_kept_trans[OF final_create_effect(1)[OF established(2)] final_install_kept[OF established(5)]] table_kept_sends[OF established(6)]] .
  then show ?thesis using implicit_detach_effect[OF established(1) inv] table_keptD[OF k] established(3,4) by auto
qed

section \<open>What the exchange changes\<close>

abbreviation heard_from :: "udp_addr \<Rightarrow> ike_io \<Rightarrow> ikeSA \<Rightarrow> ikeSA" where
  "heard_from remote io sa \<equiv> sa\<lparr>sa_remoteAddr := remote, sa_lastSeen := io_now io\<rparr>"

lemma auth_request_cases:
  assumes "auth_request env io conn remote pkt hdr natt sa w = Some (sa', w')"
  obtains (dropped) e where "decryptSK (ie_crypto env) (sa_saKey sa) pkt = Inl e" "sa' = sa" "w' = w"
  | (malformed) t plain e where "decryptSK (ie_crypto env) (sa_saKey sa) pkt = Inr (t, plain)" "parseAuthPayloads (ie_lib env) t plain = Inl e"
      "sa' = sa" "sends w w'"
  | (early) t plain pl where "decryptSK (ie_crypto env) (sa_saKey sa) pkt = Inr (t, plain)" "parseAuthPayloads (ie_lib env) t plain = Inr pl"
      "auth_frame w w'" "auth_kept sa sa'" "msk_step io sa sa'"
  | (last) t plain pl where "decryptSK (ie_crypto env) (sa_saKey sa) pkt = Inr (t, plain)" "parseAuthPayloads (ie_lib env) t plain = Inr pl"
      "sa_eapRound sa \<noteq> 0" "handleAuthFinal env io conn remote (mobike_seen (ax_notifies pl) sa) hdr pl natt w = Some (sa', w')"
proof (cases "decryptSK (ie_crypto env) (sa_saKey sa) pkt")
  case (Inl e)
  then show thesis using assms dropped by (auto simp: auth_request_def split: if_splits)
next
  case (Inr tp)
  obtain t plain where tp: "tp = (t, plain)" by fastforce
  note d = Inr[unfolded tp]
  show thesis
  proof (cases "parseAuthPayloads (ie_lib env) t plain")
    case (Inl e)
    then show thesis using assms d by (intro malformed[OF d Inl]) (auto simp: auth_request_def dest!: auth_notify_sends)
  next
    case (Inr pl)
    let ?sa = "mobike_seen (ax_notifies pl) sa"
    have k: "auth_kept sa ?sa" "sa_msk ?sa = sa_msk sa" "sa_eapRound ?sa = sa_eapRound sa" by simp (simp_all add: mobike_seen_def)
    have e: thesis if "auth_frame w w' \<and> auth_kept ?sa sa' \<and> msk_step io ?sa sa'"
      using that k by (intro early[OF d Inr]) (auto simp: msk_step_def intro: auth_kept_trans[OF k(1)])
    have a: "(if sa_eapRound sa = 0 then handleAuthRound1 env io conn remote ?sa hdr pl natt w
        else if ax_auth pl \<noteq> None then handleAuthFinal env io conn remote ?sa hdr pl natt w
        else handleAuthEAP env io conn remote ?sa hdr pl natt w) = Some (sa', w')"
      using assms d Inr k(3) by (simp add: auth_request_def Let_def)
    show thesis
    proof (cases "sa_eapRound sa = 0")
      case True
      with a have "handleAuthRound1 env io conn remote ?sa hdr pl natt w = Some (sa', w')" by simp
      then show thesis by (rule e[OF handleAuthRound1_effect])
    next
      case False
      then show thesis
      proof (cases "ax_auth pl = None")
        case True
        with a False have "handleAuthEAP env io conn remote ?sa hdr pl natt w = Some (sa', w')" by simp
        then show thesis by (rule e[OF handleAuthEAP_effect])
      qed (use a last[OF d Inr False] False in simp)
    qed
  qed
qed

lemma handleIKEAuth_cases:
  assumes "handleIKEAuth env io conn remote pkt hdr natt w = Some w'"
  obtains (unchanged) "w' = w"
  | (request) sa sa' w1 where "lookupSA (ih_InitiatorSPI hdr) w = Some sa" "sa_state sa = ikeStateAuth"
      "auth_request env io conn remote pkt hdr natt (heard_from remote io sa) w = Some (sa', w1)" "w' = putSA sa' w1"
  using assms that by (auto simp: handleIKEAuth_def Let_def split: if_splits option.splits)


lemma expected_auth_frame [simp]: "expected_auth env (mobike_seen ns sa) = expected_auth env sa" "expected_auth env (heard_from remote io sa) = expected_auth env sa"
  by (simp_all add: expected_auth_def initiator_signed_def mobike_seen_def)

lemma mobike_seen_simps [simp]:
  "sa_msk (mobike_seen ns sa) = sa_msk sa" "sa_spiI (mobike_seen ns sa) = sa_spiI sa" "sa_state (mobike_seen ns sa) = sa_state sa" "sa_saKey (mobike_seen ns sa) = sa_saKey sa"
  "sa_sessionID (mobike_seen ns sa) = sa_sessionID sa" "sa_imsi (mobike_seen ns sa) = sa_imsi sa" "sa_apn (mobike_seen ns sa) = sa_apn sa" "sa_handoverIP (mobike_seen ns sa) = sa_handoverIP sa"
  "sa_eapRound (mobike_seen ns sa) = sa_eapRound sa" "sa_espProp (mobike_seen ns sa) = sa_espProp sa" "sa_localIP (mobike_seen ns sa) = sa_localIP sa"
  by (simp_all add: mobike_seen_def)

text \<open>The message proves that the peer holds the key of the SA.\<close>

definition proves_key :: "'k ike_env \<Rightarrow> ikeSA \<Rightarrow> bytes \<Rightarrow> bool" where
  "proves_key env sa pkt \<longleftrightarrow> length (sa_msk sa) = 64 \<and>
     (\<exists>t plain pl m. decryptSK (ie_crypto env) (sa_saKey sa) pkt = Inr (t, plain) \<and> parseAuthPayloads (ie_lib env) t plain = Inr pl \<and>
        ax_auth pl = Some (m, expected_auth env sa))"

lemma proves_key_frame [simp]: "proves_key env (heard_from remote io sa) pkt = proves_key env sa pkt"
  by (simp add: proves_key_def)

lemma auth_request_effect:
  assumes h: "auth_request env io conn remote pkt hdr natt sa w = Some (sa', w')" and inv: "ike_inv w" and ok: "sa_ok sa"
  shows "ike_inv w' \<and> sa_ok sa' \<and> sa_spiI sa' = sa_spiI sa \<and> msk_step io sa sa' \<and>
    (\<forall>spi. lookupSA spi w' = lookupSA spi w \<or> (spi \<noteq> sa_spiI sa \<and> lookupSA spi w' = None)) \<and>
    (sa_state sa' = sa_state sa \<or> (sa_state sa' = ikeStateEstablished \<and> sa_msk sa' = sa_msk sa \<and> proves_key env sa pkt))"
  using h
proof (cases rule: auth_request_cases)
  case (malformed t plain e)
  then show ?thesis using inv ok ike_inv_sends[OF malformed(4)] lookup_sends[OF malformed(4)] by (simp add: msk_step_same)
next
  case (early t plain pl)
  then show ?thesis using table_keptD[OF table_kept_frame[OF early(3)]] inv ok by (auto simp: auth_kept_def)
next
  case (last t plain pl)
  let ?sa = "mobike_seen (ax_notifies pl) sa"
  from last(4) show ?thesis
  proof (cases rule: handleAuthFinal_cases)
    case refused
    then show ?thesis using inv ok ike_inv_sends[OF refused(2)] lookup_sends[OF refused(2)] by (simp add: msk_step_same)
  next
    case (verified m)
    have "proves_key env sa pkt" using verified(1,2) last(1,2) by (auto simp: proves_key_def)
    then show ?thesis using auth_accept_effect[OF verified(3) inv] ok by (auto simp: msk_step_same)
  qed
qed (use inv ok in \<open>simp add: msk_step_same\<close>)

lemma ike_inv_auth:
  assumes h: "handleIKEAuth env io conn remote pkt hdr natt w = Some w'" and inv: "ike_inv w"
  shows "ike_inv w'"
  using h
proof (cases rule: handleIKEAuth_cases)
  case (request sa sa' w1)
  have "sa_ok (heard_from remote io sa)" using ike_invD(2)[OF inv request(1)] by simp
  from auth_request_effect[OF request(3) inv this] show ?thesis unfolding request(4) by (simp add: ike_inv_put)
qed (use inv in simp)

text \<open>The table after the exchange: its own SA keeps its name, others stay or are gone.\<close>

lemma handleIKEAuth_effect:
  assumes h: "handleIKEAuth env io conn remote pkt hdr natt w = Some w'" and inv: "ike_inv w" and new: "lookupSA spi w' = Some sa'"
  obtains (other) "lookupSA spi w = Some sa'"
  | (own) sa where "spi = ih_InitiatorSPI hdr" "lookupSA spi w = Some sa" "sa_state sa = ikeStateAuth" "msk_step io sa sa'"
      "sa_state sa' = ikeStateAuth \<or> (sa_state sa' = ikeStateEstablished \<and> sa_msk sa' = sa_msk sa \<and> proves_key env sa pkt)"
  using h
proof (cases rule: handleIKEAuth_cases)
  case unchanged
  then show thesis using new other by simp
next
  case (request sa sa1 w1)
  note i = ike_invD(2)[OF inv request(1)]
  have "sa_ok (heard_from remote io sa)" using i by simp
  note e = auth_request_effect[OF request(3) inv this]
  show thesis
  proof (cases "spi = ih_InitiatorSPI hdr")
    case True
    then have "sa' = sa1" using new e i request(4) by (auto split: if_splits)
    then show thesis using own[OF True _ request(2)] True request(1,2) e by (auto simp: msk_step_def)
  next
    case False
    then have "lookupSA spi w1 = Some sa'" using new e i request(4) by (auto split: if_splits)
    moreover have "lookupSA spi w1 = lookupSA spi w \<or> lookupSA spi w1 = None" using e by (elim conjE allE[of _ spi]) auto
    ultimately show thesis using other by auto
  qed
qed

text \<open>C5.  An IKE\_AUTH message establishes an SA only when it proves the key: the message decrypts under the keys of an SA that is being authenticated,
  the SA holds a master session key of 64 bytes, and the message carries the AUTH value computed from it over the first message of the peer.\<close>

theorem established_only_authenticated:
  assumes "handleIKEAuth env io conn remote pkt hdr natt w = Some w'" "ike_inv w" "lookupSA spi w' = Some sa'" "sa_state sa' = ikeStateEstablished"
    and before: "\<forall>sa. lookupSA spi w = Some sa \<longrightarrow> sa_state sa \<noteq> ikeStateEstablished"
  shows "spi = ih_InitiatorSPI hdr \<and> (\<exists>sa t plain pl m. lookupSA spi w = Some sa \<and> sa_state sa = ikeStateAuth \<and>
    decryptSK (ie_crypto env) (sa_saKey sa) pkt = Inr (t, plain) \<and> parseAuthPayloads (ie_lib env) t plain = Inr pl \<and>
    length (sa_msk sa) = 64 \<and> ax_auth pl = Some (m, expected_auth env sa))"
  using assms(1-3)
proof (cases rule: handleIKEAuth_effect)
  case other
  then show ?thesis using before assms(4) by blast
next
  case (own sa)
  then show ?thesis using assms(4) by (auto simp: proves_key_def)
qed

section \<open>The exchange returns\<close>

definition plmn_ok :: "Config \<Rightarrow> bool" where
  "plmn_ok cfg \<longleftrightarrow> length (ep_MCC (c_EPDG cfg)) \<ge> 3 \<and> length (ep_MNC (c_EPDG cfg)) \<ge> 2"

lemma next_seq_cfg: "next_seq c = (s, c') \<Longrightarrow> k_cfg c' = k_cfg c"
  by (auto simp: next_seq_def split: prod.splits)

lemma s2b_cfg:
  "s2b_CreateSession wr wt req c = (res, sent, c') \<Longrightarrow> k_cfg c' = k_cfg c"
  "s2b_DeleteSession wr wt ip a b d ebi c = (err, sent, c') \<Longrightarrow> k_cfg c' = k_cfg c"
  by (auto simp: s2b_CreateSession_def s2b_DeleteSession_def Let_def split: if_splits sum.splits prod.splits option.splits dest!: next_seq_cfg)

lemma transaction_attempts_no_panic: "fst (transaction_attempts n k wr wt t) \<noteq> Inl PLMNPanic"
  by (induction n arbitrary: k) (auto split: wait_outcome.splits)

lemma transactionTo_no_panic: "transactionTo wr wt msg t peer = (Inl e, sent) \<Longrightarrow> e \<noteq> PLMNPanic"
  using transaction_attempts_no_panic[of n3Requests 0 wr wt t] by (auto simp: transactionTo_def split: sum.splits prod.splits)

lemma parsePCOIE_no_panic: "(parsePCOIE cfg ies t = Inl PLMNPanic) = False"
  by (auto simp: parsePCOIE_def Let_def split: option.splits sum.splits if_splits)

lemma lift_gtpc_no_panic: "(lift_gtpc r = Inl PLMNPanic) = False"
  by (cases r) (auto simp: lift_gtpc_def)

lemma parseCreateSessionResponse_no_panic: "parseCreateSessionResponse cfg resp lc lu = Inl e \<Longrightarrow> e \<noteq> PLMNPanic"
  by (auto simp: parseCreateSessionResponse_def Let_def res_bind_eq_Inl parsePCOIE_no_panic lift_gtpc_no_panic split: if_splits)

lemma gtpAMBR_no_panic: "gtpAMBR ul dl = Inl e \<Longrightarrow> e \<noteq> PLMNPanic"
  by (auto simp: gtpAMBR_def Let_def split: if_splits)

lemma createSessionPayload_returns: "plmn_ok cfg \<Longrightarrow> (createSessionPayload cfg req ul dl lc lu = None) = False"
  by (simp add: createSessionPayload_def createSessionIEs_def servingNetworkIE_def encodePLMN_def plmn_ok_def Let_def)

lemma s2b_CreateSession_no_panic: "s2b_CreateSession wr wt req c = (Inl e, sent, c') \<Longrightarrow> plmn_ok (k_cfg c) \<Longrightarrow> e \<noteq> PLMNPanic"
  by (auto simp: s2b_CreateSession_def Let_def createSessionPayload_returns split: if_splits sum.splits prod.splits option.splits
      dest: next_seq_cfg transactionTo_no_panic parseCreateSessionResponse_no_panic gtpAMBR_no_panic)

lemma teardown_session_cfg: "teardown_session env io sa w = (h, w') \<Longrightarrow> k_cfg (iw_s2b w') = k_cfg (iw_s2b w)"
  by (auto simp: teardown_session_def Let_def split: option.splits prod.splits if_splits dest: s2b_cfg)

lemma fullTeardown_cfg: "fullTeardown env io sa w = Some w' \<Longrightarrow> k_cfg (iw_s2b w') = k_cfg (iw_s2b w)"
  by (erule fullTeardown_steps) (auto simp: deleteSA_def set_xfrm_def split: if_splits dest!: removeXFRMChildSA_frame xfrm_only_frame teardown_session_cfg)

text \<open>The older session is the one of the SA itself.\<close>

definition detaches_itself :: "ike_io \<Rightarrow> ikeSA \<Rightarrow> 'k ike_world \<Rightarrow> bool" where
  "detaches_itself io sa w \<longleftrightarrow> sa_handoverIP sa = [] \<and>
     (\<exists>sess. FindSingleActiveByIMSIAPN (iw_sessions w) (io_order io) (sa_imsi sa) (sa_apn sa) = Some sess \<and> s_IkeSPII sess = sa_spiI sa)"

lemma implicit_detach_returns:
  assumes "crypto_ok (ie_crypto env)" "ike_inv w" "\<not> detaches_itself io sa w"
  shows "implicit_detach env io sa w \<noteq> None"
proof (cases "FindSingleActiveByIMSIAPN (iw_sessions w) (io_order io) (sa_imsi sa) (sa_apn sa)")
  case (Some sess)
  show ?thesis
  proof (cases "lookupSA (s_IkeSPII sess) w")
    case old: (Some old)
    have "sa_ok (old\<lparr>sa_state := ikeStateDeleting\<rparr>)" using ike_invD(2)[OF assms(2) old] by simp
    then show ?thesis using assms(3) fullTeardown_returns[OF assms(1)] Some old
      by (auto simp: implicit_detach_def detaches_itself_def Let_def)
  qed (use Some in \<open>simp add: implicit_detach_def\<close>)
qed (simp add: implicit_detach_def)

lemma final_create_panic:
  assumes "final_create env io sa w = (Inl e, w')" "plmn_ok (k_cfg (iw_s2b w))"
  shows "e \<noteq> PLMNPanic"
  using assms by (auto simp: final_create_def Let_def split: prod.splits option.splits sum.splits dest: s2b_CreateSession_no_panic)

lemma final_install_returns:
  assumes "crypto_ok (ie_crypto env)" "sa_ok sa"
  shows "final_install env remote sa paa w \<noteq> None"
proof (cases "sa_espProp sa")
  case (Some pr)
  then have "child_ok pr" using assms(2) by (simp add: sa_ok_def)
  then obtain names where n: "childAlgNames pr = Inr names" using child_ok_names by blast
  obtain keys where k: "deriveChildSAKeys (ie_crypto env) (sa_saKey sa) (sa_nonceI sa) (sa_nonceR sa) (encr_KeyLen (ch_encr pr)) (integKeyLen (ch_integ pr)) = Some keys"
    using deriveChildSAKeys_returns(1)[OF assms(1)] by blast
  show ?thesis by (simp add: final_install_def Some n k del: not_None_eq split: prod.splits option.splits)
qed (simp add: final_install_def)

lemma implicit_detach_cfg: "implicit_detach env io sa w = Some w' \<Longrightarrow> k_cfg (iw_s2b w') = k_cfg (iw_s2b w)"
  by (erule implicit_detach_cases) (auto dest: fullTeardown_cfg)

lemma auth_accept_returns:
  assumes lib: "crypto_ok (ie_crypto env)" and inv: "ike_inv w" "sa_ok sa" and cfg: "plmn_ok (k_cfg (iw_s2b w))" and self: "\<not> detaches_itself io sa w"
  shows "auth_accept env io conn remote sa hdr natt w \<noteq> None"
proof -
  have k: "key_ok (sa_saKey sa)" "key_ok (sa_saKey (established b sa))" "sa_ok (established b sa)" for b using inv(2) by (simp_all) (simp_all add: sa_ok_def)
  obtain w1 where w1: "implicit_detach env io sa w = Some w1" using implicit_detach_returns[OF lib inv(1) self] by blast
  obtain res w2 where c: "final_create env io sa w1 = (res, w2)" by fastforce
  show ?thesis
  proof (cases res)
    case (Inl e)
    then have "e \<noteq> PLMNPanic" using final_create_panic c cfg implicit_detach_cfg[OF w1] by metis
    then show ?thesis using auth_notify_returns[OF k(1)] by (simp add: auth_accept_def w1 c Inl)
  next
    case (Inr r)
    show ?thesis
    proof (cases "io_spi4 io")
      case (Some b)
      obtain ok w3 where i: "final_install env remote (established b sa) (cr_PAA r) w2 = Some (ok, w3)" using final_install_returns[OF lib k(3)] by fast
      show ?thesis
        by (cases ok) (simp_all add: auth_accept_def Let_def w1 c Inr Some i auth_notify_returns[OF k(2)] sendEncryptedResponse_returns[OF k(2)] del: not_None_eq)
    qed (simp add: auth_accept_def w1 c Inr)
  qed
qed

lemma handleAuthEAP_returns: "key_ok (sa_saKey sa) \<Longrightarrow> handleAuthEAP env io conn remote sa hdr pl natt w \<noteq> None"
proof -
  assume k: "key_ok (sa_saKey sa)"
  have k': "key_ok (sa_saKey (sa\<lparr>sa_eapRound := n, sa_eapChallengePayload := p\<rparr>))"
    "key_ok (sa_saKey (eap_success_sa res (sa\<lparr>sa_eapRound := n, sa_eapChallengePayload := p\<rparr>)))" for n p res using k by (simp_all add: eap_success_sa_def)
  show ?thesis
    by (simp add: handleAuthEAP_def Let_def auth_notify_returns[OF k] sendEAPResponse_returns[OF k] auth_notify_returns[OF k'(1)]
        sendEAPResponse_returns[OF k'(1)] sendEAPResponse_returns[OF k'(2)] del: not_None_eq split: prod.splits sum.splits)
qed

lemma round1_exchange_returns: "key_ok (sa_saKey sa) \<Longrightarrow> round1_exchange env io conn remote sa hdr e natt w \<noteq> None"
proof -
  assume k: "key_ok (sa_saKey sa)"
  have k': "key_ok (sa_saKey (sa\<lparr>sa_swmSessionID := i, sa_eapRound := n\<rparr>))"
    "key_ok (sa_saKey (eap_success_sa res (sa\<lparr>sa_swmSessionID := i, sa_eapRound := n\<rparr>)))" for i n res using k by (simp_all add: eap_success_sa_def)
  show ?thesis
    by (simp add: round1_exchange_def Let_def auth_notify_returns[OF k] sendEAPResponse_returns[OF k] auth_notify_returns[OF k'(1)]
        sendEAPResponse_returns[OF k'(1)] sendEAPResponse_returns[OF k'(2)] del: not_None_eq split: prod.splits sum.splits)
qed

lemma handleAuthRound1_returns:
  assumes "key_ok (sa_saKey sa)"
  shows "handleAuthRound1 env io conn remote sa hdr pl natt w \<noteq> None"
proof (cases "round1_identity env pl sa")
  case (Inl ts)
  obtain t sa1 where ts: "ts = (t, sa1)" by fastforce
  have "key_ok (sa_saKey sa1)" using round1_identity_effect(1)[OF Inl[unfolded ts]] assms by (simp add: auth_kept_def)
  then show ?thesis by (simp add: handleAuthRound1_def Inl ts auth_notify_returns del: not_None_eq)
next
  case (Inr sa1)
  have "key_ok (sa_saKey (sa1\<lparr>sa_sessionID := i\<rparr>))" for i using round1_identity_effect(2)[OF Inr] assms by (simp add: auth_kept_def)
  then show ?thesis by (simp add: handleAuthRound1_def Inr round1_exchange_returns del: not_None_eq)
qed

text \<open>With a well-formed configuration there is one request the server never finishes: a verified one whose older session lies under the SPI of the SA itself.\<close>

lemma handleIKEAuth_blocks:
  assumes lib: "crypto_ok (ie_crypto env)" and inv: "ike_inv w" and cfg: "plmn_ok (k_cfg (iw_s2b w))"
    and none: "handleIKEAuth env io conn remote pkt hdr natt w = None"
  obtains sa where "lookupSA (ih_InitiatorSPI hdr) w = Some sa" "sa_state sa = ikeStateAuth" "proves_key env sa pkt" "detaches_itself io sa w"
proof -
  from none obtain sa where l: "lookupSA (ih_InitiatorSPI hdr) w = Some sa" and st: "sa_state sa = ikeStateAuth"
    by (auto simp: handleIKEAuth_def Let_def split: if_splits option.splits)
  let ?sa = "heard_from remote io sa"
  have a: "auth_request env io conn remote pkt hdr natt ?sa w = None"
    using none l st by (auto simp: handleIKEAuth_def Let_def split: if_splits)
  have ok: "sa_ok ?sa" and k: "key_ok (sa_saKey ?sa)" using ike_invD(2)[OF inv l] by simp_all
  obtain t plain where d: "decryptSK (ie_crypto env) (sa_saKey ?sa) pkt = Inr (t, plain)"
    using a decryptSK_panic[OF k, of "ie_crypto env" pkt] by (auto simp: auth_request_def split: sum.splits if_splits)
  obtain pl where p: "parseAuthPayloads (ie_lib env) t plain = Inr pl"
    using a d by (cases "parseAuthPayloads (ie_lib env) t plain") (simp_all add: auth_request_def auth_notify_returns[OF k] del: not_None_eq)
  let ?sb = "mobike_seen (ax_notifies pl) ?sa"
  have k': "key_ok (sa_saKey ?sb)" "sa_ok ?sb" using k ok by simp_all
  have "handleAuthFinal env io conn remote ?sb hdr pl natt w = None"
    using a d p by (simp add: auth_request_def Let_def handleAuthRound1_returns[OF k'(1)] handleAuthEAP_returns[OF k'(1)] del: not_None_eq split: if_splits)
  then have v: "length (sa_msk sa) = 64" "\<exists>m. ax_auth pl = Some (m, expected_auth env sa)" "auth_accept env io conn remote ?sb hdr natt w = None"
    by (auto simp: handleAuthFinal_def Let_def constEqual_iff auth_notify_returns[OF k'(1)] simp del: not_None_eq split: if_splits option.splits)
  have "detaches_itself io ?sb w" using auth_accept_returns[OF lib inv k'(2) cfg] v(3) by blast
  then have "detaches_itself io sa w" by (simp add: detaches_itself_def)
  moreover have "proves_key env sa pkt" using v(1,2) d p by (auto simp: proves_key_def)
  ultimately show thesis using that l st by blast
qed

text \<open>And that one it never finishes.\<close>

lemma handleAuthFinal_blocks:
  assumes "length (sa_msk sa) = 64" "ax_auth pl = Some (m, expected_auth env sa)" "detaches_itself io sa w" "lookupSA (sa_spiI sa) w \<noteq> None"
  shows "handleAuthFinal env io conn remote sa hdr pl natt w = None"
  using assms by (auto simp: handleAuthFinal_def auth_accept_def implicit_detach_def detaches_itself_def constEqual_iff)

section \<open>A successful attach\<close>

lemma final_create_result:
  assumes "final_create env io sa w = (Inr r, w')"
  shows "To4 (cr_PAA r) \<noteq> []"
  using assms create_session_response_complete
  by (auto simp: final_create_def s2b_CreateSession_def Let_def split: prod.splits sum.splits option.splits if_splits)

text \<open>Without the maximum bit rates of a profile no PDN connection is created.  The first round does not store them.\<close>

lemma final_create_needs_profile:
  assumes "final_create env io sa w = (Inr r, w')"
  shows "\<exists>sess p. Get (iw_sessions w) (sa_sessionID sa) = Some sess \<and> s_APNProfile sess = Some p \<and> ap_AMBRUplink p \<noteq> 0 \<and> ap_AMBRDownlink p \<noteq> 0"
  using assms by (auto simp: final_create_def s2b_CreateSession_def gtpAMBR_def Let_def split: prod.splits sum.splits option.splits if_splits bind_splits)

lemma round1_success_no_profile: "s_APNProfile (eap_success_session res False s) = s_APNProfile s"
  by (simp add: eap_success_session_def Let_def Transition_def split: option.splits)

lemma AddSession_ok:
  assumes "AddSession env m (Some sess) = (None, m', added)"
  obtains c where "s_S2B sess = Some c" "dp_sessionsByID m' (s_ID sess) \<noteq> None"
proof -
  from assms obtain c where c: "s_S2B sess = Some c" and i: "install_default env m (new_gsession sess c (ParseIP (sc_PAA c)) (To4 (sc_PGWUserIP c)) (ParseIP (ge_LocalGTPU env)))
      (default_bearer c (To4 (sc_PGWUserIP c)) (ParseIP (ge_LocalGTPU env))) (ParseIP (sc_PAA c)) (To4 (sc_PGWUserIP c)) (ParseIP (ge_LocalGTPU env)) = (None, m')"
    by (auto simp: AddSession_def Let_def split: option.splits if_splits prod.splits)
  have "dp_byLocal m (b_LocalRXTEID (default_bearer c (To4 (sc_PGWUserIP c)) (ParseIP (ge_LocalGTPU env)))) = None"
    using i by (auto simp: install_default_def add_fail_def split: if_splits prod.splits)
  from install_default_ok[OF this i] have "dp_sessionsByID m' (s_ID sess) \<noteq> None"
    by (auto dest!: kern_only_simps(1) simp: dp_index_def index_session_def new_gsession_def)
  with that c show thesis by blast
qed

lemma session_up_simps [simp]:
  "s_State s = StateEAPAuthenticated \<Longrightarrow> s_State (accept_s2b r s) = StateS2BAccepted" "s_S2B (accept_s2b r s) = Some (s2b_context r)"
  "s_State s = StateS2BAccepted \<Longrightarrow> s_State (child_up sa s) = StateGTPUInstalling" "s_S2B (child_up sa s) = s_S2B s"
  "s_State s = StateGTPUInstalling \<Longrightarrow> s_State (datapath_up added s) = StateActive" "s_S2B (datapath_up added s) = s_S2B s"
  "s_ESPInboundSPI (child_up sa s) = sa_localESPSPI sa" "s_ESPOutboundSPI (child_up sa s) = sa_peerESPSPI sa"
  "s_ESPInboundSPI (datapath_up added s) = s_ESPInboundSPI s" "s_ESPOutboundSPI (datapath_up added s) = s_ESPOutboundSPI s"
  by (simp_all add: accept_s2b_def child_up_def datapath_up_def Transition_def allowedTransitions_def)

lemma Get_upd_session [simp]: "Get (iw_sessions (upd_session i f w)) j = (if i = j then map_option f (Get (iw_sessions w) j) else Get (iw_sessions w) j)"
  by (simp add: upd_session_def update_session_def Get_def)

text \<open>The installation, given a session in the state the creation leaves.\<close>

lemma final_install_effect:
  assumes i: "final_install env remote sa paa w = Some (ok, w')" and esp: "sa_espProp sa = Some pr" "sa_localIP sa \<noteq> []"
    and sess: "Get (iw_sessions w) (sa_sessionID sa) = Some sess" "s_State sess = StateS2BAccepted"
  obtains (failed) sess' where "\<not> ok" "Get (iw_sessions w') (sa_sessionID sa) = Some sess'" "s_State sess' \<noteq> StateActive"
  | (up) added keys names where "ok" "Get (iw_sessions w') (sa_sessionID sa) = Some (datapath_up added (child_up sa sess))"
      "InstallChildSA (ie_nl env) (child_params (sa_localIP sa) remote (sa_localESPSPI sa) (sa_peerESPSPI sa) keys names (sa_natT sa) local_ts (paa_ts paa)) (iw_xfrm w) = (None, iw_xfrm w')"
      "dp_sessionsByID (iw_gtpu w') (s_ID sess) \<noteq> None"
proof -
  from i esp obtain keys names where kn: "deriveChildSAKeys (ie_crypto env) (sa_saKey sa) (sa_nonceI sa) (sa_nonceR sa) (encr_KeyLen (ch_encr pr)) (integKeyLen (ch_integ pr)) = Some keys"
    "childAlgNames pr = Inr names" by (auto simp: final_install_def split: option.splits sum.splits)
  obtain e x where ins: "InstallChildSA (ie_nl env) (child_params (sa_localIP sa) remote (sa_localESPSPI sa) (sa_peerESPSPI sa) keys names (sa_natT sa) local_ts (paa_ts paa)) (iw_xfrm w) = (e, x)"
    by fastforce
  let ?w = "upd_session (sa_sessionID sa) (child_up sa) (w\<lparr>iw_xfrm := x\<rparr>)"
  have g: "Get (iw_sessions ?w) (sa_sessionID sa) = Some (child_up sa sess)" using sess by simp
  obtain e2 gm added where a: "AddSession (ie_genv env) (iw_gtpu ?w) (Some (child_up sa sess)) = (e2, gm, added)" by (metis prod_cases3)
  consider "e \<noteq> None" | "e = None" "e2 \<noteq> None" | "e = None" "e2 = None" by blast
  then show thesis
  proof cases
    case 1
    then show thesis using i esp kn ins sess by (intro failed[of sess]) (auto simp: final_install_def)
  next
    case 2
    then show thesis using i esp kn ins sess a g by (intro failed[of "child_up sa sess"]) (auto simp: final_install_def final_datapath_def)
  next
    case 3
    from a[unfolded 3] have "dp_sessionsByID gm (s_ID sess) \<noteq> None" by (elim AddSession_ok) simp
    moreover have "ok \<and> w' = upd_session (sa_sessionID sa) (datapath_up added) (?w\<lparr>iw_gtpu := gm\<rparr>)"
      using i esp kn ins 3 a g by (auto simp: final_install_def final_datapath_def)
    ultimately show thesis using ins 3 sess by (intro up) auto
  qed
qed

text \<open>No older session of the subscriber is detached.\<close>

definition first_attach :: "ike_io \<Rightarrow> ikeSA \<Rightarrow> 'k ike_world \<Rightarrow> bool" where
  "first_attach io sa w \<longleftrightarrow> sa_handoverIP sa \<noteq> [] \<or> FindSingleActiveByIMSIAPN (iw_sessions w) (io_order io) (sa_imsi sa) (sa_apn sa) = None"

text \<open>What a final round with an active session at its end has done.\<close>

definition attached ::
  "('k \<Rightarrow> (net_ip \<times> int \<times> xfrm_proto) set) \<Rightarrow> ('k \<Rightarrow> (ip_net \<times> ip_net \<times> xfrm_dir \<times> int) set) \<Rightarrow> udp_addr \<Rightarrow> ikeSA \<Rightarrow> 'k ike_world \<Rightarrow> Session \<Rightarrow> 'k ike_world \<Rightarrow>
   CreateSessionResult \<Rightarrow> net_ip \<Rightarrow> net_ip \<Rightarrow> bool" where
  "attached sts pols remote sa w sess w' r l ip \<longleftrightarrow> s_S2B sess = Some (s2b_context r) \<and> To4 (cr_PAA r) \<noteq> [] \<and>
     s_ESPInboundSPI sess = sa_localESPSPI sa \<and> s_ESPOutboundSPI sess = sa_peerESPSPI sa \<and>
     resolveXFRMIPs (sa_localIP sa) (fst remote) = Inr (l, ip) \<and>
     sts (xf_kernel (iw_xfrm w')) = child_states l ip (sa_localESPSPI sa) (sa_peerESPSPI sa) \<union> sts (xf_kernel (iw_xfrm w)) \<and>
     child_states l ip (sa_localESPSPI sa) (sa_peerESPSPI sa) \<inter> sts (xf_kernel (iw_xfrm w)) = {} \<and>
     pols (xf_kernel (iw_xfrm w')) = child_policies (paa_ts (cr_PAA r)) \<union> pols (xf_kernel (iw_xfrm w)) \<and>
     child_policies (paa_ts (cr_PAA r)) \<inter> pols (xf_kernel (iw_xfrm w)) = {} \<and> dp_sessionsByID (iw_gtpu w') (s_ID sess) \<noteq> None"

lemma attach_effect:
  assumes spec: "kernel_spec (ie_nl env) sts pols" and h: "handleAuthFinal env io conn remote sa hdr pl natt w = Some (sa', w')" and first: "first_attach io sa w"
    and esp: "sa_espProp sa = Some pr" "sa_localIP sa \<noteq> []" and fresh: "\<forall>b. io_spi4 io = Some b \<longrightarrow> uint32 b \<notin> xf_inboundSPIs (iw_xfrm w)"
    and sess: "Get (iw_sessions w) (sa_sessionID sa) = Some sess" "s_State sess = StateEAPAuthenticated"
    and sess': "Get (iw_sessions w') (sa_sessionID sa) = Some sess'" "s_State sess' = StateActive"
  shows "(\<exists>b. sa' = established b sa) \<and> (\<exists>r l ip. attached sts pols remote sa' w sess' w' r l ip)"
  using h
proof (cases rule: handleAuthFinal_cases)
  case refused
  then show ?thesis using sess sess' by (auto simp: sends_frame)
next
  case (verified m)
  have d: "implicit_detach env io sa w = Some w1 \<Longrightarrow> w1 = w" for w1 using first by (auto simp: implicit_detach_def first_attach_def split: if_splits)
  from verified(3) show ?thesis
  proof (cases rule: auth_accept_cases)
    case (no_session w1 e w2)
    then have "Get (iw_sessions w') (sa_sessionID sa) = Some sess" using d sess final_create_effect(4)[OF no_session(2)] by (simp add: Get_def sends_frame)
    then show ?thesis using sess sess' by simp
  next
    case (no_spi w1 r)
    then have "Get (iw_sessions w') (sa_sessionID sa) = Some (accept_s2b r sess)" using d sess final_create_effect(4)[OF no_spi(2)] by (simp add: Get_def)
    then show ?thesis using sess sess' by simp
  next
    case (established w1 r w2 b ok w3)
    note c = final_create_effect[OF established(2)]
    have w1: "w1 = w" using d established(1) .
    have g: "Get (iw_sessions w2) (sa_sessionID (established b sa)) = Some (accept_s2b r sess)" using c(4) sess by (simp add: w1 Get_def)
    have st: "s_State (accept_s2b r sess) = StateS2BAccepted" using sess by simp
    have esp': "sa_espProp (established b sa) = Some pr" "sa_localIP (established b sa) \<noteq> []" using esp by simp_all
    note fr = sends_frame[OF established(6)]
    from established(5) esp' g st show ?thesis
    proof (cases rule: final_install_effect)
      case (failed s)
      then show ?thesis using sess' fr by simp
    next
      case (up added keys names)
      have s': "sess' = datapath_up added (child_up (established b sa) (accept_s2b r sess))" using up(2) sess' fr by simp
      let ?p = "child_params (sa_localIP (established b sa)) remote (sa_localESPSPI (established b sa)) (sa_peerESPSPI (established b sa)) keys names
          (sa_natT (established b sa)) local_ts (paa_ts (cr_PAA r))"
      have new: "cp_InboundSPI ?p \<notin> xf_inboundSPIs (iw_xfrm w2)" using fresh established(3) c(2) by (simp add: w1)
      obtain l ip where "resolveXFRMIPs (sa_localIP sa) (fst remote) = Inr (l, ip)"
        "sts (xf_kernel (iw_xfrm w3)) = child_states l ip (uint32 b) (sa_peerESPSPI sa) \<union> sts (xf_kernel (iw_xfrm w2))"
        "pols (xf_kernel (iw_xfrm w3)) = child_policies (paa_ts (cr_PAA r)) \<union> pols (xf_kernel (iw_xfrm w2))"
        "child_states l ip (uint32 b) (sa_peerESPSPI sa) \<inter> sts (xf_kernel (iw_xfrm w2)) = {}" "child_policies (paa_ts (cr_PAA r)) \<inter> pols (xf_kernel (iw_xfrm w2)) = {}"
        by (rule InstallChildSA_keys[OF spec new child_params_simps(5) child_params_simps(7) up(3)]) simp
      then have "attached sts pols remote sa' w sess' w' r l ip"
        using up(4) fr c(2) final_create_result[OF established(2)] by (simp add: attached_def established(4) s' w1)
      then show ?thesis using established(4) by blast
    qed
  qed
qed



text \<open>When the kernel or the dataplane refuses, the peer is told that the authentication failed, but the SA is left established and the PDN connection open.\<close>

lemma failed_install_stays_established:
  assumes "implicit_detach env io sa w = Some w1" "final_create env io sa w1 = (Inr r, w2)" "io_spi4 io = Some b"
    and "final_install env remote (established b sa) (cr_PAA r) w2 = Some (False, w3)" "auth_accept env io conn remote sa hdr natt w = Some (sa', w')"
  shows "sa_state sa' = ikeStateEstablished \<and> iw_s2b w' = iw_s2b w3 \<and> auth_notify env io conn remote sa' hdr AUTHENTICATION_FAILED natt w3 = Some w'"
  using assms by (auto simp: auth_accept_def Let_def intro: sends_frame(5) auth_notify_sends)

section \<open>A concrete attach\<close>

definition demo_attaching :: ikeSA where
  "demo_attaching = demo_half_open\<lparr>sa_saKey := demo_gcm, sa_msk := replicate 64 7, sa_eapRound := 1, sa_imsi := ''001010000000001'', sa_apn := ''ims'',
     sa_espProp := Some demo_esp, sa_peerESPSPI := 512, sa_sessionID := ''s''\<rparr>"

definition demo_authenticated :: Session where
  "demo_authenticated = (New ''s'' 0)\<lparr>s_State := StateEAPAuthenticated, s_APNProfile := Some \<lparr>ap_APN = ''ims'', ap_AMBRUplink = 1000, ap_AMBRDownlink = 1000\<rparr>\<rparr>"

definition demo_attach_world :: "demo_kernel ike_world" where
  "demo_attach_world = demo_ike_world\<lparr>iw_sas := [(17, demo_attaching)], iw_sessions := NewManager\<lparr>mgr_sessions := [''s'' \<mapsto> demo_authenticated]\<rparr>,
     iw_s2b := demo_client\<lparr>k_started := True\<rparr>\<rparr>"

definition demo_attach_io :: ike_io where
  "demo_attach_io = demo_ike_io\<lparr>io_createWait := (\<lambda>_. GotResponse demo_response)\<rparr>"

lemma demo_attaching_simps [simp]:
  "sa_spiI demo_attaching = 17" "sa_state demo_attaching = ikeStateAuth" "sa_localIP demo_attaching = [10, 0, 0, 1]" "sa_remoteAddr demo_attaching = ([192, 0, 2, 7], 500)"
  "sa_espProp demo_attaching = Some demo_esp" "sa_saKey demo_attaching = demo_gcm" "sa_pendingESPProp demo_attaching = None" "sa_sessionID demo_attaching = ''s''"
  "sa_peerESPSPI demo_attaching = 512" "sa_msk demo_attaching = replicate 64 7" "sa_eapRound demo_attaching = 1" "sa_handoverIP demo_attaching = []"
  "sa_imsi demo_attaching = ''001010000000001''" "sa_apn demo_attaching = ''ims''" "sa_mobikeEnabled demo_attaching = False"
  by (simp_all add: demo_attaching_def demo_half_open_def half_open_sa_def demo_ike_io_def)

definition demo_child_up :: "CreateSessionResult \<Rightarrow> Session" where
  "demo_child_up r = snd (Transition ((accept_s2b r demo_authenticated)\<lparr>s_ESPInboundSPI := 256, s_ESPOutboundSPI := 512, s_OuterIP := UDP_String ([192, 0, 2, 7], 500)\<rparr>) StateGTPUInstalling)"

lemma demo_added_eval:
  "case parseCreateSessionResponse demo_config demo_response 5 6 of Inr r \<Rightarrow> fst (AddSession (demo_genv (\<lambda>_ _. False)) demo_start (Some (demo_child_up r))) = None | Inl _ \<Rightarrow> False"
  by code_simp

lemma demo_accepted:
  obtains r where "parseCreateSessionResponse demo_config demo_response 5 6 = Inr r" "fst (AddSession (demo_genv (\<lambda>_ _. False)) demo_start (Some (demo_child_up r))) = None"
  using demo_added_eval by (auto split: sum.splits)

lemma demo_created:
  assumes "parseCreateSessionResponse demo_config demo_response 5 6 = Inr r"
  shows "\<exists>w2. final_create demo_ike_env demo_attach_io demo_attaching demo_attach_world = (Inr r, w2)"
proof -
  let ?c = "(demo_client\<lparr>k_started := True\<rparr>)\<lparr>k_localControl := 5, k_localUser := 6\<rparr>"
  have "fst (next_seq ?c) \<ge> minSequence \<and> fst (next_seq ?c) \<le> maxSequence" by code_simp
  then obtain seq c' where n: "next_seq ?c = (seq, c')" "minSequence \<le> seq" "seq \<le> maxSequence" by (cases "next_seq ?c") auto
  have cfg: "k_cfg c' = demo_config" using next_seq_cfg[OF n(1)] by (simp add: demo_client_def s2b_NewClient_def)
  let ?req = "\<lambda>ip. \<lparr>cq_IMSI = ''001010000000001'', cq_APN = ''ims'', cq_AMBRUplink = 1000, cq_AMBRDownlink = 1000, cq_Handover = False, cq_PGWControlIP = ip\<rparr>"
  have "case createSessionPayload demo_config (?req []) 1 1 5 6 of None \<Rightarrow> False | Some p \<Rightarrow> length p \<le> 65000" by code_simp
  moreover have "createSessionPayload demo_config (?req ip) 1 1 5 6 = createSessionPayload demo_config (?req []) 1 1 5 6" for ip
    by (simp add: createSessionPayload_def createSessionIEs_def)
  ultimately obtain p where p: "createSessionPayload demo_config (?req ip) 1 1 5 6 = Some p" "length p \<le> 65000" for ip by (auto split: option.splits)
  obtain enc where e: "message_encode \<lparr>m_Type = msgCreateSessionReq, m_TEID = 0, m_HasTEID = True, m_Sequence = seq, m_Payload = p\<rparr> = Inr enc"
    using message_encode_ok[of "\<lparr>m_Type = msgCreateSessionReq, m_TEID = 0, m_HasTEID = True, m_Sequence = seq, m_Payload = p\<rparr>"] n p(2) by auto
  have t: "fst (transactionTo (\<lambda>_. True) (\<lambda>_. GotResponse demo_response) \<lparr>m_Type = msgCreateSessionReq, m_TEID = 0, m_HasTEID = True, m_Sequence = seq, m_Payload = p\<rparr>
      msgCreateSessionResp peer) = Inr demo_response" for peer
    by (simp add: transactionTo_def e numeral_eq_Suc demo_response_def split: prod.splits)
  have dc: "k_localControl demo_client = 4" "k_localUser demo_client = 5" by (simp_all add: demo_client_def s2b_NewClient_def)
  have cs: "fst (s2b_CreateSession (\<lambda>_. True) (\<lambda>_. GotResponse demo_response) (?req ip) (demo_client\<lparr>k_started := True\<rparr>)) = Inr r" for ip
  proof -
    obtain res sent where tt: "transactionTo (\<lambda>_. True) (\<lambda>_. GotResponse demo_response)
        \<lparr>m_Type = msgCreateSessionReq, m_TEID = 0, m_HasTEID = True, m_Sequence = seq, m_Payload = p\<rparr> msgCreateSessionResp (choose_peer ip c') = (res, sent)" by fastforce
    then have "res = Inr demo_response" using t[of "choose_peer ip c'"] by simp
    then show ?thesis using n(1) p(1)[of ip] assms tt by (simp add: s2b_CreateSession_def gtpAMBR_def nextTEID_def dc cfg)
  qed
  let ?ip = "Discover (io_sort demo_attach_io) (io_dns demo_attach_io)
            \<lparr>pd_DNSEnabled = PGWDiscoveryConfig.pd_DNSEnabled (c_PGWDiscovery (ie_cfg demo_ike_env)), pd_AllowS5S8Fallback = PGWDiscoveryConfig.pd_AllowS5S8Fallback (c_PGWDiscovery (ie_cfg demo_ike_env)),
             pd_StaticPGWC = gt_PGWGTPC (c_GTP (ie_cfg demo_ike_env)), pd_MCC = ep_MCC (c_EPDG (ie_cfg demo_ike_env)), pd_MNC = ep_MNC (c_EPDG (ie_cfg demo_ike_env))\<rparr> ''ims''"
  obtain out c2 where "s2b_CreateSession (\<lambda>_. True) (\<lambda>_. GotResponse demo_response) (?req ?ip) (demo_client\<lparr>k_started := True\<rparr>) = (Inr r, out, c2)"
    using cs[of ?ip] by (cases "s2b_CreateSession (\<lambda>_. True) (\<lambda>_. GotResponse demo_response) (?req ?ip) (demo_client\<lparr>k_started := True\<rparr>)") auto
  moreover have "iw_s2b demo_attach_world = demo_client\<lparr>k_started := True\<rparr>" "Get (iw_sessions demo_attach_world) ''s'' = Some demo_authenticated"
    "s_APNProfile demo_authenticated = Some \<lparr>ap_APN = ''ims'', ap_AMBRUplink = 1000, ap_AMBRDownlink = 1000\<rparr>"
    "io_createWr demo_attach_io = (\<lambda>_. True)" "io_createWait demo_attach_io = (\<lambda>_. GotResponse demo_response)"
    by (simp_all add: demo_attach_world_def Get_def demo_authenticated_def demo_attach_io_def demo_ike_io_def)
  ultimately show ?thesis unfolding final_create_def Let_def by simp
qed

lemma final_install_succeeds:
  assumes lib: "crypto_ok (ie_crypto env)" and esp: "sa_espProp sa = Some pr" "child_ok pr" "sa_localIP sa \<noteq> []"
    and ins: "\<And>keys names. fst (InstallChildSA (ie_nl env) (child_params (sa_localIP sa) remote (sa_localESPSPI sa) (sa_peerESPSPI sa) keys names (sa_natT sa) local_ts (paa_ts paa)) (iw_xfrm w)) = None"
    and sess: "Get (iw_sessions w) (sa_sessionID sa) = Some sess" "fst (AddSession (ie_genv env) (iw_gtpu w) (Some (child_up sa sess))) = None"
  shows "\<exists>w'. final_install env remote sa paa w = Some (True, w')"
proof -
  obtain names where n: "childAlgNames pr = Inr names" using child_ok_names[OF esp(2)] by blast
  obtain keys where k: "deriveChildSAKeys (ie_crypto env) (sa_saKey sa) (sa_nonceI sa) (sa_nonceR sa) (encr_KeyLen (ch_encr pr)) (integKeyLen (ch_integ pr)) = Some keys"
    using deriveChildSAKeys_returns(1)[OF lib] by blast
  obtain x where x: "InstallChildSA (ie_nl env) (child_params (sa_localIP sa) remote (sa_localESPSPI sa) (sa_peerESPSPI sa) keys names (sa_natT sa) local_ts (paa_ts paa)) (iw_xfrm w) = (None, x)"
    using ins by (metis prod.collapse)
  obtain g added where a: "AddSession (ie_genv env) (iw_gtpu w) (Some (child_up sa sess)) = (None, g, added)" using sess(2) by (metis prod.collapse)
  show ?thesis using esp n k x a sess(1) by (simp add: final_install_def final_datapath_def)
qed

abbreviation "demo_local \<equiv> ([10, 0, 0, 1], 500) :: udp_addr"
abbreviation "demo_peer \<equiv> ([192, 0, 2, 7], 500) :: udp_addr"
abbreviation "demo_final \<equiv> \<lparr>ax_idi = None, ax_idr = None, ax_auth = Some (2, expected_auth demo_ike_env demo_attaching), ax_sa = None, ax_tsi = False, ax_tsr = False, ax_cp = None, ax_eapRaw = [], ax_notifies = []\<rparr>"

lemma demo_installs:
  assumes r: "fst (AddSession (demo_genv (\<lambda>_ _. False)) demo_start (Some (demo_child_up r))) = None"
    and w2: "final_create demo_ike_env demo_attach_io demo_attaching demo_attach_world = (Inr r, w2)"
  obtains w3 added where "final_install demo_ike_env demo_peer (established [0, 0, 1, 0] demo_attaching) (cr_PAA r) w2 = Some (True, w3)"
    "Get (iw_sessions w3) ''s'' = Some (datapath_up added (demo_child_up r))"
proof -
  let ?sa = "established [0, 0, 1, 0] demo_attaching"
  note c = final_create_effect[OF w2]
  have g: "Get (iw_sessions w2) (sa_sessionID ?sa) = Some (accept_s2b r demo_authenticated)" using c(4) by (simp add: Get_def demo_attach_world_def)
  have up: "child_up ?sa (accept_s2b r demo_authenticated) = demo_child_up r" by (simp add: child_up_def demo_child_up_def)
  have x: "xf_kernel (iw_xfrm w2) = ([], [])" "iw_gtpu w2 = demo_start" using c(2,3) by (simp_all add: demo_attach_world_def demo_ike_world_def)
  have "\<exists>w3. final_install demo_ike_env demo_peer ?sa (cr_PAA r) w2 = Some (True, w3)"
  proof (rule final_install_succeeds[OF demo_up_simps(6) _ demo_esp_ok(1) _ _ g])
    show "fst (InstallChildSA (ie_nl demo_ike_env) (child_params (sa_localIP ?sa) demo_peer (sa_localESPSPI ?sa) (sa_peerESPSPI ?sa) keys names (sa_natT ?sa) local_ts (paa_ts (cr_PAA r))) (iw_xfrm w2)) = None"
      for keys names unfolding demo_up_simps(5) by (intro table_install[of _ "[10, 0, 0, 1]" "[192, 0, 2, 7]"]) (simp_all add: demo_up_simps(8) x)
    show "fst (AddSession (ie_genv demo_ike_env) (iw_gtpu w2) (Some (child_up ?sa (accept_s2b r demo_authenticated)))) = None"
      unfolding up x by (simp add: demo_ike_env_def r)
  qed simp_all
  then obtain w3 where i: "final_install demo_ike_env demo_peer ?sa (cr_PAA r) w2 = Some (True, w3)" by blast
  have esp': "sa_espProp ?sa = Some demo_esp" "sa_localIP ?sa \<noteq> []" by simp_all
  have st: "s_State (accept_s2b r demo_authenticated) = StateS2BAccepted" by (simp add: demo_authenticated_def)
  from i esp' g st obtain added where "Get (iw_sessions w3) (sa_sessionID ?sa) = Some (datapath_up added (child_up ?sa (accept_s2b r demo_authenticated)))"
    by (rule final_install_effect) auto
  then show thesis using that[OF i] unfolding up by simp
qed

lemma demo_attach:
  "\<exists>w' sess'. handleAuthFinal demo_ike_env demo_attach_io demo_local demo_peer demo_attaching demo_hdr demo_final False demo_attach_world =
      Some (established [0, 0, 1, 0] demo_attaching, w') \<and> Get (iw_sessions w') ''s'' = Some sess' \<and> s_State sess' = StateActive \<and> mgr_inv (iw_sessions w')"
proof -
  let ?sa = "established [0, 0, 1, 0] demo_attaching"
  obtain r where r: "parseCreateSessionResponse demo_config demo_response 5 6 = Inr r" "fst (AddSession (demo_genv (\<lambda>_ _. False)) demo_start (Some (demo_child_up r))) = None"
    by (rule demo_accepted)
  obtain w2 where w2: "final_create demo_ike_env demo_attach_io demo_attaching demo_attach_world = (Inr r, w2)" using demo_created[OF r(1)] by blast
  have det: "implicit_detach demo_ike_env demo_attach_io demo_attaching demo_attach_world = Some demo_attach_world"
    by (simp add: implicit_detach_def FindSingleActiveByIMSIAPN_def demo_attach_io_def demo_ike_io_def)
  obtain w3 added where i: "final_install demo_ike_env demo_peer ?sa (cr_PAA r) w2 = Some (True, w3)"
    and g: "Get (iw_sessions w3) ''s'' = Some (datapath_up added (demo_child_up r))" by (rule demo_installs[OF r(2) w2])
  have "key_ok (sa_saKey ?sa)" by (simp add: demo_gcm_ok)
  then obtain b w' where s: "sendEncryptedResponse demo_ike_env (io_iv demo_attach_io) demo_local demo_peer ?sa IKE_AUTH (ih_MessageID demo_hdr) (final_payloads demo_ike_env ?sa r) False w3 = Some (b, w')"
    using sendEncryptedResponse_returns by fast
  have "io_spi4 demo_attach_io = Some [0, 0, 1, 0]" by (simp add: demo_attach_io_def demo_ike_io_def)
  then have "auth_accept demo_ike_env demo_attach_io demo_local demo_peer demo_attaching demo_hdr False demo_attach_world = Some (?sa, w')"
    using s i by (simp add: auth_accept_def det w2 Let_def)
  then have h: "handleAuthFinal demo_ike_env demo_attach_io demo_local demo_peer demo_attaching demo_hdr demo_final False demo_attach_world = Some (?sa, w')"
    by (simp add: handleAuthFinal_def constEqual_iff)
  have "mgr_inv (iw_sessions demo_attach_world)" by (simp add: demo_attach_world_def mgr_inv_def demo_authenticated_def New_def)
  then have m: "mgr_inv (iw_sessions w')"
    using final_create_effect(1)[OF w2] final_install_kept[OF i] table_kept_sends[OF sendEncryptedResponse_sends[OF s]] by (simp add: table_kept_def)
  have "s_State (demo_child_up r) = StateGTPUInstalling"
    by (simp add: demo_child_up_def accept_s2b_def demo_authenticated_def Transition_def allowedTransitions_def)
  then show ?thesis using h m g sends_frame[OF sendEncryptedResponse_sends[OF s]] by auto
qed

lemma demo_attach_facts:
  "first_attach demo_attach_io demo_attaching demo_attach_world" "kernel_spec (ie_nl demo_ike_env) (\<lambda>k. set (fst k)) (\<lambda>k. set (snd k))" "sa_ok demo_attaching"
  "Get (iw_sessions demo_attach_world) ''s'' = Some demo_authenticated" "s_State demo_authenticated = StateEAPAuthenticated"
  "xf_inboundSPIs (iw_xfrm demo_attach_world) = {}" "xf_kernel (iw_xfrm demo_attach_world) = ([], [])"
  by (simp_all add: first_attach_def FindSingleActiveByIMSIAPN_def demo_attach_io_def demo_ike_io_def demo_up_simps(5) table_netlink_spec sa_ok_def demo_gcm_ok demo_esp_ok(1)
      demo_attach_world_def demo_ike_world_def Get_def demo_authenticated_def)



definition demo_final_msg :: bytes where
  "demo_final_msg = demo_msg TypeAUTH (chain_bytes [(TypeAUTH, [2, 0, 0, 0] @ expected_auth demo_ike_env demo_attaching)])"

lemma demo_auth_length: "length (expected_auth demo_ike_env demo_attaching) \<le> 1000"
proof -
  have "hash_len h \<le> 1000" for h by (cases h) simp_all
  then show ?thesis by (simp add: expected_auth_def computeEAPAUTH_def prfMAC_def prf_New_length[OF demo_up_simps(6)])
qed

lemma demo_final_parse:
  "decryptSK (ie_crypto demo_ike_env) demo_gcm demo_final_msg = Inr (TypeAUTH, chain_bytes [(TypeAUTH, [2, 0, 0, 0] @ expected_auth demo_ike_env demo_attaching)])"
  "parseAuthPayloads (ie_lib demo_ike_env) TypeAUTH (chain_bytes [(TypeAUTH, [2, 0, 0, 0] @ expected_auth demo_ike_env demo_attaching)]) = Inr demo_final"
proof -
  show "decryptSK (ie_crypto demo_ike_env) demo_gcm demo_final_msg = Inr (TypeAUTH, chain_bytes [(TypeAUTH, [2, 0, 0, 0] @ expected_auth demo_ike_env demo_attaching)])"
    unfolding demo_final_msg_def demo_env_simps(1) by (rule demo_decrypt)
  let ?ps = "[(TypeAUTH, [2, 0, 0, 0] @ expected_auth demo_ike_env demo_attaching)] :: (byte \<times> bytes) list"
  have "chain_ok ?ps" using demo_auth_length by (simp add: chain_ok_def)
  then have "walk_payloads TypeAUTH (chain_bytes ?ps) = (?ps, True)" using walk_chain[of ?ps] by simp
  then show "parseAuthPayloads (ie_lib demo_ike_env) TypeAUTH (chain_bytes ?ps) = Inr demo_final"
    by (simp add: parseAuthPayloads_def auth_payload_def decode_as_def safePayloadUnmarshal_def demo_ike_env_def demo_lib_def no_auth_payloads_def)
qed

lemma demo_heard: "heard_from demo_peer demo_attach_io demo_attaching = demo_attaching"
  by (simp add: demo_attaching_def demo_half_open_def half_open_sa_def demo_attach_io_def demo_ike_io_def)

lemma demo_attach_inv: "ike_inv demo_attach_world"
  using demo_attach_facts(3)
  by (auto simp: ike_inv_def sas_ok_def demo_attach_world_def lookupSA_def demo_gcm_ok mgr_inv_def demo_authenticated_def New_def split: if_splits)

lemma demo_auth_exchange:
  "\<exists>w'. handleIKEAuth demo_ike_env demo_attach_io demo_local demo_peer demo_final_msg demo_hdr False demo_attach_world = Some w' \<and>
     lookupSA 17 w' = Some (established [0, 0, 1, 0] demo_attaching)"
proof -
  obtain w1 where h: "handleAuthFinal demo_ike_env demo_attach_io demo_local demo_peer demo_attaching demo_hdr demo_final False demo_attach_world =
      Some (established [0, 0, 1, 0] demo_attaching, w1)" using demo_attach by blast
  have l: "lookupSA 17 demo_attach_world = Some demo_attaching" by (simp add: lookupSA_def demo_attach_world_def)
  have m: "mobike_seen [] demo_attaching = demo_attaching" by (simp add: mobike_seen_def)
  have "auth_request demo_ike_env demo_attach_io demo_local demo_peer demo_final_msg demo_hdr False demo_attaching demo_attach_world = Some (established [0, 0, 1, 0] demo_attaching, w1)"
    using h unfolding auth_request_def demo_attaching_simps(6) demo_final_parse sum.case prod.case Let_def by (simp add: m)
  note r = this
  have "lookupSA 17 w1 = lookupSA 17 demo_attach_world" using auth_request_effect[OF r demo_attach_inv demo_attach_facts(3)] by (metis demo_attaching_simps(1))
  then have "lookupSA 17 (putSA (established [0, 0, 1, 0] demo_attaching) w1) = Some (established [0, 0, 1, 0] demo_attaching)" using l by simp
  moreover have "handleIKEAuth demo_ike_env demo_attach_io demo_local demo_peer demo_final_msg demo_hdr False demo_attach_world =
      Some (putSA (established [0, 0, 1, 0] demo_attaching) w1)"
    using r l unfolding handleIKEAuth_def by (simp add: demo_hdr_def demo_heard)
  ultimately show ?thesis by blast
qed

theorem established_only_authenticated_witness:
  "\<exists>w'. handleIKEAuth demo_ike_env demo_attach_io demo_local demo_peer demo_final_msg demo_hdr False demo_attach_world = Some w' \<and> lookupSA 17 w' \<noteq> None \<and>
     (\<exists>sa t plain pl m. lookupSA 17 demo_attach_world = Some sa \<and> decryptSK demo_crypto (sa_saKey sa) demo_final_msg = Inr (t, plain) \<and>
        parseAuthPayloads (ie_lib demo_ike_env) t plain = Inr pl \<and> length (sa_msk sa) = 64 \<and> ax_auth pl = Some (m, expected_auth demo_ike_env sa))"
proof -
  obtain w' where w': "handleIKEAuth demo_ike_env demo_attach_io demo_local demo_peer demo_final_msg demo_hdr False demo_attach_world = Some w'"
    "lookupSA 17 w' = Some (established [0, 0, 1, 0] demo_attaching)" using demo_auth_exchange by blast
  have "\<forall>sa. lookupSA 17 demo_attach_world = Some sa \<longrightarrow> sa_state sa \<noteq> ikeStateEstablished" by (simp add: lookupSA_def demo_attach_world_def)
  from established_only_authenticated[OF w'(1) demo_attach_inv w'(2) _ this] w' show ?thesis unfolding demo_env_simps(1) by auto
qed

end
