(* ===== verification/IkeRun.thy ===== *)
theory IkeRun
  imports IkeAuth
begin

text \<open>
  The IKEv2 responder as a whole (\<^verbatim>\<open>internal/ikev2/server.go\<close>): the dispatch of a datagram to its exchange, the bounded pool of packet
  workers, and the server as a transition system over datagrams, worker turns, the two reapers and the other components.

  Shown, for every state the server reaches from its start in whatever order the events come: the SA table and the session manager are
  well-formed and the pool is bounded; a worker never panics; an SA becomes established only by a message that proves a key the AAA server
  granted, or as the successor of an established SA; without such a grant no SA is ever established.
\<close>

section \<open>Dispatch\<close>

abbreviation (input) "nonESPMarker \<equiv> (0 :: u32)"

text \<open>On the NAT traversal port the marker is removed; ESP packets are for the kernel.\<close>

definition strip_marker :: "bool \<Rightarrow> bytes \<Rightarrow> bytes option" where
  "strip_marker natt pkt = (if \<not> natt then Some pkt else if length pkt < 4 \<or> uint32 pkt \<noteq> nonESPMarker then None else Some (drop 4 pkt))"

definition dispatch ::
  "'k ike_env \<Rightarrow> ike_io \<Rightarrow> udp_addr \<Rightarrow> udp_addr \<Rightarrow> bytes \<Rightarrow> IKEHeader \<Rightarrow> bool \<Rightarrow> 'k ike_world \<Rightarrow> 'k ike_world option" where
  "dispatch env io conn remote pkt hdr natt w =
     (if ih_ExchangeType hdr = IKE_SA_INIT then handleIKESAInit env io conn remote pkt hdr natt w
      else if ih_ExchangeType hdr = IKE_AUTH then handleIKEAuth env io conn remote pkt hdr natt w
      else if ih_ExchangeType hdr = CREATE_CHILD_SA then handleCreateChildSA env io conn remote pkt hdr w
      else if ih_ExchangeType hdr = INFORMATIONAL then handleInformational env io conn remote pkt hdr w
      else Some w)"

definition handlePacket :: "'k ike_env \<Rightarrow> ike_io \<Rightarrow> udp_addr \<Rightarrow> udp_addr \<Rightarrow> bytes \<Rightarrow> bool \<Rightarrow> 'k ike_world \<Rightarrow> 'k ike_world option" where
  "handlePacket env io conn remote data natt w =
     (case strip_marker natt data of
        None \<Rightarrow> Some w
      | Some pkt \<Rightarrow>
          if length pkt < IKE_HEADER_LEN then Some w
          else (case lib_ParseHeader (ie_lib env) pkt of
                  None \<Rightarrow> Some w
                | Some hdr \<Rightarrow> dispatch env io conn remote pkt hdr natt w))"

section \<open>The server\<close>

record packet =
  pk_conn :: udp_addr
  pk_remote :: udp_addr
  pk_data :: bytes
  pk_natt :: bool

text \<open>The packets that hold a worker slot.\<close>

record 'k server =
  sv_world :: "'k ike_world"
  sv_workers :: "packet list"

definition maxConcurrentPackets :: "Config \<Rightarrow> nat" where
  "maxConcurrentPackets cfg = (if ik_MaxConcurrentPackets (c_IKEv2 cfg) > 0 then nat (ik_MaxConcurrentPackets (c_IKEv2 cfg)) else 2048)"

text \<open>One turn of \<^verbatim>\<open>readLoop\<close>: the packet gets a worker, or is dropped when all slots are taken.\<close>

definition ike_readLoop_turn :: "Config \<Rightarrow> packet \<Rightarrow> packet list \<Rightarrow> packet list" where
  "ike_readLoop_turn cfg p workers = (if length workers < maxConcurrentPackets cfg then workers @ [p] else workers)"

text \<open>The worker of the \<open>i\<close>-th packet handles it and gives its slot back.\<close>

definition worker_turn :: "'k ike_env \<Rightarrow> ike_io \<Rightarrow> nat \<Rightarrow> 'k server \<Rightarrow> 'k server option" where
  "worker_turn env io i s =
     (let p = sv_workers s ! i in
      map_option (\<lambda>w. s\<lparr>sv_world := w, sv_workers := take i (sv_workers s) @ drop (Suc i) (sv_workers s)\<rparr>)
        (handlePacket env io (pk_conn p) (pk_remote p) (pk_data p) (pk_natt p) (sv_world s)))"

text \<open>What the other components may do between two events of the server: they leave its SA table alone, keep sessions under their names and
  the configuration of the S2b client.\<close>

definition others_may :: "'k ike_world \<Rightarrow> 'k ike_world \<Rightarrow> bool" where
  "others_may w w' \<longleftrightarrow> iw_sas w' = iw_sas w \<and> k_cfg (iw_s2b w') = k_cfg (iw_s2b w) \<and> (mgr_inv (iw_sessions w) \<longrightarrow> mgr_inv (iw_sessions w'))"

text \<open>The answers of the AAA server are among \<open>aaa\<close>.\<close>

definition answers_from :: "(DMessage \<Rightarrow> bool) \<Rightarrow> ike_io \<Rightarrow> bool" where
  "answers_from aaa io \<longleftrightarrow> (\<forall>msg ans. io_swmExchange io msg = Inr ans \<longrightarrow> aaa ans)"

inductive server_step :: "'k ike_env \<Rightarrow> (DMessage \<Rightarrow> bool) \<Rightarrow> 'k server \<Rightarrow> 'k server \<Rightarrow> bool" for env aaa where
  step_receive: "server_step env aaa s (s\<lparr>sv_workers := ike_readLoop_turn (ie_cfg env) p (sv_workers s)\<rparr>)"
| step_worker: "i < length (sv_workers s) \<Longrightarrow> answers_from aaa io \<Longrightarrow> worker_turn env io i s = Some s' \<Longrightarrow> server_step env aaa s s'"
| step_half_open: "server_step env aaa s (s\<lparr>sv_world := halfOpenReaper_tick (ie_cfg env) now spis (sv_world s)\<rparr>)"
| step_reaper: "reaperLoop_tick env ios spis (sv_world s) = Some w' \<Longrightarrow> server_step env aaa s (s\<lparr>sv_world := w'\<rparr>)"
| step_others: "others_may (sv_world s) w' \<Longrightarrow> server_step env aaa s (s\<lparr>sv_world := w'\<rparr>)"

inductive_cases server_stepE: "server_step env aaa s s'"

text \<open>The server as \<^verbatim>\<open>NewServer\<close> and the setters of the main program leave it: no SA, no packet.\<close>

definition server_start :: "'k ike_env \<Rightarrow> 'k server \<Rightarrow> bool" where
  "server_start env s \<longleftrightarrow> iw_sas (sv_world s) = [] \<and> sv_workers s = [] \<and> mgr_inv (iw_sessions (sv_world s)) \<and> k_cfg (iw_s2b (sv_world s)) = ie_cfg env"

section \<open>The configuration of the S2b client\<close>

abbreviation s2b_cfg_of :: "'k ike_world \<Rightarrow> Config" where
  "s2b_cfg_of w \<equiv> k_cfg (iw_s2b w)"

lemma s2b_cfg_frames:
  "sends w w' \<Longrightarrow> s2b_cfg_of w' = s2b_cfg_of w" "xfrm_only w w' \<Longrightarrow> s2b_cfg_of w' = s2b_cfg_of w" "s2b_cfg_of (storeSA sa w) = s2b_cfg_of w"
  "s2b_cfg_of (deleteSA spi w) = s2b_cfg_of w" "s2b_cfg_of (set_xfrm r w) = s2b_cfg_of w" "auth_frame w w' \<Longrightarrow> s2b_cfg_of w' = s2b_cfg_of w"
  by (auto simp: sends_frame storeSA_def deleteSA_def set_xfrm_def auth_frame_def dest: xfrm_only_frame)

lemma s2b_cfg_init: "handleIKESAInit env io conn remote pkt hdr natt w = Some w' \<Longrightarrow> s2b_cfg_of w' = s2b_cfg_of w"
  by (erule handleIKESAInit_cases) (auto simp: refuses_def stores_def s2b_cfg_frames dest!: s2b_cfg_frames(1))

lemma delete_children_cfg: "delete_children env spis sa w = Some w' \<Longrightarrow> s2b_cfg_of w' = s2b_cfg_of w"
proof (induction spis arbitrary: sa w)
  case (Cons spi spis)
  from Cons.prems obtain sa1 w1 where d: "delete_child env spi sa w = Some (sa1, w1)" "delete_children env spis sa1 w1 = Some w'" by (auto split: option.splits)
  from d(1) have "s2b_cfg_of w1 = s2b_cfg_of w"
    by (auto simp: delete_child_def Let_def s2b_cfg_frames split: if_splits dest!: removeXFRMChildSA_frame s2b_cfg_frames(2))
  then show ?case using Cons.IH[OF d(2)] by simp
qed simp

lemma s2b_cfg_update: "handleUpdateSA env io conn remote sa mid c natt w = Some w' \<Longrightarrow> s2b_cfg_of w' = s2b_cfg_of w"
  by (erule handleUpdateSA_cases) (auto simp: s2b_cfg_frames split: if_splits dest!: s2b_cfg_frames(1) s2b_cfg_frames(2) migrateMobikeXFRM_frame)

lemma s2b_cfg_informational: "handleInformational env io conn remote pkt hdr w = Some w' \<Longrightarrow> s2b_cfg_of w' = s2b_cfg_of w"
  by (erule handleInformational_cases, simp, simp, erule inform_request_cases)
    (auto dest!: s2b_cfg_update fullTeardown_cfg delete_children_cfg s2b_cfg_frames(1))

lemma s2b_cfg_create_child: "handleCreateChildSA env io conn remote pkt hdr w = Some w' \<Longrightarrow> s2b_cfg_of w' = s2b_cfg_of w"
proof (erule handleCreateChildSA_cases)
  show "s2b_cfg_of w' = s2b_cfg_of w" if "handleChildSARekey env io conn remote sa hdr saPayload nonceI ke nt (putSA sa' w) = Some w'" for sa sa' saPayload nonceI ke nt
    using that by (rule handleChildSARekey_cases) (auto dest!: s2b_cfg_frames(1) s2b_cfg_frames(2))
  show "s2b_cfg_of w' = s2b_cfg_of w" if "handleIKESARekey env io conn remote sa hdr saPayload nonceI ke nt (putSA sa' w) = Some w'" for sa sa' saPayload nonceI ke nt
    using that by (rule handleIKESARekey_cases) (auto simp: ike_rekey_swap_def Let_def s2b_cfg_frames dest!: s2b_cfg_frames(1))
qed (auto dest!: s2b_cfg_frames(1))

lemma final_create_cfg: "final_create env io sa w = (r, w') \<Longrightarrow> s2b_cfg_of w' = s2b_cfg_of w"
  by (auto simp: final_create_def Let_def split: prod.splits sum.splits option.splits dest: s2b_cfg(1))

lemma final_install_cfg: "final_install env remote sa paa w = Some (ok, w') \<Longrightarrow> s2b_cfg_of w' = s2b_cfg_of w"
  by (auto simp: final_install_def final_datapath_def split: option.splits if_splits sum.splits prod.splits)

lemma s2b_cfg_final: "handleAuthFinal env io conn remote sa hdr pl natt w = Some (sa', w') \<Longrightarrow> s2b_cfg_of w' = s2b_cfg_of w"
  by (erule handleAuthFinal_cases, simp add: s2b_cfg_frames, erule auth_accept_cases)
    (auto dest!: implicit_detach_cfg final_create_cfg final_install_cfg s2b_cfg_frames(1))

lemma s2b_cfg_auth: "handleIKEAuth env io conn remote pkt hdr natt w = Some w' \<Longrightarrow> s2b_cfg_of w' = s2b_cfg_of w"
  by (erule handleIKEAuth_cases, simp, erule auth_request_cases) (auto dest!: s2b_cfg_final s2b_cfg_frames(1) s2b_cfg_frames(6))

lemma dispatch_cfg: "dispatch env io conn remote pkt hdr natt w = Some w' \<Longrightarrow> s2b_cfg_of w' = s2b_cfg_of w"
  by (auto simp: dispatch_def split: if_splits dest: s2b_cfg_init s2b_cfg_auth s2b_cfg_create_child s2b_cfg_informational)

section \<open>Well-formedness\<close>

lemma ike_inv_init:
  assumes "handleIKESAInit env io conn remote pkt hdr natt w = Some w'" "ike_inv w"
  shows "ike_inv w'"
proof -
  have c: "ike_inv (w\<lparr>iw_cookies := cs\<rparr>)" for cs using assms(2) by (rule ike_inv_frame) simp_all
  from assms(1) show ?thesis
  proof (cases rule: handleIKESAInit_cases)
    case 1
    then show ?thesis using c ike_inv_sends by (auto simp: refuses_def)
  next
    case (2 sa resp payloads cs)
    have "sa_ok sa" using 2(1,2) by (simp add: fresh_sa_def sa_ok_def)
    then show ?thesis unfolding 2(7) using ike_inv_sends[OF ike_send_sends] ike_inv_store c by blast
  qed
qed

lemma ike_inv_dispatch: "dispatch env io conn remote pkt hdr natt w = Some w' \<Longrightarrow> ike_inv w \<Longrightarrow> ike_inv w'"
  by (auto simp: dispatch_def split: if_splits dest: ike_inv_init ike_inv_auth ike_inv_create_child ike_inv_informational)

lemma ike_inv_delete: "ike_inv w \<Longrightarrow> ike_inv (deleteSA spi w)"
  using sas_ok_delete[of w "deleteSA spi w" spi] by (auto simp: ike_inv_def lookupSA_def delete_conv' split: if_splits)

lemma ike_inv_half_open: "ike_inv w \<Longrightarrow> ike_inv (halfOpenReaper_tick cfg now spis w)"
  by (induction cfg now spis w rule: halfOpenReaper_tick.induct) (auto simp: ike_inv_delete split: option.splits)

lemma reap_sa_inv: "crypto_ok (ie_crypto env) \<Longrightarrow> ike_inv w \<Longrightarrow> reap_sa env io spi w = Some w' \<Longrightarrow> ike_inv w'"
  using reap_sa_spec[of env w io spi] by auto

lemma ike_inv_reaper:
  assumes "crypto_ok (ie_crypto env)" "ike_inv w" "reaperLoop_tick env ios spis w = Some w'"
  shows "ike_inv w'"
proof -
  have "reaper_tick env ios spis w = Some w' \<Longrightarrow> ike_inv w \<Longrightarrow> ike_inv w'" for w
    by (induction spis arbitrary: w) (auto split: option.splits dest: reap_sa_inv[OF assms(1)])
  then show ?thesis using assms(2,3) by (auto simp: reaperLoop_tick_def split: if_splits)
qed

lemma reap_sa_cfg: "reap_sa env io spi w = Some w' \<Longrightarrow> s2b_cfg_of w' = s2b_cfg_of w"
  by (auto simp: reap_sa_def sendDPDProbe_def sendEncryptedRequest_def Let_def split: option.splits if_splits bool.splits
      dest!: fullTeardown_cfg send_encrypted_sends s2b_cfg_frames(1))

lemma reaper_cfg: "reaperLoop_tick env ios spis w = Some w' \<Longrightarrow> s2b_cfg_of w' = s2b_cfg_of w"
proof -
  have "reaper_tick env ios spis w = Some w' \<Longrightarrow> s2b_cfg_of w' = s2b_cfg_of w" for w
    by (induction spis arbitrary: w) (auto split: option.splits dest!: reap_sa_cfg)
  then show "reaperLoop_tick env ios spis w = Some w' \<Longrightarrow> s2b_cfg_of w' = s2b_cfg_of w" by (auto simp: reaperLoop_tick_def split: if_splits)
qed

lemma half_open_cfg: "s2b_cfg_of (halfOpenReaper_tick cfg now spis w) = s2b_cfg_of w"
  by (induction cfg now spis w rule: halfOpenReaper_tick.induct) (auto simp: s2b_cfg_frames split: option.splits)

text \<open>Runs of a machine whose states are good at the start and stay good.\<close>

locale safe_machine =
  fixes start :: "'s \<Rightarrow> bool" and step :: "'s \<Rightarrow> 's \<Rightarrow> bool" and good :: "'s \<Rightarrow> bool"
  assumes init: "start s \<Longrightarrow> good s" and keeps: "good s \<Longrightarrow> step s s' \<Longrightarrow> good s'"
begin

lemma always: "start s \<Longrightarrow> step\<^sup>*\<^sup>* s s' \<Longrightarrow> good s'"
  by (erule rtranclp_induct) (auto intro: init keeps)

end

text \<open>A server is good when its table and sessions are well-formed, its pool is within its bound and the S2b client has the configuration of the server.\<close>

definition server_good :: "'k ike_env \<Rightarrow> 'k server \<Rightarrow> bool" where
  "server_good env s \<longleftrightarrow> (crypto_ok (ie_crypto env) \<longrightarrow> ike_inv (sv_world s)) \<and> length (sv_workers s) \<le> maxConcurrentPackets (ie_cfg env) \<and>
     s2b_cfg_of (sv_world s) = ie_cfg env"

lemma handlePacket_keeps:
  "handlePacket env io conn remote data natt w = Some w' \<Longrightarrow> ike_inv w \<Longrightarrow> ike_inv w'"
  "handlePacket env io conn remote data natt w = Some w' \<Longrightarrow> s2b_cfg_of w' = s2b_cfg_of w"
  by (auto simp: handlePacket_def split: option.splits if_splits dest: ike_inv_dispatch dispatch_cfg)

lemma worker_turn_Some:
  assumes "worker_turn env io i s = Some s'" "i < length (sv_workers s)"
  obtains p where "handlePacket env io (pk_conn p) (pk_remote p) (pk_data p) (pk_natt p) (sv_world s) = Some (sv_world s')" "p \<in> set (sv_workers s)"
    "length (sv_workers s') < length (sv_workers s)"
  using assms by (auto simp: worker_turn_def Let_def)

lemma server_good_step:
  assumes "server_step env aaa s s'" "server_good env s"
  shows "server_good env s'"
  using assms(1)
proof cases
  case (step_receive p)
  then show ?thesis using assms(2) by (auto simp: server_good_def ike_readLoop_turn_def)
next
  case (step_worker i io)
  from step_worker(3,1) obtain p where "handlePacket env io (pk_conn p) (pk_remote p) (pk_data p) (pk_natt p) (sv_world s) = Some (sv_world s')"
    "p \<in> set (sv_workers s)" "length (sv_workers s') < length (sv_workers s)" by (rule worker_turn_Some)
  note h = this
  show ?thesis using assms(2) h(3) handlePacket_keeps[OF h(1)] by (auto simp: server_good_def)
next
  case (step_half_open now spis)
  then show ?thesis using assms(2) by (simp add: server_good_def ike_inv_half_open half_open_cfg)
next
  case (step_reaper ios spis w')
  then show ?thesis using assms(2) ike_inv_reaper[OF _ _ step_reaper(2)] reaper_cfg[OF step_reaper(2)] by (auto simp: server_good_def)
next
  case (step_others w')
  then show ?thesis using assms(2) by (auto simp: server_good_def others_may_def ike_inv_def sas_ok_def lookupSA_def)
qed

interpretation served: safe_machine "server_start env" "server_step env aaa" "server_good env" for env :: "'k ike_env" and aaa
proof
  show "server_good env s" if "server_start env s" for s
    using that by (simp add: server_start_def server_good_def ike_inv_def sas_ok_def lookupSA_def)
qed (rule server_good_step)

section \<open>Where SAs come from\<close>

text \<open>The SA continues one of the table: same keys, same state.\<close>

definition continues :: "u64 \<Rightarrow> ikeSA \<Rightarrow> 'k ike_world \<Rightarrow> bool" where
  "continues spi sa' w \<longleftrightarrow> (\<exists>sa. lookupSA spi w = Some sa \<and> sa_msk sa' = sa_msk sa \<and> sa_saKey sa' = sa_saKey sa \<and> sa_state sa' = sa_state sa)"

definition inherits :: "'k ike_world \<Rightarrow> 'k ike_world \<Rightarrow> bool" where
  "inherits w w' \<longleftrightarrow> (\<forall>spi sa'. lookupSA spi w' = Some sa' \<longrightarrow> continues spi sa' w)"

lemma inherits_eq: "(\<And>spi. lookupSA spi w' = lookupSA spi w) \<Longrightarrow> inherits w w'"
  by (simp add: inherits_def continues_def)

lemma inherits_trans: "inherits w w' \<Longrightarrow> inherits w' w'' \<Longrightarrow> inherits w w''"
  by (fastforce simp: inherits_def continues_def)

lemma inherits_put: "lookupSA (sa_spiI sa) w = Some sa0 \<Longrightarrow> sa_msk sa = sa_msk sa0 \<Longrightarrow> sa_saKey sa = sa_saKey sa0 \<Longrightarrow> sa_state sa = sa_state sa0 \<Longrightarrow> inherits w (putSA sa w)"
  by (auto simp: inherits_def continues_def split: if_splits)

lemma inherits_upd [simp]: "inherits w (upd_session i f w') = inherits w w'"
  by (simp add: inherits_def)

lemma inherits_one:
  assumes "only_sa spi w w'" "lookupSA spi w = Some sa"
    "\<And>sa'. lookupSA spi w' = Some sa' \<Longrightarrow> sa_msk sa' = sa_msk sa \<and> sa_saKey sa' = sa_saKey sa \<and> sa_state sa' = sa_state sa"
  shows "inherits w w'"
  unfolding inherits_def continues_def using assms unfolding only_sa_def by metis

lemma inherits_frames:
  "sends w w' \<Longrightarrow> inherits w w'" "xfrm_only w w' \<Longrightarrow> inherits w w'" "inherits w (upd_session i f w)" "inherits w (set_xfrm r w)" "inherits w w"
  by (simp_all add: inherits_eq lookup_sends lookup_xfrm_only)

lemma inherits_teardown:
  assumes "fullTeardown env io (sa\<lparr>sa_state := st\<rparr>) (putSA (sa\<lparr>sa_state := st\<rparr>) w) = Some w'"
  shows "inherits w w'"
  using fullTeardown_lookup[OF assms] by (auto simp: inherits_def continues_def split: if_splits)

lemma child_steps_msk [simp]: "sa_msk (clear_pending sa) = sa_msk sa" "sa_msk (promote_pending sa) = sa_msk sa" "sa_msk (seen t sa) = sa_msk sa" "sa_msk (moved r sa) = sa_msk sa"
  "sa_saKey (moved r sa) = sa_saKey sa" "sa_state (moved r sa) = sa_state sa" "sa_msk (heard t sa) = sa_msk sa" "sa_msk (disowned sa) = sa_msk sa"
  "sa_state (disowned sa) = sa_state sa" "sa_msk (set_pending pr num p n nI nR sa) = sa_msk sa" "sa_state (set_pending pr num p n nI nR sa) = sa_state sa"
  "sa_msk (rekeyed_sa io sa i ri nI nR np k) = []"
  by (simp_all add: clear_pending_def promote_pending_def seen_def moved_def heard_def disowned_def set_pending_def rekeyed_sa_def)

lemma inherits_delete_child:
  assumes "delete_child env spi sa w = Some (sa', w')" "lookupSA (sa_spiI sa) w = Some sa"
  shows "inherits w w' \<and> sa_msk sa' = sa_msk sa"
proof -
  note d = delete_child_sa[OF assms]
  have m: "sa_msk sa' = sa_msk sa" using assms(1) by (auto simp: delete_child_def Let_def split: if_splits)
  have "inherits w w'"
  proof (rule inherits_one[OF _ assms(2)])
    show "only_sa (sa_spiI sa) w w'" using d by blast
    show "sa_msk sa'' = sa_msk sa \<and> sa_saKey sa'' = sa_saKey sa \<and> sa_state sa'' = sa_state sa" if "lookupSA (sa_spiI sa) w' = Some sa''" for sa''
      using that d m by (simp add: same_peer_def)
  qed
  with m show ?thesis by blast
qed

lemma inherits_delete_children:
  assumes "delete_children env spis sa w = Some w'" "lookupSA (sa_spiI sa) w = Some sa"
  shows "inherits w w'"
  using assms
proof (induction spis arbitrary: sa w)
  case (Cons spi spis)
  from Cons.prems(1) obtain sa1 w1 where d: "delete_child env spi sa w = Some (sa1, w1)" "delete_children env spis sa1 w1 = Some w'" by (auto split: option.splits)
  have "lookupSA (sa_spiI sa1) w1 = Some sa1" using delete_child_sa[OF d(1) Cons.prems(2)] by (simp add: same_peer_def)
  from Cons.IH[OF d(2) this] show ?case using inherits_delete_child[OF d(1) Cons.prems(2)] inherits_trans by blast
qed (simp add: inherits_frames)

lemma inherits_update:
  assumes "handleUpdateSA env io conn remote sa mid c natt w = Some w'" "lookupSA (sa_spiI sa) w = Some sa"
  shows "inherits w w'"
  using assms(1)
proof (cases rule: handleUpdateSA_cases)
  case (stays w1)
  then show ?thesis using inherits_frames(1,2) inherits_trans by blast
next
  case (challenge c)
  have "inherits w (putSA (sa\<lparr>sa_cookie2 := Some c\<rparr>) w)" using assms(2) by (intro inherits_put[where ?sa0.0 = sa]) simp_all
  then show ?thesis using inherits_frames(1)[OF challenge(2)] inherits_trans by blast
next
  case (moves pr w1)
  have x: "inherits w w1" "lookupSA (sa_spiI sa) w1 = Some sa"
    using inherits_frames(2) lookup_xfrm_only[OF migrateMobikeXFRM_frame[OF moves(4)]] migrateMobikeXFRM_frame[OF moves(4)] assms(2) by auto
  have "inherits w1 (putSA (moved remote sa) w1)" using x(2) by (intro inherits_put[where ?sa0.0 = sa]) simp_all
  from inherits_trans[OF x(1) this]
  have "inherits w (if sa_sessionID sa = '''' then putSA (moved remote sa) w1
      else upd_session (sa_sessionID sa) (\<lambda>s. s\<lparr>s_OuterIP := UDP_String remote\<rparr>) (putSA (moved remote sa) w1))"
    by simp
  then show ?thesis by (rule inherits_trans[OF _ inherits_frames(1)[OF moves(5)]])
qed

lemma inherits_informational:
  assumes "handleInformational env io conn remote pkt hdr w = Some w'" "ike_inv w"
  shows "inherits w w'"
  using assms(1)
proof (cases rule: handleInformational_cases)
  case (alive sa)
  then show ?thesis using ike_invD(2)[OF assms(2) alive(1)] by (auto intro: inherits_put)
next
  case (request sa)
  let ?sa = "seen (io_now io) sa" and ?w = "putSA (seen (io_now io) sa) w"
  have p: "inherits w ?w" "lookupSA (sa_spiI ?sa) ?w = Some ?sa" using ike_invD(2)[OF assms(2) request(1)] request(1) by (auto intro: inherits_put)
  have "inherits ?w w'" using request(4)
  proof (cases rule: inform_request_cases)
    case (update t plain pl)
    show ?thesis by (rule inherits_update[OF update(5) p(2)])
  next
    case (delete t plain pl w1)
    show ?thesis by (rule inherits_trans[OF inherits_frames(1)[OF delete(4)] inherits_teardown[OF delete(5)]])
  next
    case (children t plain pl w1)
    have "lookupSA (sa_spiI ?sa) w1 = Some ?sa" using p(2) by (simp add: lookup_sends[OF children(3)])
    from inherits_delete_children[OF children(4) this] show ?thesis using inherits_trans[OF inherits_frames(1)[OF children(3)]] by blast
  qed (simp add: inherits_frames)
  with p(1) show ?thesis by (rule inherits_trans)
qed (simp add: inherits_frames)

lemma inherits_half_open: "inherits w (halfOpenReaper_tick cfg now spis w)"
proof (induction cfg now spis w rule: halfOpenReaper_tick.induct)
  case (2 cfg now spi spis w)
  have "inherits w (deleteSA spi w)" by (auto simp: inherits_def continues_def lookupSA_def delete_conv' split: if_splits)
  then show ?case using 2 inherits_trans by (auto split: option.splits)
qed (simp add: inherits_frames)

lemma inherits_reaper:
  assumes "crypto_ok (ie_crypto env)" "ike_inv w" "reaperLoop_tick env ios spis w = Some w'"
  shows "inherits w w'"
proof -
  have one: "inherits w w1 \<and> ike_inv w1" if "ike_inv w" "reap_sa env io spi w = Some w1" for io spi w w1
    using reap_sa_spec[OF assms(1) that(1), of io spi] that(2)
    by (auto simp: inherits_def continues_def dpd_next_def split: if_splits option.splits bind_splits)
  have "inherits w w'" if "reaper_tick env ios spis w = Some w'" "ike_inv w" for w
    using that
  proof (induction spis arbitrary: w)
    case (Cons spi spis)
    from Cons.prems(1) obtain w1 where w1: "reap_sa env (ios spi) spi w = Some w1" "reaper_tick env ios spis w1 = Some w'" by (auto split: option.splits)
    from one[OF Cons.prems(2) w1(1)] show ?case using Cons.IH[OF w1(2)] inherits_trans by blast
  qed (simp add: inherits_frames)
  then show ?thesis using assms(2,3) by (auto simp: reaperLoop_tick_def inherits_frames split: if_splits)
qed

text \<open>The SA is the successor of an established one, agreed on in a message that decrypts under the keys of that one.\<close>

definition succeeds :: "'k ike_env \<Rightarrow> ikeSA \<Rightarrow> bytes \<Rightarrow> 'k ike_world \<Rightarrow> bool" where
  "succeeds env sa' pkt w \<longleftrightarrow> sa_state sa' = ikeStateEstablished \<and> sa_msk sa' = [] \<and>
     (\<exists>spi sa t plain. lookupSA spi w = Some sa \<and> sa_state sa = ikeStateEstablished \<and> decryptSK (ie_crypto env) (sa_saKey sa) pkt = Inr (t, plain))"

lemma create_child_origin:
  assumes h: "handleCreateChildSA env io conn remote pkt hdr w = Some w'" and inv: "ike_inv w" and l: "lookupSA spi w' = Some sa'"
  shows "continues spi sa' w \<or> succeeds env sa' pkt w"
  using h
proof (cases rule: handleCreateChildSA_cases)
  case unchanged
  then show ?thesis using l by (simp add: continues_def)
next
  case (answered sa)
  have "inherits w (putSA (heard (io_now io) sa) w)" using ike_invD(2)[OF inv answered(1)] answered(1) by (auto intro: inherits_put)
  from inherits_trans[OF this inherits_frames(1)[OF answered(3)]] show ?thesis using l by (simp add: inherits_def)
next
  case (child sa t plain saPayload nonceI ke)
  let ?sa = "heard (io_now io) sa" and ?w = "putSA (heard (io_now io) sa) w"
  have p: "inherits w ?w" "lookupSA (sa_spiI ?sa) ?w = Some ?sa" using ike_invD(2)[OF inv child(1)] child(1) by (auto intro: inherits_put)
  have "inherits ?w w'" using child(4)
  proof (cases rule: handleChildSARekey_cases)
    case (refused w1)
    then show ?thesis using inherits_frames(1,2) inherits_trans by blast
  next
    case (installed pr num peerSPI newSPI nonceR keys names x)
    have "inherits (?w\<lparr>iw_xfrm := x\<rparr>) (putSA (set_pending pr num peerSPI newSPI nonceI nonceR ?sa) (?w\<lparr>iw_xfrm := x\<rparr>))"
      using p(2) by (intro inherits_put[where ?sa0.0 = ?sa]) simp_all
    from inherits_trans[OF inherits_trans[OF inherits_frames(2)[OF xfrm_only_set(2)] this] inherits_frames(1)[OF installed(4)]] show ?thesis .
  qed
  with p(1) have "inherits w w'" by (rule inherits_trans)
  then show ?thesis using l by (simp add: inherits_def)
next
  case (ike sa t plain saPayload nonceI ke)
  let ?sa = "heard (io_now io) sa" and ?w = "putSA (heard (io_now io) sa) w"
  have p: "inherits w ?w" "lookupSA (sa_spiI ?sa) ?w = Some ?sa" using ike_invD(2)[OF inv ike(1)] ike(1) by (auto intro: inherits_put)
  from ike(4) show ?thesis
  proof (cases rule: handleIKESARekey_cases)
    case refused
    then show ?thesis using inherits_trans[OF p(1) inherits_frames(1)[OF refused]] l by (simp add: inherits_def)
  next
    case (rekeyed w1 newSPII newSPIR nonceR newProp num key)
    have l1: "lookupSA (sa_spiI ?sa) w1 = Some ?sa" using p(2) by (simp add: lookup_sends[OF rekeyed(1)])
    have c: "continues spi sa' w" if "lookupSA spi w1 = Some sa''" "sa_msk sa' = sa_msk sa''" "sa_saKey sa' = sa_saKey sa''" "sa_state sa' = sa_state sa''" for sa''
      using inherits_trans[OF p(1) inherits_frames(1)[OF rekeyed(1)]] that by (auto simp: inherits_def continues_def)
    have "succeeds env (rekeyed_sa io ?sa newSPII newSPIR nonceI nonceR newProp key) pkt w" using ike(1-3) by (auto simp: succeeds_def)
    then show ?thesis using l ike_rekey_lookup[OF l1] l1 c[of ?sa] c[of sa'] unfolding rekeyed(7) by (auto split: if_splits)
  qed
qed

text \<open>The origin of every SA of the table after a message.\<close>

lemma dispatch_origin:
  assumes h: "dispatch env io conn remote pkt hdr natt w = Some w'" and inv: "ike_inv w" and l: "lookupSA spi w' = Some sa'"
  obtains (same) "continues spi sa' w"
  | (fresh) "sa_state sa' = ikeStateAuth" "sa_msk sa' = []"
  | (auth) sa where "lookupSA spi w = Some sa" "sa_state sa = ikeStateAuth" "sa_state sa' = ikeStateAuth" "msk_step io sa sa'"
  | (established) sa where "lookupSA spi w = Some sa" "sa_state sa = ikeStateAuth" "sa_msk sa' = sa_msk sa" "proves_key env sa pkt"
  | (successor) "succeeds env sa' pkt w"
proof (cases "w' = w")
  case True
  then show thesis using l same by (simp add: continues_def)
next
  case False
  consider "handleIKESAInit env io conn remote pkt hdr natt w = Some w'" | "handleIKEAuth env io conn remote pkt hdr natt w = Some w'"
    | "handleCreateChildSA env io conn remote pkt hdr w = Some w'" | "handleInformational env io conn remote pkt hdr w = Some w'"
    using h False by (auto simp: dispatch_def split: if_splits)
  then show thesis
  proof cases
    case 1
    then show thesis
    proof (cases rule: handleIKESAInit_cases)
      case 1
      then have "lookupSA spi w' = lookupSA spi w" by (auto simp: refuses_def lookup_sends) (simp add: lookupSA_def)
      with l have "lookupSA spi w = Some sa'" by simp
      then show thesis using same by (simp add: continues_def)
    next
      case (2 sa resp payloads cs)
      have "lookupSA spi (w\<lparr>iw_cookies := cs\<rparr>) = lookupSA spi w" by (simp add: lookupSA_def)
      then have "sa' = sa \<or> lookupSA spi w = Some sa'" using l unfolding 2(7) lookup_sends[OF ike_send_sends] by (auto split: if_splits)
      then show thesis using fresh same 2(1) by (auto simp: continues_def fresh_sa_def)
    qed
  next
    case 2
    then show thesis using inv l
    proof (cases rule: handleIKEAuth_effect)
      case other
      then show thesis using same by (simp add: continues_def)
    next
      case (own sa)
      then show thesis using auth[of sa] established[of sa] by blast
    qed
  next
    case 3
    then show thesis using create_child_origin[OF 3 inv l] same successor by blast
  next
    case 4
    then show thesis using inherits_informational[OF 4 inv] l same by (simp add: inherits_def)
  qed
qed

section \<open>Who vouches for an established SA\<close>

text \<open>A key that an answer of the AAA server grants: the answer has a success code and carries the key.\<close>

definition granted :: "(DMessage \<Rightarrow> bool) \<Rightarrow> bytes \<Rightarrow> bool" where
  "granted aaa k \<longleftrightarrow> length k = 64 \<and>
     (\<exists>ans p. aaa ans \<and> result_code (d_AVPs ans) \<in> {diameterSuccess, diameterLimitedSuccess} \<and> FindAVP (d_AVPs ans) AVPEAPMasterSessionKey 0 = Some p \<and> a_Data p = k)"

definition vouched :: "(DMessage \<Rightarrow> bool) \<Rightarrow> ikeSA \<Rightarrow> bool" where
  "vouched aaa sa \<longleftrightarrow> (sa_msk sa = [] \<or> granted aaa (sa_msk sa)) \<and> (sa_state sa = ikeStateEstablished \<longrightarrow> (\<exists>k. granted aaa k))"

definition all_vouched :: "(DMessage \<Rightarrow> bool) \<Rightarrow> 'k ike_world \<Rightarrow> bool" where
  "all_vouched aaa w \<longleftrightarrow> (\<forall>spi sa. lookupSA spi w = Some sa \<longrightarrow> vouched aaa sa)"

lemma eapResult_grants:
  assumes "aaa ans"
  shows "rs_MSK (eapResult req i ans) = [] \<or> granted aaa (rs_MSK (eapResult req i ans))"
proof -
  obtain st al reason payload where o: "eap_outcome (d_AVPs ans) (result_code (d_AVPs ans)) = (st, al, reason, payload)"
    by (cases "eap_outcome (d_AVPs ans) (result_code (d_AVPs ans))") auto
  then have "al \<Longrightarrow> code_ok (result_code (d_AVPs ans))" by (cases al) (auto dest: eap_outcome_allowed)
  then show ?thesis using assms by (auto simp: eapResult_def o Let_def granted_def code_ok_def split: option.splits)
qed

lemma vouched_msk_step:
  assumes "answers_from aaa io" "msk_step io sa sa'" "vouched aaa sa" "sa_state sa' = ikeStateAuth"
  shows "vouched aaa sa'"
proof -
  have "sa_msk sa' = [] \<or> granted aaa (sa_msk sa')"
    using assms(1-3) eapResult_grants unfolding msk_step_def vouched_def answers_from_def by metis
  then show ?thesis using assms(4) by (simp add: vouched_def)
qed

lemma vouched_continues: "all_vouched aaa w \<Longrightarrow> continues spi sa' w \<Longrightarrow> vouched aaa sa'"
  unfolding all_vouched_def continues_def vouched_def by metis

lemma vouched_inherits: "all_vouched aaa w \<Longrightarrow> inherits w w' \<Longrightarrow> all_vouched aaa w'"
  using vouched_continues unfolding inherits_def all_vouched_def[of aaa w'] by blast

lemma vouched_dispatch:
  assumes "dispatch env io conn remote pkt hdr natt w = Some w'" "ike_inv w" "answers_from aaa io" "all_vouched aaa w"
  shows "all_vouched aaa w'"
  unfolding all_vouched_def
proof (intro allI impI)
  fix spi sa'
  assume l: "lookupSA spi w' = Some sa'"
  have v: "vouched aaa sa" if "lookupSA i w = Some sa" for i sa using that assms(4) by (simp add: all_vouched_def)
  from assms(1,2) l show "vouched aaa sa'"
  proof (cases rule: dispatch_origin)
    case same
    then show ?thesis by (rule vouched_continues[OF assms(4)])
  next
    case fresh
    then show ?thesis by (simp add: vouched_def)
  next
    case (auth sa)
    then show ?thesis using vouched_msk_step[OF assms(3)] v by blast
  next
    case (established sa)
    have "sa_msk sa \<noteq> []" using established(4) by (auto simp: proves_key_def)
    then show ?thesis using v[OF established(1)] established(3) by (auto simp: vouched_def)
  next
    case successor
    then show ?thesis using v by (auto simp: succeeds_def vouched_def)
  qed
qed

lemma vouched_packet:
  "handlePacket env io conn remote data natt w = Some w' \<Longrightarrow> ike_inv w \<Longrightarrow> answers_from aaa io \<Longrightarrow> all_vouched aaa w \<Longrightarrow> all_vouched aaa w'"
  by (auto simp: handlePacket_def split: option.splits if_splits dest: vouched_dispatch)

definition server_safe :: "'k ike_env \<Rightarrow> (DMessage \<Rightarrow> bool) \<Rightarrow> 'k server \<Rightarrow> bool" where
  "server_safe env aaa s \<longleftrightarrow> server_good env s \<and> (crypto_ok (ie_crypto env) \<longrightarrow> all_vouched aaa (sv_world s))"

lemma server_safe_step:
  assumes st: "server_step env aaa s s'" and safe: "server_safe env aaa s"
  shows "server_safe env aaa s'"
proof -
  have "all_vouched aaa (sv_world s')" if cr: "crypto_ok (ie_crypto env)"
  proof -
    have v: "all_vouched aaa (sv_world s)" and inv: "ike_inv (sv_world s)" using safe cr by (simp_all add: server_safe_def server_good_def)
    from st show ?thesis
    proof cases
      case (step_receive p)
      then show ?thesis using v by simp
    next
      case (step_worker i io)
      from step_worker(3,1) show ?thesis by (rule worker_turn_Some) (rule vouched_packet[OF _ inv step_worker(2) v])
    next
      case (step_half_open now spis)
      then show ?thesis using vouched_inherits[OF v inherits_half_open] by simp
    next
      case (step_reaper ios spis w')
      then show ?thesis using vouched_inherits[OF v inherits_reaper[OF cr inv step_reaper(2)]] by simp
    next
      case (step_others w')
      then have "lookupSA i w' = lookupSA i (sv_world s)" for i by (simp add: others_may_def lookupSA_def)
      then show ?thesis using v step_others by (simp add: all_vouched_def)
    qed
  qed
  then show ?thesis using server_good_step[OF st] safe by (simp add: server_safe_def)
qed

interpretation vouching: safe_machine "server_start env" "server_step env aaa" "server_safe env aaa" for env :: "'k ike_env" and aaa
proof
  show "server_safe env aaa s" if "server_start env s" for s
    using that served.init[OF that] by (simp add: server_start_def server_safe_def all_vouched_def lookupSA_def)
qed (rule server_safe_step)

section \<open>Properties of the running server\<close>

text \<open>C4.  In every state the server reaches, in whatever order packets, timers and the other components act, its table and sessions are well-formed,
  no more packets are in work than configured, and the S2b client has the configuration of the server.\<close>

theorem server_well_formed:
  assumes "crypto_ok (ie_crypto env)" "server_start env s0" "(server_step env aaa)\<^sup>*\<^sup>* s0 s"
  shows "ike_inv (sv_world s) \<and> length (sv_workers s) \<le> maxConcurrentPackets (ie_cfg env) \<and> k_cfg (iw_s2b (sv_world s)) = ie_cfg env"
  using served.always[OF assms(2,3)] assms(1) by (simp add: server_good_def)


text \<open>C3.  A message establishes an SA in two ways only: it proves the key the AAA server granted to the SA under authentication, or it decrypts
  under the keys of an established SA, whose successor the new one is.\<close>

theorem establishment_needs_grant:
  assumes "dispatch env io conn remote pkt hdr natt w = Some w'" "ike_inv w" "all_vouched aaa w" "lookupSA spi w' = Some sa'" "sa_state sa' = ikeStateEstablished"
    and before: "\<forall>sa. lookupSA spi w = Some sa \<longrightarrow> sa_state sa \<noteq> ikeStateEstablished"
  shows "(\<exists>sa. lookupSA spi w = Some sa \<and> sa_state sa = ikeStateAuth \<and> sa_msk sa' = sa_msk sa \<and> proves_key env sa pkt \<and> granted aaa (sa_msk sa)) \<or>
    succeeds env sa' pkt w"
  using assms(1,2,4)
proof (cases rule: dispatch_origin)
  case same
  then show ?thesis using before assms(5) by (auto simp: continues_def)
next
  case (established sa)
  have "sa_msk sa \<noteq> []" using established(4) by (auto simp: proves_key_def)
  then have "granted aaa (sa_msk sa)" using assms(3) established(1) by (auto simp: all_vouched_def vouched_def)
  then show ?thesis using established by blast
qed (use assms(5) in auto)

text \<open>A turn that ends the process or never ends.\<close>

lemma handlePacket_returns:
  assumes lib: "crypto_ok (ie_crypto env)" "delete_safe (ie_lib env)" "\<And>h b. lib_DecodePayload (ie_lib env) h b \<noteq> DecodePanic"
    and inv: "ike_inv w" "plmn_ok (k_cfg (iw_s2b w))" and none: "handlePacket env io conn remote data natt w = None"
  obtains pkt spi sa where "strip_marker natt data = Some pkt" "lookupSA spi w = Some sa" "sa_state sa = ikeStateAuth" "proves_key env sa pkt" "detaches_itself io sa w"
proof -
  from none obtain pkt hdr where p: "strip_marker natt data = Some pkt" "dispatch env io conn remote pkt hdr natt w = None"
    by (auto simp: handlePacket_def split: option.splits if_splits)
  have "handleIKEAuth env io conn remote pkt hdr natt w = None"
    using p(2) by (simp add: dispatch_def handleIKESAInit_returns[OF lib(1,3)] handleCreateChildSA_returns[OF lib(1) inv(1)] handleInformational_returns[OF lib(1,2) inv(1)]
        del: not_None_eq split: if_splits)
  then show thesis using handleIKEAuth_blocks[OF lib(1) inv(1,2)] that p(1) by metis
qed


section \<open>Concrete runs\<close>

definition demo_server :: "demo_kernel ike_env \<Rightarrow> demo_kernel server" where
  "demo_server env = \<lparr>sv_world = demo_ike_world\<lparr>iw_s2b := demo_client\<lparr>k_cfg := ie_cfg env\<rparr>\<rparr>, sv_workers = []\<rparr>"

definition demo_packet :: packet where
  "demo_packet = \<lparr>pk_conn = demo_local, pk_remote = demo_peer, pk_data = be64 17 @ be64 0 @ [33, 0x20, 34, 8] @ replicate 8 0, pk_natt = False\<rparr>"

text \<open>The environment with no AAA server behind it.\<close>

definition demo_quiet_io :: ike_io where
  "demo_quiet_io = demo_ike_io\<lparr>io_swmExchange := (\<lambda>_. Inl ContextDone)\<rparr>"

lemma demo_server_start: "server_start env (demo_server env)"
  by (simp add: server_start_def demo_server_def demo_ike_world_def mgr_inv_def NewManager_def)

lemma init_swm: "handleIKESAInit env (io\<lparr>io_swmExchange := f\<rparr>) conn remote pkt hdr natt w = handleIKESAInit env io conn remote pkt hdr natt w"
  by (cases io) (simp only: ike_io.simps handleIKESAInit_def init_request_def cookie_gate_def init_establish_def dh_GeneratePrivateKey_def half_open_sa_def
      cong: option.case_cong sum.case_cong prod.case_cong decoded.case_cong if_cong dhGroup.case_cong)

lemma demo_receive: "server_step env aaa (demo_server env) ((demo_server env)\<lparr>sv_workers := [demo_packet]\<rparr>)"
proof -
  have "ike_readLoop_turn (ie_cfg env) demo_packet (sv_workers (demo_server env)) = [demo_packet]"
    by (simp add: ike_readLoop_turn_def demo_server_def maxConcurrentPackets_def)
  then show ?thesis using step_receive[of env aaa "demo_server env" demo_packet] by simp
qed

lemma demo_run:
  obtains s sa where "(server_step demo_ike_env (\<lambda>_. False))\<^sup>*\<^sup>* (demo_server demo_ike_env) s" "lookupSA 17 (sv_world s) = Some sa"
proof -
  let ?s = "(demo_server demo_ike_env)\<lparr>sv_workers := [demo_packet]\<rparr>"
  have "iw_sas (sv_world ?s) = []" by (simp add: demo_server_def demo_ike_world_def)
  from demo_init[OF this, of "pk_data demo_packet"] obtain w' sa where
    h: "handleIKESAInit demo_ike_env demo_quiet_io demo_local demo_peer (pk_data demo_packet) demo_init_hdr False (sv_world ?s) = Some w'" "lookupSA 17 w' = Some sa"
    by (auto simp: demo_quiet_io_def init_swm)
  have "lib_ParseHeader (ie_lib demo_ike_env) (pk_data demo_packet) = Some demo_init_hdr" by code_simp
  then have "handlePacket demo_ike_env demo_quiet_io demo_local demo_peer (pk_data demo_packet) False (sv_world ?s) = Some w'"
    using h(1) by (simp add: handlePacket_def strip_marker_def dispatch_def demo_init_hdr_def demo_packet_def)
  then have "worker_turn demo_ike_env demo_quiet_io 0 ?s = Some (?s\<lparr>sv_world := w', sv_workers := []\<rparr>)"
    by (simp add: worker_turn_def demo_packet_def)
  then have "server_step demo_ike_env (\<lambda>_. False) ?s (?s\<lparr>sv_world := w', sv_workers := []\<rparr>)"
    by (intro step_worker[of 0 _ _ demo_quiet_io]) (simp_all add: answers_from_def demo_quiet_io_def)
  with demo_receive have "(server_step demo_ike_env (\<lambda>_. False))\<^sup>*\<^sup>* (demo_server demo_ike_env) (?s\<lparr>sv_world := w', sv_workers := []\<rparr>)"
    by (intro converse_rtranclp_into_rtranclp[OF _ r_into_rtranclp])
  then show thesis using that h(2) by simp
qed

theorem server_well_formed_witness:
  "\<exists>s. (server_step demo_ike_env (\<lambda>_. False))\<^sup>*\<^sup>* (demo_server demo_ike_env) s \<and> lookupSA 17 (sv_world s) \<noteq> None \<and> ike_inv (sv_world s) \<and>
     length (sv_workers s) \<le> 2048"
proof -
  obtain s sa where s: "(server_step demo_ike_env (\<lambda>_. False))\<^sup>*\<^sup>* (demo_server demo_ike_env) s" "lookupSA 17 (sv_world s) = Some sa" by (rule demo_run)
  have "maxConcurrentPackets (ie_cfg demo_ike_env) = 2048" by (simp add: maxConcurrentPackets_def demo_ike_env_def Default_def)
  with server_well_formed[OF demo_up_simps(6) demo_server_start s(1)] s show ?thesis by auto
qed


lemma auth_type: "handleIKEAuth env io conn remote pkt (hdr\<lparr>ih_ExchangeType := t\<rparr>) natt w = handleIKEAuth env io conn remote pkt hdr natt w"
  by (cases hdr) (simp only: IKEHeader.simps handleIKEAuth_def auth_request_def handleAuthRound1_def round1_exchange_def handleAuthEAP_def handleAuthFinal_def auth_accept_def
      auth_notify_def sendEAPResponse_def cong: option.case_cong sum.case_cong prod.case_cong if_cong)

lemma demo_granted: "granted (\<lambda>ans. ans = demo_dea) (replicate 64 7)"
  by (simp add: granted_def demo_dea_def result_code_def avp_builders AVPUint32_def subslice_def)

theorem establishment_needs_grant_witness:
  "\<exists>w'. dispatch demo_ike_env demo_attach_io demo_local demo_peer demo_final_msg (demo_hdr\<lparr>ih_ExchangeType := IKE_AUTH\<rparr>) False demo_attach_world = Some w' \<and>
     lookupSA 17 w' \<noteq> None \<and> (\<exists>sa. lookupSA 17 demo_attach_world = Some sa \<and> proves_key demo_ike_env sa demo_final_msg)"
proof -
  obtain w' where w': "handleIKEAuth demo_ike_env demo_attach_io demo_local demo_peer demo_final_msg demo_hdr False demo_attach_world = Some w'"
    "lookupSA 17 w' = Some (established [0, 0, 1, 0] demo_attaching)" using demo_auth_exchange by blast
  have d: "dispatch demo_ike_env demo_attach_io demo_local demo_peer demo_final_msg (demo_hdr\<lparr>ih_ExchangeType := IKE_AUTH\<rparr>) False demo_attach_world = Some w'"
    using w'(1) by (simp add: dispatch_def auth_type)
  have l: "lookupSA i demo_attach_world = Some sa \<longleftrightarrow> i = 17 \<and> sa = demo_attaching" for i sa by (auto simp: lookupSA_def demo_attach_world_def)
  have "all_vouched (\<lambda>ans. ans = demo_dea) demo_attach_world" using demo_granted by (simp add: all_vouched_def l vouched_def)
  from establishment_needs_grant[OF d demo_attach_inv this w'(2)] d w'(2) show ?thesis by (simp add: l succeeds_def)
qed

definition demo_plmn_env :: "demo_kernel ike_env" where
  "demo_plmn_env = demo_ike_env\<lparr>ie_cfg := demo_config\<rparr>"


end
