(* ===== verification/Spec2Isabelle.thy ===== *)
theory Spec2Isabelle
  imports Prelude NetIP GtpcCodec PcoCodec SessionFsm GtpuCodec GtpuKernel GtpuDataplane DiameterCodec ConfigLoad SwmClient
    S2bMessages S2bClient EpdgMain Xfrm PgwDiscovery IkeCrypto IkeProposal IkeCookie IkeMessage IkeServer
    IkeInform IkeRekey IkeAuth IkeRun
begin

text \<open>
  Verification library of the VectorCore ePDG, the gateway that connects phones on untrusted Wi-Fi to a mobile core (Go sources under
  \<^verbatim>\<open>src/\<close>).  A phone negotiates an IKEv2 SA with the gateway (\<^verbatim>\<open>internal/ikev2\<close>); the gateway relays its EAP
  authentication to the AAA server over Diameter (\<^verbatim>\<open>internal/swm\<close>, \<^verbatim>\<open>internal/diameter\<close>), chooses a PGW by DNS
  (\<^verbatim>\<open>internal/pgwdiscovery\<close>), creates a PDN connection there over GTPv2-C (\<^verbatim>\<open>internal/s2b\<close>, \<^verbatim>\<open>internal/pco\<close>), installs
  the IPsec states in the kernel (\<^verbatim>\<open>internal/xfrm\<close>) and the GTP-U tunnel in the BPF dataplane (\<^verbatim>\<open>internal/gtpu\<close>).  The session
  manager (\<^verbatim>\<open>internal/session\<close>) holds what belongs to one subscriber; \<^verbatim>\<open>cmd/epdg/main.go\<close> serves the requests the PGW starts.

  \<^bold>\<open>How the code is represented.\<close>  Unsigned integers are words, so that arithmetic wraps as in Go; byte slices are lists of 8-bit words and Go strings
  are HOL strings.  Structures are records with a prefix per type, enumerations datatypes.  A nil pointer is \<^term>\<open>None\<close>, a nil slice or address the
  empty list.  An error is a value of the component's error datatype in the left summand.  A handler that may panic or block for ever returns an
  option, \<^term>\<open>None\<close> standing for either.  Times, random bytes, the order of a Go map iteration and the answers of peers are arguments (for the IKEv2
  handlers collected in \<open>ike_io\<close>).  Third-party code is a record of functions with the documented behaviour as a named predicate and a
  concrete instance for the witnesses: netlink and the kernel (\<open>netlink\<close>, \<open>kernel_spec\<close>, \<open>table_netlink\<close>), hashes, AES and
  curves (\<open>crypto\<close>, \<open>crypto_ok\<close>, \<open>demo_crypto\<close>), the IKE message library (\<open>ike_lib\<close>, \<open>delete_safe\<close>, \<open>demo_lib\<close>), DNS
  (\<open>dns\<close>).  Each handler is one atomic step.  The mutex of an SA is held for a whole
  handler; handlers of different SAs that share a session, the SA table or the kernel may interleave in the code at a finer grain than here.

  \<^bold>\<open>Shared theories.\<close>  \<open>Prelude\<close>: machine types, big-endian accessors, subslices, the error monad and the locale \<open>framed_stream\<close>
  (a codec of one element gives a codec of streams), which the three IE, AVP and container codecs interpret.  \<open>NetIP\<close>: addresses, their parsing and
  printing, with the round trip.

  \<^bold>\<open>Control plane to the PGW.\<close>  \<open>GtpcCodec\<close> (\<^verbatim>\<open>s2b/codec.go\<close>): message and IE round trips, sequence numbers that do not repeat within
  their range.  \<open>PcoCodec\<close> (\<^verbatim>\<open>pco/pco.go\<close>).  \<open>S2bMessages\<close> and \<open>S2bClient\<close> (\<^verbatim>\<open>s2b/client.go\<close>): every message read back,
  a complete Create Session Response, bounded transactions, responses and requests taken only from the right peer, retransmitted requests answered
  from the cache.  \<open>EpdgMain\<close> (\<^verbatim>\<open>cmd/epdg/main.go\<close>): the four PGW event handlers, installation of dedicated bearers, bearers found by
  their TEID, the end of a session with its default bearer.  \<open>PgwDiscovery\<close> (\<^verbatim>\<open>pgwdiscovery/discovery.go\<close>): the best usable record is
  taken.

  \<^bold>\<open>Sessions and data plane.\<close>  \<open>SessionFsm\<close> (\<^verbatim>\<open>session/*.go\<close>): the state machine (locale \<open>guarded_fsm\<close>), activation only along its
  path, the manager and its invariant \<open>mgr_inv\<close>.  \<open>GtpuCodec\<close>, \<open>GtpuKernel\<close>, \<open>GtpuDataplane\<close> (\<^verbatim>\<open>gtpu/dataplane.go\<close>,
  \<^verbatim>\<open>bpf_loader.go\<close>, \<^verbatim>\<open>tc_loader.go\<close>): the wire formats, the kernel tables under arbitrary failures, the manager with its rollback; an
  installation that fails leaves no trace, the TEID index is exact, rules never become visible half-written.

  \<^bold>\<open>Authentication and configuration.\<close>  \<open>DiameterCodec\<close> (\<^verbatim>\<open>diameter/message.go\<close>), \<open>SwmClient\<close> (\<^verbatim>\<open>swm/*.go\<close>): the codec round
  trip, answers correlated with their requests, callers released on disconnect, access only by a success code.  \<open>ConfigLoad\<close>
  (\<^verbatim>\<open>config/*.go\<close>): a printed configuration is read back.

  \<^bold>\<open>IKEv2 responder.\<close>  \<open>IkeCrypto\<close> (\<^verbatim>\<open>crypto.go\<close>): the encrypted payload, key derivation, agreement of the MODP exchange.
  \<open>IkeProposal\<close> (\<^verbatim>\<open>proposal.go\<close>), \<open>IkeCookie\<close> (\<^verbatim>\<open>cookie.go\<close>), \<open>IkeMessage\<close> (payload chains of \<^verbatim>\<open>auth.go\<close>,
  \<^verbatim>\<open>rekey.go\<close>, \<^verbatim>\<open>inform.go\<close>).  \<open>IkeServer\<close> (\<^verbatim>\<open>sa.go\<close>, \<^verbatim>\<open>server.go\<close>, \<^verbatim>\<open>init.go\<close>): the state \<open>ike_world\<close>
  of the server and its dependencies, IKE_SA_INIT within its limits.  \<open>Xfrm\<close> (\<^verbatim>\<open>xfrm/xfrm.go\<close>): states and policies installed as a whole or not
  at all.  \<open>IkeInform\<close> (\<^verbatim>\<open>inform.go\<close>): the invariant \<open>ike_inv\<close>, complete teardown, MOBIKE after its challenge only, dead peer detection
  as a refinement of the rule \<open>dpd_next\<close>.  \<open>IkeRekey\<close> (\<^verbatim>\<open>rekey.go\<close>): a CHILD SA is replaced without a gap, an IKE SA rekey hands the
  session to exactly one SA.  \<open>IkeAuth\<close> (\<^verbatim>\<open>auth.go\<close>): an SA is established only by a proof of the key, a successful attach builds the whole
  connection and its teardown removes it again.  \<open>IkeRun\<close> (\<^verbatim>\<open>server.go\<close>): dispatch and worker pool, the server as the transition system
  \<open>server_step\<close>; the locale \<open>safe_machine\<close> carries invariants to all reachable states: well-formedness, the bound of the pool, termination of
  every packet handler but one kind, and no established SA without a key granted by the AAA server.

  \<^bold>\<open>Bounds and fuel.\<close>  Recursions over input bytes are structural or consume their argument and need no fuel.  The loops with a counter have the
  number of rounds of the source: three transmissions of a request, ten and twenty polls in the Create Bearer handler, eight attempts to allocate a
  TEID.  \<open>prfPlus_loop\<close> is a partial function; \<open>prfPlus_returns\<close> shows that it returns for every hash with outputs of one positive length.

  \<^bold>\<open>Not modelled.\<close>  Socket set-up and reading, timers themselves (their ticks are steps), log output, the REST API, the CPU report, the loading of
  certificates and of BPF objects, and process start-up and shutdown are I/O.  The BPF programs are C code run by the kernel; the maps they read
  are modelled.  Generated bindings and the reference tool have no behaviour of their own.  The server is modelled with all its dependencies set, as
  \<^verbatim>\<open>main.go\<close> sets them before it listens.  Data races are outside the model: a few accesses of \<^verbatim>\<open>rekey.go\<close> to a session without its
  lock are atomic here.
\<close>

end
